(* ===== verification/Go_Prelude.thy ===== *)
theory Go_Prelude
  imports Complex_Main "HOL-Library.Word" "HOL-Library.AList" "HOL-Library.List_Lexorder"
    "HOL-Library.Char_ord"
begin

text \<open>
  What the driver uses of the Go language and of its error values, shared by every component:
  \<^item> computations that read and change a world and may panic (\<open>go\<close>), with the rules by
    which every component proves what its operations keep of the world (\<open>keeps\<close>) and that they
    return (\<open>never_panics\<close>);
  \<^item> Go errors as values of the datatype \<open>gerr\<close>, with \<open>errors.IsNotFound\<close> of apimachinery;
  \<^item> Go maps with string keys as association lists, resource quantities as rationals.
\<close>

named_theorems go_simps "evaluation of computations"
named_theorems keeps_rules "what operations keep of the world"
named_theorems costs_rules "how much operations add to a measure of the world"

section \<open>Computations\<close>

text \<open>
  A Go function returns its values or panics.  \<open>('w, 'a) go\<close> is a computation over a world
  \<open>'w\<close>: a panic ends it and keeps the effects that happened before.  Several return values are
  a tuple; the \<open>error\<close> among them is a \<open>gerr option\<close> (\<open>None\<close> for \<open>nil\<close>), a pointer is an
  \<open>option\<close> (\<open>None\<close> for \<open>nil\<close>).
\<close>

datatype 'a outcome = Ok 'a | Panic string

type_synonym ('w, 'a) go = "'w \<Rightarrow> 'a outcome \<times> 'w"

definition ret :: "'a \<Rightarrow> ('w, 'a) go" where
  "ret x = (\<lambda>w. (Ok x, w))"

definition panic :: "string \<Rightarrow> ('w, 'a) go" where
  "panic msg = (\<lambda>w. (Panic msg, w))"

definition bindG :: "('w, 'a) go \<Rightarrow> ('a \<Rightarrow> ('w, 'b) go) \<Rightarrow> ('w, 'b) go" where
  "bindG m f = (\<lambda>w. case m w of (Ok x, w') \<Rightarrow> f x w' | (Panic msg, w') \<Rightarrow> (Panic msg, w'))"

text \<open>Reading a field through a pointer panics when the pointer is nil.\<close>

definition nilDeref :: string where
  "nilDeref = ''invalid memory address or nil pointer dereference''"

definition deref :: "'a option \<Rightarrow> ('a \<Rightarrow> ('w, 'b) go) \<Rightarrow> ('w, 'b) go" where
  "deref p f = (case p of None \<Rightarrow> panic nilDeref | Some x \<Rightarrow> f x)"

section \<open>Errors\<close>

text \<open>The codes of \<open>google.golang.org/grpc/codes\<close> the driver returns.\<close>

datatype code = InvalidArgument | NotFound | AlreadyExists | FailedPrecondition
  | Unimplemented | Internal

text \<open>
  The error values that occur: \<open>status.Error\<close> (code and message), the API server's
  \<open>StatusError\<close> (reason, HTTP code, message), \<open>errors.New\<close> and \<open>fmt.Errorf\<close> without \<open>%w\<close>
  (message), \<open>fmt.Errorf\<close> with \<open>%w\<close> (message and wrapped error), \<open>strconv.NumError\<close>
  (function, input, cause), a response of another kind than the one decoded into, the errors of
  contexts and of \<open>wait\<close>, \<open>os.ErrNotExist\<close> in a \<open>PathError\<close>, the exit error of a command
  (message and stderr) and the sentinel \<open>ErrMountDeviceNotFound\<close>.
\<close>

datatype gerr =
    GrpcStatus code string
  | ApiStatus string int string
  | PlainErr string
  | WrapErr string gerr
  | NumErr string string string
  | DecodeErr
  | CtxDeadlineExceeded
  | CtxCanceled
  | ErrWaitTimeout
  | OsNotExist string
  | ExitErr string string
  | ErrMountDeviceNotFound

text \<open>\<open>reasonAndCodeForError\<close> and \<open>IsNotFound\<close> of \<open>k8s.io/apimachinery/pkg/api/errors\<close>.\<close>

primrec reasonAndCodeForError :: "gerr \<Rightarrow> string \<times> int" where
  "reasonAndCodeForError (GrpcStatus c m) = ('''', 0)"
| "reasonAndCodeForError (ApiStatus r c m) = (r, c)"
| "reasonAndCodeForError (PlainErr m) = ('''', 0)"
| "reasonAndCodeForError (WrapErr m e) = reasonAndCodeForError e"
| "reasonAndCodeForError (NumErr f n c) = ('''', 0)"
| "reasonAndCodeForError DecodeErr = ('''', 0)"
| "reasonAndCodeForError CtxDeadlineExceeded = ('''', 0)"
| "reasonAndCodeForError CtxCanceled = ('''', 0)"
| "reasonAndCodeForError ErrWaitTimeout = ('''', 0)"
| "reasonAndCodeForError (OsNotExist m) = ('''', 0)"
| "reasonAndCodeForError (ExitErr m s) = ('''', 0)"
| "reasonAndCodeForError ErrMountDeviceNotFound = ('''', 0)"

definition knownReasons :: "string list" where
  "knownReasons = [''Unauthorized'', ''Forbidden'', ''NotFound'', ''AlreadyExists'', ''Conflict'',
     ''Gone'', ''Invalid'', ''ServerTimeout'', ''Timeout'', ''TooManyRequests'', ''BadRequest'',
     ''MethodNotAllowed'', ''NotAcceptable'', ''RequestEntityTooLarge'', ''UnsupportedMediaType'',
     ''InternalError'', ''Expired'', ''ServiceUnavailable'']"

definition IsNotFound :: "gerr option \<Rightarrow> bool" where
  "IsNotFound err = (case err of None \<Rightarrow> False
     | Some e \<Rightarrow> (let (reason, c) = reasonAndCodeForError e in
         reason = ''NotFound'' \<or> (reason \<notin> set knownReasons \<and> c = 404)))"

text \<open>The \<open>%q\<close> form of a string of printable characters.\<close>

definition quoted :: "string \<Rightarrow> string" where
  "quoted s = CHR 0x22 # s @ [CHR 0x22]"

text \<open>The text of a code and of an error (\<open>Error()\<close>), which \<open>%s\<close> and \<open>%v\<close> print.\<close>

primrec code_string :: "code \<Rightarrow> string" where
  "code_string InvalidArgument = ''InvalidArgument''"
| "code_string NotFound = ''NotFound''"
| "code_string AlreadyExists = ''AlreadyExists''"
| "code_string FailedPrecondition = ''FailedPrecondition''"
| "code_string Unimplemented = ''Unimplemented''"
| "code_string Internal = ''Internal''"

primrec Error_string :: "gerr \<Rightarrow> string" where
  "Error_string (GrpcStatus c m) = ''rpc error: code = '' @ code_string c @ '' desc = '' @ m"
| "Error_string (ApiStatus r c m) = m"
| "Error_string (PlainErr m) = m"
| "Error_string (WrapErr m e) = m"
| "Error_string (NumErr f n c) = ''strconv.'' @ f @ '': parsing '' @ quoted n @ '': '' @ c"
| "Error_string DecodeErr = ''the response is of another kind''"
| "Error_string CtxDeadlineExceeded = ''context deadline exceeded''"
| "Error_string CtxCanceled = ''context canceled''"
| "Error_string ErrWaitTimeout = ''timed out waiting for the condition''"
| "Error_string (OsNotExist m) = m"
| "Error_string (ExitErr m s) = m"
| "Error_string ErrMountDeviceNotFound = ''could not find device path for mount''"

section \<open>Maps and quantities\<close>

text \<open>
  A Go map with string keys is an association list with distinct keys; a nil map is the empty
  list.  Reading a missing key of a \<open>map[string]string\<close> gives the empty string.
\<close>

type_synonym 'v gomap = "(string \<times> 'v) list"

definition map_get :: "string gomap \<Rightarrow> string \<Rightarrow> string" where
  "map_get m k = (case map_of m k of None \<Rightarrow> '''' | Some v \<Rightarrow> v)"

text \<open>
  A \<open>resource.Quantity\<close> is an exact decimal number: here its value.  \<open>Value()\<close> rounds away from
  zero to an integer (for values in the range of int64); a missing entry of a resource list reads
  as the zero quantity.
\<close>

type_synonym Quantity = rat

definition Quantity_Cmp :: "Quantity \<Rightarrow> Quantity \<Rightarrow> int" where
  "Quantity_Cmp x y = (if x < y then -1 else if x = y then 0 else 1)"

definition Quantity_Value :: "Quantity \<Rightarrow> int" where
  "Quantity_Value q = (if q < 0 then \<lfloor>q\<rfloor> else \<lceil>q\<rceil>)"

definition quantity_get :: "Quantity gomap \<Rightarrow> string \<Rightarrow> Quantity" where
  "quantity_get m k = (case map_of m k of None \<Rightarrow> 0 | Some v \<Rightarrow> v)"

section \<open>Reasoning about computations\<close>

lemma ret_apply [simp, go_simps]: "ret x w = (Ok x, w)"
  by (simp add: ret_def)

lemma panic_apply [simp, go_simps]: "panic m w = (Panic m, w)"
  by (simp add: panic_def)

lemma bindG_apply [go_simps]:
  "bindG m f w = (case m w of (Ok x, w') \<Rightarrow> f x w' | (Panic msg, w') \<Rightarrow> (Panic msg, w'))"
  by (simp add: bindG_def)

lemma bindG_ret [simp]: "bindG (ret x) f = f x"
  by (rule ext) (simp add: bindG_def)

lemma bindG_panic [simp]: "bindG (panic m) f = panic m"
  by (rule ext) (simp add: bindG_def panic_def)

lemma bindG_assoc: "bindG (bindG m f) g = bindG m (\<lambda>x. bindG (f x) g)"
  by (rule ext) (simp add: bindG_def split: prod.splits outcome.splits)

lemma bindG_Ok [simp]: "m w = (Ok x, w') \<Longrightarrow> bindG m f w = f x w'"
  by (simp add: bindG_def)

lemma bindG_Panic [simp]: "m w = (Panic p, w') \<Longrightarrow> bindG m f w = (Panic p, w')"
  by (simp add: bindG_def)

lemma deref_Some [simp, go_simps]: "deref (Some x) f = f x"
  by (simp add: deref_def)

lemma deref_None [simp, go_simps]: "deref None f = panic nilDeref"
  by (simp add: deref_def)

text \<open>A computation that ended normally ended each of its parts normally.\<close>

lemma bindG_OkE:
  assumes "bindG m f w = (Ok y, w'')"
  obtains x w' where "m w = (Ok x, w')" and "f x w' = (Ok y, w'')"
  using assms by (auto simp: bindG_def split: prod.splits outcome.splits)

lemma deref_OkE:
  assumes "deref p f w = (Ok y, w')"
  obtains x where "p = Some x" and "f x w = (Ok y, w')"
  using assms by (cases p) auto

lemma bindG_cases:
  obtains (ok) x w' where "m w = (Ok x, w')" and "bindG m f w = f x w'"
  | (panic) msg w' where "m w = (Panic msg, w')" and "bindG m f w = (Panic msg, w')"
proof (cases "m w")
  case (Pair r w')
  then show ?thesis
    using ok panic by (cases r) (auto simp: bindG_def)
qed

text \<open>
  \<open>keeps R m\<close>: running \<open>m\<close> relates the world before to the world after by \<open>R\<close>, whatever \<open>m\<close>
  returns and even when it panics.  For a reflexive and transitive \<open>R\<close> this composes.
\<close>

definition keeps :: "('w \<Rightarrow> 'w \<Rightarrow> bool) \<Rightarrow> ('w, 'a) go \<Rightarrow> bool" where
  "keeps R m \<longleftrightarrow> (\<forall>w. R w (snd (m w)))"

lemma keepsD: "keeps R m \<Longrightarrow> m w = (r, w') \<Longrightarrow> R w w'"
  by (metis keeps_def snd_conv)

lemma keepsI: "(\<And>w r w'. m w = (r, w') \<Longrightarrow> R w w') \<Longrightarrow> keeps R m"
  by (metis keeps_def prod.collapse)

lemma keeps_ret: "reflp R \<Longrightarrow> keeps R (ret x)"
  by (simp add: keeps_def reflpD)

lemma keeps_panic: "reflp R \<Longrightarrow> keeps R (panic m)"
  by (simp add: keeps_def reflpD)

lemma keeps_bind:
  assumes "transp R" and "keeps R m" and "\<And>x. keeps R (f x)"
  shows "keeps R (bindG m f)"
proof (rule keepsI)
  fix w r w''
  assume run: "bindG m f w = (r, w'')"
  show "R w w''"
  proof (cases rule: bindG_cases [of m w f])
    case (ok x w')
    with run assms(2,3) have "R w w'" and "R w' w''"
      by (auto dest: keepsD)
    with assms(1) show ?thesis by (rule transpD)
  next
    case (panic msg w')
    with run assms(2) show ?thesis by (auto dest: keepsD)
  qed
qed

text \<open>The same with the knowledge of what the first part returned.\<close>

lemma keeps_bind_strong:
  assumes "transp R" and "keeps R m"
    and "\<And>x w w'. m w = (Ok x, w') \<Longrightarrow> R w' (snd (f x w'))"
  shows "keeps R (bindG m f)"
proof (rule keepsI)
  fix w r w''
  assume run: "bindG m f w = (r, w'')"
  show "R w w''"
  proof (cases rule: bindG_cases [of m w f])
    case (ok x w')
    with run assms(2) have "R w w'" by (auto dest: keepsD)
    moreover from ok run assms(3) [OF ok(1)] have "R w' w''" by (metis snd_conv)
    ultimately show ?thesis using assms(1) by (blast dest: transpD)
  next
    case (panic msg w')
    with run assms(2) show ?thesis by (auto dest: keepsD)
  qed
qed

lemma keeps_mono: "keeps R m \<Longrightarrow> (\<And>w w'. R w w' \<Longrightarrow> S w w') \<Longrightarrow> keeps S m"
  by (auto simp: keeps_def)

lemma keeps_if [keeps_rules]:
  "(b \<Longrightarrow> keeps R m) \<Longrightarrow> (\<not> b \<Longrightarrow> keeps R m') \<Longrightarrow> keeps R (if b then m else m')"
  by simp

lemma keeps_case_prod [keeps_rules]:
  "(\<And>a b. x = (a, b) \<Longrightarrow> keeps R (f a b)) \<Longrightarrow> keeps R (case x of (a, b) \<Rightarrow> f a b)"
  by (cases x) simp

lemma keeps_case_option [keeps_rules]:
  "(x = None \<Longrightarrow> keeps R m) \<Longrightarrow> (\<And>a. x = Some a \<Longrightarrow> keeps R (f a)) \<Longrightarrow>
   keeps R (case x of None \<Rightarrow> m | Some a \<Rightarrow> f a)"
  by (cases x) simp_all

lemma keeps_case_sum [keeps_rules]:
  "(\<And>a. x = Inl a \<Longrightarrow> keeps R (f a)) \<Longrightarrow> (\<And>b. x = Inr b \<Longrightarrow> keeps R (g b)) \<Longrightarrow>
   keeps R (case x of Inl a \<Rightarrow> f a | Inr b \<Rightarrow> g b)"
  by (cases x) simp_all

lemma keeps_Let [keeps_rules]: "keeps R (f x) \<Longrightarrow> keeps R (let y = x in f y)"
  by simp

lemma keeps_deref:
  "reflp R \<Longrightarrow> (\<And>x. p = Some x \<Longrightarrow> keeps R (f x)) \<Longrightarrow> keeps R (deref p f)"
  by (cases p) (simp_all add: keeps_panic)

text \<open>
  \<open>costs sz k m\<close>: running \<open>m\<close> lets the measure \<open>sz\<close> of the world grow by at most \<open>k\<close>, with rules that
  follow the structure of a computation.
\<close>

definition costs :: "('w \<Rightarrow> nat) \<Rightarrow> nat \<Rightarrow> ('w, 'a) go \<Rightarrow> bool" where
  "costs sz k m \<longleftrightarrow> (\<forall>w. sz (snd (m w)) \<le> sz w + k)"

lemma costs_ret [costs_rules]: "costs sz k (ret x)"
  by (simp add: costs_def)

lemma costs_panic [costs_rules]: "costs sz k (panic x)"
  by (simp add: costs_def)

lemma costs_mono: "costs sz k m \<Longrightarrow> k \<le> k' \<Longrightarrow> costs sz k' m"
  by (auto simp: costs_def intro: order_trans)

lemma costsD: "costs sz k m \<Longrightarrow> m w = (r, w') \<Longrightarrow> sz w' \<le> sz w + k"
  by (metis costs_def snd_conv)

lemma costs_bind:
  assumes m: "costs sz k m" and le: "k \<le> n" and f: "\<And>x. costs sz (n - k) (f x)"
  shows "costs sz n (bindG m f)"
  unfolding costs_def
proof
  fix w
  show "sz (snd (bindG m f w)) \<le> sz w + n"
  proof (cases rule: bindG_cases [of m w f])
    case (ok x w')
    have "sz w' \<le> sz w + k"
      using m ok(1) unfolding costs_def by (metis snd_conv)
    moreover have "sz (snd (f x w')) \<le> sz w' + (n - k)"
      using f [of x] by (simp add: costs_def)
    ultimately show ?thesis using ok(2) le by simp
  next
    case (panic msg w')
    then have "sz w' \<le> sz w + k"
      using m unfolding costs_def by (metis snd_conv)
    with panic(2) le show ?thesis by simp
  qed
qed

lemma costs_if [costs_rules]: "costs sz k m \<Longrightarrow> costs sz k m' \<Longrightarrow> costs sz k (if b then m else m')"
  by simp

lemma costs_case_prod [costs_rules]: "(\<And>a b. costs sz k (f a b)) \<Longrightarrow> costs sz k (case x of (a, b) \<Rightarrow> f a b)"
  by (cases x) simp

lemma costs_case_option [costs_rules]:
  "costs sz k m \<Longrightarrow> (\<And>a. costs sz k (f a)) \<Longrightarrow> costs sz k (case x of None \<Rightarrow> m | Some a \<Rightarrow> f a)"
  by (cases x) simp_all

lemma costs_deref [costs_rules]: "(\<And>x. costs sz k (f x)) \<Longrightarrow> costs sz k (deref p f)"
  by (cases p) (simp_all add: costs_panic)

text \<open>\<open>never_panics m\<close>: from every world, \<open>m\<close> returns.\<close>

definition never_panics :: "('w, 'a) go \<Rightarrow> bool" where
  "never_panics m \<longleftrightarrow> (\<forall>w. \<exists>x w'. m w = (Ok x, w'))"

lemma never_panics_ret [simp, intro]: "never_panics (ret x)"
  by (simp add: never_panics_def)

lemma never_panics_bind [intro]:
  "never_panics m \<Longrightarrow> (\<And>x. never_panics (f x)) \<Longrightarrow> never_panics (bindG m f)"
  by (auto simp: never_panics_def bindG_def split: prod.splits outcome.splits) (metis Pair_inject outcome.simps(3))

lemma never_panicsE:
  assumes "never_panics m"
  obtains x w' where "m w = (Ok x, w')"
  using assms unfolding never_panics_def by blast

section \<open>Reasoning about errors, maps and quantities\<close>

lemma IsNotFound_None [simp]: "\<not> IsNotFound None"
  by (simp add: IsNotFound_def)

lemma IsNotFound_wrap [simp]: "IsNotFound (Some (WrapErr m e)) = IsNotFound (Some e)"
  by (simp add: IsNotFound_def)

lemma IsNotFound_Some_ne: "IsNotFound err \<Longrightarrow> err \<noteq> None"
  by (cases err) simp_all

lemma IsNotFound_simps [simp]:
  "\<not> IsNotFound (Some (GrpcStatus c m))"
  "\<not> IsNotFound (Some (PlainErr m))"
  "IsNotFound (Some (ApiStatus ''NotFound'' h m))"
  by (simp_all add: IsNotFound_def)

lemma map_get_Nil [simp]: "map_get [] k = ''''"
  by (simp add: map_get_def)

lemma map_get_update: "map_get (AList.update k v m) k' = (if k' = k then v else map_get m k')"
  by (simp add: map_get_def update_conv')

lemma Quantity_Cmp_simps [simp]:
  "Quantity_Cmp x y = 0 \<longleftrightarrow> x = y"
  "0 \<le> Quantity_Cmp x y \<longleftrightarrow> y \<le> x"
  "Quantity_Cmp x y < 0 \<longleftrightarrow> x < y"
  by (auto simp: Quantity_Cmp_def)

lemma Quantity_Value_of_int [simp]: "Quantity_Value (of_int n) = n"
  by (simp add: Quantity_Value_def)

section \<open>Reasoning about words of 64 bits\<close>

lemma sint_nonneg_iff: "0 \<le> sint (x :: 64 word) \<longleftrightarrow> unat x < 2 ^ 63"
proof -
  have lt: "uint x < 2 ^ 64" using uint_lt2p [of x] by simp
  have "0 \<le> sint x \<longleftrightarrow> \<not> bit (uint x) 63" by (simp add: sint_uint)
  also have "\<dots> \<longleftrightarrow> even (uint x div 2 ^ 63)" by (simp add: bit_iff_odd)
  also have "\<dots> \<longleftrightarrow> uint x < 2 ^ 63"
  proof (cases "uint x < 2 ^ 63")
    case True
    then have "uint x div 2 ^ 63 = 0" by (simp add: div_pos_pos_trivial)
    then show ?thesis using True by simp
  next
    case False
    then have "uint x div 2 ^ 63 = 1 + (uint x - 2 ^ 63) div 2 ^ 63" by (simp add: div_pos_geq)
    moreover have "(uint x - 2 ^ 63) div 2 ^ 63 = 0" using False lt by (intro div_pos_pos_trivial) simp_all
    ultimately show ?thesis using False by simp
  qed
  also have "\<dots> \<longleftrightarrow> unat x < 2 ^ 63" unfolding uint_nat by (rule of_nat_less_numeral_power_cancel_iff)
  finally show ?thesis .
qed

lemma sint_of_nat_64: "k < 2 ^ 63 \<Longrightarrow> sint (of_nat k :: 64 word) = int k"
  by (simp add: signed_of_nat signed_take_bit_int_eq_self_iff)

lemma unat_of_nat_64: "k < 2 ^ 63 \<Longrightarrow> unat (of_nat k :: 64 word) = k"
  by (simp add: unsigned_of_nat take_bit_nat_eq_self_iff)

lemma sint_small: "unat (x :: 64 word) < 2 ^ 63 \<Longrightarrow> sint x = int (unat x)"
  using sint_of_nat_64 [of "unat x"] by simp

end
