(* ===== verification/Api_Types.thy ===== *)
theory Api_Types
  imports Go_Prelude
begin

text \<open>
  The objects the driver exchanges with the clusters (Kubernetes, KubeVirt, CDI, snapshotter) and
  the messages of the CSI protocol, with the fields the driver reads or writes.  A pointer of the
  Go struct is an \<open>option\<close>, a repeated message that may be nil an \<open>option\<close> of a list.
\<close>

section \<open>Cluster objects\<close>

record ObjectMeta =
  om_Name :: string
  om_Namespace :: string
  om_Labels :: "string gomap"
  om_Annotations :: "string gomap"
  om_UID :: string
  om_CreationTimestamp :: int

definition zero_ObjectMeta :: ObjectMeta where
  "zero_ObjectMeta = \<lparr>om_Name = '''', om_Namespace = '''', om_Labels = [], om_Annotations = [],
     om_UID = '''', om_CreationTimestamp = 0\<rparr>"

text \<open>KubeVirt: a volume of a VM's template, the VM, the volume status of a running VMI.\<close>

record DataVolumeRef =
  dvr_Name :: string
  dvr_Hotpluggable :: bool

record Volume =
  vol_Name :: string
  vol_DataVolume :: "DataVolumeRef option"
  vol_PersistentVolumeClaim :: "string option"

record VirtualMachine =
  vm_Meta :: ObjectMeta
  vm_Template :: "Volume list option"

definition zero_VirtualMachine :: VirtualMachine where
  "zero_VirtualMachine = \<lparr>vm_Meta = zero_ObjectMeta, vm_Template = None\<rparr>"

datatype VolumePhase = VolumeReady | OtherPhase string

record VolumeStatus =
  vs_Name :: string
  vs_Phase :: VolumePhase
  vs_HotplugVolume :: "string option"

record VirtualMachineInstance =
  vmi_Meta :: ObjectMeta
  vmi_VolumeStatus :: "VolumeStatus list"

definition zero_VirtualMachineInstance :: VirtualMachineInstance where
  "zero_VirtualMachineInstance = \<lparr>vmi_Meta = zero_ObjectMeta, vmi_VolumeStatus = []\<rparr>"

record Disk =
  dk_Serial :: string
  dk_Bus :: string

record AddVolumeOptions =
  avo_Name :: string
  avo_Disk :: Disk
  avo_DataVolume :: string

record RemoveVolumeOptions =
  rvo_Name :: string

text \<open>CDI: the source of a DataVolume, its storage, the DataVolume.\<close>

record NamedRef =
  nr_Name :: string
  nr_Namespace :: string

record DataVolumeSource =
  dvs_Blank :: bool
  dvs_PVC :: "NamedRef option"
  dvs_Snapshot :: "NamedRef option"

record TypedObjectReference =
  tor_Kind :: string
  tor_Name :: string

record StorageSpec =
  ss_Requests :: "Quantity gomap"
  ss_AccessModes :: "string list"
  ss_StorageClassName :: "string option"
  ss_DataSourceRef :: "TypedObjectReference option"

record DataVolume =
  dv_Meta :: ObjectMeta
  dv_Storage :: "StorageSpec option"
  dv_Source :: "DataVolumeSource option"

definition zero_DataVolume :: DataVolume where
  "zero_DataVolume = \<lparr>dv_Meta = zero_ObjectMeta, dv_Storage = None, dv_Source = None\<rparr>"

text \<open>Core: persistent volume claims and volumes.\<close>

record PersistentVolumeClaim =
  pvc_Meta :: ObjectMeta
  pvc_StorageClassName :: "string option"
  pvc_Requests :: "Quantity gomap"
  pvc_VolumeName :: string

definition zero_PersistentVolumeClaim :: PersistentVolumeClaim where
  "zero_PersistentVolumeClaim = \<lparr>pvc_Meta = zero_ObjectMeta, pvc_StorageClassName = None,
     pvc_Requests = [], pvc_VolumeName = ''''\<rparr>"

record PersistentVolume =
  pv_Meta :: ObjectMeta
  pv_Capacity :: "Quantity gomap"

definition zero_PersistentVolume :: PersistentVolume where
  "zero_PersistentVolume = \<lparr>pv_Meta = zero_ObjectMeta, pv_Capacity = []\<rparr>"

text \<open>A node of the tenant cluster.\<close>

record Node =
  node_Meta :: ObjectMeta
  node_ProviderID :: string

definition zero_Node :: Node where
  "zero_Node = \<lparr>node_Meta = zero_ObjectMeta, node_ProviderID = ''''\<rparr>"

text \<open>External snapshotter: snapshots and their classes.\<close>

record VolumeSnapshotStatus =
  vss_ReadyToUse :: "bool option"
  vss_RestoreSize :: "Quantity option"

record VolumeSnapshot =
  snap_Meta :: ObjectMeta
  snap_PersistentVolumeClaimName :: "string option"
  snap_VolumeSnapshotClassName :: "string option"
  snap_Status :: "VolumeSnapshotStatus option"

definition zero_VolumeSnapshot :: VolumeSnapshot where
  "zero_VolumeSnapshot = \<lparr>snap_Meta = zero_ObjectMeta, snap_PersistentVolumeClaimName = None,
     snap_VolumeSnapshotClassName = None, snap_Status = None\<rparr>"

record VolumeSnapshotClass =
  vsc_Meta :: ObjectMeta
  vsc_Parameters :: "string gomap"

text \<open>
  Any other object, that of a resource whose client is generated but which the driver does not use: its Go
  type, its metadata, and the rest, which the clients pass on as it is.
\<close>

record OtherObject =
  ot_Kind :: string
  ot_Meta :: ObjectMeta
  ot_Content :: string

definition zero_OtherObject :: "string \<Rightarrow> OtherObject" where
  "zero_OtherObject kind = \<lparr>ot_Kind = kind, ot_Meta = zero_ObjectMeta, ot_Content = ''''\<rparr>"

section \<open>Storage class enforcement\<close>

text \<open>\<open>StorageSnapshotMapping\<close> and \<open>StorageClassEnforcement\<close> of package util.\<close>

record StorageSnapshotMapping =
  ssm_VolumeSnapshotClasses :: "string list"
  ssm_StorageClasses :: "string list"

record StorageClassEnforcement =
  sce_AllowList :: "string list"
  sce_AllowAll :: bool
  sce_AllowDefault :: bool
  sce_StorageSnapshotMapping :: "StorageSnapshotMapping list"

text \<open>\<open>Contains\<close> of package util.\<close>

fun Contains :: "string list \<Rightarrow> string \<Rightarrow> bool" where
  "Contains [] val = False"
| "Contains (itrVal # arr) val = (if val = itrVal then True else Contains arr val)"

section \<open>CSI messages\<close>

datatype AccessModeMode = UNKNOWN | SINGLE_NODE_WRITER | SINGLE_NODE_READER_ONLY
  | MULTI_NODE_READER_ONLY | MULTI_NODE_SINGLE_WRITER | MULTI_NODE_MULTI_WRITER
  | SINGLE_NODE_SINGLE_WRITER | SINGLE_NODE_MULTI_WRITER | OtherMode int

datatype AccessType = AccessBlock | AccessMount string

record VolumeCapability =
  vc_AccessType :: "AccessType option"
  vc_AccessMode :: "AccessModeMode option"

text \<open>The getters of protobuf messages give zero values for a nil message.\<close>

definition GetBlock :: "VolumeCapability option \<Rightarrow> unit option" where
  "GetBlock c = (case c of None \<Rightarrow> None
     | Some v \<Rightarrow> (case vc_AccessType v of Some AccessBlock \<Rightarrow> Some () | _ \<Rightarrow> None))"

definition GetMount :: "VolumeCapability option \<Rightarrow> string option" where
  "GetMount c = (case c of None \<Rightarrow> None
     | Some v \<Rightarrow> (case vc_AccessType v of Some (AccessMount fs) \<Rightarrow> Some fs | _ \<Rightarrow> None))"

definition GetAccessMode :: "VolumeCapability option \<Rightarrow> AccessModeMode option" where
  "GetAccessMode c = (case c of None \<Rightarrow> None | Some v \<Rightarrow> vc_AccessMode v)"

definition GetMode :: "AccessModeMode option \<Rightarrow> AccessModeMode" where
  "GetMode m = (case m of None \<Rightarrow> UNKNOWN | Some x \<Rightarrow> x)"

text \<open>The content source of a volume: a snapshot or a volume by its ID (a message that may be nil).\<close>

datatype VolumeContentSource = SourceSnapshot "string option" | SourceVolume "string option"
  | SourceUnset

definition idOf :: "string option \<Rightarrow> string" where
  "idOf m = (case m of None \<Rightarrow> '''' | Some i \<Rightarrow> i)"

record CreateVolumeRequest =
  cvr_Name :: string
  cvr_RequiredBytes :: "int option"
  cvr_VolumeCapabilities :: "VolumeCapability option list option"
  cvr_Parameters :: "string gomap"
  cvr_VolumeContentSource :: "VolumeContentSource option"

record CreateVolumeResponse =
  cvp_CapacityBytes :: int
  cvp_VolumeId :: string
  cvp_VolumeContext :: "string gomap"
  cvp_ContentSource :: "VolumeContentSource option"

record ControllerPublishVolumeRequest =
  cpr_VolumeId :: string
  cpr_NodeId :: string
  cpr_VolumeCapability :: "VolumeCapability option"
  cpr_VolumeContext :: "string gomap"

record ControllerUnpublishVolumeRequest =
  cur_VolumeId :: string
  cur_NodeId :: string

record ValidateVolumeCapabilitiesRequest =
  vvr_VolumeId :: string
  vvr_VolumeContext :: "string gomap"
  vvr_VolumeCapabilities :: "VolumeCapability option list"
  vvr_Parameters :: "string gomap"

record ValidateVolumeCapabilitiesConfirmed =
  vvc_VolumeContext :: "string gomap"
  vvc_VolumeCapabilities :: "VolumeCapability option list"
  vvc_Parameters :: "string gomap"

record CreateSnapshotRequest =
  csr_Name :: string
  csr_SourceVolumeId :: string
  csr_Parameters :: "string gomap"

record Snapshot =
  sn_SnapshotId :: string
  sn_SourceVolumeId :: string
  sn_CreationTime :: int
  sn_ReadyToUse :: bool
  sn_SizeBytes :: int

record ListSnapshotsRequest =
  lsr_MaxEntries :: "32 word"
  lsr_StartingToken :: string
  lsr_SourceVolumeId :: string
  lsr_SnapshotId :: string

record ListSnapshotsResponse =
  lsp_Entries :: "Snapshot list"
  lsp_NextToken :: string

record ControllerExpandVolumeRequest =
  cer_VolumeId :: string
  cer_RequiredBytes :: "int option"
  cer_VolumeCapability :: "VolumeCapability option"

record ControllerExpandVolumeResponse =
  cep_CapacityBytes :: int
  cep_NodeExpansionRequired :: bool

section \<open>Lemmas\<close>

lemma Contains_iff [simp]: "Contains arr val \<longleftrightarrow> val \<in> set arr"
  by (induction arr) auto

lemma GetBlock_None [simp]: "GetBlock None = None"
  by (simp add: GetBlock_def)

lemma GetMount_None [simp]: "GetMount None = None"
  by (simp add: GetMount_def)

text \<open>A capability has one access type at most.\<close>

lemma GetBlock_GetMount: "GetBlock c \<noteq> None \<Longrightarrow> GetMount c = None"
  by (auto simp: GetBlock_def GetMount_def split: option.splits AccessType.splits)

end
