(* ===== verification/Go_Strings.thy ===== *)
theory Go_Strings
  imports Go_Prelude
begin

text \<open>
  The string functions the driver calls: \<open>HasPrefix\<close>, \<open>TrimPrefix\<close>, \<open>Split\<close> and \<open>SplitN\<close> with
  a separator of one character (package strings), \<open>ParseUint\<close>, \<open>ParseInt\<close> and \<open>FormatInt\<close> in
  base ten (strconv), and \<open>cache.SplitMetaNamespaceKey\<close> of client-go, with which the controller
  reads the node ID that the node service built.  The lemmas show that printing and parsing of
  numbers, and building and splitting of keys, are inverse to each other.
\<close>

section \<open>Prefixes and splitting\<close>

definition HasPrefix :: "string \<Rightarrow> string \<Rightarrow> bool" where
  "HasPrefix s p \<longleftrightarrow> take (length p) s = p"

definition TrimPrefix :: "string \<Rightarrow> string \<Rightarrow> string" where
  "TrimPrefix s p = (if HasPrefix s p then drop (length p) s else s)"

fun Split :: "string \<Rightarrow> char \<Rightarrow> string list" where
  "Split [] c = [[]]"
| "Split (x # xs) c =
     (if x = c then [] # Split xs c
      else (case Split xs c of [] \<Rightarrow> [[x]] | y # ys \<Rightarrow> (x # y) # ys))"

definition SplitN2 :: "string \<Rightarrow> char \<Rightarrow> string list" where
  "SplitN2 s c = (if c \<in> set s then [takeWhile (\<lambda>x. x \<noteq> c) s, tl (dropWhile (\<lambda>x. x \<noteq> c) s)] else [s])"

text \<open>\<open>SplitMetaNamespaceKey\<close> of \<open>k8s.io/client-go/tools/cache\<close>: namespace, name, error.\<close>

definition SplitMetaNamespaceKey :: "string \<Rightarrow> string \<times> string \<times> gerr option" where
  "SplitMetaNamespaceKey key = (case Split key CHR ''/'' of
       [n] \<Rightarrow> ('''', n, None)
     | [ns, n] \<Rightarrow> (ns, n, None)
     | _ \<Rightarrow> ('''', '''', Some (PlainErr (''unexpected key format: '' @ quoted key))))"

section \<open>Decimal numbers\<close>

definition digit_of :: "char \<Rightarrow> nat option" where
  "digit_of c = (let k = (of_char c :: nat) in if 48 \<le> k \<and> k \<le> 57 then Some (k - 48) else None)"

definition digit_char :: "nat \<Rightarrow> char" where
  "digit_char d = char_of (48 + d)"

text \<open>\<open>strconv.ParseUint(s, 10, bits)\<close> with the largest value that fits in the bits.\<close>

fun ParseUint_loop :: "nat \<Rightarrow> nat \<Rightarrow> string \<Rightarrow> string + nat" where
  "ParseUint_loop maxVal n [] = Inr n"
| "ParseUint_loop maxVal n (c # cs) =
     (case digit_of c of
        None \<Rightarrow> Inl ''invalid syntax''
      | Some d \<Rightarrow> if maxVal < n * 10 + d then Inl ''value out of range''
                  else ParseUint_loop maxVal (n * 10 + d) cs)"

definition ParseUint :: "string \<Rightarrow> nat \<Rightarrow> gerr + nat" where
  "ParseUint s bits =
     (if s = [] then Inl (NumErr ''ParseUint'' s ''invalid syntax'')
      else case ParseUint_loop (2 ^ bits - 1) 0 s of
             Inl why \<Rightarrow> Inl (NumErr ''ParseUint'' s why)
           | Inr n \<Rightarrow> Inr n)"

text \<open>
  \<open>strconv.ParseInt(s, 10, bits)\<close>: an optional sign, then \<open>ParseUint\<close>, whose range error becomes
  one of its own; the magnitude is bounded by \<open>2 ^ (bits - 1)\<close>.
\<close>

definition ParseInt :: "string \<Rightarrow> nat \<Rightarrow> gerr + int" where
  "ParseInt s bits =
     (let neg = (s \<noteq> [] \<and> hd s = CHR ''-'');
          u = (if s \<noteq> [] \<and> (hd s = CHR ''-'' \<or> hd s = CHR ''+'') then tl s else s)
      in if u = [] then Inl (NumErr ''ParseInt'' s ''invalid syntax'')
         else case ParseUint_loop (2 ^ bits - 1) 0 u of
             Inl why \<Rightarrow> Inl (NumErr ''ParseInt'' s why)
           | Inr n \<Rightarrow>
               if \<not> neg \<and> 2 ^ (bits - 1) \<le> n then Inl (NumErr ''ParseInt'' s ''value out of range'')
               else if neg \<and> 2 ^ (bits - 1) < n then Inl (NumErr ''ParseInt'' s ''value out of range'')
               else Inr (if neg then - int n else int n))"

fun showNat :: "nat \<Rightarrow> string" where
  "showNat n = (if n < 10 then [digit_char n] else showNat (n div 10) @ [digit_char (n mod 10)])"

declare showNat.simps [simp del]

definition FormatInt :: "int \<Rightarrow> string" where
  "FormatInt i = (if i < 0 then CHR ''-'' # showNat (nat (- i)) else showNat (nat i))"

section \<open>Lemmas\<close>

lemma HasPrefix_append [simp]: "HasPrefix (p @ s) p"
  by (simp add: HasPrefix_def)

lemma HasPrefixE:
  assumes "HasPrefix s p"
  obtains r where "s = p @ r"
  using assms by (metis HasPrefix_def append_take_drop_id)

lemma TrimPrefix_append [simp]: "TrimPrefix (p @ s) p = s"
  by (simp add: TrimPrefix_def)

lemma Split_ne [simp]: "Split s c \<noteq> []"
  by (induction s) (auto split: list.splits)

lemma Split_no_sep: "c \<notin> set s \<Longrightarrow> Split s c = [s]"
  by (induction s) auto

lemma Split_sep: "c \<notin> set s \<Longrightarrow> Split (s @ c # t) c = s # Split t c"
  by (induction s) auto

text \<open>A split string is its parts with the separator between them.\<close>

fun Join :: "char \<Rightarrow> string list \<Rightarrow> string" where
  "Join c [] = []"
| "Join c [x] = x"
| "Join c (x # y # ys) = x @ c # Join c (y # ys)"

lemma Join_Cons: "ys \<noteq> [] \<Longrightarrow> Join c (x # ys) = x @ c # Join c ys"
  by (cases ys) auto

lemma Join_append: "xs \<noteq> [] \<Longrightarrow> ys \<noteq> [] \<Longrightarrow> Join c (xs @ ys) = Join c xs @ c # Join c ys"
  by (induction c xs rule: Join.induct) (auto simp: Join_Cons)

lemma Join_Split: "Join c (Split s c) = s"
proof (induction s)
  case (Cons x s)
  obtain y ys where "Split s c = y # ys"
    by (cases "Split s c") auto
  with Cons.IH show ?case
    by (cases ys) auto
qed simp

lemma Split_Join: "ps \<noteq> [] \<Longrightarrow> \<forall>p \<in> set ps. c \<notin> set p \<Longrightarrow> Split (Join c ps) c = ps"
  by (induction c ps rule: Join.induct) (auto simp: Split_no_sep Split_sep)

lemma SplitN2_sep: "c \<notin> set k \<Longrightarrow> SplitN2 (k @ c # v) c = [k, v]"
  by (simp add: SplitN2_def takeWhile_append dropWhile_append)

lemma SplitN2_length: "length (SplitN2 s c) = 2 \<longleftrightarrow> c \<in> set s"
  by (simp add: SplitN2_def)

lemma SplitMetaNamespaceKey_join:
  "CHR ''/'' \<notin> set ns \<Longrightarrow> CHR ''/'' \<notin> set n \<Longrightarrow>
   SplitMetaNamespaceKey (ns @ CHR ''/'' # n) = (ns, n, None)"
  by (simp add: SplitMetaNamespaceKey_def Split_sep Split_no_sep)

lemma digit_of_char [simp]: "d < 10 \<Longrightarrow> digit_of (digit_char d) = Some d"
  by (simp add: digit_of_def digit_char_def of_char_of)

lemma showNat_ne [simp]: "showNat n \<noteq> []"
  by (subst showNat.simps) simp

lemma ParseUint_loop_mono: "ParseUint_loop m n s = Inr r \<Longrightarrow> n \<le> r"
  by (induction m n s rule: ParseUint_loop.induct) (auto split: option.splits if_splits)

lemma ParseUint_loop_snoc:
  "ParseUint_loop m n (s @ [c]) =
     (case ParseUint_loop m n s of Inl why \<Rightarrow> Inl why
      | Inr k \<Rightarrow> ParseUint_loop m k [c])"
  by (induction m n s rule: ParseUint_loop.induct) (auto split: option.splits)

lemma ParseUint_loop_showNat: "n \<le> m \<Longrightarrow> ParseUint_loop m 0 (showNat n) = Inr n"
proof (induction n rule: showNat.induct)
  case (1 n)
  show ?case
  proof (cases "n < 10")
    case True
    with "1.prems" show ?thesis by (subst showNat.simps) simp
  next
    case False
    with 1 have "ParseUint_loop m 0 (showNat (n div 10)) = Inr (n div 10)" by simp
    with False "1.prems" show ?thesis
      by (subst showNat.simps) (simp add: ParseUint_loop_snoc)
  qed
qed

lemma ParseUint_bound: "ParseUint s bits = Inr n \<Longrightarrow> n < 2 ^ bits"
proof -
  have "n \<le> m" if "ParseUint_loop m k s = Inr n" and "k \<le> m" for m k
    using that by (induction m k s rule: ParseUint_loop.induct) (auto split: option.splits if_splits)
  moreover assume "ParseUint s bits = Inr n"
  ultimately have "n \<le> 2 ^ bits - 1"
    by (auto simp: ParseUint_def split: if_splits sum.splits)
  then show ?thesis
    by (metis Suc_pred' less_Suc_eq_le zero_less_numeral zero_less_power)
qed

lemma ParseUint_FormatInt:
  assumes "0 \<le> i" and "i < 2 ^ bits"
  shows "ParseUint (FormatInt i) bits = Inr (nat i)"
proof -
  from assms have "nat i < 2 ^ bits"
    by (simp add: nat_less_iff)
  then have "nat i \<le> 2 ^ bits - 1" by linarith
  then show ?thesis
    using assms(1) by (simp add: ParseUint_def FormatInt_def ParseUint_loop_showNat)
qed

lemma FormatInt_ne [simp]: "FormatInt i \<noteq> []"
  by (simp add: FormatInt_def)

end
