(* ===== verification/Rest_Clients.thy ===== *)
theory Rest_Clients
  imports Api_Types Go_Strings
begin

text \<open>
  The generated typed clients (\<open>src/pkg/generated\<close>) and the typed clients of client-go for core
  resources, over an HTTP exchange with an API server that is not part of the repository.

  The world of the controller process is what lies outside (\<open>w_env\<close>: the infra and the tenant
  cluster), the log of the HTTP exchanges so far (\<open>w_log\<close>) and the memory of the client object
  (\<open>w_mapping\<close>, \<open>w_populated\<close>: the fields of \<open>client\<close> that change after its construction).  The
  servers, sleeping and the timers of a poll are the record \<open>runtime\<close>, a parameter of the model: any
  function from requests and environments to answers and environments.  Other actors may change the
  clusters at each of these calls.

  A typed \<open>Get\<close> gives a pointer to a fresh zero object beside an error, never nil: that is what the
  generated code does, and what callers that test the pointer instead of the error see.
\<close>

section \<open>Requests, answers and the world\<close>

datatype host = Infra | Tenant

datatype verb = GET | POST | PUT | PATCH | DELETE

datatype rest_body = NoBody | BodyDV DataVolume | BodySnapshot VolumeSnapshot
  | BodyAddVolume AddVolumeOptions | BodyRemoveVolume RemoveVolumeOptions | BodyPatch string string string
  | BodyVM VirtualMachine | BodyVMI VirtualMachineInstance | BodySnapshotClass VolumeSnapshotClass
  | BodyRawPatch string string | BodyOther OtherObject

record rest_request =
  rq_Host :: host
  rq_Verb :: verb
  rq_Path :: string
  rq_Namespace :: "string option"
  rq_Resource :: string
  rq_Name :: "string option"
  rq_Subresources :: "string list"
  rq_Selector :: "string gomap"
  rq_Timeout :: "64 word"
  rq_Watch :: bool
  rq_Body :: rest_body

datatype api_object = OVM VirtualMachine | OVMI VirtualMachineInstance
  | OVMIList "VirtualMachineInstance list" | ODV DataVolume | OPVC PersistentVolumeClaim
  | OPV PersistentVolume | OSnapshot VolumeSnapshot | OSnapshotList "VolumeSnapshot list"
  | OSnapshotClassList "VolumeSnapshotClass list" | ONode Node | OVersion | OSuccess
  | OVMList "VirtualMachine list" | ODVList "DataVolume list" | OSnapshotClass VolumeSnapshotClass
  | OOther OtherObject | OOtherList string "OtherObject list" | OWatch

type_synonym answer = "gerr + api_object"

type_synonym exchange = "rest_request \<times> answer"

text \<open>\<open>InfraToTenantMapping\<close> and \<open>InfraTenantStorageSnapshotMapping\<close> of \<open>client.go\<close>.\<close>

record InfraToTenantMapping =
  itm_Infra :: string
  itm_Tenant :: string

record InfraTenantStorageSnapshotMapping =
  its_VolumeSnapshotClasses :: "InfraToTenantMapping list"
  its_StorageClasses :: "string list"

record 'e world =
  w_env :: 'e
  w_log :: "exchange list"
  w_mapping :: "InfraTenantStorageSnapshotMapping list"
  w_populated :: bool

record 'e runtime =
  rt_serve :: "rest_request \<Rightarrow> 'e \<Rightarrow> answer \<times> 'e"
  rt_sleep :: "nat \<Rightarrow> 'e \<Rightarrow> 'e"
  rt_tick :: "'e \<Rightarrow> (nat \<times> gerr option) \<times> 'e"
  rt_checkLabel :: "string \<Rightarrow> string \<Rightarrow> gerr option"

definition sleep_world :: "'e runtime \<Rightarrow> nat \<Rightarrow> 'e world \<Rightarrow> 'e world" where
  "sleep_world rt d w = w\<lparr>w_env := rt_sleep rt d (w_env w)\<rparr>"

definition tick_world :: "'e runtime \<Rightarrow> 'e world \<Rightarrow> (nat \<times> gerr option) \<times> 'e world" where
  "tick_world rt w = (case rt_tick rt (w_env w) of (t, e') \<Rightarrow> (t, w\<lparr>w_env := e'\<rparr>))"

section \<open>The request builder of client-go\<close>

text \<open>\<open>IsValidPathSegmentName\<close>, \<open>Name\<close>, \<open>Namespace\<close> and \<open>requestPreflightCheck\<close> of \<open>rest/request.go\<close>.\<close>

definition IsValidPathSegmentName :: "string \<Rightarrow> string list" where
  "IsValidPathSegmentName name =
     (if name = ''.'' \<or> name = ''..'' then [''may not be '' @ [CHR 0x27] @ name @ [CHR 0x27]]
      else concat (map (\<lambda>c. if c \<in> set name then [''may not contain '' @ [CHR 0x27, c, CHR 0x27]] else [])
             [CHR ''/'', CHR ''%'']))"

definition segment_error :: "string \<Rightarrow> string \<Rightarrow> gerr option" where
  "segment_error what name = (case IsValidPathSegmentName name of
       [] \<Rightarrow> None
     | msgs \<Rightarrow> Some (PlainErr (''invalid '' @ what @ '' '' @ quoted name @ '': ['' @
         Join CHR '' '' msgs @ '']'')))"

definition namespace_error :: "rest_request \<Rightarrow> gerr option" where
  "namespace_error rq = (case rq_Namespace rq of None \<Rightarrow> None
     | Some ns \<Rightarrow> segment_error ''namespace'' ns)"

definition name_error :: "rest_request \<Rightarrow> gerr option" where
  "name_error rq = (case rq_Name rq of None \<Rightarrow> None
     | Some n \<Rightarrow> if n = '''' then Some (PlainErr ''resource name may not be empty'')
                 else segment_error ''resource name'' n)"

fun subresources_error :: "string list \<Rightarrow> gerr option" where
  "subresources_error [] = None"
| "subresources_error (s # ss) = (case segment_error ''subresource'' s of
       Some e \<Rightarrow> Some e | None \<Rightarrow> subresources_error ss)"

definition preflight_error :: "rest_request \<Rightarrow> gerr option" where
  "preflight_error rq =
     (if rq_Namespace rq \<noteq> Some '''' then None
      else if rq_Verb rq = POST
        then Some (PlainErr ''an empty namespace may not be set during creation'')
      else if rq_Verb rq \<noteq> PATCH \<and> rq_Name rq \<noteq> None
        then Some (PlainErr ''an empty namespace may not be set when a resource name is provided'')
      else None)"

text \<open>The first error of the builder, in the order in which the clients call it.\<close>

definition build_error :: "rest_request \<Rightarrow> gerr option" where
  "build_error rq = (case namespace_error rq of Some e \<Rightarrow> Some e
     | None \<Rightarrow> (case name_error rq of Some e \<Rightarrow> Some e | None \<Rightarrow> subresources_error (rq_Subresources rq)))"

definition request_error :: "rest_request \<Rightarrow> gerr option" where
  "request_error rq = (case build_error rq of Some e \<Rightarrow> Some e | None \<Rightarrow> preflight_error rq)"

text \<open>\<open>Do\<close>: a request that was built wrongly is not sent.\<close>

definition rest_do :: "'e runtime \<Rightarrow> rest_request \<Rightarrow> ('e world, answer) go" where
  "rest_do rt rq w = (case request_error rq of
       Some e \<Rightarrow> (Ok (Inl e), w)
     | None \<Rightarrow> (case rt_serve rt rq (w_env w) of (resp, e') \<Rightarrow>
         (Ok resp, w\<lparr>w_env := e', w_log := w_log w @ [(rq, resp)]\<rparr>)))"

text \<open>\<open>Into\<close> decodes into the object given, which stays as it was when there is an error.\<close>

definition Into :: "'a \<Rightarrow> (api_object \<Rightarrow> 'a option) \<Rightarrow> answer \<Rightarrow> 'a \<times> gerr option" where
  "Into obj dec resp = (case resp of
       Inl e \<Rightarrow> (obj, Some e)
     | Inr body \<Rightarrow> (case dec body of None \<Rightarrow> (obj, Some DecodeErr) | Some x \<Rightarrow> (x, None)))"

definition Error_of :: "answer \<Rightarrow> gerr option" where
  "Error_of resp = (case resp of Inl e \<Rightarrow> Some e | Inr _ \<Rightarrow> None)"

definition typed_get :: "'e runtime \<Rightarrow> rest_request \<Rightarrow> 'a \<Rightarrow> (api_object \<Rightarrow> 'a option)
    \<Rightarrow> ('e world, 'a option \<times> gerr option) go" where
  "typed_get rt rq zero dec = bindG (rest_do rt rq) (\<lambda>resp.
     let (result, err) = Into zero dec resp in ret (Some result, err))"

definition kubevirtPath :: string where "kubevirtPath = ''/apis/kubevirt.io/v1''"
definition cdiPath :: string where "cdiPath = ''/apis/cdi.kubevirt.io/v1beta1''"
definition snapshotPath :: string where "snapshotPath = ''/apis/snapshot.storage.k8s.io/v1''"
definition corePath :: string where "corePath = ''/api/v1''"

definition get_request :: "host \<Rightarrow> string \<Rightarrow> string option \<Rightarrow> string \<Rightarrow> string option \<Rightarrow> rest_request" where
  "get_request h path ns resource name = \<lparr>rq_Host = h, rq_Verb = GET, rq_Path = path,
     rq_Namespace = ns, rq_Resource = resource, rq_Name = name, rq_Subresources = [], rq_Selector = [],
     rq_Timeout = 0, rq_Watch = False, rq_Body = NoBody\<rparr>"

text \<open>
  The list options that the clients act on: the label selector, and the timeout in seconds, which
  becomes nanoseconds in 64 bits.  The others are passed on as they are and are zero in this driver.
\<close>

record ListOptions =
  lo_LabelSelector :: "string gomap"
  lo_TimeoutSeconds :: "64 word option"

definition zero_ListOptions :: ListOptions where
  "zero_ListOptions = \<lparr>lo_LabelSelector = [], lo_TimeoutSeconds = None\<rparr>"

definition timeoutOf :: "ListOptions \<Rightarrow> 64 word" where
  "timeoutOf opts = (case lo_TimeoutSeconds opts of None \<Rightarrow> 0 | Some s \<Rightarrow> s * 1000000000)"

definition list_request :: "host \<Rightarrow> string \<Rightarrow> string option \<Rightarrow> string \<Rightarrow> ListOptions \<Rightarrow> rest_request" where
  "list_request h path ns resource opts = (get_request h path ns resource None)
     \<lparr>rq_Selector := lo_LabelSelector opts, rq_Timeout := timeoutOf opts\<rparr>"

section \<open>KubeVirt: VirtualMachines and VirtualMachineInstances\<close>

definition dec_VM :: "api_object \<Rightarrow> VirtualMachine option" where
  "dec_VM x = (case x of OVM v \<Rightarrow> Some v | _ \<Rightarrow> None)"

definition VirtualMachines_Get ::
  "'e runtime \<Rightarrow> string \<Rightarrow> string \<Rightarrow> ('e world, VirtualMachine option \<times> gerr option) go" where
  "VirtualMachines_Get rt ns name =
     typed_get rt (get_request Infra kubevirtPath (Some ns) ''virtualmachines'' (Some name))
       zero_VirtualMachine dec_VM"

definition dec_VMI :: "api_object \<Rightarrow> VirtualMachineInstance option" where
  "dec_VMI x = (case x of OVMI v \<Rightarrow> Some v | _ \<Rightarrow> None)"

definition VirtualMachineInstances_Get ::
  "'e runtime \<Rightarrow> string \<Rightarrow> string \<Rightarrow> ('e world, VirtualMachineInstance option \<times> gerr option) go" where
  "VirtualMachineInstances_Get rt ns name =
     typed_get rt (get_request Infra kubevirtPath (Some ns) ''virtualmachineinstances'' (Some name))
       zero_VirtualMachineInstance dec_VMI"

definition dec_VMIList :: "api_object \<Rightarrow> VirtualMachineInstance list option" where
  "dec_VMIList x = (case x of OVMIList v \<Rightarrow> Some v | _ \<Rightarrow> None)"

definition VirtualMachineInstances_List ::
  "'e runtime \<Rightarrow> string \<Rightarrow> ListOptions \<Rightarrow> ('e world, VirtualMachineInstance list option \<times> gerr option) go" where
  "VirtualMachineInstances_List rt ns opts =
     typed_get rt (list_request Infra kubevirtPath (Some ns) ''virtualmachineinstances'' opts)
       [] dec_VMIList"

section \<open>CDI: DataVolumes\<close>

definition dec_DV :: "api_object \<Rightarrow> DataVolume option" where
  "dec_DV x = (case x of ODV v \<Rightarrow> Some v | _ \<Rightarrow> None)"

definition DataVolumes_Get ::
  "'e runtime \<Rightarrow> string \<Rightarrow> string \<Rightarrow> ('e world, DataVolume option \<times> gerr option) go" where
  "DataVolumes_Get rt ns name =
     typed_get rt (get_request Infra cdiPath (Some ns) ''datavolumes'' (Some name)) zero_DataVolume dec_DV"

definition DataVolumes_Create ::
  "'e runtime \<Rightarrow> string \<Rightarrow> DataVolume \<Rightarrow> ('e world, DataVolume option \<times> gerr option) go" where
  "DataVolumes_Create rt ns dv =
     typed_get rt ((get_request Infra cdiPath (Some ns) ''datavolumes'' None)
         \<lparr>rq_Verb := POST, rq_Body := BodyDV dv\<rparr>) zero_DataVolume dec_DV"

definition DataVolumes_Delete :: "'e runtime \<Rightarrow> string \<Rightarrow> string \<Rightarrow> ('e world, gerr option) go" where
  "DataVolumes_Delete rt ns name =
     bindG (rest_do rt ((get_request Infra cdiPath (Some ns) ''datavolumes'' (Some name))
         \<lparr>rq_Verb := DELETE\<rparr>)) (\<lambda>resp. ret (Error_of resp))"

section \<open>Snapshots and snapshot classes\<close>

definition dec_Snapshot :: "api_object \<Rightarrow> VolumeSnapshot option" where
  "dec_Snapshot x = (case x of OSnapshot v \<Rightarrow> Some v | _ \<Rightarrow> None)"

definition VolumeSnapshots_Get ::
  "'e runtime \<Rightarrow> string \<Rightarrow> string \<Rightarrow> ('e world, VolumeSnapshot option \<times> gerr option) go" where
  "VolumeSnapshots_Get rt ns name =
     typed_get rt (get_request Infra snapshotPath (Some ns) ''volumesnapshots'' (Some name))
       zero_VolumeSnapshot dec_Snapshot"

definition VolumeSnapshots_Create ::
  "'e runtime \<Rightarrow> string \<Rightarrow> VolumeSnapshot \<Rightarrow> ('e world, VolumeSnapshot option \<times> gerr option) go" where
  "VolumeSnapshots_Create rt ns snapshot =
     typed_get rt ((get_request Infra snapshotPath (Some ns) ''volumesnapshots'' None)
         \<lparr>rq_Verb := POST, rq_Body := BodySnapshot snapshot\<rparr>) zero_VolumeSnapshot dec_Snapshot"

definition VolumeSnapshots_Delete :: "'e runtime \<Rightarrow> string \<Rightarrow> string \<Rightarrow> ('e world, gerr option) go" where
  "VolumeSnapshots_Delete rt ns name =
     bindG (rest_do rt ((get_request Infra snapshotPath (Some ns) ''volumesnapshots'' (Some name))
         \<lparr>rq_Verb := DELETE\<rparr>)) (\<lambda>resp. ret (Error_of resp))"

definition dec_SnapshotList :: "api_object \<Rightarrow> VolumeSnapshot list option" where
  "dec_SnapshotList x = (case x of OSnapshotList v \<Rightarrow> Some v | _ \<Rightarrow> None)"

definition VolumeSnapshots_List ::
  "'e runtime \<Rightarrow> string \<Rightarrow> ListOptions \<Rightarrow> ('e world, VolumeSnapshot list option \<times> gerr option) go" where
  "VolumeSnapshots_List rt ns opts =
     typed_get rt (list_request Infra snapshotPath (Some ns) ''volumesnapshots'' opts) [] dec_SnapshotList"

definition dec_SnapshotClassList :: "api_object \<Rightarrow> VolumeSnapshotClass list option" where
  "dec_SnapshotClassList x = (case x of OSnapshotClassList v \<Rightarrow> Some v | _ \<Rightarrow> None)"

definition VolumeSnapshotClasses_List ::
  "'e runtime \<Rightarrow> host \<Rightarrow> ListOptions \<Rightarrow> ('e world, VolumeSnapshotClass list option \<times> gerr option) go" where
  "VolumeSnapshotClasses_List rt h opts =
     typed_get rt (list_request h snapshotPath None ''volumesnapshotclasses'' opts) [] dec_SnapshotClassList"

section \<open>Core: claims, volumes, version\<close>

text \<open>A JSON patch of one operation is \<open>BodyPatch op path value\<close>.\<close>

definition dec_PVC :: "api_object \<Rightarrow> PersistentVolumeClaim option" where
  "dec_PVC x = (case x of OPVC v \<Rightarrow> Some v | _ \<Rightarrow> None)"

text \<open>The core clients leave the namespace out when it is empty (\<open>NamespaceIfScoped\<close>).\<close>

definition scoped :: "string \<Rightarrow> string option" where
  "scoped ns = (if ns = '''' then None else Some ns)"

definition PersistentVolumeClaims_Get ::
  "'e runtime \<Rightarrow> string \<Rightarrow> string \<Rightarrow> ('e world, PersistentVolumeClaim option \<times> gerr option) go" where
  "PersistentVolumeClaims_Get rt ns name =
     typed_get rt (get_request Infra corePath (scoped ns) ''persistentvolumeclaims'' (Some name))
       zero_PersistentVolumeClaim dec_PVC"

definition PersistentVolumeClaims_Patch ::
  "'e runtime \<Rightarrow> string \<Rightarrow> string \<Rightarrow> rest_body
     \<Rightarrow> ('e world, PersistentVolumeClaim option \<times> gerr option) go" where
  "PersistentVolumeClaims_Patch rt ns name patch =
     typed_get rt ((get_request Infra corePath (scoped ns) ''persistentvolumeclaims'' (Some name))
         \<lparr>rq_Verb := PATCH, rq_Body := patch\<rparr>) zero_PersistentVolumeClaim dec_PVC"

definition dec_PV :: "api_object \<Rightarrow> PersistentVolume option" where
  "dec_PV x = (case x of OPV v \<Rightarrow> Some v | _ \<Rightarrow> None)"

definition PersistentVolumes_Get ::
  "'e runtime \<Rightarrow> string \<Rightarrow> ('e world, PersistentVolume option \<times> gerr option) go" where
  "PersistentVolumes_Get rt name =
     typed_get rt (get_request Infra corePath None ''persistentvolumes'' (Some name))
       zero_PersistentVolume dec_PV"

definition dec_Node :: "api_object \<Rightarrow> Node option" where
  "dec_Node x = (case x of ONode v \<Rightarrow> Some v | _ \<Rightarrow> None)"

definition Nodes_Get :: "'e runtime \<Rightarrow> host \<Rightarrow> string \<Rightarrow> ('e world, Node option \<times> gerr option) go" where
  "Nodes_Get rt h name =
     typed_get rt (get_request h corePath None ''nodes'' (Some name)) zero_Node dec_Node"

definition ServerVersion :: "'e runtime \<Rightarrow> host \<Rightarrow> ('e world, gerr option) go" where
  "ServerVersion rt h = bindG (rest_do rt (get_request h ''/version'' None '''' None))
     (\<lambda>resp. ret (case resp of Inl e \<Rightarrow> Some e | Inr OVersion \<Rightarrow> None
        | Inr _ \<Rightarrow> Some (PlainErr ''unable to parse the server version'')))"

section \<open>Lemmas\<close>

lemma sleep_world_log [simp]: "w_log (sleep_world rt d w) = w_log w"
  by (simp add: sleep_world_def)

lemma tick_world_log [simp]: "tick_world rt w = (t, w') \<Longrightarrow> w_log w' = w_log w"
  by (auto simp: tick_world_def split: prod.splits)

lemma rest_do_never_panics [simp, intro]: "never_panics (rest_do rt rq)"
  by (auto simp: never_panics_def rest_do_def split: option.splits prod.splits)

lemma typed_get_never_panics [simp, intro]: "never_panics (typed_get rt rq zero dec)"
  by (auto simp: typed_get_def Let_def split: prod.splits)

text \<open>
  The one way in which the log grows: a sent request and its answer.  \<open>rest_do\<close> appends one exchange
  or, for a request that was built wrongly, none.
\<close>

lemma rest_do_log:
  assumes "rest_do rt rq w = (r, w')"
  shows "(\<exists>resp. r = Ok resp \<and> request_error rq = None \<and> w_log w' = w_log w @ [(rq, resp)]) \<or>
         (\<exists>e. r = Ok (Inl e) \<and> request_error rq = Some e \<and> w' = w)"
  using assms by (auto simp: rest_do_def split: option.splits prod.splits)

lemma rest_do_memory:
  assumes "rest_do rt rq w = (r, w')"
  shows "w_mapping w' = w_mapping w \<and> w_populated w' = w_populated w"
  using assms by (auto simp: rest_do_def split: option.splits prod.splits)

lemma typed_getE:
  assumes "typed_get rt rq zero dec w = (r, w')"
  obtains result err resp where "r = Ok (Some result, err)" and "Into zero dec resp = (result, err)"
    and "rest_do rt rq w = (Ok resp, w')"
proof -
  obtain resp v where v: "rest_do rt rq w = (Ok resp, v)"
    using rest_do_never_panics by (rule never_panicsE)
  with assms that show thesis
    by (cases "Into zero dec resp") (auto simp: typed_get_def)
qed

text \<open>A typed call that succeeded had the object in the answer of the exchange it appended.\<close>

lemma typed_get_Ok:
  assumes "typed_get rt rq zero dec w = (Ok (p, None), w')"
  obtains x body where "p = Some x" and "dec body = Some x" and "w_log w' = w_log w @ [(rq, Inr body)]"
proof -
  from assms obtain result resp where p: "p = Some result" and into: "Into zero dec resp = (result, None)"
    and run: "rest_do rt rq w = (Ok resp, w')"
    by (auto elim: typed_getE)
  from into obtain body where "resp = Inr body" and "dec body = Some result"
    by (auto simp: Into_def split: sum.splits option.splits)
  with rest_do_log [OF run] p that show thesis by auto
qed

lemma typed_get_ptr: "typed_get rt rq zero dec w = (Ok (p, err), w') \<Longrightarrow> p \<noteq> None"
  by (auto elim: typed_getE)

text \<open>On an error the pointer is to the zero object.\<close>

lemma typed_get_err:
  assumes "typed_get rt rq zero dec w = (Ok (p, Some e), w')"
  shows "p = Some zero"
  using assms by (auto elim!: typed_getE simp: Into_def split: sum.splits option.splits)

text \<open>An error that says the object was not found came from the server.\<close>

lemma segment_error_plain: "segment_error what s = Some e \<Longrightarrow> \<not> IsNotFound (Some e)"
  by (auto simp: segment_error_def split: list.splits)

lemma subresources_error_plain: "subresources_error ss = Some e \<Longrightarrow> \<not> IsNotFound (Some e)"
  by (induction ss) (auto simp: segment_error_plain split: option.splits)

lemma request_error_plain: "request_error rq = Some e \<Longrightarrow> \<not> IsNotFound (Some e)"
  by (auto simp: request_error_def build_error_def namespace_error_def name_error_def preflight_error_def
      segment_error_plain subresources_error_plain split: option.splits if_splits)

lemma list_request_sel [simp]:
  "rq_Host (list_request h path ns resource opts) = h" "rq_Verb (list_request h path ns resource opts) = GET"
  "rq_Namespace (list_request h path ns resource opts) = ns"
  "rq_Resource (list_request h path ns resource opts) = resource"
  "rq_Name (list_request h path ns resource opts) = None"
  by (simp_all add: list_request_def get_request_def)

lemma list_request_zero [simp]:
  "list_request h path ns resource zero_ListOptions = get_request h path ns resource None"
  by (simp add: list_request_def zero_ListOptions_def timeoutOf_def get_request_def)

lemma typed_get_NotFound:
  assumes "typed_get rt rq zero dec w = (Ok (p, Some e), w')" and "IsNotFound (Some e)"
  shows "w_log w' = w_log w @ [(rq, Inl e)]"
proof -
  from assms(1) obtain result resp where into: "Into zero dec resp = (result, Some e)"
    and run: "rest_do rt rq w = (Ok resp, w')"
    by (auto elim!: typed_getE)
  with assms(2) have "resp = Inl e"
    by (auto simp: Into_def IsNotFound_def split: sum.splits option.splits)
  with rest_do_log [OF run] assms(2) show ?thesis
    by (auto dest: request_error_plain)
qed

lemma typed_get_log:
  assumes "typed_get rt rq zero dec w = (r, w')"
  shows "\<exists>l. w_log w' = w_log w @ l \<and> length l \<le> 1 \<and> (\<forall>x \<in> set l. fst x = rq)"
  using assms by (auto elim!: typed_getE dest!: rest_do_log)

lemma dec_simps [simp]:
  "dec_VM x = Some vm \<longleftrightarrow> x = OVM vm" "dec_VMI x = Some vmi \<longleftrightarrow> x = OVMI vmi"
  "dec_VMIList x = Some vmis \<longleftrightarrow> x = OVMIList vmis" "dec_DV x = Some dv \<longleftrightarrow> x = ODV dv"
  "dec_Snapshot x = Some s \<longleftrightarrow> x = OSnapshot s" "dec_SnapshotList x = Some ss \<longleftrightarrow> x = OSnapshotList ss"
  "dec_SnapshotClassList x = Some cs \<longleftrightarrow> x = OSnapshotClassList cs"
  "dec_PVC x = Some pvc \<longleftrightarrow> x = OPVC pvc" "dec_PV x = Some pv \<longleftrightarrow> x = OPV pv"
  "dec_Node x = Some node \<longleftrightarrow> x = ONode node"
  by (auto simp: dec_VM_def dec_VMI_def dec_VMIList_def dec_DV_def dec_Snapshot_def
      dec_SnapshotList_def dec_SnapshotClassList_def dec_PVC_def dec_PV_def dec_Node_def split: api_object.splits)

text \<open>How many exchanges of a kind the log holds, and what a request adds.\<close>

definition count :: "(rest_request \<Rightarrow> bool) \<Rightarrow> 'e world \<Rightarrow> nat" where
  "count P w = length (filter (\<lambda>x. P (fst x)) (w_log w))"

lemma costs_rest_do [costs_rules]: "(if P rq then 1 else 0) \<le> k \<Longrightarrow> costs (count P) k (rest_do rt rq)"
  by (auto simp: costs_def count_def rest_do_def split: option.splits prod.splits if_splits)

lemma costs_typed_get [costs_rules]:
  assumes "(if P rq then 1 else 0) \<le> k"
  shows "costs (count P) k (typed_get rt rq zero dec)"
  unfolding typed_get_def Let_def
proof (rule costs_bind)
  show "costs (count P) k (rest_do rt rq)" using assms by (rule costs_rest_do)
qed (auto intro!: costs_rules)

lemma count_sleep [simp]: "count P (sleep_world rt d w) = count P w"
  by (simp add: count_def)

lemma count_tick [simp]: "count P (snd (tick_world rt w)) = count P w"
  by (auto simp: count_def tick_world_def split: prod.splits)

text \<open>The log only grows, and only by requests of a kind.\<close>

definition only :: "(rest_request \<Rightarrow> bool) \<Rightarrow> 'e world \<Rightarrow> 'e world \<Rightarrow> bool" where
  "only P w w' \<longleftrightarrow> (\<exists>l. w_log w' = w_log w @ l \<and> (\<forall>x \<in> set l. P (fst x)))"

lemma only_reflp: "reflp (only P)"
  by (simp add: reflp_def only_def)

lemma only_transp: "transp (only P)"
  by (rule transpI) (fastforce simp: only_def)

lemmas only_basic = keeps_ret [OF only_reflp] keeps_deref [OF only_reflp] keeps_if keeps_case_prod
  keeps_case_option keeps_Let keeps_bind [OF only_transp]

lemma only_rest_do: "P rq \<Longrightarrow> keeps (only P) (rest_do rt rq)"
  by (rule keepsI) (auto simp: only_def dest!: rest_do_log)

lemma only_typed_get: "P rq \<Longrightarrow> keeps (only P) (typed_get rt rq zero dec)"
  unfolding typed_get_def Let_def by (intro only_basic only_rest_do)

lemma only_mono: "keeps (only P) m \<Longrightarrow> (\<And>rq. P rq \<Longrightarrow> Q rq) \<Longrightarrow> keeps (only Q) m"
  by (erule keeps_mono) (auto simp: only_def)

end
