(* ===== verification/Clientsets.thy ===== *)
theory Clientsets
  imports Rest_Clients
begin

text \<open>
  How the driver's API clients are built from a rest configuration: the generated clientsets for
  KubeVirt, CDI and snapshots (\<open>clientset.go\<close> and the group clients under \<open>src/pkg/generated\<close>), on top
  of the constructors of client-go.  What client-go decides by reading files and parsing URLs (the
  transport for a configuration, the server URL) is the record \<open>ClientGo\<close>, a parameter.

  The lemmas say which error comes first, and that the clients of one clientset address one server
  under one user agent, share one rate limiter and carry the group that their resources belong to.
\<close>

section \<open>Configurations and REST clients\<close>

text \<open>
  The fields of \<open>rest.Config\<close> that the code reads or sets; \<open>rc_Auth\<close> stands for the remaining ones
  (TLS and credentials), which are copied as they are.  A serializer is named by its scheme, a token
  bucket by its rate and size.
\<close>

record RestConfig =
  rc_Host :: string
  rc_APIPath :: string
  rc_GroupVersion :: "(string \<times> string) option"
  rc_NegotiatedSerializer :: "string option"
  rc_ContentType :: string
  rc_UserAgent :: string
  rc_QPS :: rat
  rc_Burst :: int
  rc_RateLimiter :: "(rat \<times> int) option"
  rc_Timeout :: nat
  rc_Auth :: string

record HTTPClient =
  hc_UserAgent :: string
  hc_Timeout :: nat
  hc_Auth :: string

record RESTClient =
  rs_Host :: string
  rs_APIPath :: string
  rs_GroupVersion :: "string \<times> string"
  rs_Serializer :: string
  rs_ContentType :: string
  rs_RateLimiter :: "(rat \<times> int) option"
  rs_Http :: HTTPClient

record ClientGo =
  cg_TransportFor :: "RestConfig \<Rightarrow> gerr option"
  cg_DefaultServerUrlFor :: "RestConfig \<Rightarrow> gerr option"
  cg_KubernetesNewForConfig :: "RestConfig \<Rightarrow> gerr option"
  cg_AddToScheme :: "gerr option"
  cg_DefaultKubernetesUserAgent :: string

definition HTTPClientFor :: "ClientGo \<Rightarrow> RestConfig \<Rightarrow> HTTPClient option \<times> gerr option" where
  "HTTPClientFor lib c = (case cg_TransportFor lib c of
       Some e \<Rightarrow> (None, Some e)
     | None \<Rightarrow> (Some \<lparr>hc_UserAgent = rc_UserAgent c, hc_Timeout = rc_Timeout c, hc_Auth = rc_Auth c\<rparr>, None))"

text \<open>The rate limiter of a REST client: the configured one, or one made from the rate and burst.\<close>

definition rateLimiterOf :: "RestConfig \<Rightarrow> (rat \<times> int) option" where
  "rateLimiterOf c = (case rc_RateLimiter c of
       Some r \<Rightarrow> Some r
     | None \<Rightarrow>
         let qps = (if rc_QPS c = 0 then 5 else rc_QPS c);
             burst = (if rc_Burst c = 0 then 10 else rc_Burst c)
         in if 0 < qps then Some (qps, burst) else None)"

definition contentTypeOf :: "RestConfig \<Rightarrow> string" where
  "contentTypeOf c = (if length (rc_ContentType c) = 0 then ''application/json'' else rc_ContentType c)"

definition RESTClientForConfigAndClient ::
  "ClientGo \<Rightarrow> RestConfig \<Rightarrow> HTTPClient \<Rightarrow> RESTClient option \<times> gerr option" where
  "RESTClientForConfigAndClient lib c h = (case rc_GroupVersion c of
       None \<Rightarrow> (None, Some (PlainErr ''GroupVersion is required when initializing a RESTClient''))
     | Some gv \<Rightarrow> (case rc_NegotiatedSerializer c of
           None \<Rightarrow> (None, Some (PlainErr ''NegotiatedSerializer is required when initializing a RESTClient''))
         | Some ser \<Rightarrow> (case cg_DefaultServerUrlFor lib c of
               Some e \<Rightarrow> (None, Some e)
             | None \<Rightarrow> (Some \<lparr>rs_Host = rc_Host c, rs_APIPath = rc_APIPath c, rs_GroupVersion = gv,
                 rs_Serializer = ser, rs_ContentType = contentTypeOf c,
                 rs_RateLimiter = rateLimiterOf c, rs_Http = h\<rparr>, None))))"

text \<open>Calling a constructor and returning its error: \<open>x, err := new(); if err != nil { return nil, err }\<close>.\<close>

definition try_new :: "'a option \<times> gerr option \<Rightarrow> ('a \<Rightarrow> 'b option \<times> gerr option) \<Rightarrow> 'b option \<times> gerr option" where
  "try_new r f = (case r of (Some x, None) \<Rightarrow> f x | (_, err) \<Rightarrow> (None, err))"

definition RESTClientFor :: "ClientGo \<Rightarrow> RestConfig \<Rightarrow> RESTClient option \<times> gerr option" where
  "RESTClientFor lib c =
     (if rc_GroupVersion c = None
        then (None, Some (PlainErr ''GroupVersion is required when initializing a RESTClient''))
      else if rc_NegotiatedSerializer c = None
        then (None, Some (PlainErr ''NegotiatedSerializer is required when initializing a RESTClient''))
      else case cg_DefaultServerUrlFor lib c of
          Some e \<Rightarrow> (None, Some e)
        | None \<Rightarrow> try_new (HTTPClientFor lib c) (RESTClientForConfigAndClient lib c))"

text \<open>The unversioned client of discovery.\<close>

definition UnversionedRESTClientForConfigAndClient ::
  "ClientGo \<Rightarrow> RestConfig \<Rightarrow> HTTPClient \<Rightarrow> RESTClient option \<times> gerr option" where
  "UnversionedRESTClientForConfigAndClient lib c h = (case rc_NegotiatedSerializer c of
       None \<Rightarrow> (None, Some (PlainErr ''NegotiatedSerializer is required when initializing a RESTClient''))
     | Some ser \<Rightarrow> (case cg_DefaultServerUrlFor lib c of
           Some e \<Rightarrow> (None, Some e)
         | None \<Rightarrow> (Some \<lparr>rs_Host = rc_Host c, rs_APIPath = rc_APIPath c,
             rs_GroupVersion = (case rc_GroupVersion c of None \<Rightarrow> (''meta.k8s.io'', ''v1'') | Some gv \<Rightarrow> gv),
             rs_Serializer = ser, rs_ContentType = contentTypeOf c,
             rs_RateLimiter = rateLimiterOf c, rs_Http = h\<rparr>, None)))"

definition withUserAgent :: "ClientGo \<Rightarrow> RestConfig \<Rightarrow> RestConfig" where
  "withUserAgent lib c =
     (if rc_UserAgent c = '''' then c\<lparr>rc_UserAgent := cg_DefaultKubernetesUserAgent lib\<rparr> else c)"

definition setDiscoveryDefaults :: "ClientGo \<Rightarrow> RestConfig \<Rightarrow> RestConfig" where
  "setDiscoveryDefaults lib c = withUserAgent lib
     (c\<lparr>rc_APIPath := '''', rc_GroupVersion := None,
        rc_Timeout := (if rc_Timeout c = 0 then 32 else rc_Timeout c),
        rc_Burst := (if rc_Burst c = 0 then 300 else rc_Burst c),
        rc_NegotiatedSerializer := Some ''discovery''\<rparr>)"

definition NewDiscoveryClientForConfigAndClient ::
  "ClientGo \<Rightarrow> RestConfig \<Rightarrow> HTTPClient \<Rightarrow> RESTClient option \<times> gerr option" where
  "NewDiscoveryClientForConfigAndClient lib c h =
     UnversionedRESTClientForConfigAndClient lib (setDiscoveryDefaults lib c) h"

section \<open>Group clients\<close>

text \<open>
  \<open>setConfigDefaults\<close> and \<open>NewForConfigAndClient\<close> of the three generated group clients, which
  differ in the group alone.
\<close>

definition setConfigDefaults :: "ClientGo \<Rightarrow> string \<times> string \<Rightarrow> string \<Rightarrow> RestConfig \<Rightarrow> RestConfig" where
  "setConfigDefaults lib gv codecs config = withUserAgent lib
     (config\<lparr>rc_GroupVersion := Some gv, rc_APIPath := ''/apis'', rc_NegotiatedSerializer := Some codecs\<rparr>)"

definition kubevirtv1_setConfigDefaults :: "ClientGo \<Rightarrow> RestConfig \<Rightarrow> RestConfig" where
  "kubevirtv1_setConfigDefaults lib = setConfigDefaults lib (''kubevirt.io'', ''v1'') ''kubevirt''"

definition cdiv1beta1_setConfigDefaults :: "ClientGo \<Rightarrow> RestConfig \<Rightarrow> RestConfig" where
  "cdiv1beta1_setConfigDefaults lib = setConfigDefaults lib (''cdi.kubevirt.io'', ''v1beta1'') ''cdi''"

definition snapshotv1_setConfigDefaults :: "ClientGo \<Rightarrow> RestConfig \<Rightarrow> RestConfig" where
  "snapshotv1_setConfigDefaults lib =
     setConfigDefaults lib (''snapshot.storage.k8s.io'', ''v1'') ''snapshot''"

text \<open>A group client is its REST client; \<open>RESTClient\<close> and \<open>New\<close> give and take it.\<close>

type_synonym group_client = RESTClient

definition kubevirtv1_NewForConfigAndClient ::
  "ClientGo \<Rightarrow> RestConfig \<Rightarrow> HTTPClient \<Rightarrow> group_client option \<times> gerr option" where
  "kubevirtv1_NewForConfigAndClient lib c h =
     RESTClientForConfigAndClient lib (kubevirtv1_setConfigDefaults lib c) h"

definition cdiv1beta1_NewForConfigAndClient ::
  "ClientGo \<Rightarrow> RestConfig \<Rightarrow> HTTPClient \<Rightarrow> group_client option \<times> gerr option" where
  "cdiv1beta1_NewForConfigAndClient lib c h =
     RESTClientForConfigAndClient lib (cdiv1beta1_setConfigDefaults lib c) h"

definition snapshotv1_NewForConfigAndClient ::
  "ClientGo \<Rightarrow> RestConfig \<Rightarrow> HTTPClient \<Rightarrow> group_client option \<times> gerr option" where
  "snapshotv1_NewForConfigAndClient lib c h =
     RESTClientForConfigAndClient lib (snapshotv1_setConfigDefaults lib c) h"

section \<open>Clientsets\<close>

record Clientset =
  kc_DiscoveryClient :: RESTClient
  kc_group :: group_client

text \<open>The body that the three generated clientsets share; \<open>new\<close> is the constructor of the group client.\<close>

definition sharedLimiter :: "RestConfig \<Rightarrow> gerr + RestConfig" where
  "sharedLimiter c =
     (if rc_RateLimiter c = None \<and> 0 < rc_QPS c then
        (if rc_Burst c \<le> 0 then Inl (PlainErr
             ''burst is required to be greater than 0 when RateLimiter is not set and QPS is set to greater than 0'')
         else Inr (c\<lparr>rc_RateLimiter := Some (rc_QPS c, rc_Burst c)\<rparr>))
      else Inr c)"

definition clientset_NewForConfigAndClient :: "ClientGo
    \<Rightarrow> (RestConfig \<Rightarrow> HTTPClient \<Rightarrow> group_client option \<times> gerr option) \<Rightarrow> RestConfig \<Rightarrow> HTTPClient
    \<Rightarrow> Clientset option \<times> gerr option" where
  "clientset_NewForConfigAndClient lib new c h = (case sharedLimiter c of
       Inl e \<Rightarrow> (None, Some e)
     | Inr config \<Rightarrow>
         try_new (new config h) (\<lambda>g.
         try_new (NewDiscoveryClientForConfigAndClient lib config h) (\<lambda>d.
           (Some \<lparr>kc_DiscoveryClient = d, kc_group = g\<rparr>, None))))"

definition clientset_NewForConfig :: "ClientGo
    \<Rightarrow> (RestConfig \<Rightarrow> HTTPClient \<Rightarrow> Clientset option \<times> gerr option) \<Rightarrow> RestConfig
    \<Rightarrow> Clientset option \<times> gerr option" where
  "clientset_NewForConfig lib newForConfigAndClient c =
     (let config = withUserAgent lib c
      in try_new (HTTPClientFor lib config) (newForConfigAndClient config))"

definition kubecli_NewForConfigAndClient ::
  "ClientGo \<Rightarrow> RestConfig \<Rightarrow> HTTPClient \<Rightarrow> Clientset option \<times> gerr option" where
  "kubecli_NewForConfigAndClient lib =
     clientset_NewForConfigAndClient lib (kubevirtv1_NewForConfigAndClient lib)"

definition kubecli_NewForConfig :: "ClientGo \<Rightarrow> RestConfig \<Rightarrow> Clientset option \<times> gerr option" where
  "kubecli_NewForConfig lib = clientset_NewForConfig lib (kubecli_NewForConfigAndClient lib)"

definition cdicli_NewForConfigAndClient ::
  "ClientGo \<Rightarrow> RestConfig \<Rightarrow> HTTPClient \<Rightarrow> Clientset option \<times> gerr option" where
  "cdicli_NewForConfigAndClient lib =
     clientset_NewForConfigAndClient lib (cdiv1beta1_NewForConfigAndClient lib)"

definition cdicli_NewForConfig :: "ClientGo \<Rightarrow> RestConfig \<Rightarrow> Clientset option \<times> gerr option" where
  "cdicli_NewForConfig lib = clientset_NewForConfig lib (cdicli_NewForConfigAndClient lib)"

definition snapcli_NewForConfigAndClient ::
  "ClientGo \<Rightarrow> RestConfig \<Rightarrow> HTTPClient \<Rightarrow> Clientset option \<times> gerr option" where
  "snapcli_NewForConfigAndClient lib =
     clientset_NewForConfigAndClient lib (snapshotv1_NewForConfigAndClient lib)"

definition snapcli_NewForConfig :: "ClientGo \<Rightarrow> RestConfig \<Rightarrow> Clientset option \<times> gerr option" where
  "snapcli_NewForConfig lib = clientset_NewForConfig lib (snapcli_NewForConfigAndClient lib)"

text \<open>
  The clientset of client-go for core resources: what it was built from.  The tag says for which of the
  two clusters the configuration was loaded; requests through the clientset carry it.
\<close>

record KubeClientset =
  kk_Host :: host
  kk_Config :: RestConfig

definition kubernetes_NewForConfig ::
  "ClientGo \<Rightarrow> host \<Rightarrow> RestConfig \<Rightarrow> KubeClientset option \<times> gerr option" where
  "kubernetes_NewForConfig lib h c = (case cg_KubernetesNewForConfig lib c of
       Some e \<Rightarrow> (None, Some e) | None \<Rightarrow> (Some \<lparr>kk_Host = h, kk_Config = c\<rparr>, None))"

section \<open>The other constructors\<close>

text \<open>
  \<open>NewForConfig\<close> of the group clients; \<open>NewForConfigOrDie\<close> of group clients and clientsets, which panics on an
  error; \<open>New\<close> from a REST client; the getters, which give nil for a nil receiver.
\<close>

definition group_NewForConfig :: "ClientGo \<Rightarrow> (RestConfig \<Rightarrow> RestConfig)
    \<Rightarrow> (RestConfig \<Rightarrow> HTTPClient \<Rightarrow> group_client option \<times> gerr option) \<Rightarrow> RestConfig \<Rightarrow> group_client option \<times> gerr option" where
  "group_NewForConfig lib defaults newForConfigAndClient c =
     (let config = defaults c in try_new (HTTPClientFor lib config) (newForConfigAndClient config))"

definition kubevirtv1_NewForConfig :: "ClientGo \<Rightarrow> RestConfig \<Rightarrow> group_client option \<times> gerr option" where
  "kubevirtv1_NewForConfig lib =
     group_NewForConfig lib (kubevirtv1_setConfigDefaults lib) (kubevirtv1_NewForConfigAndClient lib)"

definition cdiv1beta1_NewForConfig :: "ClientGo \<Rightarrow> RestConfig \<Rightarrow> group_client option \<times> gerr option" where
  "cdiv1beta1_NewForConfig lib =
     group_NewForConfig lib (cdiv1beta1_setConfigDefaults lib) (cdiv1beta1_NewForConfigAndClient lib)"

definition snapshotv1_NewForConfig :: "ClientGo \<Rightarrow> RestConfig \<Rightarrow> group_client option \<times> gerr option" where
  "snapshotv1_NewForConfig lib =
     group_NewForConfig lib (snapshotv1_setConfigDefaults lib) (snapshotv1_NewForConfigAndClient lib)"

definition orDie :: "'a option \<times> gerr option \<Rightarrow> 'a option outcome" where
  "orDie r = (case r of (x, Some e) \<Rightarrow> Panic (Error_string e) | (x, None) \<Rightarrow> Ok x)"

definition kubevirtv1_NewForConfigOrDie :: "ClientGo \<Rightarrow> RestConfig \<Rightarrow> group_client option outcome" where
  "kubevirtv1_NewForConfigOrDie lib c = orDie (kubevirtv1_NewForConfig lib c)"

definition cdiv1beta1_NewForConfigOrDie :: "ClientGo \<Rightarrow> RestConfig \<Rightarrow> group_client option outcome" where
  "cdiv1beta1_NewForConfigOrDie lib c = orDie (cdiv1beta1_NewForConfig lib c)"

definition snapshotv1_NewForConfigOrDie :: "ClientGo \<Rightarrow> RestConfig \<Rightarrow> group_client option outcome" where
  "snapshotv1_NewForConfigOrDie lib c = orDie (snapshotv1_NewForConfig lib c)"

definition kubecli_NewForConfigOrDie :: "ClientGo \<Rightarrow> RestConfig \<Rightarrow> Clientset option outcome" where
  "kubecli_NewForConfigOrDie lib c = orDie (kubecli_NewForConfig lib c)"

definition cdicli_NewForConfigOrDie :: "ClientGo \<Rightarrow> RestConfig \<Rightarrow> Clientset option outcome" where
  "cdicli_NewForConfigOrDie lib c = orDie (cdicli_NewForConfig lib c)"

definition snapcli_NewForConfigOrDie :: "ClientGo \<Rightarrow> RestConfig \<Rightarrow> Clientset option outcome" where
  "snapcli_NewForConfigOrDie lib c = orDie (snapcli_NewForConfig lib c)"

definition clientset_New :: "RESTClient \<Rightarrow> Clientset" where
  "clientset_New c = \<lparr>kc_DiscoveryClient = c, kc_group = c\<rparr>"

definition Discovery :: "Clientset option \<Rightarrow> RESTClient option" where
  "Discovery cs = map_option kc_DiscoveryClient cs"

section \<open>Lemmas\<close>

text \<open>What the configuration of a clientset's clients keeps of the one that was given.\<close>

lemma withUserAgent_fields [simp]:
  "rc_Host (withUserAgent lib c) = rc_Host c" "rc_Auth (withUserAgent lib c) = rc_Auth c"
  "rc_GroupVersion (withUserAgent lib c) = rc_GroupVersion c" "rc_APIPath (withUserAgent lib c) = rc_APIPath c"
  "rc_NegotiatedSerializer (withUserAgent lib c) = rc_NegotiatedSerializer c"
  "rc_RateLimiter (withUserAgent lib c) = rc_RateLimiter c" "rc_QPS (withUserAgent lib c) = rc_QPS c"
  "rc_Burst (withUserAgent lib c) = rc_Burst c" "rc_Timeout (withUserAgent lib c) = rc_Timeout c"
  by (simp_all add: withUserAgent_def)

lemma withUserAgent_agent: "rc_UserAgent (withUserAgent lib c) =
    (if rc_UserAgent c = '''' then cg_DefaultKubernetesUserAgent lib else rc_UserAgent c)"
  by (simp add: withUserAgent_def)

lemma try_new_Ok:
  "try_new r f = (Some y, None) \<longleftrightarrow> (\<exists>x. r = (Some x, None) \<and> f x = (Some y, None))"
  by (auto simp: try_new_def split: prod.splits option.splits)

lemma RESTClient_Ok:
  "RESTClientForConfigAndClient lib c h = (p, None) \<longleftrightarrow>
     (\<exists>gv ser. rc_GroupVersion c = Some gv \<and> rc_NegotiatedSerializer c = Some ser \<and>
        cg_DefaultServerUrlFor lib c = None \<and>
        p = Some \<lparr>rs_Host = rc_Host c, rs_APIPath = rc_APIPath c, rs_GroupVersion = gv, rs_Serializer = ser,
          rs_ContentType = contentTypeOf c, rs_RateLimiter = rateLimiterOf c, rs_Http = h\<rparr>)"
  by (auto simp: RESTClientForConfigAndClient_def split: option.splits)

lemma discovery_Ok:
  "NewDiscoveryClientForConfigAndClient lib c h = (p, None) \<Longrightarrow>
     \<exists>d. p = Some d \<and> rs_Host d = rc_Host c \<and> rs_Http d = h \<and> rs_APIPath d = '''' \<and>
       (\<forall>r. rc_RateLimiter c = Some r \<longrightarrow> rs_RateLimiter d = Some r)"
  by (auto simp: NewDiscoveryClientForConfigAndClient_def UnversionedRESTClientForConfigAndClient_def
      setDiscoveryDefaults_def rateLimiterOf_def split: option.splits)

lemma sharedLimiter_Inr:
  "sharedLimiter c = Inr c' \<Longrightarrow> rc_Host c' = rc_Host c \<and> rc_UserAgent c' = rc_UserAgent c \<and>
     (rc_RateLimiter c = None \<longrightarrow> 0 < rc_QPS c \<longrightarrow> rc_RateLimiter c' = Some (rc_QPS c, rc_Burst c)) \<and>
     (\<forall>r. rc_RateLimiter c = Some r \<longrightarrow> rc_RateLimiter c' = Some r)"
  by (auto simp: sharedLimiter_def split: if_splits)

text \<open>
  \<open>clientset_for lib c gv s\<close>: both clients of \<open>s\<close> speak to the server of \<open>c\<close> through one transport
  with the credentials of \<open>c\<close> and a non-default user agent only if \<open>c\<close> has one; the group client
  is that of the group \<open>gv\<close>; a rate that \<open>c\<close> sets limits both clients alike.
\<close>

definition clientset_for :: "ClientGo \<Rightarrow> RestConfig \<Rightarrow> string \<times> string \<Rightarrow> Clientset \<Rightarrow> bool" where
  "clientset_for lib c gv s \<longleftrightarrow>
     rs_GroupVersion (kc_group s) = gv \<and> rs_APIPath (kc_group s) = ''/apis'' \<and>
     rs_Host (kc_group s) = rc_Host c \<and> rs_Host (kc_DiscoveryClient s) = rc_Host c \<and>
     rs_Http (kc_DiscoveryClient s) = rs_Http (kc_group s) \<and>
     hc_UserAgent (rs_Http (kc_group s)) = rc_UserAgent (withUserAgent lib c) \<and>
     hc_Auth (rs_Http (kc_group s)) = rc_Auth c \<and>
     (0 < rc_QPS c \<or> rc_RateLimiter c \<noteq> None \<longrightarrow>
        rs_RateLimiter (kc_group s) = rs_RateLimiter (kc_DiscoveryClient s) \<and>
        rs_RateLimiter (kc_group s) = Some (case rc_RateLimiter c of Some r \<Rightarrow> r | None \<Rightarrow> (rc_QPS c, rc_Burst c)))"

lemma HTTPClientFor_Ok:
  "HTTPClientFor lib c = (p, None) \<longleftrightarrow> cg_TransportFor lib c = None \<and>
     p = Some \<lparr>hc_UserAgent = rc_UserAgent c, hc_Timeout = rc_Timeout c, hc_Auth = rc_Auth c\<rparr>"
  by (auto simp: HTTPClientFor_def split: option.splits)

lemma clientset_for_Ok:
  assumes "clientset_NewForConfig lib (clientset_NewForConfigAndClient lib
      (\<lambda>c. RESTClientForConfigAndClient lib (setConfigDefaults lib gv codecs c))) c = (Some s, None)"
  shows "clientset_for lib c gv s"
proof -
  let ?c = "withUserAgent lib c"
  let ?h = "\<lparr>hc_UserAgent = rc_UserAgent ?c, hc_Timeout = rc_Timeout c, hc_Auth = rc_Auth c\<rparr>"
  from assms obtain c' g d where lim: "sharedLimiter ?c = Inr c'"
    and g: "RESTClientForConfigAndClient lib (setConfigDefaults lib gv codecs c') ?h = (Some g, None)"
    and d: "NewDiscoveryClientForConfigAndClient lib c' ?h = (Some d, None)"
    and s: "s = \<lparr>kc_DiscoveryClient = d, kc_group = g\<rparr>"
    by (auto simp: clientset_NewForConfig_def clientset_NewForConfigAndClient_def try_new_Ok HTTPClientFor_Ok
        Let_def split: sum.splits)
  from sharedLimiter_Inr [OF lim] discovery_Ok [OF d] g s show ?thesis
    by (cases "rc_RateLimiter c")
      (auto simp: clientset_for_def RESTClient_Ok setConfigDefaults_def rateLimiterOf_def)
qed

lemma clientsets_Ok:
  "kubecli_NewForConfig lib c = (Some s, None) \<Longrightarrow> clientset_for lib c (''kubevirt.io'', ''v1'') s"
  "cdicli_NewForConfig lib c = (Some s, None) \<Longrightarrow> clientset_for lib c (''cdi.kubevirt.io'', ''v1beta1'') s"
  "snapcli_NewForConfig lib c = (Some s, None) \<Longrightarrow>
     clientset_for lib c (''snapshot.storage.k8s.io'', ''v1'') s"
  unfolding kubecli_NewForConfig_def cdicli_NewForConfig_def snapcli_NewForConfig_def
    kubecli_NewForConfigAndClient_def cdicli_NewForConfigAndClient_def snapcli_NewForConfigAndClient_def
    kubevirtv1_NewForConfigAndClient_def [abs_def] cdiv1beta1_NewForConfigAndClient_def [abs_def]
    snapshotv1_NewForConfigAndClient_def [abs_def] kubevirtv1_setConfigDefaults_def
    cdiv1beta1_setConfigDefaults_def snapshotv1_setConfigDefaults_def
  by (erule clientset_for_Ok)+

lemma group_NewForConfig_Ok:
  assumes "group_NewForConfig lib (setConfigDefaults lib gv codecs)
      (\<lambda>c. RESTClientForConfigAndClient lib (setConfigDefaults lib gv codecs c)) c = (g, None)"
  shows "\<exists>r. g = Some r \<and> rs_GroupVersion r = gv \<and> rs_APIPath r = ''/apis'' \<and> rs_Serializer r = codecs \<and>
    rs_Host r = rc_Host c \<and> hc_UserAgent (rs_Http r) = rc_UserAgent (withUserAgent lib c) \<and>
    hc_Auth (rs_Http r) = rc_Auth c"
  using assms unfolding group_NewForConfig_def Let_def HTTPClientFor_def RESTClientForConfigAndClient_def
  by (auto simp: try_new_def setConfigDefaults_def withUserAgent_agent split: option.splits)

text \<open>The group clients that \<open>NewForConfigOrDie\<close> returns are those of their group, for the server and the
  credentials of the configuration.\<close>

lemma group_clients_OrDie:
  "kubevirtv1_NewForConfigOrDie lib c = Ok g \<Longrightarrow>
     \<exists>r. g = Some r \<and> rs_GroupVersion r = (''kubevirt.io'', ''v1'') \<and> rs_Host r = rc_Host c \<and> hc_Auth (rs_Http r) = rc_Auth c"
  "cdiv1beta1_NewForConfigOrDie lib c = Ok g \<Longrightarrow>
     \<exists>r. g = Some r \<and> rs_GroupVersion r = (''cdi.kubevirt.io'', ''v1beta1'') \<and> rs_Host r = rc_Host c \<and>
       hc_Auth (rs_Http r) = rc_Auth c"
  "snapshotv1_NewForConfigOrDie lib c = Ok g \<Longrightarrow>
     \<exists>r. g = Some r \<and> rs_GroupVersion r = (''snapshot.storage.k8s.io'', ''v1'') \<and> rs_Host r = rc_Host c \<and>
       hc_Auth (rs_Http r) = rc_Auth c"
  unfolding kubevirtv1_NewForConfigOrDie_def cdiv1beta1_NewForConfigOrDie_def snapshotv1_NewForConfigOrDie_def
    kubevirtv1_NewForConfig_def cdiv1beta1_NewForConfig_def snapshotv1_NewForConfig_def
    kubevirtv1_NewForConfigAndClient_def [abs_def] cdiv1beta1_NewForConfigAndClient_def [abs_def]
    snapshotv1_NewForConfigAndClient_def [abs_def] kubevirtv1_setConfigDefaults_def
    cdiv1beta1_setConfigDefaults_def snapshotv1_setConfigDefaults_def orDie_def
  by (auto dest!: group_NewForConfig_Ok split: prod.splits option.splits)

end
