(* ===== verification/Wait_Loops.thy ===== *)
theory Wait_Loops
  imports Go_Prelude
begin

text \<open>
  The two retry loops of \<open>k8s.io/apimachinery/pkg/util/wait\<close> on which the driver's waiting rests.
  Durations are nanoseconds.  What happens while the process waits is not the driver's: sleeping
  changes the world by a function \<open>slp\<close>, and waiting for the next tick of a timer gives how late the
  tick came and the error of the caller's context, if that ended first (\<open>tick\<close>).  Both loops are
  total functions: the steps of a back-off decrease, and the time of a poll grows by at least its
  interval of one second, so that it passes the deadline.
\<close>

section \<open>ExponentialBackoff\<close>

definition Second :: nat where
  "Second = 1000000000"

definition Minute :: nat where
  "Minute = 60 * Second"

record Backoff =
  bo_Duration :: nat
  bo_Factor :: nat
  bo_Steps :: nat
  bo_Cap :: nat

text \<open>\<open>Backoff.Step\<close> without jitter: how long to sleep, and the back-off left.\<close>

definition Backoff_Step :: "Backoff \<Rightarrow> nat \<times> Backoff" where
  "Backoff_Step b =
     (if bo_Steps b < 1 then (bo_Duration b, b\<lparr>bo_Steps := 0\<rparr>)
      else let grown = bo_Duration b * bo_Factor b;
               capped = (bo_Factor b \<noteq> 0 \<and> 0 < bo_Cap b \<and> bo_Cap b < grown)
           in (bo_Duration b,
               b\<lparr>bo_Duration := (if bo_Factor b = 0 then bo_Duration b
                                 else if capped then bo_Cap b else grown),
                 bo_Steps := (if capped then 0 else bo_Steps b - 1)\<rparr>))"

function ExponentialBackoff ::
  "(nat \<Rightarrow> 'w \<Rightarrow> 'w) \<Rightarrow> Backoff \<Rightarrow> ('w, bool \<times> gerr option) go \<Rightarrow> ('w, gerr option) go" where
  "ExponentialBackoff slp b condition w =
     (if bo_Steps b = 0 then (Ok (Some ErrWaitTimeout), w)
      else case condition w of
          (Panic msg, w') \<Rightarrow> (Panic msg, w')
        | (Ok (ok, err), w') \<Rightarrow>
            if err \<noteq> None \<or> ok then (Ok err, w')
            else if bo_Steps b = 1 then (Ok (Some ErrWaitTimeout), w')
            else ExponentialBackoff slp (snd (Backoff_Step b)) condition
                   (slp (fst (Backoff_Step b)) w'))"
  by pat_completeness auto
termination
  by (relation "measure (\<lambda>(slp, b, condition, w). bo_Steps b)") (auto simp: Backoff_Step_def Let_def)

declare ExponentialBackoff.simps [simp del]

section \<open>PollUntilContextTimeout\<close>

text \<open>
  The loop of \<open>PollUntilContextTimeout(ctx, time.Second, timeout, true, condition)\<close> after the first,
  immediate call: wait for the next tick, stop when the caller's context or the deadline ended, else
  call the condition again.  \<open>elapsed\<close> is the time since the start; a tick comes no earlier than the
  interval after the one before it.
\<close>

function PollLoop ::
  "('w \<Rightarrow> (nat \<times> gerr option) \<times> 'w) \<Rightarrow> nat \<Rightarrow> nat \<Rightarrow> ('w, bool \<times> gerr option) go
     \<Rightarrow> ('w, gerr option) go" where
  "PollLoop tick timeout elapsed condition w =
     (case tick w of ((late, ctxErr), w') \<Rightarrow>
        let now = elapsed + Second + late in
        if ctxErr \<noteq> None then (Ok ctxErr, w')
        else if timeout \<le> now then (Ok (Some CtxDeadlineExceeded), w')
        else case condition w' of
            (Panic msg, w'') \<Rightarrow> (Panic msg, w'')
          | (Ok (ok, err), w'') \<Rightarrow>
              if err \<noteq> None \<or> ok then (Ok err, w'')
              else PollLoop tick timeout now condition w'')"
  by pat_completeness auto
termination
  by (relation "measure (\<lambda>(tick, timeout, elapsed, condition, w). timeout - elapsed)")
    (auto simp: Second_def)

declare PollLoop.simps [simp del]

definition PollUntilContextTimeout ::
  "('w \<Rightarrow> (nat \<times> gerr option) \<times> 'w) \<Rightarrow> nat \<Rightarrow> ('w, bool \<times> gerr option) go
     \<Rightarrow> ('w, gerr option) go" where
  "PollUntilContextTimeout tick timeout condition =
     bindG condition (\<lambda>(ok, err).
       if err \<noteq> None \<or> ok then ret err
       else PollLoop tick timeout 0 condition)"

section \<open>What a poll waits for\<close>

text \<open>
  The world after \<open>k\<close> rounds in which the condition said "not yet" and the next tick came, and the time
  that the last tick came at; \<open>None\<close> when a round went otherwise.
\<close>

fun waits :: "('w \<Rightarrow> (nat \<times> gerr option) \<times> 'w) \<Rightarrow> ('w, bool \<times> gerr option) go \<Rightarrow> nat \<Rightarrow> nat \<Rightarrow> 'w
    \<Rightarrow> (nat \<times> 'w) option" where
  "waits tick condition 0 t w = Some (t, w)"
| "waits tick condition (Suc k) t w = (case condition w of
       (Ok (False, None), v) \<Rightarrow> (case tick v of
           ((late, None), u) \<Rightarrow> waits tick condition k (t + Second + late) u
         | _ \<Rightarrow> None)
     | _ \<Rightarrow> None)"

text \<open>The condition holds after some rounds, at the start or before the deadline.\<close>

definition holds_in_time :: "('w \<Rightarrow> (nat \<times> gerr option) \<times> 'w) \<Rightarrow> ('w, bool \<times> gerr option) go \<Rightarrow> nat \<Rightarrow> nat
    \<Rightarrow> 'w \<Rightarrow> 'w \<Rightarrow> bool" where
  "holds_in_time tick condition timeout t w w' \<longleftrightarrow> (\<exists>k t' v. waits tick condition k t w = Some (t', v) \<and>
     (k = 0 \<or> t' < timeout) \<and> condition v = (Ok (True, None), w'))"

section \<open>Lemmas\<close>

lemma Backoff_Step_steps: "0 < bo_Steps b \<Longrightarrow> bo_Steps (snd (Backoff_Step b)) < bo_Steps b"
  by (auto simp: Backoff_Step_def Let_def)

text \<open>
  What a loop returned is what the last call of its condition returned, or the timeout; an invariant
  of the condition and of the waiting holds whenever the condition is called.
\<close>

definition last_call ::
  "('w \<Rightarrow> bool) \<Rightarrow> ('w, bool \<times> gerr option) go \<Rightarrow> gerr set \<Rightarrow> gerr option outcome \<Rightarrow> 'w \<Rightarrow> bool" where
  "last_call I condition timeouts r w' \<longleftrightarrow> (case r of
       Ok None \<Rightarrow> \<exists>v. I v \<and> condition v = (Ok (True, None), w')
     | Ok (Some e) \<Rightarrow> e \<in> timeouts \<or> (\<exists>v ok. I v \<and> condition v = (Ok (ok, Some e), w'))
     | Panic msg \<Rightarrow> \<exists>v. I v \<and> condition v = (Panic msg, w'))"

lemma last_call_done:
  "I v \<Longrightarrow> condition v = (Ok (ok, err), w') \<Longrightarrow> err \<noteq> None \<or> ok \<Longrightarrow>
   last_call I condition T (Ok err) w'"
  by (auto simp: last_call_def split: option.splits)

lemma last_call_panic:
  "I v \<Longrightarrow> condition v = (Panic msg, w') \<Longrightarrow> last_call I condition T (Panic msg) w'"
  by (auto simp: last_call_def)

lemma last_call_timeout: "e \<in> T \<Longrightarrow> last_call I condition T (Ok (Some e)) w'"
  by (simp add: last_call_def)

lemma ExponentialBackoff_last_call:
  assumes "\<And>v r v'. I v \<Longrightarrow> condition v = (r, v') \<Longrightarrow> I v'" and "\<And>d v. I v \<Longrightarrow> I (slp d v)"
  shows "I w \<Longrightarrow> ExponentialBackoff slp b condition w = (r, w') \<Longrightarrow>
         I w' \<and> last_call I condition {ErrWaitTimeout} r w'"
proof (induction "bo_Steps b" arbitrary: b w rule: less_induct)
  case less
  obtain c v where c: "condition w = (c, v)" by fastforce
  with less.prems(1) assms(1) have v: "I v" by blast
  show ?case
  proof (cases "bo_Steps b = 0")
    case True
    with less.prems show ?thesis
      by (auto simp: ExponentialBackoff.simps [of slp b] last_call_timeout)
  next
    case pos: False
    show ?thesis
    proof (cases "c = Ok (False, None) \<and> bo_Steps b \<noteq> 1")
      case True
      with pos c less.prems(2) have rec:
        "ExponentialBackoff slp (snd (Backoff_Step b)) condition (slp (fst (Backoff_Step b)) v) = (r, w')"
        by (auto simp: ExponentialBackoff.simps [of slp b])
      have "bo_Steps (snd (Backoff_Step b)) < bo_Steps b"
        using pos by (simp add: Backoff_Step_steps)
      then show ?thesis
        by (rule less.hyps [OF _ assms(2) [OF v] rec])
    next
      case False
      with pos c less.prems(2) have "w' = v"
        and "(\<exists>ok err. c = Ok (ok, err) \<and> (err \<noteq> None \<or> ok) \<and> r = Ok err) \<or>
          r = Ok (Some ErrWaitTimeout) \<or> (\<exists>msg. c = Panic msg \<and> r = Panic msg)"
        by (cases c; fastforce simp: ExponentialBackoff.simps [of slp b] split: if_splits)+
      with c v show ?thesis
        using last_call_done [of I w condition _ _ v, OF less.prems(1)]
          last_call_panic [of I w condition _ v, OF less.prems(1)]
        by (auto simp: last_call_timeout)
    qed
  qed
qed

lemma ExponentialBackoff_panic:
  "bo_Steps b \<noteq> 0 \<Longrightarrow> fst (condition w) = Panic msg \<Longrightarrow>
   fst (ExponentialBackoff slp b condition w) = Panic msg"
  by (cases "condition w") (simp add: ExponentialBackoff.simps [of slp b])

lemma keeps_ExponentialBackoff:
  assumes "reflp R" and "transp R" and "keeps R condition" and "\<And>d w. R w (slp d w)"
  shows "keeps R (ExponentialBackoff slp b condition)"
proof (rule keepsI)
  fix w r w'
  assume "ExponentialBackoff slp b condition w = (r, w')"
  then show "R w w'"
    using ExponentialBackoff_last_call [of "R w" condition slp w b r w'] assms
    by (blast dest: keepsD reflpD transpD)
qed

lemma ExponentialBackoff_calls:
  assumes cond: "\<And>v. sz (snd (condition v)) \<le> sz v + k" and slp: "\<And>d v. sz (slp d v) \<le> (sz v :: nat)"
  shows "sz (snd (ExponentialBackoff slp b condition w)) \<le> sz w + k * bo_Steps b"
proof (induction "bo_Steps b" arbitrary: b w rule: less_induct)
  case less
  obtain c v where c: "condition w = (c, v)" by fastforce
  with cond [of w] have v: "sz v \<le> sz w + k" by simp
  show ?case
  proof (cases "bo_Steps b = 0")
    case True
    then show ?thesis by (simp add: ExponentialBackoff.simps [of slp b])
  next
    case False
    then have lt: "bo_Steps (snd (Backoff_Step b)) < bo_Steps b"
      by (simp add: Backoff_Step_steps)
    let ?w = "slp (fst (Backoff_Step b)) v"
    have "sz (snd (ExponentialBackoff slp (snd (Backoff_Step b)) condition ?w))
        \<le> sz ?w + k * bo_Steps (snd (Backoff_Step b))"
      using less.hyps [OF lt] .
    also have "\<dots> \<le> sz v + k * (bo_Steps b - 1)"
      using lt by (intro add_le_mono mult_le_mono2 slp) simp
    also have "\<dots> \<le> sz w + k + k * (bo_Steps b - 1)"
      using v by simp
    also have "\<dots> = sz w + k * bo_Steps b"
      using False by (cases "bo_Steps b") auto
    finally have rec: "sz (snd (ExponentialBackoff slp (snd (Backoff_Step b)) condition ?w))
        \<le> sz w + k * bo_Steps b" .
    moreover have "sz v \<le> sz w + k * bo_Steps b"
      using v False by (cases "bo_Steps b") auto
    ultimately show ?thesis
      using False c
      by (cases c) (auto simp: ExponentialBackoff.simps [of slp b])
  qed
qed

lemma PollLoop_last_call:
  assumes "\<And>v r v'. I v \<Longrightarrow> condition v = (r, v') \<Longrightarrow> I v'"
    and "\<And>v late err v'. I v \<Longrightarrow> tick v = ((late, err), v') \<Longrightarrow> I v'"
  shows "I w \<Longrightarrow> PollLoop tick timeout elapsed condition w = (r, w') \<Longrightarrow>
         I w' \<and> last_call I condition UNIV r w'"
proof (induction "timeout - elapsed" arbitrary: elapsed w rule: less_induct)
  case less
  obtain late ctxErr u where u: "tick w = ((late, ctxErr), u)" by (metis prod.exhaust)
  with less.prems(1) assms(2) have Iu: "I u" by blast
  let ?now = "elapsed + Second + late"
  show ?case
  proof (cases "ctxErr \<noteq> None \<or> timeout \<le> ?now")
    case True
    with u Iu less.prems(2) show ?thesis
      by (auto simp: PollLoop.simps [of tick timeout elapsed] last_call_timeout Let_def split: if_splits)
  next
    case run: False
    obtain c v where c: "condition u = (c, v)" by fastforce
    with Iu assms(1) have v: "I v" by blast
    show ?thesis
    proof (cases "c = Ok (False, None)")
      case True
      with run u c less.prems(2) have rec: "PollLoop tick timeout ?now condition v = (r, w')"
        by (simp add: PollLoop.simps [of tick timeout elapsed] Let_def)
      have "timeout - ?now < timeout - elapsed"
        using run by (auto simp: Second_def)
      then show ?thesis
        by (rule less.hyps [OF _ v rec])
    next
      case False
      with run u c less.prems(2) have "w' = v"
        and "(\<exists>ok err. c = Ok (ok, err) \<and> (err \<noteq> None \<or> ok) \<and> r = Ok err) \<or>
          (\<exists>msg. c = Panic msg \<and> r = Panic msg)"
        by (cases c; fastforce simp: PollLoop.simps [of tick timeout elapsed] Let_def split: if_splits)+
      with c v show ?thesis
        using last_call_done [of I u condition _ _ v, OF Iu] last_call_panic [of I u condition _ v, OF Iu]
        by auto
    qed
  qed
qed

lemma PollUntilContextTimeout_last_call:
  assumes cond: "\<And>v r v'. I v \<Longrightarrow> condition v = (r, v') \<Longrightarrow> I v'"
    and tick: "\<And>v late err v'. I v \<Longrightarrow> tick v = ((late, err), v') \<Longrightarrow> I v'"
    and I: "I w" and run: "PollUntilContextTimeout tick timeout condition w = (r, w')"
  shows "I w' \<and> last_call I condition UNIV r w'"
proof -
  obtain c v where c: "condition w = (c, v)" by fastforce
  with I cond have v: "I v" by blast
  show ?thesis
  proof (cases "c = Ok (False, None)")
    case True
    with run c have "PollLoop tick timeout 0 condition v = (r, w')"
      by (simp add: PollUntilContextTimeout_def)
    with PollLoop_last_call [of I condition tick v timeout 0 r w'] cond tick v
    show ?thesis by blast
  next
    case False
    with run c have "w' = v"
      and "(\<exists>ok err. c = Ok (ok, err) \<and> (err \<noteq> None \<or> ok) \<and> r = Ok err) \<or>
        (\<exists>msg. c = Panic msg \<and> r = Panic msg)"
      by (cases c; fastforce simp: PollUntilContextTimeout_def split: if_splits)+
    with c v show ?thesis
      using last_call_done [of I w condition _ _ v, OF I] last_call_panic [of I w condition _ v, OF I]
      by auto
  qed
qed

lemma keeps_PollUntilContextTimeout:
  assumes "reflp R" and "transp R" and "keeps R condition"
    and "\<And>w late err w'. tick w = ((late, err), w') \<Longrightarrow> R w w'"
  shows "keeps R (PollUntilContextTimeout tick timeout condition)"
proof (rule keepsI)
  fix w r w'
  assume "PollUntilContextTimeout tick timeout condition w = (r, w')"
  then show "R w w'"
    using PollUntilContextTimeout_last_call [of "R w" condition tick w timeout r w'] assms
    by (blast dest: keepsD reflpD transpD)
qed

lemma Second_pos [simp]: "0 < Second"
  by (simp add: Second_def)

lemma poll_budget:
  assumes "elapsed + Second + late < timeout"
  shows "k + k * ((timeout - (elapsed + Second + late) - 1) div Second)
       \<le> k * ((timeout - elapsed - 1) div Second)"
proof -
  let ?a = "timeout - (elapsed + Second + late) - 1" and ?b = "timeout - elapsed - 1"
  have "?a + Second \<le> ?b" using assms by simp
  then have "(?a + Second) div Second \<le> ?b div Second" by (rule div_le_mono)
  then have "Suc (?a div Second) \<le> ?b div Second" by simp
  then show ?thesis
    by (metis mult_Suc_right mult_le_mono2)
qed

lemma PollLoop_calls:
  assumes cond: "\<And>v. sz (snd (condition v)) \<le> sz v + k" and tick: "\<And>v. sz (snd (tick v)) \<le> (sz v :: nat)"
  shows "sz (snd (PollLoop tick timeout elapsed condition w))
       \<le> sz w + k * ((timeout - elapsed - 1) div Second)"
proof (induction "timeout - elapsed" arbitrary: elapsed w rule: less_induct)
  case less
  obtain late ctxErr u where u: "tick w = ((late, ctxErr), u)" by (metis prod.exhaust)
  with tick [of w] have szu: "sz u \<le> sz w" by simp
  let ?now = "elapsed + Second + late"
  show ?case
  proof (cases "ctxErr \<noteq> None \<or> timeout \<le> ?now")
    case True
    with u szu show ?thesis
      by (auto simp: PollLoop.simps [of tick timeout elapsed] Let_def)
  next
    case run: False
    then have lt: "?now < timeout" and none: "ctxErr = None" by auto
    obtain c v where c: "condition u = (c, v)" by fastforce
    with cond [of u] szu have v: "sz v \<le> sz w + k" by simp
    have less: "timeout - ?now < timeout - elapsed"
      using lt by (simp add: Second_def)
    have "sz (snd (PollLoop tick timeout ?now condition v)) \<le> sz v + k * ((timeout - ?now - 1) div Second)"
      by (rule less.hyps [OF less])
    also have "\<dots> \<le> sz w + k * ((timeout - elapsed - 1) div Second)"
      using v poll_budget [OF lt, of k] by linarith
    finally have rec: "sz (snd (PollLoop tick timeout ?now condition v))
        \<le> sz w + k * ((timeout - elapsed - 1) div Second)" .
    moreover have "sz v \<le> sz w + k * ((timeout - elapsed - 1) div Second)"
      using v poll_budget [OF lt, of k] by linarith
    ultimately show ?thesis
      using lt none u c
      by (cases c) (auto simp: PollLoop.simps [of tick timeout elapsed] Let_def)
  qed
qed

text \<open>A poll of \<open>timeout\<close> calls its condition at most \<open>1 + (timeout - 1) div Second\<close> times.\<close>

lemma PollUntilContextTimeout_calls:
  assumes cond: "\<And>v. sz (snd (condition v)) \<le> sz v + k" and tick: "\<And>v. sz (snd (tick v)) \<le> (sz v :: nat)"
  shows "sz (snd (PollUntilContextTimeout tick timeout condition w))
       \<le> sz w + k * (1 + (timeout - 1) div Second)"
proof -
  obtain c v where c: "condition w = (c, v)" by fastforce
  with cond [of w] have v: "sz v \<le> sz w + k" by simp
  have "sz (snd (PollLoop tick timeout 0 condition v)) \<le> sz v + k * ((timeout - 1) div Second)"
    using PollLoop_calls [of sz condition k tick timeout 0 v, OF cond tick] by simp
  with v have "sz (snd (PollLoop tick timeout 0 condition v)) \<le> sz w + k * (1 + (timeout - 1) div Second)"
    by simp
  with v c show ?thesis
    by (cases c) (auto simp: PollUntilContextTimeout_def split: if_splits)
qed

lemma costs_ExponentialBackoff:
  assumes "costs sz k condition" and "\<And>d w. sz (slp d w) \<le> sz w" and "k * bo_Steps b \<le> n"
  shows "costs sz n (ExponentialBackoff slp b condition)"
  unfolding costs_def
proof
  fix w
  have "sz (snd (ExponentialBackoff slp b condition w)) \<le> sz w + k * bo_Steps b"
    using assms(1,2) by (intro ExponentialBackoff_calls) (auto simp: costs_def)
  with assms(3) show "sz (snd (ExponentialBackoff slp b condition w)) \<le> sz w + n" by linarith
qed

lemma costs_PollUntilContextTimeout:
  assumes "costs sz k condition" and "\<And>w. sz (snd (tick w)) \<le> sz w"
    and "k * (1 + (timeout - 1) div Second) \<le> n"
  shows "costs sz n (PollUntilContextTimeout tick timeout condition)"
  unfolding costs_def
proof
  fix w
  have "sz (snd (PollUntilContextTimeout tick timeout condition w))
      \<le> sz w + k * (1 + (timeout - 1) div Second)"
    using assms(1,2) by (intro PollUntilContextTimeout_calls) (auto simp: costs_def)
  with assms(3) show "sz (snd (PollUntilContextTimeout tick timeout condition w)) \<le> sz w + n" by linarith
qed

lemma waits_later: "waits tick condition k t w = Some (t', v) \<Longrightarrow> t \<le> t'"
  by (induction k arbitrary: t w) (fastforce split: prod.splits outcome.splits option.splits bool.splits)+


lemma holds_in_time_now:
  "condition w = (c, v) \<Longrightarrow> c \<noteq> Ok (False, None) \<Longrightarrow>
   holds_in_time tick condition timeout t w w' \<longleftrightarrow> c = Ok (True, None) \<and> v = w'"
proof -
  assume c: "condition w = (c, v)" "c \<noteq> Ok (False, None)"
  have "waits tick condition (Suc k) t w = None" for k
    using c by (auto split: outcome.splits prod.splits bool.splits option.splits)
  then have "waits tick condition k t w = Some x \<Longrightarrow> k = 0" for k x by (cases k) auto
  with c(1) show ?thesis by (fastforce simp: holds_in_time_def intro: exI [of _ 0])
qed

lemma holds_in_time_later:
  assumes c: "condition w = (Ok (False, None), v)" and u: "tick v = ((late, err), u)"
  shows "holds_in_time tick condition timeout t w w' \<longleftrightarrow>
    err = None \<and> t + Second + late < timeout \<and> holds_in_time tick condition timeout (t + Second + late) u w'"
    (is "?L \<longleftrightarrow> ?R")
proof
  assume ?L
  then obtain k t' x where k: "waits tick condition k t w = Some (t', x)" "k = 0 \<or> t' < timeout"
    "condition x = (Ok (True, None), w')" unfolding holds_in_time_def by blast
  from k c obtain j where j: "k = Suc j" by (cases k) auto
  with k c u have "err = None" and rest: "waits tick condition j (t + Second + late) u = Some (t', x)"
    by (auto split: option.splits)
  moreover from j k(2) have "t' < timeout" by simp
  ultimately show ?R using waits_later [OF rest] k(3) unfolding holds_in_time_def by auto
next
  assume R: ?R
  then obtain k t' x where k: "waits tick condition k (t + Second + late) u = Some (t', x)" "k = 0 \<or> t' < timeout"
    "condition x = (Ok (True, None), w')" unfolding holds_in_time_def by blast
  from k R have "t' < timeout" by (cases k) auto
  moreover from R k(1) c u have "waits tick condition (Suc k) t w = Some (t', x)" by simp
  ultimately show ?L using k(3) unfolding holds_in_time_def by blast
qed

lemma PollLoop_iff:
  assumes "condition w = (Ok (False, None), v)"
  shows "PollLoop tick timeout elapsed condition v = (Ok None, w') \<longleftrightarrow>
    holds_in_time tick condition timeout elapsed w w'"
  using assms
proof (induction "timeout - elapsed" arbitrary: elapsed w v rule: less_induct)
  case less
  obtain late err u where u: "tick v = ((late, err), u)" by (metis prod.exhaust)
  note later = holds_in_time_later [of condition w v tick late err u, OF less.prems u]
  let ?now = "elapsed + Second + late"
  obtain c x where c: "condition u = (c, x)" by fastforce
  show ?case
  proof (cases "err \<noteq> None \<or> timeout \<le> ?now")
    case True
    with u later show ?thesis by (auto simp: PollLoop.simps [of tick timeout elapsed] Let_def)
  next
    case run: False
    show ?thesis
    proof (cases "c = Ok (False, None)")
      case True
      have "PollLoop tick timeout elapsed condition v = PollLoop tick timeout ?now condition x"
        using run u c True by (simp add: PollLoop.simps [of tick timeout elapsed] Let_def)
      also have "\<dots> = (Ok None, w') \<longleftrightarrow> holds_in_time tick condition timeout ?now u w'"
        using run c True by (intro less.hyps) (auto simp: Second_def)
      finally show ?thesis using run later by auto
    next
      case False
      have "PollLoop tick timeout elapsed condition v = (Ok None, w') \<longleftrightarrow> c = Ok (True, None) \<and> x = w'"
        using run u c False
        by (cases c) (auto simp: PollLoop.simps [of tick timeout elapsed] Let_def split: if_splits prod.splits)
      with run later holds_in_time_now [of condition, OF c False] show ?thesis by auto
    qed
  qed
qed

text \<open>A poll succeeds exactly when its condition holds at the start or at a tick before the deadline.\<close>

lemma PollUntilContextTimeout_iff:
  "PollUntilContextTimeout tick timeout condition w = (Ok None, w') \<longleftrightarrow>
     holds_in_time tick condition timeout 0 w w'"
proof -
  obtain c v where c: "condition w = (c, v)" by fastforce
  show ?thesis
  proof (cases "c = Ok (False, None)")
    case True
    with c PollLoop_iff [of condition w v] show ?thesis by (simp add: PollUntilContextTimeout_def)
  next
    case False
    then have "PollUntilContextTimeout tick timeout condition w = (Ok None, w') \<longleftrightarrow> c = Ok (True, None) \<and> v = w'"
      using c by (cases c) (auto simp: PollUntilContextTimeout_def split: if_splits)
    with holds_in_time_now [of condition, OF c False] show ?thesis by simp
  qed
qed

end
