(* ===== verification/Infra_Client.thy ===== *)
theory Infra_Client
  imports Clientsets Wait_Loops
begin

text \<open>
  The infra-cluster client of \<open>src/pkg/kubevirt/client.go\<close>: the type \<open>client\<close> with every method of the
  interface \<open>Client\<close>.  Its fields that never change are the record \<open>client\<close>; the lazily built mapping
  of snapshot classes, which a mutex protects, is in the world (\<open>w_mapping\<close>, \<open>w_populated\<close>).

  The lemmas say which requests each method may send and after which answers (\<open>guarded\<close>, the
  basis of the isolation of tenants that share a namespace), what a successful answer of each
  method rests on, how many requests it sends, and that only a nil template makes it panic.
\<close>

section \<open>The client object\<close>

record 'e client =
  cl_rt :: "'e runtime"
  cl_storageClassEnforcement :: StorageClassEnforcement
  cl_infraLabelMap :: "string gomap"
  cl_volumePrefix :: string

text \<open>
  The API clients that the struct holds: built from the infra configuration, or given (the tenant's).
  Through them the methods exchange requests with the two clusters; that exchange is \<open>cl_rt\<close>.
\<close>

record ApiClients =
  ac_restClient :: RESTClient
  ac_infraKubernetesClient :: KubeClientset
  ac_virtClient :: Clientset
  ac_cdiClient :: Clientset
  ac_infraSnapClient :: Clientset
  ac_tenantKubernetesClient :: KubeClientset
  ac_tenantSnapClient :: Clientset

text \<open>
  \<open>NewClient\<close>: \<open>dial\<close> is the exchange that a set of API clients gives.  The configuration is a pointer:
  the last component of the result is what it points to afterwards.
\<close>

definition subresourceConfig :: "RestConfig \<Rightarrow> RestConfig" where
  "subresourceConfig infraConfig = infraConfig\<lparr>rc_GroupVersion := Some (''kubevirt.io'', ''v1''),
     rc_NegotiatedSerializer := Some ''core'', rc_APIPath := ''/apis'', rc_ContentType := ''application/json''\<rparr>"

definition NewClient :: "ClientGo \<Rightarrow> (ApiClients \<Rightarrow> 'e runtime) \<Rightarrow> RestConfig \<Rightarrow> string gomap
    \<Rightarrow> KubeClientset \<Rightarrow> Clientset \<Rightarrow> StorageClassEnforcement \<Rightarrow> string
    \<Rightarrow> ('e client option \<times> gerr option) \<times> RestConfig" where
  "NewClient lib dial infraConfig infraClusterLabelMap tenantKubernetesClient tenantSnapshotClient
      enforcement pfx =
     (case cg_AddToScheme lib of
        Some e \<Rightarrow> ((None, Some e), infraConfig)
      | None \<Rightarrow>
          let infraConfig' = withUserAgent lib infraConfig
          in (try_new (RESTClientFor lib (subresourceConfig infraConfig)) (\<lambda>restClient.
              try_new (kubernetes_NewForConfig lib Infra infraConfig') (\<lambda>clientset.
              try_new (kubecli_NewForConfig lib infraConfig') (\<lambda>kubevirtClient.
              try_new (cdicli_NewForConfig lib infraConfig') (\<lambda>cdiClient.
              try_new (snapcli_NewForConfig lib infraConfig') (\<lambda>snapClient.
                (Some \<lparr>cl_rt = dial \<lparr>ac_restClient = restClient, ac_infraKubernetesClient = clientset,
                          ac_virtClient = kubevirtClient, ac_cdiClient = cdiClient,
                          ac_infraSnapClient = snapClient,
                          ac_tenantKubernetesClient = tenantKubernetesClient,
                          ac_tenantSnapClient = tenantSnapshotClient\<rparr>,
                       cl_storageClassEnforcement = enforcement,
                       cl_infraLabelMap = infraClusterLabelMap,
                       cl_volumePrefix = pfx @ ''-''\<rparr>, None)))))), infraConfig'))"

fun containsLabels :: "string gomap \<Rightarrow> string gomap \<Rightarrow> bool" where
  "containsLabels a [] = True"
| "containsLabels a ((k, v) # b) = (if map_get a k \<noteq> v then False else containsLabels a b)"

definition ErrInvalidSnapshot :: gerr where
  "ErrInvalidSnapshot = PlainErr ''invalid snapshot name''"

definition ErrInvalidVolume :: gerr where
  "ErrInvalidVolume = PlainErr ''invalid volume name''"

section \<open>The mapping of snapshot classes\<close>

text \<open>The first tenant class whose parameter names the infra class, else the empty name.\<close>

fun tenantClassFor :: "string \<Rightarrow> VolumeSnapshotClass list \<Rightarrow> string" where
  "tenantClassFor infra [] = ''''"
| "tenantClassFor infra (c # cs) =
     (case map_of (vsc_Parameters c) ''infraSnapshotClassName'' of
        None \<Rightarrow> tenantClassFor infra cs
      | Some n \<Rightarrow> if n = infra then om_Name (vsc_Meta c) else tenantClassFor infra cs)"

fun appendVolumeSnapshotInfraTenantMapping ::
  "InfraTenantStorageSnapshotMapping \<Rightarrow> string list \<Rightarrow> VolumeSnapshotClass list
     \<Rightarrow> InfraTenantStorageSnapshotMapping" where
  "appendVolumeSnapshotInfraTenantMapping mapping [] tenantClasses = mapping"
| "appendVolumeSnapshotInfraTenantMapping mapping (infra # infras) tenantClasses =
     appendVolumeSnapshotInfraTenantMapping
       (mapping\<lparr>its_VolumeSnapshotClasses := its_VolumeSnapshotClasses mapping @
          [\<lparr>itm_Infra = infra, itm_Tenant = tenantClassFor infra tenantClasses\<rparr>]\<rparr>)
       infras tenantClasses"

definition buildStorageClassSnapshotClassMapping ::
  "'e client \<Rightarrow> host \<Rightarrow> StorageSnapshotMapping list
     \<Rightarrow> ('e world, InfraTenantStorageSnapshotMapping list \<times> gerr option) go" where
  "buildStorageClassSnapshotClassMapping c snapshotClient infraStorageSnapMapping =
     bindG (VolumeSnapshotClasses_List (cl_rt c) snapshotClient zero_ListOptions) (\<lambda>(classList, err).
       if err \<noteq> None then ret ([], err)
       else deref classList (\<lambda>items.
         ret (map (\<lambda>m. appendVolumeSnapshotInfraTenantMapping
                     \<lparr>its_VolumeSnapshotClasses = [], its_StorageClasses = ssm_StorageClasses m\<rparr>
                     (ssm_VolumeSnapshotClasses m) items) infraStorageSnapMapping, None)))"

definition getStorageSnapshotMapping ::
  "'e client \<Rightarrow> ('e world, InfraTenantStorageSnapshotMapping list \<times> gerr option) go" where
  "getStorageSnapshotMapping c w =
     (if \<not> w_populated w then
        bindG (buildStorageClassSnapshotClassMapping c Tenant
                 (sce_StorageSnapshotMapping (cl_storageClassEnforcement c))) (\<lambda>(m, err).
          if err \<noteq> None then ret ([], err)
          else (\<lambda>w'. (Ok (m, None), w'\<lparr>w_mapping := m, w_populated := True\<rparr>))) w
      else (Ok (w_mapping w, None), w))"

section \<open>Hot-plug requests\<close>

definition vmSubresourceURL :: "string \<Rightarrow> string \<Rightarrow> string \<Rightarrow> string" where
  "vmSubresourceURL namespace vmName subresource =
     ''/apis/subresources.kubevirt.io/v1/namespaces/'' @ namespace @ ''/virtualmachines/'' @ vmName @
     ''/'' @ subresource"

definition vmiSubresourceURL :: "string \<Rightarrow> string \<Rightarrow> string \<Rightarrow> string" where
  "vmiSubresourceURL namespace vmName subresource =
     ''/apis/subresources.kubevirt.io/v1/namespaces/'' @ namespace @ ''/virtualmachineinstances/'' @
     vmName @ ''/'' @ subresource"

definition put_request :: "string \<Rightarrow> rest_body \<Rightarrow> rest_request" where
  "put_request uri body = (get_request Infra uri None '''' None)\<lparr>rq_Verb := PUT, rq_Body := body\<rparr>"

definition AddVolumeToVM ::
  "'e client \<Rightarrow> string \<Rightarrow> string \<Rightarrow> AddVolumeOptions \<Rightarrow> ('e world, gerr option) go" where
  "AddVolumeToVM c namespace vmName hotPlugRequest =
     bindG (rest_do (cl_rt c) (put_request (vmSubresourceURL namespace vmName ''addvolume'')
       (BodyAddVolume hotPlugRequest))) (\<lambda>resp. ret (Error_of resp))"

definition RemoveVolumeFromVM ::
  "'e client \<Rightarrow> string \<Rightarrow> string \<Rightarrow> RemoveVolumeOptions \<Rightarrow> ('e world, gerr option) go" where
  "RemoveVolumeFromVM c namespace vmName hotPlugRequest =
     bindG (rest_do (cl_rt c) (put_request (vmSubresourceURL namespace vmName ''removevolume'')
       (BodyRemoveVolume hotPlugRequest))) (\<lambda>resp. ret (Error_of resp))"

definition RemoveVolumeFromVMI ::
  "'e client \<Rightarrow> string \<Rightarrow> string \<Rightarrow> RemoveVolumeOptions \<Rightarrow> ('e world, gerr option) go" where
  "RemoveVolumeFromVMI c namespace vmName hotPlugRequest =
     bindG (rest_do (cl_rt c) (put_request (vmiSubresourceURL namespace vmName ''removevolume'')
       (BodyRemoveVolume hotPlugRequest))) (\<lambda>resp. ret (Error_of resp))"

section \<open>Virtual machines\<close>

definition ListVirtualMachines ::
  "'e client \<Rightarrow> string \<Rightarrow> ('e world, VirtualMachineInstance list \<times> gerr option) go" where
  "ListVirtualMachines c namespace =
     bindG (VirtualMachineInstances_List (cl_rt c) namespace zero_ListOptions) (\<lambda>(lst, err).
       if err \<noteq> None then ret ([], err) else deref lst (\<lambda>items. ret (items, None)))"

definition GetVirtualMachine ::
  "'e client \<Rightarrow> string \<Rightarrow> string \<Rightarrow> ('e world, VirtualMachineInstance option \<times> gerr option) go" where
  "GetVirtualMachine c namespace name = VirtualMachineInstances_Get (cl_rt c) namespace name"

definition GetWorkloadManagingVirtualMachine ::
  "'e client \<Rightarrow> string \<Rightarrow> string \<Rightarrow> ('e world, VirtualMachine option \<times> gerr option) go" where
  "GetWorkloadManagingVirtualMachine c namespace name = VirtualMachines_Get (cl_rt c) namespace name"

text \<open>The loop over \<open>vm.Spec.Template.Spec.Volumes\<close> that looks for a claim or DataVolume by name.\<close>

fun claimVolumeNamed :: "string \<Rightarrow> Volume list \<Rightarrow> bool" where
  "claimVolumeNamed volumeName [] = False"
| "claimVolumeNamed volumeName (volume # volumes) =
     (if vol_PersistentVolumeClaim volume = None \<and> vol_DataVolume volume = None
        then claimVolumeNamed volumeName volumes
      else if vol_Name volume = volumeName then True
      else claimVolumeNamed volumeName volumes)"

definition EnsureVolumeRemovedVM ::
  "'e client \<Rightarrow> string \<Rightarrow> string \<Rightarrow> string \<Rightarrow> ('e world, bool \<times> gerr option) go" where
  "EnsureVolumeRemovedVM c namespace name volumeName =
     bindG (VirtualMachines_Get (cl_rt c) namespace name) (\<lambda>(vm, err).
       if err \<noteq> None then (if \<not> IsNotFound err then ret (False, err) else ret (True, None))
       else deref vm (\<lambda>v. deref (vm_Template v) (\<lambda>volumes.
         ret (\<not> claimVolumeNamed volumeName volumes, None))))"

text \<open>The loop over \<open>vmi.Status.VolumeStatus\<close> that looks for a hot-plugged volume by name.\<close>

fun hotplugStatusNamed :: "string \<Rightarrow> VolumeStatus list \<Rightarrow> bool" where
  "hotplugStatusNamed volumeName [] = False"
| "hotplugStatusNamed volumeName (volumeStatus # rest) =
     (if vs_HotplugVolume volumeStatus = None then hotplugStatusNamed volumeName rest
      else if vs_Name volumeStatus = volumeName then True
      else hotplugStatusNamed volumeName rest)"

definition EnsureVolumeRemovedVMI ::
  "'e client \<Rightarrow> string \<Rightarrow> string \<Rightarrow> string \<Rightarrow> ('e world, bool \<times> gerr option) go" where
  "EnsureVolumeRemovedVMI c namespace name volumeName =
     bindG (VirtualMachineInstances_Get (cl_rt c) namespace name) (\<lambda>(vmi, err).
       if err \<noteq> None then (if \<not> IsNotFound err then ret (False, err) else ret (True, None))
       else deref vmi (\<lambda>v. ret (\<not> hotplugStatusNamed volumeName (vmi_VolumeStatus v), None)))"

definition EnsureVolumeAvailableVM ::
  "'e client \<Rightarrow> string \<Rightarrow> string \<Rightarrow> string \<Rightarrow> ('e world, bool \<times> gerr option) go" where
  "EnsureVolumeAvailableVM c namespace name volumeName =
     bindG (VirtualMachines_Get (cl_rt c) namespace name) (\<lambda>(vm, err).
       if err \<noteq> None then (if \<not> IsNotFound err then ret (False, err) else ret (False, None))
       else deref vm (\<lambda>v. deref (vm_Template v) (\<lambda>volumes.
         ret (claimVolumeNamed volumeName volumes, None))))"

section \<open>Polling\<close>

definition volumeReady :: "string \<Rightarrow> VolumeStatus \<Rightarrow> bool" where
  "volumeReady volumeName v \<longleftrightarrow> vs_Name v = volumeName \<and> vs_Phase v = VolumeReady"

definition availableCondition ::
  "'e client \<Rightarrow> string \<Rightarrow> string \<Rightarrow> string \<Rightarrow> ('e world, bool \<times> gerr option) go" where
  "availableCondition c namespace vmName volumeName =
     bindG (GetVirtualMachine c namespace vmName) (\<lambda>(vmi, err).
       if err \<noteq> None then ret (False, err)
       else deref vmi (\<lambda>v.
         if list_ex (volumeReady volumeName) (vmi_VolumeStatus v)
           then EnsureVolumeAvailableVM c namespace vmName volumeName
         else ret (False, None)))"

definition EnsureVolumeAvailable ::
  "'e client \<Rightarrow> string \<Rightarrow> string \<Rightarrow> string \<Rightarrow> nat \<Rightarrow> ('e world, gerr option) go" where
  "EnsureVolumeAvailable c namespace vmName volumeName timeout =
     PollUntilContextTimeout (tick_world (cl_rt c)) timeout
       (availableCondition c namespace vmName volumeName)"

definition removedCondition ::
  "'e client \<Rightarrow> string \<Rightarrow> string \<Rightarrow> string \<Rightarrow> ('e world, bool \<times> gerr option) go" where
  "removedCondition c namespace vmName volumeName =
     bindG (GetVirtualMachine c namespace vmName) (\<lambda>(vmi, err).
       if err \<noteq> None then
         (if \<not> IsNotFound err then ret (False, err)
          else EnsureVolumeRemovedVM c namespace vmName volumeName)
       else deref vmi (\<lambda>v.
         if list_ex (\<lambda>s. vs_Name s = volumeName) (vmi_VolumeStatus v) then ret (False, None)
         else EnsureVolumeRemovedVM c namespace vmName volumeName))"

definition EnsureVolumeRemoved ::
  "'e client \<Rightarrow> string \<Rightarrow> string \<Rightarrow> string \<Rightarrow> nat \<Rightarrow> ('e world, gerr option) go" where
  "EnsureVolumeRemoved c namespace vmName volumeName timeout =
     PollUntilContextTimeout (tick_world (cl_rt c)) timeout
       (removedCondition c namespace vmName volumeName)"

section \<open>Data volumes\<close>

definition CreateDataVolume ::
  "'e client \<Rightarrow> string \<Rightarrow> DataVolume \<Rightarrow> ('e world, DataVolume option \<times> gerr option) go" where
  "CreateDataVolume c namespace dataVolume =
     (if \<not> HasPrefix (om_Name (dv_Meta dataVolume)) (cl_volumePrefix c)
        then ret (None, Some ErrInvalidVolume)
      else DataVolumes_Create (cl_rt c) namespace dataVolume)"

definition Ping :: "'e client \<Rightarrow> ('e world, gerr option) go" where
  "Ping c = ServerVersion (cl_rt c) Infra"

definition GetDataVolume ::
  "'e client \<Rightarrow> string \<Rightarrow> string \<Rightarrow> ('e world, DataVolume option \<times> gerr option) go" where
  "GetDataVolume c namespace name =
     bindG (DataVolumes_Get (cl_rt c) namespace name) (\<lambda>(dv, err).
       if err \<noteq> None then ret (None, err)
       else case dv of
           None \<Rightarrow> ret (dv, None)
         | Some d \<Rightarrow>
             if \<not> containsLabels (om_Labels (dv_Meta d)) (cl_infraLabelMap c)
                \<or> \<not> HasPrefix (om_Name (dv_Meta d)) (cl_volumePrefix c)
               then ret (None, Some ErrInvalidVolume)
             else ret (dv, None))"

definition DeleteDataVolume :: "'e client \<Rightarrow> string \<Rightarrow> string \<Rightarrow> ('e world, gerr option) go" where
  "DeleteDataVolume c namespace name =
     bindG (GetDataVolume c namespace name) (\<lambda>(dv, err).
       if IsNotFound err then ret None
       else if err \<noteq> None then ret err
       else case dv of
           Some d \<Rightarrow> DataVolumes_Delete (cl_rt c) namespace (om_Name (dv_Meta d))
         | None \<Rightarrow> ret None)"

section \<open>Claims\<close>

definition GetPersistentVolumeClaim ::
  "'e client \<Rightarrow> string \<Rightarrow> string \<Rightarrow> ('e world, PersistentVolumeClaim option \<times> gerr option) go" where
  "GetPersistentVolumeClaim c namespace claimName =
     bindG (PersistentVolumeClaims_Get (cl_rt c) namespace claimName) (\<lambda>(pvc, err).
       if err \<noteq> None then ret (None, err)
       else case pvc of
           None \<Rightarrow> ret (pvc, None)
         | Some p \<Rightarrow>
             if \<not> containsLabels (om_Labels (pvc_Meta p)) (cl_infraLabelMap c)
                \<or> \<not> HasPrefix (om_Name (pvc_Meta p)) (cl_volumePrefix c)
               then ret (None, Some ErrInvalidVolume)
             else ret (pvc, None))"

definition storagePatch :: "int \<Rightarrow> rest_body" where
  "storagePatch desiredSize = BodyPatch ''add'' ''/spec/resources/requests/storage'' (FormatInt desiredSize)"

definition ExpandPersistentVolumeClaim ::
  "'e client \<Rightarrow> string \<Rightarrow> string \<Rightarrow> int \<Rightarrow> ('e world, gerr option) go" where
  "ExpandPersistentVolumeClaim c namespace claimName desiredSize =
     bindG (GetPersistentVolumeClaim c namespace claimName) (\<lambda>(currentPVC, err).
       if err \<noteq> None then ret err
       else deref currentPVC (\<lambda>pvc.
         if 0 \<le> Quantity_Cmp (quantity_get (pvc_Requests pvc) ''storage'') (of_int desiredSize) then ret None
         else bindG (PersistentVolumeClaims_Patch (cl_rt c) namespace claimName (storagePatch desiredSize))
           (\<lambda>(_, err). if err \<noteq> None then ret err else ret None)))"

definition resizeCondition :: "'e client \<Rightarrow> string \<Rightarrow> Quantity \<Rightarrow> ('e world, bool \<times> gerr option) go" where
  "resizeCondition c pvName pvcSize =
     bindG (PersistentVolumes_Get (cl_rt c) pvName) (\<lambda>(pv, err).
       case err of
         Some e \<Rightarrow> ret (False, Some (PlainErr (''error fetching pv '' @ quoted pvName @
                     '' for resizing '' @ Error_string e)))
       | None \<Rightarrow> deref pv (\<lambda>p.
           if 0 \<le> Quantity_Cmp (quantity_get (pv_Capacity p) ''storage'') pvcSize
             then ret (True, None) else ret (False, None)))"

definition EnsureControllerResize ::
  "'e client \<Rightarrow> string \<Rightarrow> string \<Rightarrow> nat \<Rightarrow> ('e world, gerr option) go" where
  "EnsureControllerResize c namespace claimName timeout =
     bindG (GetPersistentVolumeClaim c namespace claimName) (\<lambda>(pvc, err).
       if err \<noteq> None then ret err
       else deref pvc (\<lambda>p.
         PollUntilContextTimeout (tick_world (cl_rt c)) timeout
           (resizeCondition c (pvc_VolumeName p) (quantity_get (pvc_Requests p) ''storage''))))"

definition getStorageClassNameFromClaimName ::
  "'e client \<Rightarrow> string \<Rightarrow> string \<Rightarrow> ('e world, string \<times> gerr option) go" where
  "getStorageClassNameFromClaimName c namespace claimName =
     bindG (PersistentVolumeClaims_Get (cl_rt c) namespace claimName) (\<lambda>(volumeClaim, err).
       if err \<noteq> None then ret ('''', err)
       else deref volumeClaim (\<lambda>p.
         ret (case pvc_StorageClassName p of None \<Rightarrow> '''' | Some n \<Rightarrow> n, None)))"

section \<open>Snapshots\<close>

text \<open>The classes of the first group that lists the storage class; no class when there is none.\<close>

fun groupOf ::
  "string \<Rightarrow> InfraTenantStorageSnapshotMapping list \<Rightarrow> InfraToTenantMapping list option" where
  "groupOf storageClassName [] = None"
| "groupOf storageClassName (m # ms) =
     (if storageClassName \<in> set (its_StorageClasses m) then Some (its_VolumeSnapshotClasses m)
      else groupOf storageClassName ms)"

definition getInfraSnapshotClassesFromInfraStorageClassName ::
  "'e client \<Rightarrow> string \<Rightarrow> ('e world, string list \<times> gerr option) go" where
  "getInfraSnapshotClassesFromInfraStorageClassName c storageClassName =
     bindG (getStorageSnapshotMapping c) (\<lambda>(mapping, err).
       if err \<noteq> None then ret ([], err)
       else ret (case groupOf storageClassName mapping of
                   None \<Rightarrow> [] | Some classes \<Rightarrow> map itm_Infra classes, None))"

definition getTenantSnapshotClassesFromInfraStorageClassName ::
  "'e client \<Rightarrow> string \<Rightarrow> ('e world, string list \<times> gerr option) go" where
  "getTenantSnapshotClassesFromInfraStorageClassName c storageClassName =
     bindG (getStorageSnapshotMapping c) (\<lambda>(mapping, err).
       if err \<noteq> None then ret ([], err)
       else ret (case groupOf storageClassName mapping of
                   None \<Rightarrow> [] | Some classes \<Rightarrow> map itm_Tenant classes, None))"

definition showList :: "string list \<Rightarrow> string" where
  "showList xs = ''['' @ Join CHR '' '' xs @ '']''"

definition getSnapshotClassNameFromVolumeClaimName ::
  "'e client \<Rightarrow> string \<Rightarrow> string \<Rightarrow> string \<Rightarrow> ('e world, string \<times> gerr option) go" where
  "getSnapshotClassNameFromVolumeClaimName c namespace claimName snapshotClassName =
     (let enf = cl_storageClassEnforcement c in
     bindG (getStorageClassNameFromClaimName c namespace claimName) (\<lambda>(storageClassName, err).
       if err \<noteq> None then ret ('''',
         Some (PlainErr ''unable to determine volume snapshot class name for infra source volume''))
       else if sce_AllowDefault enf then ret ('''', None)
       else if storageClassName = '''' then ret ('''', Some (PlainErr
         ''unable to determine volume snapshot class name for snapshot creation, and default not allowed''))
       else if storageClassName \<noteq> '''' \<and> \<not> Contains (sce_AllowList enf) storageClassName
               \<and> \<not> sce_AllowAll enf then ret ('''', Some (PlainErr
         (''unable to determine volume snapshot class name for snapshot creation, no valid snapshot classes found based on storage class ['' @ storageClassName @ '']'')))
       else bindG (getInfraSnapshotClassesFromInfraStorageClassName c storageClassName) (\<lambda>(names, err).
         if err \<noteq> None then ret ('''', err)
         else if Contains names snapshotClassName then ret (snapshotClassName, None)
         else if \<not> sce_AllowAll enf \<and> \<not> sce_AllowDefault enf then
           bindG (getTenantSnapshotClassesFromInfraStorageClassName c storageClassName) (\<lambda>(tenants, err).
             if err \<noteq> None then ret ('''', err)
             else if 0 < length tenants then
               (if snapshotClassName = '''' then ret ('''', Some (PlainErr
                  (''unable to determine volume snapshot class name for snapshot creation, valid snapshot classes are '' @ showList tenants)))
                else ret ('''', Some (PlainErr
                  (''volume snapshot class '' @ snapshotClassName @
                   '' is not compatible with PVC with storage class '' @ storageClassName @
                   '', valid snapshot classes for this pvc are '' @ showList tenants))))
             else ret ('''', Some (PlainErr
                  ''unable to determine volume snapshot class name for snapshot creation, no valid snapshot classes found'')))
         else ret ('''', None))))"

definition newSnapshot :: "'e client \<Rightarrow> string \<Rightarrow> string \<Rightarrow> string \<Rightarrow> string \<Rightarrow> VolumeSnapshot" where
  "newSnapshot c namespace name claimName className =
     \<lparr>snap_Meta = zero_ObjectMeta\<lparr>om_Name := name, om_Namespace := namespace,
                                 om_Labels := cl_infraLabelMap c\<rparr>,
      snap_PersistentVolumeClaimName = Some claimName,
      snap_VolumeSnapshotClassName = (if className \<noteq> '''' then Some className else None),
      snap_Status = None\<rparr>"

definition CreateVolumeSnapshot :: "'e client \<Rightarrow> string \<Rightarrow> string \<Rightarrow> string \<Rightarrow> string
    \<Rightarrow> ('e world, VolumeSnapshot option \<times> gerr option) go" where
  "CreateVolumeSnapshot c namespace name claimName snapshotClassName =
     bindG (GetDataVolume c namespace claimName) (\<lambda>(dv, err).
       if err \<noteq> None then ret (None, err)
       else deref dv (\<lambda>d.
         bindG (getSnapshotClassNameFromVolumeClaimName c namespace (om_Name (dv_Meta d)) snapshotClassName)
           (\<lambda>(className, err).
             if err \<noteq> None then ret (None, err)
             else VolumeSnapshots_Create (cl_rt c) namespace
                    (newSnapshot c namespace name claimName className))))"

definition GetVolumeSnapshot ::
  "'e client \<Rightarrow> string \<Rightarrow> string \<Rightarrow> ('e world, VolumeSnapshot option \<times> gerr option) go" where
  "GetVolumeSnapshot c namespace name =
     bindG (VolumeSnapshots_Get (cl_rt c) namespace name) (\<lambda>(s, err).
       if err \<noteq> None then ret (None, err)
       else case s of
           None \<Rightarrow> ret (s, None)
         | Some x \<Rightarrow>
             if \<not> containsLabels (om_Labels (snap_Meta x)) (cl_infraLabelMap c)
               then ret (None, Some ErrInvalidSnapshot)
             else ret (s, None))"

definition DeleteVolumeSnapshot :: "'e client \<Rightarrow> string \<Rightarrow> string \<Rightarrow> ('e world, gerr option) go" where
  "DeleteVolumeSnapshot c namespace name =
     bindG (GetVolumeSnapshot c namespace name) (\<lambda>(s, err).
       if IsNotFound err then ret None
       else if err \<noteq> None then ret err
       else deref s (\<lambda>x. VolumeSnapshots_Delete (cl_rt c)
              (om_Namespace (snap_Meta x)) (om_Name (snap_Meta x))))"

definition snapshotReadyCondition ::
  "'e client \<Rightarrow> string \<Rightarrow> string \<Rightarrow> ('e world, bool \<times> gerr option) go" where
  "snapshotReadyCondition c namespace name =
     bindG (GetVolumeSnapshot c namespace name) (\<lambda>(snapshot, err).
       if err \<noteq> None then ret (False, err)
       else deref snapshot (\<lambda>s.
         case snap_Status s of
           None \<Rightarrow> ret (False, None)
         | Some status \<Rightarrow> (case vss_ReadyToUse status of
               None \<Rightarrow> ret (False, None) | Some ready \<Rightarrow> ret (ready, None))))"

definition EnsureSnapshotReady :: "'e client \<Rightarrow> string \<Rightarrow> string \<Rightarrow> nat \<Rightarrow> ('e world, gerr option) go" where
  "EnsureSnapshotReady c namespace name timeout =
     PollUntilContextTimeout (tick_world (cl_rt c)) timeout (snapshotReadyCondition c namespace name)"

text \<open>\<open>labels.ValidatedSelectorFromSet\<close>: each label is checked, the requirements are sorted by key.\<close>

fun labelErrors :: "'e runtime \<Rightarrow> string gomap \<Rightarrow> gerr option" where
  "labelErrors rt [] = None"
| "labelErrors rt ((k, v) # m) = (case rt_checkLabel rt k v of Some e \<Rightarrow> Some e | None \<Rightarrow> labelErrors rt m)"

definition ListVolumeSnapshots ::
  "'e client \<Rightarrow> string \<Rightarrow> ('e world, VolumeSnapshot list option \<times> gerr option) go" where
  "ListVolumeSnapshots c namespace =
     (case labelErrors (cl_rt c) (cl_infraLabelMap c) of
        Some e \<Rightarrow> ret (None, Some e)
      | None \<Rightarrow> VolumeSnapshots_List (cl_rt c) namespace
          (zero_ListOptions\<lparr>lo_LabelSelector := sort_key fst (cl_infraLabelMap c)\<rparr>))"

end
