(* ===== verification/Client_Guard.thy ===== *)
theory Client_Guard
  imports Infra_Client
begin

text \<open>
  Which requests the driver may send, as a specification over the log of exchanges, and the proof that
  every method of the client keeps to it.  Several tenant clusters may live in one namespace of the
  infra cluster; they are told apart by labels and by a prefix of the volume names.  The rules of
  \<open>allowed\<close> say after which answers a request that changes something may be sent: a DataVolume is
  deleted only right after the server showed an object of that name with the tenant's labels and prefix,
  a claim is patched only right after the server showed it as the tenant's and smaller than asked, a
  volume is plugged in or snapshot only after it was seen to be the tenant's, and so on.  A request whose
  names cannot be segments of a path is not sent at all.
\<close>

section \<open>Allowed requests\<close>

record policy =
  po_Namespace :: string
  po_Labels :: "string gomap"
  po_Prefix :: string

definition owned :: "policy \<Rightarrow> ObjectMeta \<Rightarrow> bool" where
  "owned po m \<longleftrightarrow> containsLabels (om_Labels m) (po_Labels po) \<and> HasPrefix (om_Name m) (po_Prefix po)"

definition get_dv :: "policy \<Rightarrow> string \<Rightarrow> rest_request" where
  "get_dv po name = get_request Infra cdiPath (Some (po_Namespace po)) ''datavolumes'' (Some name)"

definition get_snapshot :: "policy \<Rightarrow> string \<Rightarrow> rest_request" where
  "get_snapshot po name =
     get_request Infra snapshotPath (Some (po_Namespace po)) ''volumesnapshots'' (Some name)"

definition get_pvc :: "policy \<Rightarrow> string \<Rightarrow> rest_request" where
  "get_pvc po name =
     get_request Infra corePath (scoped (po_Namespace po)) ''persistentvolumeclaims'' (Some name)"

definition get_vm :: "policy \<Rightarrow> string \<Rightarrow> rest_request" where
  "get_vm po name =
     get_request Infra kubevirtPath (Some (po_Namespace po)) ''virtualmachines'' (Some name)"

definition get_vmi :: "policy \<Rightarrow> string \<Rightarrow> rest_request" where
  "get_vmi po name =
     get_request Infra kubevirtPath (Some (po_Namespace po)) ''virtualmachineinstances'' (Some name)"

text \<open>The VM or the VMI has a hot-plugged volume of this name.\<close>

definition vm_holds :: "string \<Rightarrow> VirtualMachine \<Rightarrow> bool" where
  "vm_holds name v \<longleftrightarrow> (\<exists>volumes. vm_Template v = Some volumes \<and>
     (\<exists>x \<in> set volumes. \<exists>d. vol_DataVolume x = Some d \<and> dvr_Hotpluggable d \<and> vol_Name x = name))"

definition vmi_holds :: "string \<Rightarrow> VirtualMachineInstance \<Rightarrow> bool" where
  "vmi_holds name vmi \<longleftrightarrow>
     (\<exists>x \<in> set (vmi_VolumeStatus vmi). vs_HotplugVolume x \<noteq> None \<and> vs_Name x = name)"

text \<open>The last exchange showed the VM, or the VMI.\<close>

definition shown_vm :: "policy \<Rightarrow> exchange list \<Rightarrow> string \<Rightarrow> VirtualMachine \<Rightarrow> bool" where
  "shown_vm po h name v \<longleftrightarrow> h \<noteq> [] \<and> last h = (get_vm po name, Inr (OVM v))"

definition shown_vmi :: "policy \<Rightarrow> exchange list \<Rightarrow> string \<Rightarrow> VirtualMachineInstance \<Rightarrow> bool" where
  "shown_vmi po h name v \<longleftrightarrow> h \<noteq> [] \<and> last h = (get_vmi po name, Inr (OVMI v))"

text \<open>The server showed the DataVolume as the tenant's, some time before.\<close>

definition seen_dv :: "policy \<Rightarrow> exchange list \<Rightarrow> string \<Rightarrow> bool" where
  "seen_dv po h name \<longleftrightarrow> (\<exists>dv. (get_dv po name, Inr (ODV dv)) \<in> set h \<and> owned po (dv_Meta dv))"

text \<open>The server showed the VM, some time before.\<close>

definition seen_vm :: "policy \<Rightarrow> exchange list \<Rightarrow> string \<Rightarrow> bool" where
  "seen_vm po h name \<longleftrightarrow> (\<exists>v. (get_vm po name, Inr (OVM v)) \<in> set h)"

text \<open>What the driver reads in its namespace: group, resource, and whether it lists or gets.\<close>

definition readable :: "(string \<times> string \<times> bool) list" where
  "readable = [(kubevirtPath, ''virtualmachines'', False), (kubevirtPath, ''virtualmachineinstances'', False),
     (kubevirtPath, ''virtualmachineinstances'', True), (cdiPath, ''datavolumes'', False),
     (snapshotPath, ''volumesnapshots'', False), (snapshotPath, ''volumesnapshots'', True),
     (corePath, ''persistentvolumeclaims'', False)]"

inductive allowed :: "policy \<Rightarrow> exchange list \<Rightarrow> rest_request \<Rightarrow> bool" for po where
  get_namespaced: "rq_Verb rq = GET \<Longrightarrow> rq_Host rq = Infra \<Longrightarrow>
     rq_Namespace rq = Some (po_Namespace po) \<or> rq_Namespace rq = scoped (po_Namespace po) \<Longrightarrow>
     (rq_Path rq, rq_Resource rq, rq_Name rq = None) \<in> set readable \<Longrightarrow> rq_Subresources rq = [] \<Longrightarrow>
     (rq_Resource rq = ''volumesnapshots'' \<and> rq_Name rq = None \<longrightarrow>
        rq_Selector rq = sort_key fst (po_Labels po)) \<Longrightarrow> allowed po h rq"
| get_pv: "rq_Verb rq = GET \<Longrightarrow> rq_Host rq = Infra \<Longrightarrow> rq_Namespace rq = None \<Longrightarrow>
     rq_Path rq = corePath \<Longrightarrow> rq_Resource rq = ''persistentvolumes'' \<Longrightarrow> rq_Name rq \<noteq> None \<Longrightarrow>
     rq_Subresources rq = [] \<Longrightarrow> allowed po h rq"
| get_classes: "rq_Verb rq = GET \<Longrightarrow> rq_Host rq = Tenant \<Longrightarrow>
     rq_Resource rq = ''volumesnapshotclasses'' \<Longrightarrow> allowed po h rq"
| create_dv: "om_Labels (dv_Meta dv) = po_Labels po \<Longrightarrow> om_Namespace (dv_Meta dv) = po_Namespace po \<Longrightarrow>
     HasPrefix (om_Name (dv_Meta dv)) (po_Prefix po) \<Longrightarrow>
     allowed po h ((get_request Infra cdiPath (Some (po_Namespace po)) ''datavolumes'' None)
       \<lparr>rq_Verb := POST, rq_Body := BodyDV dv\<rparr>)"
| delete_dv: "h \<noteq> [] \<Longrightarrow> last h = (get_dv po asked, Inr (ODV dv)) \<Longrightarrow> owned po (dv_Meta dv) \<Longrightarrow>
     allowed po h ((get_dv po (om_Name (dv_Meta dv)))\<lparr>rq_Verb := DELETE\<rparr>)"
| create_snapshot: "om_Labels (snap_Meta s) = po_Labels po \<Longrightarrow> om_Namespace (snap_Meta s) = po_Namespace po \<Longrightarrow>
     snap_PersistentVolumeClaimName s = Some claim \<Longrightarrow> seen_dv po h claim \<Longrightarrow>
     allowed po h ((get_request Infra snapshotPath (Some (po_Namespace po)) ''volumesnapshots'' None)
       \<lparr>rq_Verb := POST, rq_Body := BodySnapshot s\<rparr>)"
| delete_snapshot: "h \<noteq> [] \<Longrightarrow> last h = (get_snapshot po asked, Inr (OSnapshot s)) \<Longrightarrow>
     containsLabels (om_Labels (snap_Meta s)) (po_Labels po) \<Longrightarrow>
     allowed po h ((get_request Infra snapshotPath (Some (om_Namespace (snap_Meta s))) ''volumesnapshots''
       (Some (om_Name (snap_Meta s))))\<lparr>rq_Verb := DELETE\<rparr>)"
| expand_pvc: "h \<noteq> [] \<Longrightarrow> last h = (get_pvc po claim, Inr (OPVC pvc)) \<Longrightarrow> owned po (pvc_Meta pvc) \<Longrightarrow>
     quantity_get (pvc_Requests pvc) ''storage'' < of_int desired \<Longrightarrow>
     allowed po h ((get_pvc po claim)\<lparr>rq_Verb := PATCH, rq_Body := storagePatch desired\<rparr>)"
| add_volume: "seen_dv po h (avo_DataVolume opts) \<Longrightarrow> seen_vm po h vm \<Longrightarrow>
     allowed po h (put_request (vmSubresourceURL (po_Namespace po) vm ''addvolume'') (BodyAddVolume opts))"
| remove_volume_vm: "h \<noteq> [] \<Longrightarrow> last h = (get_vm po vm, Inr (OVM v)) \<Longrightarrow> vm_holds name v \<Longrightarrow>
     allowed po h (put_request (vmSubresourceURL (po_Namespace po) vm ''removevolume'')
       (BodyRemoveVolume \<lparr>rvo_Name = name\<rparr>))"
| remove_volume_vmi: "h \<noteq> [] \<Longrightarrow> last h = (get_vmi po vm, Inr (OVMI vmi)) \<Longrightarrow> vmi_holds name vmi \<Longrightarrow>
     allowed po h (put_request (vmiSubresourceURL (po_Namespace po) vm ''removevolume'')
       (BodyRemoveVolume \<lparr>rvo_Name = name\<rparr>))"

fun guarded :: "policy \<Rightarrow> exchange list \<Rightarrow> exchange list \<Rightarrow> bool" where
  "guarded po h [] = True"
| "guarded po h (x # xs) = (request_error (fst x) = None \<and> allowed po h (fst x) \<and> guarded po (h @ [x]) xs)"

text \<open>The world after extends the world before by allowed requests.\<close>

definition confined :: "policy \<Rightarrow> 'e world \<Rightarrow> 'e world \<Rightarrow> bool" where
  "confined po w w' \<longleftrightarrow> (\<exists>l. w_log w' = w_log w @ l \<and> guarded po (w_log w) l)"

lemma guarded_append: "guarded po h (l @ l') \<longleftrightarrow> guarded po h l \<and> guarded po (h @ l) l'"
  by (induction l arbitrary: h) auto

lemma confined_reflp [simp, intro]: "reflp (confined po)"
  by (auto simp: reflp_def confined_def)

lemma confined_transp [simp, intro]: "transp (confined po)"
  by (rule transpI) (fastforce simp: confined_def guarded_append)

lemma confined_log_eq: "w_log w' = w_log w \<Longrightarrow> confined po w w'"
  by (simp add: confined_def)

text \<open>What the log showed, it shows for ever.\<close>

lemma seen_dv_mono: "seen_dv po h name \<Longrightarrow> seen_dv po (h @ l) name"
  by (auto simp: seen_dv_def)

lemma confined_seen: "confined po w w' \<Longrightarrow> seen_dv po (w_log w) name \<Longrightarrow> seen_dv po (w_log w') name"
  by (auto simp: confined_def seen_dv_mono)

lemma seen_vm_mono: "seen_vm po h name \<Longrightarrow> seen_vm po (h @ l) name"
  by (auto simp: seen_vm_def)

lemma confined_seen_vm: "confined po w w' \<Longrightarrow> seen_vm po (w_log w) name \<Longrightarrow> seen_vm po (w_log w') name"
  by (auto simp: confined_def seen_vm_mono)

section \<open>Rules for the operations\<close>

lemmas confined_ret [keeps_rules] = keeps_ret [OF confined_reflp]
lemmas confined_deref [keeps_rules] = keeps_deref [OF confined_reflp]
lemmas confined_bind [keeps_rules] = keeps_bind [OF confined_transp]

lemma confined_rest_do:
  assumes "allowed po (w_log w) rq" and "rest_do rt rq w = (r, w')"
  shows "confined po w w'"
  using rest_do_log [OF assms(2)] assms(1) by (auto simp: confined_def)

lemma keeps_rest_do [keeps_rules]:
  "(\<And>h. allowed po h rq) \<Longrightarrow> keeps (confined po) (rest_do rt rq)"
  by (rule keepsI) (rule confined_rest_do)

lemma keeps_typed_get [keeps_rules]:
  "(\<And>h. allowed po h rq) \<Longrightarrow> keeps (confined po) (typed_get rt rq zero dec)"
  unfolding typed_get_def by (intro keeps_rules) (auto intro: keeps_rules)

lemma confined_typed_get:
  "allowed po (w_log w) rq \<Longrightarrow> typed_get rt rq zero dec w = (r, w') \<Longrightarrow> confined po w w'"
  by (auto elim!: typed_getE intro: confined_rest_do)

lemma keeps_poll [keeps_rules]:
  "keeps (confined po) condition \<Longrightarrow>
   keeps (confined po) (PollUntilContextTimeout (tick_world rt) timeout condition)"
  by (rule keeps_PollUntilContextTimeout) (auto intro: confined_log_eq)

section \<open>The methods of the client\<close>

definition client_policy :: "'e client \<Rightarrow> string \<Rightarrow> policy" where
  "client_policy c ns = \<lparr>po_Namespace = ns, po_Labels = cl_infraLabelMap c, po_Prefix = cl_volumePrefix c\<rparr>"

lemma client_policy_sel [simp]:
  "po_Namespace (client_policy c ns) = ns" "po_Labels (client_policy c ns) = cl_infraLabelMap c"
  "po_Prefix (client_policy c ns) = cl_volumePrefix c"
  by (simp_all add: client_policy_def)

lemma get_request_sel [simp]:
  "rq_Verb (get_request h path ns res n) = GET" "rq_Host (get_request h path ns res n) = h"
  "rq_Path (get_request h path ns res n) = path" "rq_Namespace (get_request h path ns res n) = ns"
  "rq_Resource (get_request h path ns res n) = res" "rq_Name (get_request h path ns res n) = n"
  "rq_Subresources (get_request h path ns res n) = []" "rq_Selector (get_request h path ns res n) = []" "rq_Body (get_request h path ns res n) = NoBody"
  by (simp_all add: get_request_def)

lemma allowed_get_namespaced [simp]:
  "(path, res, n = None) \<in> set readable \<Longrightarrow> res \<noteq> ''volumesnapshots'' \<or> n \<noteq> None \<Longrightarrow>
   allowed po h (get_request Infra path (Some (po_Namespace po)) res n)"
  "(path, res, n = None) \<in> set readable \<Longrightarrow> res \<noteq> ''volumesnapshots'' \<or> n \<noteq> None \<Longrightarrow>
   allowed po h (get_request Infra path (scoped (po_Namespace po)) res n)"
  by (auto intro!: allowed.get_namespaced)

lemma VirtualMachines_Get_confined [keeps_rules]:
  "po_Namespace po = ns \<Longrightarrow> keeps (confined po) (VirtualMachines_Get rt ns name)"
  unfolding VirtualMachines_Get_def by (rule keeps_typed_get) (auto simp: readable_def)

lemma VirtualMachineInstances_Get_confined [keeps_rules]:
  "po_Namespace po = ns \<Longrightarrow> keeps (confined po) (VirtualMachineInstances_Get rt ns name)"
  unfolding VirtualMachineInstances_Get_def by (rule keeps_typed_get) (auto simp: readable_def)

lemma VirtualMachineInstances_List_confined [keeps_rules]:
  "po_Namespace po = ns \<Longrightarrow> keeps (confined po) (VirtualMachineInstances_List rt ns zero_ListOptions)"
  unfolding VirtualMachineInstances_List_def list_request_zero by (rule keeps_typed_get) (auto simp: readable_def)

lemma DataVolumes_Get_confined [keeps_rules]:
  "po_Namespace po = ns \<Longrightarrow> keeps (confined po) (DataVolumes_Get rt ns name)"
  unfolding DataVolumes_Get_def by (rule keeps_typed_get) (auto simp: readable_def)

lemma VolumeSnapshots_Get_confined [keeps_rules]:
  "po_Namespace po = ns \<Longrightarrow> keeps (confined po) (VolumeSnapshots_Get rt ns name)"
  unfolding VolumeSnapshots_Get_def by (rule keeps_typed_get) (auto simp: readable_def)

lemma VolumeSnapshots_List_confined [keeps_rules]:
  "po_Namespace po = ns \<Longrightarrow> sel = sort_key fst (po_Labels po) \<Longrightarrow>
   keeps (confined po) (VolumeSnapshots_List rt ns (zero_ListOptions\<lparr>lo_LabelSelector := sel\<rparr>))"
  unfolding VolumeSnapshots_List_def list_request_def
  by (rule keeps_typed_get) (auto intro: allowed.get_namespaced simp: readable_def)

lemma VolumeSnapshotClasses_List_confined [keeps_rules]:
  "keeps (confined po) (VolumeSnapshotClasses_List rt Tenant zero_ListOptions)"
  unfolding VolumeSnapshotClasses_List_def list_request_zero by (rule keeps_typed_get) (auto intro: allowed.get_classes)

lemma PersistentVolumeClaims_Get_confined [keeps_rules]:
  "po_Namespace po = ns \<Longrightarrow> keeps (confined po) (PersistentVolumeClaims_Get rt ns name)"
  unfolding PersistentVolumeClaims_Get_def by (rule keeps_typed_get) (auto simp: readable_def)

lemma PersistentVolumes_Get_confined [keeps_rules]:
  "keeps (confined po) (PersistentVolumes_Get rt name)"
  unfolding PersistentVolumes_Get_def by (rule keeps_typed_get) (auto intro: allowed.get_pv)

lemma ListVirtualMachines_confined [keeps_rules]:
  "po_Namespace po = ns \<Longrightarrow> keeps (confined po) (ListVirtualMachines c ns)"
  unfolding ListVirtualMachines_def by (intro keeps_rules)

lemma GetVirtualMachine_confined [keeps_rules]:
  "po_Namespace po = ns \<Longrightarrow> keeps (confined po) (GetVirtualMachine c ns name)"
  unfolding GetVirtualMachine_def by (intro keeps_rules)

lemma GetWorkloadManagingVirtualMachine_confined [keeps_rules]:
  "po_Namespace po = ns \<Longrightarrow> keeps (confined po) (GetWorkloadManagingVirtualMachine c ns name)"
  unfolding GetWorkloadManagingVirtualMachine_def by (intro keeps_rules)

lemma EnsureVolumeRemovedVM_confined [keeps_rules]:
  "po_Namespace po = ns \<Longrightarrow> keeps (confined po) (EnsureVolumeRemovedVM c ns name vol)"
  unfolding EnsureVolumeRemovedVM_def by (intro keeps_rules)

lemma EnsureVolumeRemovedVMI_confined [keeps_rules]:
  "po_Namespace po = ns \<Longrightarrow> keeps (confined po) (EnsureVolumeRemovedVMI c ns name vol)"
  unfolding EnsureVolumeRemovedVMI_def by (intro keeps_rules)

lemma EnsureVolumeAvailableVM_confined [keeps_rules]:
  "po_Namespace po = ns \<Longrightarrow> keeps (confined po) (EnsureVolumeAvailableVM c ns name vol)"
  unfolding EnsureVolumeAvailableVM_def by (intro keeps_rules)

lemma EnsureVolumeAvailable_confined [keeps_rules]:
  "po_Namespace po = ns \<Longrightarrow> keeps (confined po) (EnsureVolumeAvailable c ns name vol timeout)"
  unfolding EnsureVolumeAvailable_def availableCondition_def by (intro keeps_rules)

lemma EnsureVolumeRemoved_confined [keeps_rules]:
  "po_Namespace po = ns \<Longrightarrow> keeps (confined po) (EnsureVolumeRemoved c ns name vol timeout)"
  unfolding EnsureVolumeRemoved_def removedCondition_def by (intro keeps_rules)

lemma GetDataVolume_confined [keeps_rules]:
  "po_Namespace po = ns \<Longrightarrow> keeps (confined po) (GetDataVolume c ns name)"
  unfolding GetDataVolume_def by (intro keeps_rules)

lemma GetPersistentVolumeClaim_confined [keeps_rules]:
  "po_Namespace po = ns \<Longrightarrow> keeps (confined po) (GetPersistentVolumeClaim c ns name)"
  unfolding GetPersistentVolumeClaim_def by (intro keeps_rules)

lemma GetVolumeSnapshot_confined [keeps_rules]:
  "po_Namespace po = ns \<Longrightarrow> keeps (confined po) (GetVolumeSnapshot c ns name)"
  unfolding GetVolumeSnapshot_def by (intro keeps_rules)

lemma EnsureSnapshotReady_confined [keeps_rules]:
  "po_Namespace po = ns \<Longrightarrow> keeps (confined po) (EnsureSnapshotReady c ns name timeout)"
  unfolding EnsureSnapshotReady_def snapshotReadyCondition_def by (intro keeps_rules)

lemma EnsureControllerResize_confined [keeps_rules]:
  "po_Namespace po = ns \<Longrightarrow> keeps (confined po) (EnsureControllerResize c ns claim timeout)"
  unfolding EnsureControllerResize_def resizeCondition_def by (intro keeps_rules)

lemma ListVolumeSnapshots_confined [keeps_rules]:
  "po = client_policy c ns \<Longrightarrow> keeps (confined po) (ListVolumeSnapshots c ns)"
  unfolding ListVolumeSnapshots_def by (intro keeps_rules) simp_all

lemma getStorageSnapshotMapping_confined [keeps_rules]:
  "keeps (confined po) (getStorageSnapshotMapping c)"
proof (rule keepsI)
  fix w r w'
  assume run: "getStorageSnapshotMapping c w = (r, w')"
  let ?build = "buildStorageClassSnapshotClassMapping c Tenant
    (sce_StorageSnapshotMapping (cl_storageClassEnforcement c))"
  have build: "keeps (confined po) ?build"
    unfolding buildStorageClassSnapshotClassMapping_def by (intro keeps_rules)
  obtain b v where b: "?build w = (b, v)" by fastforce
  with build have "confined po w v" by (rule keepsD)
  with run b show "confined po w w'"
    by (cases b) (auto simp: getStorageSnapshotMapping_def confined_def bindG_def split: if_splits)
qed

lemma getSnapshotClassNameFromVolumeClaimName_confined [keeps_rules]:
  "po_Namespace po = ns \<Longrightarrow>
   keeps (confined po) (getSnapshotClassNameFromVolumeClaimName c ns claim cls)"
  unfolding getSnapshotClassNameFromVolumeClaimName_def getStorageClassNameFromClaimName_def
    getInfraSnapshotClassesFromInfraStorageClassName_def
    getTenantSnapshotClassesFromInfraStorageClassName_def
  by (intro keeps_rules)

lemma RemoveVolumeFromVM_confined:
  assumes "shown_vm po (w_log w) vm v" and "vm_holds name v" and "po_Namespace po = ns"
    and "RemoveVolumeFromVM c ns vm \<lparr>rvo_Name = name\<rparr> w = (r, w')"
  shows "confined po w w'"
proof -
  obtain r' where "rest_do (cl_rt c) (put_request (vmSubresourceURL ns vm ''removevolume'')
      (BodyRemoveVolume \<lparr>rvo_Name = name\<rparr>)) w = (r', w')"
    using assms(4) by (auto simp: RemoveVolumeFromVM_def bindG_def split: prod.splits outcome.splits)
  then show ?thesis
    using assms(1-3) by (auto simp: shown_vm_def intro: confined_rest_do [rotated] allowed.remove_volume_vm)
qed

lemma RemoveVolumeFromVMI_confined:
  assumes "shown_vmi po (w_log w) vm v" and "vmi_holds name v" and "po_Namespace po = ns"
    and "RemoveVolumeFromVMI c ns vm \<lparr>rvo_Name = name\<rparr> w = (r, w')"
  shows "confined po w w'"
proof -
  obtain r' where "rest_do (cl_rt c) (put_request (vmiSubresourceURL ns vm ''removevolume'')
      (BodyRemoveVolume \<lparr>rvo_Name = name\<rparr>)) w = (r', w')"
    using assms(4) by (auto simp: RemoveVolumeFromVMI_def bindG_def split: prod.splits outcome.splits)
  then show ?thesis
    using assms(1-3) by (auto simp: shown_vmi_def intro: confined_rest_do [rotated] allowed.remove_volume_vmi)
qed

section \<open>What successful reads rest on\<close>

text \<open>
  A DataVolume, claim or snapshot that the client hands out is the one the server answered with in the
  exchange just made, and it is the tenant's.
\<close>

lemma GetDataVolume_Ok:
  assumes "GetDataVolume c ns name w = (Ok (p, None), w')" and po: "po = client_policy c ns"
  obtains dv where "p = Some dv" and "owned po (dv_Meta dv)"
    and "w_log w' = w_log w @ [(get_dv po name, Inr (ODV dv))]"
proof -
  from assms(1) obtain q err where g: "DataVolumes_Get (cl_rt c) ns name w = (Ok (q, err), w')"
    by (auto simp: GetDataVolume_def elim!: bindG_OkE split: if_splits option.splits)
  with assms(1) have err: "err = None" and q: "q = p"
    and own: "\<And>d. q = Some d \<Longrightarrow> containsLabels (om_Labels (dv_Meta d)) (cl_infraLabelMap c)
        \<and> HasPrefix (om_Name (dv_Meta d)) (cl_volumePrefix c)"
    by (auto simp: GetDataVolume_def split: if_splits option.splits)
  from g err obtain dv where "q = Some dv"
    and "w_log w' = w_log w @ [(get_request Infra cdiPath (Some ns) ''datavolumes'' (Some name), Inr (ODV dv))]"
    unfolding DataVolumes_Get_def by (auto elim: typed_get_Ok)
  with q own po that show thesis
    by (auto simp: get_dv_def owned_def)
qed

lemma GetWorkloadManagingVirtualMachine_shown:
  assumes "GetWorkloadManagingVirtualMachine c ns name w = (Ok (Some v, None), w')"
  shows "shown_vm (client_policy c ns) (w_log w') name v"
  using assms unfolding GetWorkloadManagingVirtualMachine_def VirtualMachines_Get_def
  by (auto elim!: typed_get_Ok simp: shown_vm_def get_vm_def)

lemma GetWorkloadManagingVirtualMachine_seen:
  assumes "GetWorkloadManagingVirtualMachine c ns name w = (Ok (p, None), w')"
  shows "seen_vm (client_policy c ns) (w_log w') name"
  using assms unfolding GetWorkloadManagingVirtualMachine_def VirtualMachines_Get_def
  by (auto elim!: typed_get_Ok simp: seen_vm_def get_vm_def)

lemma GetWorkloadManagingVirtualMachine_err:
  assumes "GetWorkloadManagingVirtualMachine c ns name w = (Ok (p, Some e), w')"
  shows "p = Some zero_VirtualMachine"
  using assms unfolding GetWorkloadManagingVirtualMachine_def VirtualMachines_Get_def
  by (rule typed_get_err)

lemma GetVirtualMachine_shown:
  assumes "GetVirtualMachine c ns name w = (Ok (Some v, None), w')"
  shows "shown_vmi (client_policy c ns) (w_log w') name v"
  using assms unfolding GetVirtualMachine_def VirtualMachineInstances_Get_def
  by (auto elim!: typed_get_Ok simp: shown_vmi_def get_vmi_def)

lemma GetPersistentVolumeClaim_Ok:
  assumes "GetPersistentVolumeClaim c ns name w = (Ok (p, None), w')" and po: "po = client_policy c ns"
  obtains pvc where "p = Some pvc" and "owned po (pvc_Meta pvc)"
    and "w_log w' = w_log w @ [(get_pvc po name, Inr (OPVC pvc))]"
proof -
  from assms(1) obtain q err where g: "PersistentVolumeClaims_Get (cl_rt c) ns name w = (Ok (q, err), w')"
    by (auto simp: GetPersistentVolumeClaim_def elim!: bindG_OkE split: if_splits option.splits)
  with assms(1) have err: "err = None" and q: "q = p"
    and own: "\<And>d. q = Some d \<Longrightarrow> containsLabels (om_Labels (pvc_Meta d)) (cl_infraLabelMap c)
        \<and> HasPrefix (om_Name (pvc_Meta d)) (cl_volumePrefix c)"
    by (auto simp: GetPersistentVolumeClaim_def split: if_splits option.splits)
  from g err obtain pvc where "q = Some pvc"
    and "w_log w' = w_log w @
      [(get_request Infra corePath (scoped ns) ''persistentvolumeclaims'' (Some name), Inr (OPVC pvc))]"
    unfolding PersistentVolumeClaims_Get_def by (auto elim: typed_get_Ok)
  with q own po that show thesis
    by (auto simp: get_pvc_def owned_def)
qed

lemma GetVolumeSnapshot_Ok:
  assumes "GetVolumeSnapshot c ns name w = (Ok (p, None), w')" and po: "po = client_policy c ns"
  obtains s where "p = Some s" and "containsLabels (om_Labels (snap_Meta s)) (po_Labels po)"
    and "w_log w' = w_log w @ [(get_snapshot po name, Inr (OSnapshot s))]"
proof -
  from assms(1) obtain q err where g: "VolumeSnapshots_Get (cl_rt c) ns name w = (Ok (q, err), w')"
    by (auto simp: GetVolumeSnapshot_def elim!: bindG_OkE split: if_splits option.splits)
  with assms(1) have err: "err = None" and q: "q = p"
    and own: "\<And>d. q = Some d \<Longrightarrow> containsLabels (om_Labels (snap_Meta d)) (cl_infraLabelMap c)"
    by (auto simp: GetVolumeSnapshot_def split: if_splits option.splits)
  from g err obtain s where "q = Some s"
    and "w_log w' = w_log w @
      [(get_request Infra snapshotPath (Some ns) ''volumesnapshots'' (Some name), Inr (OSnapshot s))]"
    unfolding VolumeSnapshots_Get_def by (auto elim: typed_get_Ok)
  with q own po that show thesis
    by (auto simp: get_snapshot_def)
qed

text \<open>On an error the three readers give no object.\<close>

lemma GetDataVolume_err: "GetDataVolume c ns name w = (Ok (p, Some e), w') \<Longrightarrow> p = None"
  by (auto simp: GetDataVolume_def elim!: bindG_OkE split: if_splits option.splits)

lemma GetVolumeSnapshot_err: "GetVolumeSnapshot c ns name w = (Ok (p, Some e), w') \<Longrightarrow> p = None"
  by (auto simp: GetVolumeSnapshot_def elim!: bindG_OkE split: if_splits option.splits)

lemma GetDataVolume_seen:
  "GetDataVolume c ns name w = (Ok (p, None), w') \<Longrightarrow> seen_dv (client_policy c ns) (w_log w') name"
  by (erule GetDataVolume_Ok [OF _ refl]) (auto simp: seen_dv_def)

section \<open>The methods that change something\<close>

lemma CreateDataVolume_confined [keeps_rules]:
  assumes "po = client_policy c ns" and "om_Labels (dv_Meta dv) = cl_infraLabelMap c"
    and "om_Namespace (dv_Meta dv) = ns"
  shows "keeps (confined po) (CreateDataVolume c ns dv)"
proof -
  have "keeps (confined po) (DataVolumes_Create (cl_rt c) ns dv)"
    if "HasPrefix (om_Name (dv_Meta dv)) (cl_volumePrefix c)"
    unfolding DataVolumes_Create_def
    using allowed.create_dv [of dv po] that assms by (intro keeps_typed_get) auto
  then show ?thesis
    unfolding CreateDataVolume_def by (auto intro: keeps_rules)
qed

lemma DeleteDataVolume_confined [keeps_rules]:
  assumes po: "po = client_policy c ns"
  shows "keeps (confined po) (DeleteDataVolume c ns name)"
  unfolding DeleteDataVolume_def
proof (rule keeps_bind_strong [OF confined_transp], goal_cases)
  case 1
  show ?case using po by (intro keeps_rules) simp
next
  case (2 x w w')
  obtain p err where x: "x = (p, err)" by fastforce
  show ?case
  proof (cases "err = None")
    case True
    with 2 x have "GetDataVolume c ns name w = (Ok (p, None), w')" by simp
    then obtain dv where p: "p = Some dv" and "owned po (dv_Meta dv)"
      and "w_log w' = w_log w @ [(get_dv po name, Inr (ODV dv))]"
      using po by (rule GetDataVolume_Ok)
    then have "allowed po (w_log w') ((get_dv po (om_Name (dv_Meta dv)))\<lparr>rq_Verb := DELETE\<rparr>)"
      by (intro allowed.delete_dv) auto
    then have ok: "confined po w' (snd (rest_do (cl_rt c) ((get_dv po (om_Name (dv_Meta dv)))\<lparr>rq_Verb := DELETE\<rparr>) w'))"
      by (metis confined_rest_do prod.collapse)
    obtain resp v where "rest_do (cl_rt c) ((get_dv po (om_Name (dv_Meta dv)))\<lparr>rq_Verb := DELETE\<rparr>) w' = (Ok resp, v)"
      using rest_do_never_panics by (rule never_panicsE)
    with ok x True p po show ?thesis
      by (simp add: DataVolumes_Delete_def get_dv_def)
  next
    case False
    with x show ?thesis by (auto intro: confined_log_eq)
  qed
qed

lemma DeleteVolumeSnapshot_confined [keeps_rules]:
  assumes po: "po = client_policy c ns"
  shows "keeps (confined po) (DeleteVolumeSnapshot c ns name)"
  unfolding DeleteVolumeSnapshot_def
proof (rule keeps_bind_strong [OF confined_transp], goal_cases)
  case 1
  show ?case using po by (intro keeps_rules) simp
next
  case (2 x w w')
  obtain p err where x: "x = (p, err)" by fastforce
  show ?case
  proof (cases "err = None")
    case True
    with 2 x have "GetVolumeSnapshot c ns name w = (Ok (p, None), w')" by simp
    then obtain s where p: "p = Some s" and "containsLabels (om_Labels (snap_Meta s)) (po_Labels po)"
      and "w_log w' = w_log w @ [(get_snapshot po name, Inr (OSnapshot s))]"
      using po by (rule GetVolumeSnapshot_Ok)
    let ?rq = "(get_request Infra snapshotPath (Some (om_Namespace (snap_Meta s))) ''volumesnapshots''
      (Some (om_Name (snap_Meta s))))\<lparr>rq_Verb := DELETE\<rparr>"
    have "allowed po (w_log w') ?rq"
      by (intro allowed.delete_snapshot) (use \<open>w_log w' = _\<close> \<open>containsLabels _ _\<close> in auto)
    then have ok: "confined po w' (snd (rest_do (cl_rt c) ?rq w'))"
      by (metis confined_rest_do prod.collapse)
    obtain resp v where "rest_do (cl_rt c) ?rq w' = (Ok resp, v)"
      using rest_do_never_panics by (rule never_panicsE)
    with ok x True p show ?thesis
      by (simp add: VolumeSnapshots_Delete_def)
  next
    case False
    with x show ?thesis by (auto intro: confined_log_eq)
  qed
qed

lemma ExpandPersistentVolumeClaim_confined [keeps_rules]:
  assumes po: "po = client_policy c ns"
  shows "keeps (confined po) (ExpandPersistentVolumeClaim c ns claim desired)"
  unfolding ExpandPersistentVolumeClaim_def
proof (rule keeps_bind_strong [OF confined_transp], goal_cases)
  case 1
  show ?case using po by (intro keeps_rules) simp
next
  case (2 x w w')
  obtain p err where x: "x = (p, err)" by fastforce
  show ?case
  proof (cases "err = None")
    case True
    with 2 x have "GetPersistentVolumeClaim c ns claim w = (Ok (p, None), w')" by simp
    then obtain pvc where p: "p = Some pvc" and own: "owned po (pvc_Meta pvc)"
      and lg: "w_log w' = w_log w @ [(get_pvc po claim, Inr (OPVC pvc))]"
      using po by (rule GetPersistentVolumeClaim_Ok)
    let ?patch = "PersistentVolumeClaims_Patch (cl_rt c) ns claim (storagePatch desired)"
    obtain r v where patch: "?patch w' = (Ok r, v)"
      unfolding PersistentVolumeClaims_Patch_def using typed_get_never_panics by (rule never_panicsE)
    have "confined po w' v" if "quantity_get (pvc_Requests pvc) ''storage'' < of_int desired"
    proof (rule confined_typed_get)
      show "allowed po (w_log w') ((get_pvc po claim)\<lparr>rq_Verb := PATCH, rq_Body := storagePatch desired\<rparr>)"
        using own lg that by (intro allowed.expand_pvc) auto
      show "typed_get (cl_rt c) ((get_pvc po claim)\<lparr>rq_Verb := PATCH, rq_Body := storagePatch desired\<rparr>)
          zero_PersistentVolumeClaim dec_PVC w' = (Ok r, v)"
        using patch po by (simp add: PersistentVolumeClaims_Patch_def get_pvc_def)
    qed
    with x True p patch show ?thesis
      by (cases r) (auto intro: confined_log_eq)
  next
    case False
    with x show ?thesis by (auto intro: confined_log_eq)
  qed
qed

lemma CreateVolumeSnapshot_confined [keeps_rules]:
  assumes po: "po = client_policy c ns"
  shows "keeps (confined po) (CreateVolumeSnapshot c ns name claim cls)"
  unfolding CreateVolumeSnapshot_def
proof (rule keeps_bind_strong [OF confined_transp], goal_cases)
  case 1
  show ?case using po by (intro keeps_rules) simp
next
  case (2 x w w')
  obtain p err where x: "x = (p, err)" by fastforce
  show ?case
  proof (cases "err = None")
    case True
    with 2 x have get: "GetDataVolume c ns claim w = (Ok (p, None), w')" by simp
    then have seen: "seen_dv po (w_log w') claim"
      using po by (simp add: GetDataVolume_seen)
    obtain dv where p: "p = Some dv"
      using get refl by (rule GetDataVolume_Ok)
    have "keeps (\<lambda>u v. seen_dv po (w_log u) claim \<longrightarrow> confined po u v)
       (bindG (getSnapshotClassNameFromVolumeClaimName c ns (om_Name (dv_Meta dv)) cls)
           (\<lambda>(className, err). if err \<noteq> None then ret (None, err)
             else VolumeSnapshots_Create (cl_rt c) ns (newSnapshot c ns name claim className)))"
      (is "keeps ?R (bindG ?cls ?create)")
    proof (rule keeps_bind)
      show "transp ?R"
        by (rule transpI) (metis confined_seen confined_transp transpD)
      show "keeps ?R ?cls"
        by (rule keeps_mono [of "confined po"]) (use po in \<open>auto intro: keeps_rules\<close>)
    next
      fix y :: "string \<times> gerr option"
      obtain className err where y: "y = (className, err)" by fastforce
      show "keeps ?R (?create y)"
      proof (rule keepsI)
        fix u r v
        assume run: "?create y u = (r, v)"
        have "confined po u v" if "seen_dv po (w_log u) claim"
        proof (cases "err = None")
          case True
          have "allowed po (w_log u)
              ((get_request Infra snapshotPath (Some (po_Namespace po)) ''volumesnapshots'' None)
                \<lparr>rq_Verb := POST, rq_Body := BodySnapshot (newSnapshot c ns name claim className)\<rparr>)"
            using that po
            by (intro allowed.create_snapshot [where claim = claim]) (auto simp: newSnapshot_def)
          then show ?thesis
            by (rule confined_typed_get) (use run y True po in \<open>simp add: VolumeSnapshots_Create_def\<close>)
        next
          case False
          with run y show ?thesis by (auto intro: confined_log_eq)
        qed
        then show "?R u v" by blast
      qed
    qed
    with seen x True p show ?thesis
      by (simp add: keeps_def)
  next
    case False
    with x show ?thesis by (auto intro: confined_log_eq)
  qed
qed

lemma AddVolumeToVM_confined:
  assumes "po_Namespace po = ns" and "seen_dv po (w_log w) (avo_DataVolume opts)"
    and "seen_vm po (w_log w) vm"
    and run: "AddVolumeToVM c ns vm opts w = (r, w')"
  shows "confined po w w'"
proof -
  let ?rq = "put_request (vmSubresourceURL ns vm ''addvolume'') (BodyAddVolume opts)"
  have "allowed po (w_log w) ?rq"
    using assms(1-3) allowed.add_volume by blast
  moreover obtain resp v where v: "rest_do (cl_rt c) ?rq w = (Ok resp, v)"
    using rest_do_never_panics by (rule never_panicsE)
  ultimately show ?thesis
    using run by (auto simp: AddVolumeToVM_def intro: confined_rest_do)
qed

end
