(* ===== verification/Client_Interface.thy ===== *)
theory Client_Interface
  imports Client_Guard
begin

text \<open>
  The Go interface \<open>Client\<close> of \<open>client.go\<close> as a record of its methods, the client object as a value of
  it, and the contract on which the controller relies: a locale over any implementation of the
  interface, interpreted on the methods of \<open>client\<close>.
\<close>

section \<open>The interface and its implementation\<close>

record 'w Client =
  ic_Ping :: "('w, gerr option) go"
  ic_ListVirtualMachines :: "string \<Rightarrow> ('w, VirtualMachineInstance list \<times> gerr option) go"
  ic_GetVirtualMachine :: "string \<Rightarrow> string \<Rightarrow> ('w, VirtualMachineInstance option \<times> gerr option) go"
  ic_GetWorkloadManagingVirtualMachine :: "string \<Rightarrow> string \<Rightarrow> ('w, VirtualMachine option \<times> gerr option) go"
  ic_DeleteDataVolume :: "string \<Rightarrow> string \<Rightarrow> ('w, gerr option) go"
  ic_CreateDataVolume :: "string \<Rightarrow> DataVolume \<Rightarrow> ('w, DataVolume option \<times> gerr option) go"
  ic_GetDataVolume :: "string \<Rightarrow> string \<Rightarrow> ('w, DataVolume option \<times> gerr option) go"
  ic_GetPersistentVolumeClaim :: "string \<Rightarrow> string \<Rightarrow> ('w, PersistentVolumeClaim option \<times> gerr option) go"
  ic_ExpandPersistentVolumeClaim :: "string \<Rightarrow> string \<Rightarrow> int \<Rightarrow> ('w, gerr option) go"
  ic_AddVolumeToVM :: "string \<Rightarrow> string \<Rightarrow> AddVolumeOptions \<Rightarrow> ('w, gerr option) go"
  ic_RemoveVolumeFromVM :: "string \<Rightarrow> string \<Rightarrow> RemoveVolumeOptions \<Rightarrow> ('w, gerr option) go"
  ic_RemoveVolumeFromVMI :: "string \<Rightarrow> string \<Rightarrow> RemoveVolumeOptions \<Rightarrow> ('w, gerr option) go"
  ic_EnsureVolumeAvailable :: "string \<Rightarrow> string \<Rightarrow> string \<Rightarrow> nat \<Rightarrow> ('w, gerr option) go"
  ic_EnsureVolumeAvailableVM :: "string \<Rightarrow> string \<Rightarrow> string \<Rightarrow> ('w, bool \<times> gerr option) go"
  ic_EnsureVolumeRemoved :: "string \<Rightarrow> string \<Rightarrow> string \<Rightarrow> nat \<Rightarrow> ('w, gerr option) go"
  ic_EnsureVolumeRemovedVM :: "string \<Rightarrow> string \<Rightarrow> string \<Rightarrow> ('w, bool \<times> gerr option) go"
  ic_EnsureVolumeRemovedVMI :: "string \<Rightarrow> string \<Rightarrow> string \<Rightarrow> ('w, bool \<times> gerr option) go"
  ic_EnsureSnapshotReady :: "string \<Rightarrow> string \<Rightarrow> nat \<Rightarrow> ('w, gerr option) go"
  ic_EnsureControllerResize :: "string \<Rightarrow> string \<Rightarrow> nat \<Rightarrow> ('w, gerr option) go"
  ic_CreateVolumeSnapshot :: "string \<Rightarrow> string \<Rightarrow> string \<Rightarrow> string \<Rightarrow> ('w, VolumeSnapshot option \<times> gerr option) go"
  ic_GetVolumeSnapshot :: "string \<Rightarrow> string \<Rightarrow> ('w, VolumeSnapshot option \<times> gerr option) go"
  ic_DeleteVolumeSnapshot :: "string \<Rightarrow> string \<Rightarrow> ('w, gerr option) go"
  ic_ListVolumeSnapshots :: "string \<Rightarrow> ('w, VolumeSnapshot list option \<times> gerr option) go"

definition as_Client :: "'e client \<Rightarrow> 'e world Client" where
  "as_Client c = \<lparr>
     ic_Ping = Ping c,
     ic_ListVirtualMachines = ListVirtualMachines c,
     ic_GetVirtualMachine = GetVirtualMachine c,
     ic_GetWorkloadManagingVirtualMachine = GetWorkloadManagingVirtualMachine c,
     ic_DeleteDataVolume = DeleteDataVolume c,
     ic_CreateDataVolume = CreateDataVolume c,
     ic_GetDataVolume = GetDataVolume c,
     ic_GetPersistentVolumeClaim = GetPersistentVolumeClaim c,
     ic_ExpandPersistentVolumeClaim = ExpandPersistentVolumeClaim c,
     ic_AddVolumeToVM = AddVolumeToVM c,
     ic_RemoveVolumeFromVM = RemoveVolumeFromVM c,
     ic_RemoveVolumeFromVMI = RemoveVolumeFromVMI c,
     ic_EnsureVolumeAvailable = EnsureVolumeAvailable c,
     ic_EnsureVolumeAvailableVM = EnsureVolumeAvailableVM c,
     ic_EnsureVolumeRemoved = EnsureVolumeRemoved c,
     ic_EnsureVolumeRemovedVM = EnsureVolumeRemovedVM c,
     ic_EnsureVolumeRemovedVMI = EnsureVolumeRemovedVMI c,
     ic_EnsureSnapshotReady = EnsureSnapshotReady c,
     ic_EnsureControllerResize = EnsureControllerResize c,
     ic_CreateVolumeSnapshot = CreateVolumeSnapshot c,
     ic_GetVolumeSnapshot = GetVolumeSnapshot c,
     ic_DeleteVolumeSnapshot = DeleteVolumeSnapshot c,
     ic_ListVolumeSnapshots = ListVolumeSnapshots c\<rparr>"

lemma as_Client_sel [simp]:
  "ic_Ping (as_Client c) = Ping c"
  "ic_ListVirtualMachines (as_Client c) = ListVirtualMachines c"
  "ic_GetVirtualMachine (as_Client c) = GetVirtualMachine c"
  "ic_GetWorkloadManagingVirtualMachine (as_Client c) = GetWorkloadManagingVirtualMachine c"
  "ic_DeleteDataVolume (as_Client c) = DeleteDataVolume c"
  "ic_CreateDataVolume (as_Client c) = CreateDataVolume c"
  "ic_GetDataVolume (as_Client c) = GetDataVolume c"
  "ic_GetPersistentVolumeClaim (as_Client c) = GetPersistentVolumeClaim c"
  "ic_ExpandPersistentVolumeClaim (as_Client c) = ExpandPersistentVolumeClaim c"
  "ic_AddVolumeToVM (as_Client c) = AddVolumeToVM c"
  "ic_RemoveVolumeFromVM (as_Client c) = RemoveVolumeFromVM c"
  "ic_RemoveVolumeFromVMI (as_Client c) = RemoveVolumeFromVMI c"
  "ic_EnsureVolumeAvailable (as_Client c) = EnsureVolumeAvailable c"
  "ic_EnsureVolumeAvailableVM (as_Client c) = EnsureVolumeAvailableVM c"
  "ic_EnsureVolumeRemoved (as_Client c) = EnsureVolumeRemoved c"
  "ic_EnsureVolumeRemovedVM (as_Client c) = EnsureVolumeRemovedVM c"
  "ic_EnsureVolumeRemovedVMI (as_Client c) = EnsureVolumeRemovedVMI c"
  "ic_EnsureSnapshotReady (as_Client c) = EnsureSnapshotReady c"
  "ic_EnsureControllerResize (as_Client c) = EnsureControllerResize c"
  "ic_CreateVolumeSnapshot (as_Client c) = CreateVolumeSnapshot c"
  "ic_GetVolumeSnapshot (as_Client c) = GetVolumeSnapshot c"
  "ic_DeleteVolumeSnapshot (as_Client c) = DeleteVolumeSnapshot c"
  "ic_ListVolumeSnapshots (as_Client c) = ListVolumeSnapshots c"
  by (simp_all add: as_Client_def)

section \<open>The contract\<close>

text \<open>
  \<open>conf\<close> relates a world to one it may become by the driver's requests; \<open>seen w name\<close> says that the
  volume was seen to be the tenant's, \<open>met w vm\<close> that the VM was seen.  Every method keeps to \<open>conf\<close> when called in the tenant's
  namespace; a volume is created with the tenant's labels, plugged into a VM after both were seen, and
  unplugged right after the VM or the VMI was shown (\<open>vm_shown\<close>, \<open>vmi_shown\<close>) with it hot-plugged.
\<close>

locale confined_client =
  fixes C :: "'w Client" and slp :: "nat \<Rightarrow> 'w \<Rightarrow> 'w" and ns :: string and labels :: "string gomap"
    and conf :: "'w \<Rightarrow> 'w \<Rightarrow> bool" and seen :: "'w \<Rightarrow> string \<Rightarrow> bool"
    and met :: "'w \<Rightarrow> string \<Rightarrow> bool"
    and vm_shown :: "'w \<Rightarrow> string \<Rightarrow> VirtualMachine \<Rightarrow> bool"
    and vmi_shown :: "'w \<Rightarrow> string \<Rightarrow> VirtualMachineInstance \<Rightarrow> bool"
  assumes conf_reflp: "reflp conf" and conf_transp: "transp conf"
    and conf_sleep: "conf w (slp d w)"
    and seen_mono: "conf w w' \<Longrightarrow> seen w name \<Longrightarrow> seen w' name"
    and met_mono: "conf w w' \<Longrightarrow> met w name \<Longrightarrow> met w' name"
    and conf_list_vms: "keeps conf (ic_ListVirtualMachines C ns)"
    and conf_get_vmi: "keeps conf (ic_GetVirtualMachine C ns name)"
    and conf_get_vm: "keeps conf (ic_GetWorkloadManagingVirtualMachine C ns name)"
    and conf_get_dv: "keeps conf (ic_GetDataVolume C ns name)"
    and get_dv_seen: "ic_GetDataVolume C ns name w = (Ok (p, None), w') \<Longrightarrow> seen w' name"
    and conf_create_dv: "om_Labels (dv_Meta dv) = labels \<Longrightarrow> om_Namespace (dv_Meta dv) = ns \<Longrightarrow>
        keeps conf (ic_CreateDataVolume C ns dv)"
    and conf_delete_dv: "keeps conf (ic_DeleteDataVolume C ns name)"
    and conf_expand: "keeps conf (ic_ExpandPersistentVolumeClaim C ns claim bytes)"
    and conf_resize: "keeps conf (ic_EnsureControllerResize C ns claim timeout)"
    and get_vm_met: "ic_GetWorkloadManagingVirtualMachine C ns name w = (Ok (pv, None), w') \<Longrightarrow> met w' name"
    and conf_add: "seen w (avo_DataVolume opts) \<Longrightarrow> met w vm \<Longrightarrow> ic_AddVolumeToVM C ns vm opts w = (r, w') \<Longrightarrow> conf w w'"
    and get_vm_shown: "ic_GetWorkloadManagingVirtualMachine C ns name w = (Ok (Some v, None), w') \<Longrightarrow>
        vm_shown w' name v"
    and get_vm_err: "ic_GetWorkloadManagingVirtualMachine C ns name w = (Ok (Some v, Some e), w') \<Longrightarrow>
        vm_Template v = None"
    and get_vmi_shown: "ic_GetVirtualMachine C ns name w = (Ok (Some vmi, None), w') \<Longrightarrow>
        vmi_shown w' name vmi"
    and conf_remove_vm: "vm_shown w vm v \<Longrightarrow> vm_holds vol v \<Longrightarrow>
        ic_RemoveVolumeFromVM C ns vm \<lparr>rvo_Name = vol\<rparr> w = (ru, w') \<Longrightarrow> conf w w'"
    and conf_remove_vmi: "vmi_shown w vm vmi \<Longrightarrow> vmi_holds vol vmi \<Longrightarrow>
        ic_RemoveVolumeFromVMI C ns vm \<lparr>rvo_Name = vol\<rparr> w = (ru, w') \<Longrightarrow> conf w w'"
    and conf_available: "keeps conf (ic_EnsureVolumeAvailable C ns vm vol timeout)"
    and conf_available_vm: "keeps conf (ic_EnsureVolumeAvailableVM C ns vm vol)"
    and conf_removed: "keeps conf (ic_EnsureVolumeRemoved C ns vm vol timeout)"
    and conf_removed_vm: "keeps conf (ic_EnsureVolumeRemovedVM C ns vm vol)"
    and conf_removed_vmi: "keeps conf (ic_EnsureVolumeRemovedVMI C ns vm vol)"
    and conf_create_snapshot: "keeps conf (ic_CreateVolumeSnapshot C ns name claim cls)"
    and conf_get_snapshot: "keeps conf (ic_GetVolumeSnapshot C ns name)"
    and conf_delete_snapshot: "keeps conf (ic_DeleteVolumeSnapshot C ns name)"
    and conf_list_snapshots: "keeps conf (ic_ListVolumeSnapshots C ns)"
    and conf_snapshot_ready: "keeps conf (ic_EnsureSnapshotReady C ns name timeout)"
begin

lemmas conf_bind = keeps_bind [OF conf_transp]

lemmas conf_basic = keeps_ret [OF conf_reflp] keeps_panic [OF conf_reflp] keeps_deref [OF conf_reflp]
  keeps_if keeps_case_prod keeps_case_option keeps_case_sum keeps_Let conf_bind

lemmas conf_methods = conf_list_vms conf_get_vmi conf_get_vm conf_get_dv conf_delete_dv conf_expand
  conf_resize conf_available conf_available_vm conf_removed
  conf_removed_vm conf_removed_vmi conf_create_snapshot conf_get_snapshot conf_delete_snapshot
  conf_list_snapshots conf_snapshot_ready

lemma conf_refl: "conf w w"
  using conf_reflp by (rule reflpD)

lemma conf_trans: "conf w w' \<Longrightarrow> conf w' w'' \<Longrightarrow> conf w w''"
  using conf_transp by (rule transpD)

lemma conf_backoff:
  "keeps conf condition \<Longrightarrow> keeps conf (ExponentialBackoff slp b condition)"
  by (rule keeps_ExponentialBackoff [OF conf_reflp conf_transp _ conf_sleep])

end

text \<open>The client object honours the contract.\<close>

interpretation real: confined_client "as_Client c" "sleep_world (cl_rt c)" ns "cl_infraLabelMap c"
  "confined (client_policy c ns)" "\<lambda>w name. seen_dv (client_policy c ns) (w_log w) name"
  "\<lambda>w name. seen_vm (client_policy c ns) (w_log w) name"
  "\<lambda>w. shown_vm (client_policy c ns) (w_log w)" "\<lambda>w. shown_vmi (client_policy c ns) (w_log w)"
  for c :: "'e client" and ns :: string
proof (unfold_locales, goal_cases)
  case (16 w opts vm r w')
  then show ?case by (auto intro: AddVolumeToVM_confined [rotated])
next
  case (18 name w v e w')
  then show ?case by (auto dest!: GetWorkloadManagingVirtualMachine_err simp: zero_VirtualMachine_def)
next
  case (20 w vm v vol ru w')
  then show ?case by (auto intro: RemoveVolumeFromVM_confined)
next
  case (21 w vm vmi vol ru w')
  then show ?case by (auto intro: RemoveVolumeFromVMI_confined)
qed (auto intro: keeps_rules confined_log_eq confined_seen confined_seen_vm
    GetDataVolume_seen GetWorkloadManagingVirtualMachine_seen
    GetWorkloadManagingVirtualMachine_shown GetVirtualMachine_shown)

end
