(* ===== verification/Controller_Volumes.thy ===== *)
theory Controller_Volumes
  imports Client_Interface
begin

text \<open>
  The controller service of \<open>src/pkg/service/controller.go\<close>, first part: the service object, the
  validation of requests, creating, deleting, validating and expanding volumes.  A request or a
  response is an \<open>option\<close>, \<open>None\<close> for a nil message.
\<close>

section \<open>The service\<close>

record 'w ControllerService =
  cs_virtClient :: "'w Client"
  cs_infraClusterNamespace :: string
  cs_infraClusterLabels :: "string gomap"
  cs_storageClassEnforcement :: StorageClassEnforcement
  cs_sleep :: "nat \<Rightarrow> 'w \<Rightarrow> 'w"

definition NewControllerService ::
  "'w Client \<Rightarrow> string \<Rightarrow> string gomap \<Rightarrow> StorageClassEnforcement \<Rightarrow> (nat \<Rightarrow> 'w \<Rightarrow> 'w)
     \<Rightarrow> 'w ControllerService" where
  "NewControllerService virtClient infraClusterNamespace infraClusterLabels enforcement slp =
     \<lparr>cs_virtClient = virtClient, cs_infraClusterNamespace = infraClusterNamespace,
      cs_infraClusterLabels = infraClusterLabels, cs_storageClassEnforcement = enforcement,
      cs_sleep = slp\<rparr>"

datatype ControllerCap = CREATE_DELETE_VOLUME | PUBLISH_UNPUBLISH_VOLUME | CREATE_DELETE_SNAPSHOT
  | LIST_SNAPSHOTS | CLONE_VOLUME | EXPAND_VOLUME

definition controllerCaps :: "ControllerCap list" where
  "controllerCaps = [CREATE_DELETE_VOLUME, PUBLISH_UNPUBLISH_VOLUME, CREATE_DELETE_SNAPSHOT,
     LIST_SNAPSHOTS, CLONE_VOLUME, EXPAND_VOLUME]"

definition busParameter :: string where "busParameter = ''bus''"
definition busDefaultValue :: string where "busDefaultValue = ''scsi''"
definition serialParameter :: string where "serialParameter = ''serial''"
definition InfraStorageClassNameParameter :: string where
  "InfraStorageClassNameParameter = ''infraStorageClassName''"
definition InfraSnapshotClassNameParameter :: string where
  "InfraSnapshotClassNameParameter = ''infraSnapshotClassName''"

definition unallowedStorageClass :: gerr where
  "unallowedStorageClass = GrpcStatus InvalidArgument ''infraStorageclass is not in the allowed list''"

section \<open>Access modes and validation\<close>

definition hasRWXCapabiltyAccessMode :: "AccessModeMode option \<Rightarrow> bool \<times> gerr option" where
  "hasRWXCapabiltyAccessMode cap =
     (case GetMode cap of
        SINGLE_NODE_WRITER \<Rightarrow> (False, None)
      | SINGLE_NODE_READER_ONLY \<Rightarrow> (False, None)
      | SINGLE_NODE_SINGLE_WRITER \<Rightarrow> (False, None)
      | SINGLE_NODE_MULTI_WRITER \<Rightarrow> (False, None)
      | MULTI_NODE_READER_ONLY \<Rightarrow> (True, None)
      | MULTI_NODE_SINGLE_WRITER \<Rightarrow> (True, None)
      | MULTI_NODE_MULTI_WRITER \<Rightarrow> (True, None)
      | _ \<Rightarrow> (False, Some (PlainErr ''unknown volume capability'')))"

fun getAccessMode_loop ::
  "VolumeCapability option list \<Rightarrow> bool \<times> bool \<times> gerr option \<Rightarrow> bool \<times> bool \<times> gerr option" where
  "getAccessMode_loop [] acc = acc"
| "getAccessMode_loop (capability # caps) (isBlock, isRWX, err) =
     (if capability = None then getAccessMode_loop caps (isBlock, isRWX, err)
      else getAccessMode_loop caps
             (if GetBlock capability \<noteq> None then True else isBlock,
              if GetAccessMode capability \<noteq> None
                then hasRWXCapabiltyAccessMode (GetAccessMode capability) else (isRWX, err)))"

definition getAccessMode :: "VolumeCapability option list \<Rightarrow> bool \<times> bool \<times> gerr option" where
  "getAccessMode caps = getAccessMode_loop caps (False, False, None)"

definition validateCreateVolumeRequest ::
  "'w ControllerService \<Rightarrow> CreateVolumeRequest option \<Rightarrow> bool \<times> gerr option" where
  "validateCreateVolumeRequest c request =
     (case request of
        None \<Rightarrow> (False, Some (GrpcStatus InvalidArgument ''missing request''))
      | Some req \<Rightarrow>
          if length (cvr_Name req) = 0
            then (False, Some (GrpcStatus InvalidArgument ''name missing in request''))
          else case cvr_VolumeCapabilities req of
              None \<Rightarrow> (False, Some (GrpcStatus InvalidArgument ''volume capabilities missing in request''))
            | Some caps \<Rightarrow>
                let (isBlock, isRWX, err) = getAccessMode caps;
                    enf = cs_storageClassEnforcement c;
                    storageClassName = map_get (cvr_Parameters req) InfraStorageClassNameParameter
                in if err \<noteq> None then (False, err)
                   else if isRWX \<and> \<not> isBlock then (False, Some (GrpcStatus InvalidArgument
                       ''non-block volume with RWX access mode is not supported''))
                   else if sce_AllowAll enf then (isRWX, None)
                   else if storageClassName = '''' then
                     (if sce_AllowDefault enf then (isRWX, None) else (False, Some unallowedStorageClass))
                   else if \<not> Contains (sce_AllowList enf) storageClassName
                     then (False, Some unallowedStorageClass)
                   else (isRWX, None))"

section \<open>CreateVolume\<close>

definition determineDvSource :: "'w ControllerService \<Rightarrow> CreateVolumeRequest
    \<Rightarrow> ('w, DataVolumeSource option \<times> gerr option) go" where
  "determineDvSource c req =
     (let res = \<lparr>dvs_Blank = False, dvs_PVC = None, dvs_Snapshot = None\<rparr>;
          ns = cs_infraClusterNamespace c
      in case cvr_VolumeContentSource req of
          None \<Rightarrow> ret (Some (res\<lparr>dvs_Blank := True\<rparr>), None)
        | Some (SourceSnapshot snapshotSource) \<Rightarrow>
            bindG (ic_GetVolumeSnapshot (cs_virtClient c) ns (idOf snapshotSource)) (\<lambda>(snapshot, err).
              if IsNotFound err then ret (None, Some (GrpcStatus NotFound
                  (''source snapshot content '' @ idOf snapshotSource @ '' not found'')))
              else if err \<noteq> None then ret (None, err)
              else case snapshot of
                  None \<Rightarrow> ret (Some res, None)
                | Some s \<Rightarrow>
                    if snapshotSource \<noteq> None then ret (Some (res\<lparr>dvs_Snapshot :=
                        Some \<lparr>nr_Name = om_Name (snap_Meta s), nr_Namespace = ns\<rparr>\<rparr>), None)
                    else ret (Some res, None))
        | Some (SourceVolume volumeSource) \<Rightarrow>
            bindG (ic_GetDataVolume (cs_virtClient c) ns (idOf volumeSource)) (\<lambda>(volume, err).
              if IsNotFound err then ret (None, Some (GrpcStatus NotFound
                  (''source volume content '' @ idOf volumeSource @ '' not found'')))
              else if err \<noteq> None then ret (None, err)
              else case volume of
                  None \<Rightarrow> ret (Some res, None)
                | Some v \<Rightarrow>
                    if volumeSource \<noteq> None then ret (Some (res\<lparr>dvs_PVC :=
                        Some \<lparr>nr_Name = om_Name (dv_Meta v), nr_Namespace = ns\<rparr>\<rparr>), None)
                    else ret (Some res, None))
        | Some SourceUnset \<Rightarrow> ret (None, Some (GrpcStatus InvalidArgument ''unknown content type'')))"

definition storageSizeOf :: "CreateVolumeRequest \<Rightarrow> int" where
  "storageSizeOf req = (case cvr_RequiredBytes req of None \<Rightarrow> 0 | Some b \<Rightarrow> b)"

definition busOf :: "CreateVolumeRequest \<Rightarrow> string" where
  "busOf req = (case map_of (cvr_Parameters req) busParameter of
     Some value \<Rightarrow> value | None \<Rightarrow> busDefaultValue)"

text \<open>
  The DataVolume to create.  A clone of a volume is asked for by a data source reference of the claim
  instead of a CDI source.
\<close>

definition newDataVolume ::
  "'w ControllerService \<Rightarrow> CreateVolumeRequest \<Rightarrow> bool \<Rightarrow> DataVolumeSource \<Rightarrow> DataVolume" where
  "newDataVolume c req isRWX source =
     (let storageClassName = map_get (cvr_Parameters req) InfraStorageClassNameParameter;
          sourcePVCName = (case dvs_PVC source of None \<Rightarrow> '''' | Some r \<Rightarrow> nr_Name r)
      in \<lparr>dv_Meta = zero_ObjectMeta\<lparr>om_Name := cvr_Name req,
             om_Namespace := cs_infraClusterNamespace c, om_Labels := cs_infraClusterLabels c,
             om_Annotations := [(''cdi.kubevirt.io/storage.deleteAfterCompletion'', ''false'')]\<rparr>,
          dv_Storage = Some \<lparr>ss_Requests = [(''storage'', of_int (storageSizeOf req))],
             ss_AccessModes = (if isRWX then [''ReadWriteMany''] else []),
             ss_StorageClassName = (if storageClassName \<noteq> '''' then Some storageClassName else None),
             ss_DataSourceRef = (if sourcePVCName \<noteq> '''' then
                Some \<lparr>tor_Kind = ''PersistentVolumeClaim'', tor_Name = sourcePVCName\<rparr> else None)\<rparr>,
          dv_Source = (if dvs_PVC source \<noteq> None then None else Some source)\<rparr>)"

definition createVolumeResponse :: "CreateVolumeRequest \<Rightarrow> DataVolume \<Rightarrow> CreateVolumeResponse" where
  "createVolumeResponse req dv =
     \<lparr>cvp_CapacityBytes = storageSizeOf req, cvp_VolumeId = cvr_Name req,
      cvp_VolumeContext = [(busParameter, busOf req), (serialParameter, om_UID (dv_Meta dv))],
      cvp_ContentSource = cvr_VolumeContentSource req\<rparr>"

text \<open>Create the DataVolume, or take the one that exists when its size is the one asked for.\<close>

definition createOrReuse :: "'w ControllerService \<Rightarrow> string \<Rightarrow> DataVolume
    \<Rightarrow> ('w, DataVolume option \<times> gerr option) go" where
  "createOrReuse c dvName dv =
     bindG (ic_GetDataVolume (cs_virtClient c) (cs_infraClusterNamespace c) dvName) (\<lambda>(existingDv, err).
       if IsNotFound err then
         bindG (ic_CreateDataVolume (cs_virtClient c) (cs_infraClusterNamespace c) dv) (\<lambda>(created, err).
           if err \<noteq> None then ret (None, err) else ret (created, None))
       else if err \<noteq> None then ret (None, err)
       else case existingDv of
           None \<Rightarrow> ret (Some dv, None)
         | Some existing \<Rightarrow> (case dv_Storage existing of
               None \<Rightarrow> ret (Some dv, None)
             | Some storage \<Rightarrow> deref (dv_Storage dv) (\<lambda>newStorage.
                 if Quantity_Cmp (quantity_get (ss_Requests newStorage) ''storage'')
                      (quantity_get (ss_Requests storage) ''storage'') \<noteq> 0
                   then ret (None, Some (GrpcStatus AlreadyExists
                     ''Requested storage size does not match existing size''))
                 else ret (Some existing, None))))"

definition CreateVolume :: "'w ControllerService \<Rightarrow> CreateVolumeRequest option
    \<Rightarrow> ('w, CreateVolumeResponse option \<times> gerr option) go" where
  "CreateVolume c request =
     (let (isRWX, err) = validateCreateVolumeRequest c request in
      if err \<noteq> None then ret (None, err)
      else deref request (\<lambda>req.
        bindG (determineDvSource c req) (\<lambda>(source, err).
          if err \<noteq> None then ret (None, err)
          else deref source (\<lambda>src.
            bindG (createOrReuse c (cvr_Name req) (newDataVolume c req isRWX src)) (\<lambda>(dv, err).
              if err \<noteq> None then ret (None, err)
              else deref dv (\<lambda>d. ret (Some (createVolumeResponse req d), None)))))))"

section \<open>DeleteVolume\<close>

definition validateDeleteVolumeRequest :: "string option \<Rightarrow> gerr option" where
  "validateDeleteVolumeRequest req = (case req of
       None \<Rightarrow> Some (GrpcStatus InvalidArgument ''missing request'')
     | Some volumeId \<Rightarrow> if length volumeId = 0
         then Some (GrpcStatus InvalidArgument ''Volume ID missing in request'') else None)"

definition DeleteVolume :: "'w ControllerService \<Rightarrow> string option
    \<Rightarrow> ('w, unit option \<times> gerr option) go" where
  "DeleteVolume c req =
     (case validateDeleteVolumeRequest req of
        Some e \<Rightarrow> ret (None, Some e)
      | None \<Rightarrow> deref req (\<lambda>dvName.
          bindG (ic_DeleteDataVolume (cs_virtClient c) (cs_infraClusterNamespace c) dvName) (\<lambda>err.
            if err \<noteq> None then ret (None, err) else ret (Some (), None))))"

section \<open>ValidateVolumeCapabilities\<close>

definition ValidateVolumeCapabilities ::
  "'w ControllerService \<Rightarrow> ValidateVolumeCapabilitiesRequest option
     \<Rightarrow> ('w, ValidateVolumeCapabilitiesConfirmed option \<times> gerr option) go" where
  "ValidateVolumeCapabilities c request =
     (case request of
        None \<Rightarrow> ret (None, Some (GrpcStatus InvalidArgument ''volume ID not provided''))
      | Some req \<Rightarrow>
          if length (vvr_VolumeId req) = 0
            then ret (None, Some (GrpcStatus InvalidArgument ''volume ID not provided''))
          else if length (vvr_VolumeCapabilities req) = 0
            then ret (None, Some (GrpcStatus InvalidArgument
                   (''volumeCapabilities not provided for '' @ vvr_VolumeId req)))
          else if list_ex (\<lambda>capability. GetMount capability = None) (vvr_VolumeCapabilities req)
            then ret (None, Some (GrpcStatus InvalidArgument ''mount type is undefined''))
          else bindG (ic_GetDataVolume (cs_virtClient c) (cs_infraClusterNamespace c) (vvr_VolumeId req))
            (\<lambda>(_, err).
              if IsNotFound err then ret (None, Some (GrpcStatus NotFound
                  (''volume '' @ vvr_VolumeId req @ '' not found'')))
              else if err \<noteq> None then ret (None, err)
              else ret (Some \<lparr>vvc_VolumeContext = vvr_VolumeContext req,
                     vvc_VolumeCapabilities = vvr_VolumeCapabilities req,
                     vvc_Parameters = vvr_Parameters req\<rparr>, None)))"

section \<open>ControllerExpandVolume\<close>

definition ControllerExpandVolume :: "'w ControllerService \<Rightarrow> ControllerExpandVolumeRequest option
    \<Rightarrow> ('w, ControllerExpandVolumeResponse option \<times> gerr option) go" where
  "ControllerExpandVolume c request =
     (let volumeID = (case request of None \<Rightarrow> '''' | Some req \<Rightarrow> cer_VolumeId req);
          capRange = (case request of None \<Rightarrow> None | Some req \<Rightarrow> cer_RequiredBytes req);
          capability = (case request of None \<Rightarrow> None | Some req \<Rightarrow> cer_VolumeCapability req)
      in if length volumeID = 0
           then ret (None, Some (GrpcStatus InvalidArgument ''Volume ID not provided''))
         else case capRange of
             None \<Rightarrow> ret (None, Some (GrpcStatus InvalidArgument ''Capacity range not provided''))
           | Some newSize \<Rightarrow>
               bindG (ic_ExpandPersistentVolumeClaim (cs_virtClient c) (cs_infraClusterNamespace c)
                        volumeID newSize) (\<lambda>err.
                 case err of
                   Some e \<Rightarrow>
                     if \<not> IsNotFound err then ret (None, Some (GrpcStatus Internal
                         (''Failed to expand PVC '' @ volumeID @ '': '' @ Error_string e)))
                     else ret (None, Some (GrpcStatus NotFound
                         (''volume '' @ volumeID @ '' not found'')))
                 | None \<Rightarrow>
                     bindG (ic_EnsureControllerResize (cs_virtClient c) (cs_infraClusterNamespace c)
                              volumeID (2 * Minute)) (\<lambda>err.
                       if err \<noteq> None then ret (None, err)
                       else ret (Some \<lparr>cep_CapacityBytes = newSize,
                              cep_NodeExpansionRequired = (GetBlock capability = None)\<rparr>, None))))"

section \<open>Capabilities and unimplemented calls\<close>

definition ControllerGetCapabilities :: "('w, ControllerCap list option \<times> gerr option) go" where
  "ControllerGetCapabilities = ret (Some (map (\<lambda>capability. capability) controllerCaps), None)"

definition ListVolumes :: "('w, unit option \<times> gerr option) go" where
  "ListVolumes = ret (None, Some (GrpcStatus Unimplemented ''''))"

definition GetCapacity :: "('w, unit option \<times> gerr option) go" where
  "GetCapacity = ret (None, Some (GrpcStatus Unimplemented ''''))"

definition ControllerGetVolume :: "('w, unit option \<times> gerr option) go" where
  "ControllerGetVolume = ret (None, Some (GrpcStatus Unimplemented ''''))"

end
