(* ===== verification/Controller_Attach.thy ===== *)
theory Controller_Attach
  imports Controller_Volumes
begin

text \<open>
  The controller service of \<open>src/pkg/service/controller.go\<close>, second part: attaching volumes to the
  virtual machines that are the tenant's nodes, and detaching them.
\<close>

section \<open>Is the volume attached?\<close>

definition hotplugged :: "string \<Rightarrow> Volume \<Rightarrow> bool" where
  "hotplugged dvName volume = (case vol_DataVolume volume of
     None \<Rightarrow> False | Some d \<Rightarrow> dvr_Hotpluggable d \<and> vol_Name volume = dvName)"

definition isVolumeAttached ::
  "'w ControllerService \<Rightarrow> string \<Rightarrow> string \<Rightarrow> ('w, bool \<times> gerr option) go" where
  "isVolumeAttached c dvName vmName =
     bindG (ic_GetWorkloadManagingVirtualMachine (cs_virtClient c) (cs_infraClusterNamespace c) vmName)
       (\<lambda>(vm, err).
         if err \<noteq> None then
           (if \<not> IsNotFound err then ret (False, err)
            else ret (False, Some (GrpcStatus NotFound (''vm '' @ vmName @ '' not found''))))
         else deref vm (\<lambda>v. deref (vm_Template v) (\<lambda>volumes.
           ret (list_ex (hotplugged dvName) volumes, None))))"

text \<open>Another VMI than the current one that reports a volume of this name.\<close>

fun attachedElsewhere :: "string \<Rightarrow> string \<Rightarrow> VirtualMachineInstance list \<Rightarrow> bool" where
  "attachedElsewhere dvName currentVMIName [] = False"
| "attachedElsewhere dvName currentVMIName (vmi # vmis) =
     (if om_Name (vmi_Meta vmi) = currentVMIName then attachedElsewhere dvName currentVMIName vmis
      else if list_ex (\<lambda>volumeStatus. vs_Name volumeStatus = dvName) (vmi_VolumeStatus vmi) then True
      else attachedElsewhere dvName currentVMIName vmis)"

definition IsVolumeAttachedToOtherVMI ::
  "'w ControllerService \<Rightarrow> string \<Rightarrow> string \<Rightarrow> string \<Rightarrow> ('w, bool \<times> gerr option) go" where
  "IsVolumeAttachedToOtherVMI c dvName infraNamespace currentVMIName =
     bindG (ic_ListVirtualMachines (cs_virtClient c) infraNamespace) (\<lambda>(vmis, err).
       case err of
         Some e \<Rightarrow> ret (False, Some (WrapErr (''failed to list Virtual Machine Instances in namespace ''
                     @ infraNamespace @ '': '' @ Error_string e) e))
       | None \<Rightarrow> ret (attachedElsewhere dvName currentVMIName vmis, None))"

section \<open>ControllerPublishVolume\<close>

definition validateControllerPublishVolumeRequest ::
  "ControllerPublishVolumeRequest option \<Rightarrow> gerr option" where
  "validateControllerPublishVolumeRequest request = (case request of
       None \<Rightarrow> Some (GrpcStatus InvalidArgument ''missing request'')
     | Some req \<Rightarrow>
         if length (cpr_VolumeId req) = 0
           then Some (GrpcStatus InvalidArgument ''volume id missing in request'')
         else if length (cpr_NodeId req) = 0
           then Some (GrpcStatus InvalidArgument ''node id missing in request'')
         else if cpr_VolumeCapability req = None
           then Some (GrpcStatus InvalidArgument ''volume capability missing in request'')
         else None)"

definition addVolumeToVm ::
  "'w ControllerService \<Rightarrow> string \<Rightarrow> string \<Rightarrow> AddVolumeOptions \<Rightarrow> ('w, gerr option) go" where
  "addVolumeToVm c dvName vmName addVolumeOptions =
     bindG (isVolumeAttached c dvName vmName) (\<lambda>(volumeFound, err).
       if err \<noteq> None then ret err
       else if \<not> volumeFound then
         bindG (ic_AddVolumeToVM (cs_virtClient c) (cs_infraClusterNamespace c) vmName addVolumeOptions)
           (\<lambda>err. if err \<noteq> None then ret err else ret None)
       else ret None)"

definition hotplugBackoff :: Backoff where
  "hotplugBackoff = \<lparr>bo_Duration = Second, bo_Factor = 2, bo_Steps = 5, bo_Cap = 30 * Second\<rparr>"

text \<open>The retried closure: an error is logged and tried again.\<close>

definition retrying :: "('w, gerr option) go \<Rightarrow> ('w, bool \<times> gerr option) go" where
  "retrying m = bindG m (\<lambda>err. if err \<noteq> None then ret (False, None) else ret (True, None))"

definition addVolumeOptionsFor :: "ControllerPublishVolumeRequest \<Rightarrow> AddVolumeOptions" where
  "addVolumeOptionsFor req =
     \<lparr>avo_Name = cpr_VolumeId req,
      avo_Disk = \<lparr>dk_Serial = map_get (cpr_VolumeContext req) serialParameter,
                  dk_Bus = map_get (cpr_VolumeContext req) busParameter\<rparr>,
      avo_DataVolume = cpr_VolumeId req\<rparr>"

text \<open>The check that a volume for one node is not attached to another one: the error to return.\<close>

definition checkExclusive ::
  "'w ControllerService \<Rightarrow> bool \<Rightarrow> string \<Rightarrow> string \<Rightarrow> ('w, gerr option) go" where
  "checkExclusive c isRWX dvName vmName =
     (if \<not> isRWX then
        bindG (IsVolumeAttachedToOtherVMI c dvName (cs_infraClusterNamespace c) vmName)
          (\<lambda>(alreadyAttached, err).
            case err of
              Some e \<Rightarrow> ret (Some (GrpcStatus FailedPrecondition
                  (''failed to check if volume is already attached: '' @ Error_string e)))
            | None \<Rightarrow> if alreadyAttached
                then ret (Some (GrpcStatus FailedPrecondition ''volume is attached to another VM''))
                else ret None)
      else ret None)"

text \<open>The last part: plug the volume in, with retries, and wait until it is available.\<close>

definition plugIn :: "'w ControllerService \<Rightarrow> ControllerPublishVolumeRequest \<Rightarrow> string
    \<Rightarrow> ('w, unit option \<times> gerr option) go" where
  "plugIn c req vmName =
     bindG (ExponentialBackoff (cs_sleep c) hotplugBackoff
              (retrying (addVolumeToVm c (cpr_VolumeId req) vmName (addVolumeOptionsFor req)))) (\<lambda>err.
       if err \<noteq> None then ret (None, err)
       else bindG (ic_EnsureVolumeAvailable (cs_virtClient c) (cs_infraClusterNamespace c) vmName
                     (cpr_VolumeId req) (2 * Minute)) (\<lambda>err.
         if err \<noteq> None then ret (None, err) else ret (Some (), None)))"

text \<open>The part after the check: the volume and the VM must exist, and the volume is plugged in.\<close>

definition publishChecked :: "'w ControllerService \<Rightarrow> ControllerPublishVolumeRequest \<Rightarrow> string
    \<Rightarrow> ('w, unit option \<times> gerr option) go" where
  "publishChecked c req vmName =
     (let dvName = cpr_VolumeId req;
          ns = cs_infraClusterNamespace c;
          virtClient = cs_virtClient c
      in bindG (ic_GetDataVolume virtClient ns dvName) (\<lambda>(_, err).
          if IsNotFound err then ret (None, Some (GrpcStatus NotFound
              (''volume '' @ cpr_VolumeId req @ '' not found'')))
          else if err \<noteq> None then ret (None, err)
          else bindG (ic_GetWorkloadManagingVirtualMachine virtClient ns vmName) (\<lambda>(_, err).
          if err \<noteq> None then
            (if \<not> IsNotFound err then ret (None, err)
             else ret (None, Some (GrpcStatus NotFound (''vm '' @ vmName @ '' not found''))))
          else bindG (ic_EnsureVolumeAvailableVM virtClient ns vmName dvName) (\<lambda>(attached, err).
          if err \<noteq> None then ret (None, err)
          else if attached then ret (Some (), None)
          else plugIn c req vmName))))"

definition ControllerPublishVolume :: "'w ControllerService \<Rightarrow> ControllerPublishVolumeRequest option
    \<Rightarrow> ('w, unit option \<times> gerr option) go" where
  "ControllerPublishVolume c request =
     (case validateControllerPublishVolumeRequest request of
        Some e \<Rightarrow> ret (None, Some e)
      | None \<Rightarrow> deref request (\<lambda>req.
          let (_, vmName, err) = SplitMetaNamespaceKey (cpr_NodeId req);
              (isRWX, modeErr) = hasRWXCapabiltyAccessMode (GetAccessMode (cpr_VolumeCapability req))
          in if err \<noteq> None then ret (None, err)
          else case modeErr of
            Some e \<Rightarrow> ret (None, Some (WrapErr (''error checking access mode: '' @ Error_string e) e))
          | None \<Rightarrow>
          bindG (checkExclusive c isRWX (cpr_VolumeId req) vmName) (\<lambda>err.
          if err \<noteq> None then ret (None, err) else publishChecked c req vmName)))"

section \<open>ControllerUnpublishVolume\<close>

definition validateControllerUnpublishVolumeRequest ::
  "ControllerUnpublishVolumeRequest option \<Rightarrow> gerr option" where
  "validateControllerUnpublishVolumeRequest request = (case request of
       None \<Rightarrow> Some (GrpcStatus InvalidArgument ''missing request'')
     | Some req \<Rightarrow>
         if length (cur_VolumeId req) = 0
           then Some (GrpcStatus InvalidArgument ''volume id missing in request'')
         else if length (cur_NodeId req) = 0
           then Some (GrpcStatus InvalidArgument ''node id missing in request'')
         else None)"

definition volumeStillAttached ::
  "'w ControllerService \<Rightarrow> string \<Rightarrow> string \<Rightarrow> ('w, bool \<times> gerr option) go" where
  "volumeStillAttached c vmName dvName =
     (let ns = cs_infraClusterNamespace c;
          virtClient = cs_virtClient c;
          checkVMI = bindG (ic_EnsureVolumeRemovedVMI virtClient ns vmName dvName) (\<lambda>(removedFromVMI, err).
            if err \<noteq> None then ret (False, err) else ret (\<not> removedFromVMI, None))
      in bindG (ic_GetWorkloadManagingVirtualMachine virtClient ns vmName) (\<lambda>(_, err).
           if err = None then
             bindG (ic_EnsureVolumeRemovedVM virtClient ns vmName dvName) (\<lambda>(removedFromVM, err).
               if err \<noteq> None then ret (False, err)
               else if \<not> removedFromVM then ret (True, None)
               else checkVMI)
           else if IsNotFound err then checkVMI
           else ret (False, err)))"

definition removeVolumeFromVm ::
  "'w ControllerService \<Rightarrow> string \<Rightarrow> string \<Rightarrow> ('w, gerr option) go" where
  "removeVolumeFromVm c dvName vmName =
     (let ns = cs_infraClusterNamespace c;
          virtClient = cs_virtClient c;
          removeFromVMI = bindG (ic_GetVirtualMachine virtClient ns vmName) (\<lambda>(vmi, err).
            if err \<noteq> None then (if IsNotFound err then ret None else ret err)
            else deref vmi (\<lambda>v.
              if list_ex (\<lambda>s. vs_HotplugVolume s \<noteq> None \<and> vs_Name s = dvName) (vmi_VolumeStatus v) then
                bindG (ic_RemoveVolumeFromVMI virtClient ns vmName \<lparr>rvo_Name = dvName\<rparr>) (\<lambda>err.
                  if err \<noteq> None then ret err else ret None)
              else ret None))
      in bindG (ic_GetWorkloadManagingVirtualMachine virtClient ns vmName) (\<lambda>(vm, err).
           if err \<noteq> None \<and> \<not> IsNotFound err then ret err
           else case vm of
               None \<Rightarrow> removeFromVMI
             | Some v \<Rightarrow> deref (vm_Template v) (\<lambda>volumes.
                 if list_ex (hotplugged dvName) volumes then
                   bindG (ic_RemoveVolumeFromVM virtClient ns vmName \<lparr>rvo_Name = dvName\<rparr>) (\<lambda>err.
                     if err \<noteq> None then ret err else ret None)
                 else removeFromVMI)))"

definition ControllerUnpublishVolume :: "'w ControllerService \<Rightarrow> ControllerUnpublishVolumeRequest option
    \<Rightarrow> ('w, unit option \<times> gerr option) go" where
  "ControllerUnpublishVolume c request =
     (case validateControllerUnpublishVolumeRequest request of
        Some e \<Rightarrow> ret (None, Some e)
      | None \<Rightarrow> deref request (\<lambda>req.
          let dvName = cur_VolumeId req;
              (_, vmName, err) = SplitMetaNamespaceKey (cur_NodeId req)
          in if err \<noteq> None then ret (None, err)
          else bindG (volumeStillAttached c vmName dvName) (\<lambda>(attached, err).
            if err \<noteq> None then ret (None, err)
            else if \<not> attached then ret (Some (), None)
            else bindG (ExponentialBackoff (cs_sleep c) hotplugBackoff
                          (retrying (removeVolumeFromVm c dvName vmName))) (\<lambda>err.
              if err \<noteq> None then ret (None, err)
              else bindG (ic_EnsureVolumeRemoved (cs_virtClient c) (cs_infraClusterNamespace c)
                            vmName dvName (2 * Minute)) (\<lambda>err.
                if err \<noteq> None then ret (None, err) else ret (Some (), None))))))"

end
