(* ===== verification/Controller_Snapshots.thy ===== *)
theory Controller_Snapshots
  imports Controller_Volumes
begin

text \<open>
  The controller service of \<open>src/pkg/service/controller.go\<close>, third part: creating, deleting and
  listing snapshots.  The positions of the pagination are kept at the width the code gives them:
  \<open>start\<close> is an unsigned and \<open>end\<close> a signed word of 64 bits.
\<close>

section \<open>CreateSnapshot\<close>

definition validateCreateSnapshotRequest :: "CreateSnapshotRequest option \<Rightarrow> gerr option" where
  "validateCreateSnapshotRequest request = (case request of
       None \<Rightarrow> Some (GrpcStatus InvalidArgument ''missing request'')
     | Some req \<Rightarrow>
         if length (csr_Name req) = 0
           then Some (GrpcStatus InvalidArgument ''name missing in request'')
         else if length (csr_SourceVolumeId req) = 0
           then Some (GrpcStatus InvalidArgument ''source volume id missing in request'')
         else None)"

definition verifySourceVolumeExists ::
  "'w ControllerService \<Rightarrow> string \<Rightarrow> ('w, bool \<times> gerr option) go" where
  "verifySourceVolumeExists c volumeID =
     bindG (ic_GetDataVolume (cs_virtClient c) (cs_infraClusterNamespace c) volumeID) (\<lambda>(dv, err).
       if IsNotFound err then ret (False, None) else ret (dv \<noteq> None, err))"

definition snapshotSourceMatchesVolume :: "VolumeSnapshot \<Rightarrow> string \<Rightarrow> bool" where
  "snapshotSourceMatchesVolume snapshot volumeID = (case snap_PersistentVolumeClaimName snapshot of
     None \<Rightarrow> False | Some claim \<Rightarrow> claim = volumeID)"

definition createCsiSnapshot :: "VolumeSnapshot \<Rightarrow> ('w, Snapshot) go" where
  "createCsiSnapshot snapshot =
     deref (snap_PersistentVolumeClaimName snapshot) (\<lambda>claim. ret
       \<lparr>sn_SnapshotId = om_Name (snap_Meta snapshot), sn_SourceVolumeId = claim,
        sn_CreationTime = om_CreationTimestamp (snap_Meta snapshot),
        sn_ReadyToUse = (case snap_Status snapshot of None \<Rightarrow> False
          | Some st \<Rightarrow> (case vss_ReadyToUse st of None \<Rightarrow> False | Some ready \<Rightarrow> ready)),
        sn_SizeBytes = (case snap_Status snapshot of None \<Rightarrow> 0
          | Some st \<Rightarrow> (case vss_RestoreSize st of None \<Rightarrow> 0 | Some q \<Rightarrow> Quantity_Value q))\<rparr>)"

definition createSnapshotResponse :: "VolumeSnapshot \<Rightarrow> ('w, Snapshot) go" where
  "createSnapshotResponse snapshot = createCsiSnapshot snapshot"

definition CreateSnapshot :: "'w ControllerService \<Rightarrow> CreateSnapshotRequest option
    \<Rightarrow> ('w, Snapshot option \<times> gerr option) go" where
  "CreateSnapshot c request =
     (case validateCreateSnapshotRequest request of
        Some e \<Rightarrow> ret (None, Some e)
      | None \<Rightarrow> deref request (\<lambda>req.
          let virtClient = cs_virtClient c; ns = cs_infraClusterNamespace c in
          bindG (ic_GetVolumeSnapshot virtClient ns (csr_Name req)) (\<lambda>(existingSnapshot, err).
            if IsNotFound err then
              bindG (verifySourceVolumeExists c (csr_SourceVolumeId req)) (\<lambda>(exists, err).
                if err \<noteq> None then ret (None, err)
                else if \<not> exists then ret (None, Some (GrpcStatus NotFound
                    (''source volume '' @ csr_SourceVolumeId req @ '' not found'')))
                else bindG (ic_CreateVolumeSnapshot virtClient ns (csr_Name req) (csr_SourceVolumeId req)
                       (map_get (csr_Parameters req) InfraSnapshotClassNameParameter))
                  (\<lambda>(volumeSnapshot, err).
                    if err \<noteq> None then ret (None, err)
                    else deref volumeSnapshot (\<lambda>created.
                      bindG (ic_EnsureSnapshotReady virtClient ns (om_Name (snap_Meta created)) (2 * Minute))
                        (\<lambda>err.
                          if err \<noteq> None then ret (None, err)
                          else bindG (ic_GetVolumeSnapshot virtClient ns (om_Name (snap_Meta created)))
                            (\<lambda>(readySnapshot, err).
                              if err \<noteq> None then ret (None, err)
                              else deref readySnapshot (\<lambda>s.
                                bindG (createSnapshotResponse s) (\<lambda>res. ret (Some res, None))))))))
            else if err \<noteq> None then ret (None, err)
            else deref existingSnapshot (\<lambda>s.
              if \<not> snapshotSourceMatchesVolume s (csr_SourceVolumeId req)
                then ret (None, Some (GrpcStatus AlreadyExists
                  (''snapshot with the same name: '' @ csr_Name req @
                   '' but with different SourceVolumeId already exist'')))
              else bindG (createSnapshotResponse s) (\<lambda>res. ret (Some res, None))))))"

section \<open>DeleteSnapshot\<close>

definition DeleteSnapshot :: "'w ControllerService \<Rightarrow> string option
    \<Rightarrow> ('w, unit option \<times> gerr option) go" where
  "DeleteSnapshot c request =
     (case request of
        None \<Rightarrow> ret (None, Some (GrpcStatus InvalidArgument ''missing request''))
      | Some snapshotId \<Rightarrow>
          if length snapshotId = 0
            then ret (None, Some (GrpcStatus InvalidArgument ''snapshot id missing in request''))
          else bindG (ic_DeleteVolumeSnapshot (cs_virtClient c) (cs_infraClusterNamespace c) snapshotId)
            (\<lambda>err. if err \<noteq> None then ret (None, err) else ret (Some (), None)))"

section \<open>ListSnapshots\<close>

text \<open>The loop that converts the snapshots of a page.\<close>

fun createEntries :: "VolumeSnapshot list \<Rightarrow> ('w, Snapshot list) go" where
  "createEntries [] = ret []"
| "createEntries (val # items) =
     bindG (createCsiSnapshot val) (\<lambda>s. bindG (createEntries items) (\<lambda>rest. ret (s # rest)))"

text \<open>
  The slice expression \<open>items[start:end]\<close> panics when \<open>end\<close> is negative or \<open>start\<close>, read as
  unsigned, is above it; \<open>end\<close> is never above the length here.
\<close>

definition slice :: "'a list \<Rightarrow> 64 word \<Rightarrow> 64 word \<Rightarrow> ('w, 'a list) go" where
  "slice xs start end = (if sint end < 0 \<or> end < start then panic ''slice bounds out of range''
     else ret (take (unat end - unat start) (drop (unat start) xs)))"

definition createSnapshotResponseFromItems :: "ListSnapshotsRequest \<Rightarrow> VolumeSnapshot list
    \<Rightarrow> ('w, ListSnapshotsResponse option \<times> gerr option) go" where
  "createSnapshotResponseFromItems req items =
     (if 0 < length items then
        let token = (if lsr_StartingToken req = '''' \<or> lsr_StartingToken req = ''0'' then ''1''
                     else lsr_StartingToken req);
            snapshotLength = (of_nat (length items) :: 64 word);
            maxLength = (if scast (lsr_MaxEntries req) = (0 :: 64 word) then snapshotLength
                         else scast (lsr_MaxEntries req))
        in case ParseUint token 32 of
             Inl e \<Rightarrow> ret (None, Some e)
           | Inr n \<Rightarrow>
               let start = (of_nat n :: 64 word) - 1;
                   sum = start + maxLength;
                   end = (if sint snapshotLength < sint sum then snapshotLength else sum)
               in bindG (slice items start end) (\<lambda>vals.
                  bindG (createEntries vals) (\<lambda>entries.
                    ret (Some \<lparr>lsp_Entries = entries,
                          lsp_NextToken = (if sint end < sint (snapshotLength - 1)
                             then FormatInt (sint (end + 1)) else '''')\<rparr>, None)))
      else ret (Some \<lparr>lsp_Entries = [], lsp_NextToken = ''''\<rparr>, None))"

definition ListSnapshots :: "'w ControllerService \<Rightarrow> ListSnapshotsRequest option
    \<Rightarrow> ('w, ListSnapshotsResponse option \<times> gerr option) go" where
  "ListSnapshots c request =
     (case request of
        None \<Rightarrow> ret (None, Some (GrpcStatus InvalidArgument ''missing request''))
      | Some req \<Rightarrow>
          let virtClient = cs_virtClient c; ns = cs_infraClusterNamespace c in
          if lsr_SnapshotId req \<noteq> '''' then
            bindG (ic_GetVolumeSnapshot virtClient ns (lsr_SnapshotId req)) (\<lambda>(snapshot, err).
              if err \<noteq> None \<and> \<not> IsNotFound err then ret (None, err)
              else createSnapshotResponseFromItems req
                     (case snapshot of None \<Rightarrow> [] | Some s \<Rightarrow> [s]))
          else
            bindG (ic_ListVolumeSnapshots virtClient ns) (\<lambda>(snapshots, err).
              if err \<noteq> None then ret (None, err)
              else deref snapshots (\<lambda>items.
                createSnapshotResponseFromItems req
                  (if 0 < length (lsr_SourceVolumeId req)
                   then filter (\<lambda>s. snapshotSourceMatchesVolume s (lsr_SourceVolumeId req)) items
                   else items))))"

section \<open>What a page holds\<close>

text \<open>The snapshot message of a snapshot object that names its source claim.\<close>

definition csi_of :: "VolumeSnapshot \<Rightarrow> Snapshot" where
  "csi_of s = \<lparr>sn_SnapshotId = om_Name (snap_Meta s),
     sn_SourceVolumeId = the (snap_PersistentVolumeClaimName s),
     sn_CreationTime = om_CreationTimestamp (snap_Meta s),
     sn_ReadyToUse = (\<exists>st. snap_Status s = Some st \<and> vss_ReadyToUse st = Some True),
     sn_SizeBytes = (case Option.bind (snap_Status s) vss_RestoreSize of
        None \<Rightarrow> 0 | Some q \<Rightarrow> Quantity_Value q)\<rparr>"

definition sourced :: "VolumeSnapshot \<Rightarrow> bool" where
  "sourced s \<longleftrightarrow> snap_PersistentVolumeClaimName s \<noteq> None"

lemma createCsiSnapshot_sourced: "sourced s \<Longrightarrow> createCsiSnapshot s = ret (csi_of s)"
  by (auto simp: sourced_def createCsiSnapshot_def csi_of_def split: option.splits)

lemma createEntries_sourced: "list_all sourced xs \<Longrightarrow> createEntries xs = ret (map csi_of xs)"
  by (induction xs) (simp_all add: createCsiSnapshot_sourced, simp_all add: ret_def)

lemma scast_nonneg:
  assumes "0 \<le> sint (w :: 32 word)"
  shows "(scast w :: 64 word) = of_nat (nat (sint w))"
proof -
  have "(scast w :: 64 word) = of_int (sint w)" by simp
  also have "\<dots> = of_nat (nat (sint w))" using assms by (metis of_int_of_nat_eq nat_0_le)
  finally show ?thesis .
qed

lemma sint_32_bound: "sint (w :: 32 word) < 2 ^ 31"
  using sint_lt [of w] by simp

lemma slice_of_nat:
  "i \<le> j \<Longrightarrow> j < 2 ^ 63 \<Longrightarrow> slice xs (of_nat i) (of_nat j) = ret (take (j - i) (drop i xs))"
  by (simp add: slice_def sint_of_nat_64 unat_of_nat_64 word_less_nat_alt)

text \<open>How many snapshots are asked for: all of them for \<open>MaxEntries = 0\<close>.\<close>

definition pageSize :: "ListSnapshotsRequest \<Rightarrow> nat \<Rightarrow> nat" where
  "pageSize req len = (if lsr_MaxEntries req = 0 then len else nat (sint (lsr_MaxEntries req)))"

definition tokenOf :: "ListSnapshotsRequest \<Rightarrow> string" where
  "tokenOf req = (if lsr_StartingToken req = '''' \<or> lsr_StartingToken req = ''0'' then ''1''
     else lsr_StartingToken req)"

lemma maxLength_eq:
  assumes "0 \<le> sint (lsr_MaxEntries req)"
  shows "(if scast (lsr_MaxEntries req) = (0 :: 64 word) then of_nat len
          else scast (lsr_MaxEntries req)) = (of_nat (pageSize req len) :: 64 word)"
proof (cases "lsr_MaxEntries req = 0")
  case False
  then have "sint (lsr_MaxEntries req) \<noteq> 0" by (metis signed_eq_0_iff)
  with assms have "0 < nat (sint (lsr_MaxEntries req))" by simp
  moreover have "nat (sint (lsr_MaxEntries req)) < 2 ^ 63"
    using sint_32_bound [of "lsr_MaxEntries req"] by simp
  ultimately have "unat (of_nat (nat (sint (lsr_MaxEntries req))) :: 64 word) \<noteq> 0"
    by (simp only: unat_of_nat_64)
  then have "(scast (lsr_MaxEntries req) :: 64 word) \<noteq> 0"
    unfolding scast_nonneg [OF assms] by (metis unsigned_0)
  with False show ?thesis by (simp add: pageSize_def scast_nonneg [OF assms])
qed (simp add: pageSize_def)

lemma pageSize_bound: "len < 2 ^ 62 \<Longrightarrow> pageSize req len < 2 ^ 62"
  using sint_32_bound [of "lsr_MaxEntries req"] unfolding pageSize_def by (cases "lsr_MaxEntries req = 0") auto

text \<open>
  A page from token \<open>n\<close>, for a token within the list: the snapshots from position \<open>n - 1\<close> on, as
  many as asked for, and a token for the next page when two or more snapshots are left.
\<close>

lemma page_eq:
  assumes len: "length items < 2 ^ 62" and src: "list_all sourced items"
    and tok: "ParseUint (tokenOf req) 32 = Inr n" and n: "1 \<le> n" "n \<le> length items"
    and max: "0 \<le> sint (lsr_MaxEntries req)"
  defines "stop \<equiv> min (n - 1 + pageSize req (length items)) (length items)"
  shows "createSnapshotResponseFromItems req items =
    ret (Some \<lparr>lsp_Entries = map csi_of (take (stop - (n - 1)) (drop (n - 1) items)),
      lsp_NextToken = (if stop < length items - 1 then FormatInt (int stop + 1) else '''')\<rparr>, None)"
proof -
  let ?len = "of_nat (length items) :: 64 word" and ?m = "pageSize req (length items)"
  have pos: "0 < length items" using n by linarith
  have start: "(of_nat n :: 64 word) - 1 = of_nat (n - 1)" using n by (simp add: of_nat_diff)
  have m: "?m < 2 ^ 62" using len by (rule pageSize_bound)
  have sum: "(of_nat (n - 1) :: 64 word) + of_nat ?m = of_nat (n - 1 + ?m)" by simp
  have big: "n - 1 + ?m < 2 ^ 63" "length items < 2 ^ 63" "stop < 2 ^ 63"
    using m len n by (simp_all add: stop_def)
  have stop: "(if sint ?len < sint (of_nat (n - 1 + ?m) :: 64 word) then ?len else of_nat (n - 1 + ?m))
      = of_nat stop"
    using big by (simp only: sint_of_nat_64 stop_def) (auto simp: min_def)
  have last: "sint (?len - 1) = int (length items - 1)"
  proof -
    have "?len - 1 = of_nat (length items - 1)" using pos by (cases "length items") auto
    moreover have "length items - 1 < 2 ^ 63" using big by simp
    ultimately show ?thesis by (simp only: sint_of_nat_64)
  qed
  have succ: "sint (of_nat stop + 1 :: 64 word) = int stop + 1"
  proof -
    have "(of_nat stop + 1 :: 64 word) = of_nat (Suc stop)" by simp
    moreover have "Suc stop < 2 ^ 63" using len by (simp add: stop_def)
    ultimately show ?thesis by (metis sint_of_nat_64 of_nat_Suc add.commute)
  qed
  have le: "n - 1 \<le> stop" using n unfolding stop_def by linarith
  have sub: "list_all sourced (take (stop - (n - 1)) (drop (n - 1) items))"
    using src by (auto simp: list_all_iff dest: in_set_takeD in_set_dropD)
  show ?thesis
    using pos tok
    by (simp only: createSnapshotResponseFromItems_def tokenOf_def [symmetric] maxLength_eq [OF max]
        Let_def sum.case if_True start sum stop slice_of_nat [OF le big(3)] bindG_ret
        createEntries_sourced [OF sub] last succ sint_of_nat_64 [OF big(3)] of_nat_less_iff)
qed

text \<open>The pages one gets by following the tokens, put together; \<open>fuel\<close> bounds the number of calls.\<close>

fun collectPages :: "nat \<Rightarrow> ListSnapshotsRequest \<Rightarrow> VolumeSnapshot list \<Rightarrow> Snapshot list option" where
  "collectPages 0 req items = None"
| "collectPages (Suc fuel) req items =
     (case createSnapshotResponseFromItems req items () of
        (Ok (Some res, None), _) \<Rightarrow>
          if lsp_NextToken res = '''' then Some (lsp_Entries res)
          else map_option (append (lsp_Entries res))
                 (collectPages fuel (req\<lparr>lsr_StartingToken := lsp_NextToken res\<rparr>) items)
      | _ \<Rightarrow> None)"

lemma FormatInt_token: "0 < i \<Longrightarrow> FormatInt i \<noteq> '''' \<and> FormatInt i \<noteq> ''0''"
proof -
  assume "0 < i"
  moreover have "ParseUint ''0'' (nat i) = Inr 0"
    by (simp add: ParseUint_def digit_of_def)
  moreover have "i < 2 ^ nat i"
  proof -
    have "nat i < 2 ^ nat i" by simp
    then have "int (nat i) < 2 ^ nat i" by (metis of_nat_less_iff of_nat_numeral of_nat_power)
    with \<open>0 < i\<close> show ?thesis by simp
  qed
  ultimately show ?thesis
    using ParseUint_FormatInt [of i "nat i"] by auto
qed

lemma token_read:
  assumes "j < 2 ^ 32 - 1"
    and tok: "lsr_StartingToken req = FormatInt (int j + 1) \<or> j = 0 \<and> lsr_StartingToken req = ''''"
  shows "ParseUint (tokenOf req) 32 = Inr (j + 1)"
proof (cases "lsr_StartingToken req = ''''")
  case True
  with tok have "j = 0" by (metis FormatInt_ne)
  with True show ?thesis
    by (simp add: tokenOf_def ParseUint_def digit_of_def)
next
  case False
  with tok have "tokenOf req = FormatInt (int j + 1)"
    using FormatInt_token [of "int j + 1"] by (auto simp: tokenOf_def)
  with assms(1) show ?thesis
    using ParseUint_FormatInt [of "int j + 1" 32] by (simp add: nat_add_distrib)
qed

text \<open>All snapshots but for the last one when the page size divides the number of the others.\<close>

definition pagesHold :: "nat \<Rightarrow> 'a list \<Rightarrow> 'a list" where
  "pagesHold m xs = (if 1 < length xs \<and> m dvd (length xs - 1) then butlast xs else xs)"

lemma pagesHold_step:
  assumes "0 < m" and "m < length xs - 1"
  shows "take m xs @ pagesHold m (drop m xs) = pagesHold m xs"
proof -
  have "m dvd (length xs - 1 - m) \<longleftrightarrow> m dvd (length xs - 1)"
    using assms by (metis dvd_minus_self less_or_eq_imp_le not_less)
  moreover have "length (drop m xs) - 1 = length xs - 1 - m" by simp
  moreover have "take m xs @ butlast (drop m xs) = butlast xs"
    using assms by (metis append_take_drop_id butlast_append drop_eq_Nil less_diff_conv not_add_less1
        order.strict_implies_order order.strict_trans1)
  ultimately show ?thesis
    using assms by (auto simp: pagesHold_def)
qed

lemma pagesHold_last:
  assumes "0 < m" and "length xs - 1 \<le> m"
  shows "pagesHold m xs = (if length xs - 1 = m then take m xs else xs)"
  using assms by (auto simp: pagesHold_def butlast_conv_take dvd_imp_le dest!: dvd_imp_le)

text \<open>Following the tokens from a position \<open>j\<close> collects the rest of the list, as above.\<close>

lemma collectPages_from:
  assumes len: "length items < 2 ^ 32 - 1" and src: "list_all sourced items"
    and max: "sint (lsr_MaxEntries req) = int m" "0 < m"
  shows "j < length items \<Longrightarrow> length items - j \<le> fuel \<Longrightarrow>
    lsr_StartingToken req = FormatInt (int j + 1) \<or> j = 0 \<and> lsr_StartingToken req = '''' \<Longrightarrow>
    collectPages fuel req items = Some (map csi_of (pagesHold m (drop j items)))"
  using max
proof (induction fuel arbitrary: j req)
  case (Suc fuel)
  let ?stop = "min (j + m) (length items)"
  have tok: "ParseUint (tokenOf req) 32 = Inr (j + 1)"
    using Suc.prems len by (intro token_read) auto
  have m: "pageSize req (length items) = m"
    using Suc.prems by (auto simp: pageSize_def)
  have len': "length items < 2 ^ 62" and n: "1 \<le> j + 1" "j + 1 \<le> length items"
    and max': "0 \<le> sint (lsr_MaxEntries req)"
    using Suc.prems len by auto
  have page: "createSnapshotResponseFromItems req items () =
      (Ok (Some \<lparr>lsp_Entries = map csi_of (take (?stop - j) (drop j items)),
        lsp_NextToken = (if ?stop < length items - 1 then FormatInt (int ?stop + 1) else '''')\<rparr>, None), ())"
    unfolding page_eq [OF len' src tok n max'] by (auto simp: m min_def)
  show ?case
  proof (cases "j + m < length items - 1")
    case True
    have "collectPages fuel (req\<lparr>lsr_StartingToken := FormatInt (int (j + m) + 1)\<rparr>) items =
        Some (map csi_of (pagesHold m (drop (j + m) items)))"
      using True Suc.prems by (intro Suc.IH) auto
    moreover have "take m (drop j items) @ pagesHold m (drop m (drop j items)) = pagesHold m (drop j items)"
      using True Suc.prems(5) by (intro pagesHold_step) auto
    moreover have "?stop = j + m" using True by simp
    ultimately show ?thesis
      using True FormatInt_token [of "int (j + m) + 1"]
      by (simp add: page add.commute flip: map_append)
  next
    case False
    then show ?thesis
      using Suc.prems by (auto simp: page pagesHold_last min_def)
  qed
qed simp

section \<open>Properties of the pagination\<close>

text \<open>C36 Following the tokens of \<open>ListSnapshots\<close> from the start ends, and collects every snapshot in
  order, except that the last one is never returned when the page size divides the number of the
  others: the page that leaves exactly one snapshot has no token for the next page.\<close>

theorem pagination_collects:
  assumes "length items < 2 ^ 32 - 1" and "list_all sourced items"
    and "sint (lsr_MaxEntries req) = int m" and "0 < m" and "lsr_StartingToken req = ''''"
  shows "collectPages (Suc (length items)) req items =
    Some (map csi_of (if 1 < length items \<and> m dvd (length items - 1) then butlast items else items))"
proof (cases "items = []")
  case True
  then show ?thesis by (simp add: createSnapshotResponseFromItems_def)
next
  case False
  with collectPages_from [OF assms(1-4), of 0 "Suc (length items)"] assms(5) show ?thesis
    by (simp add: pagesHold_def del: collectPages.simps)
qed

definition sampleSnapshot :: "string \<Rightarrow> VolumeSnapshot" where
  "sampleSnapshot n = zero_VolumeSnapshot\<lparr>snap_Meta := zero_ObjectMeta\<lparr>om_Name := n\<rparr>,
     snap_PersistentVolumeClaimName := Some ''pvc-1''\<rparr>"

definition sampleList :: "32 word \<Rightarrow> ListSnapshotsRequest" where
  "sampleList m = \<lparr>lsr_MaxEntries = m, lsr_StartingToken = '''', lsr_SourceVolumeId = '''',
     lsr_SnapshotId = ''''\<rparr>"

theorem pagination_collects_witness:
  "map_option (map sn_SnapshotId)
     (collectPages (Suc (Suc (Suc (Suc 0)))) (sampleList 1) (map sampleSnapshot [''a'', ''b'', ''c''])) = Some [''a'', ''b'']"
proof -
  let ?items = "map sampleSnapshot [''a'', ''b'', ''c'']"
  have "length ?items = 3" by simp
  moreover have "list_all sourced ?items" by (simp add: sourced_def sampleSnapshot_def)
  moreover have "map (sn_SnapshotId \<circ> csi_of) (butlast ?items) = [''a'', ''b'']"
    by (simp add: csi_of_def sampleSnapshot_def)
  ultimately show ?thesis
    using pagination_collects [of ?items "sampleList 1" 1]
    by (simp add: sampleList_def del: collectPages.simps)
qed

text \<open>A page from a token within the list holds the snapshots from that position on, as many as asked
  for (all for \<open>MaxEntries = 0\<close>), converted field by field, and the call does not fail; the token it
  gives, if two or more snapshots are left, is the position after the page.\<close>

theorem page_within_list:
  assumes "length items < 2 ^ 62" and "list_all sourced items"
    and "ParseUint (tokenOf req) 32 = Inr n" and "1 \<le> n" and "n \<le> length items"
    and "0 \<le> sint (lsr_MaxEntries req)"
  defines "stop \<equiv> min (n - 1 + pageSize req (length items)) (length items)"
  shows "createSnapshotResponseFromItems req items w =
    (Ok (Some \<lparr>lsp_Entries = map csi_of (take (stop - (n - 1)) (drop (n - 1) items)),
      lsp_NextToken = (if stop < length items - 1 then FormatInt (int stop + 1) else '''')\<rparr>, None), w)"
  unfolding stop_def page_eq [OF assms(1-6)] by simp

theorem page_within_list_witness:
  "createSnapshotResponseFromItems (sampleList 2) (map sampleSnapshot [''a'', ''b'', ''c'', ''d'']) () =
    (Ok (Some \<lparr>lsp_Entries = map (csi_of \<circ> sampleSnapshot) [''a'', ''b''], lsp_NextToken = ''3''\<rparr>, None), ())"
proof -
  let ?items = "map sampleSnapshot [''a'', ''b'', ''c'', ''d'']"
  have two: "pageSize (sampleList 2) (Suc (Suc (Suc (Suc 0)))) = Suc (Suc 0)"
    by (simp add: pageSize_def sampleList_def)
  have tok: "ParseUint (tokenOf (sampleList 2)) 32 = Inr 1"
    by (simp add: tokenOf_def sampleList_def ParseUint_def digit_of_def)
  have "list_all sourced ?items" by (simp add: sourced_def sampleSnapshot_def)
  moreover have "0 \<le> sint (lsr_MaxEntries (sampleList 2))" by (simp add: sampleList_def)
  moreover have "FormatInt 3 = ''3''" by code_simp
  ultimately show ?thesis
    using page_within_list [of ?items "sampleList 2" 1 "()", OF _ _ tok] two
    by simp
qed

text \<open>A token that is the number zero written otherwise than \<open>0\<close>, or a number beyond the end of the list,
  makes the call panic: the slice expression is evaluated with bounds out of order.\<close>

theorem page_panics:
  assumes len: "0 < length items" "length items < 2 ^ 62"
    and tok: "ParseUint (tokenOf req) 32 = Inr n" "n = 0 \<or> length items + 1 < n"
    and max: "0 \<le> sint (lsr_MaxEntries req)"
  shows "createSnapshotResponseFromItems req items w = (Panic ''slice bounds out of range'', w)"
proof -
  let ?m = "pageSize req (length items)"
  have m: "?m < 2 ^ 62" using len(2) by (rule pageSize_bound)
  define start where "start = (of_nat n :: 64 word) - 1"
  define stop where "stop = (if sint (of_nat (length items) :: 64 word) < sint (start + of_nat ?m)
    then of_nat (length items) else start + of_nat ?m)"
  have "sint stop < 0 \<or> stop < start"
  proof (cases "n = 0")
    case True
    then have start: "start = - 1" by (simp add: start_def)
    show ?thesis
    proof (cases ?m)
      case 0
      with start len show ?thesis by (simp add: stop_def sint_of_nat_64)
    next
      case (Suc k)
      with start have sum: "start + of_nat ?m = of_nat k" by simp
      have "k < 2 ^ 63" "length items < 2 ^ 63" using m Suc len by simp_all
      then have "unat stop < 2 ^ 63"
        unfolding stop_def sum by (simp add: unat_of_nat_64)
      moreover have "unat (- 1 :: 64 word) = 2 ^ 64 - 1"
        by (simp add: unsigned_minus_1_eq_mask mask_eq_exp_minus_1)
      ultimately show ?thesis using start by (simp add: word_less_nat_alt)
    qed
  next
    case False
    then have start: "start = of_nat (n - 1)" by (cases n) (simp_all add: start_def)
    have n: "n - 1 + ?m < 2 ^ 63" "n - 1 < 2 ^ 63"
      using m ParseUint_bound [OF tok(1)] by simp_all
    have sum: "start + of_nat ?m = of_nat (n - 1 + ?m)" by (simp add: start)
    have "length items < n - 1 + ?m" "length items < 2 ^ 63" using tok(2) False len by simp_all
    with n(1) have "stop = of_nat (length items)"
      unfolding stop_def sum by (simp only: sint_of_nat_64) simp
    moreover have "unat start = n - 1" using n(2) by (simp only: start unat_of_nat_64)
    ultimately show ?thesis
      using len tok(2) False by (auto simp: word_less_nat_alt unat_of_nat_64)
  qed
  then show ?thesis
    using len tok(1)
    by (simp add: createSnapshotResponseFromItems_def tokenOf_def [symmetric] Let_def slice_def
        maxLength_eq [OF max] start_def [symmetric] stop_def [symmetric])
qed

theorem page_panics_witness:
  "fst (createSnapshotResponseFromItems ((sampleList 2)\<lparr>lsr_StartingToken := ''5''\<rparr>)
     (map sampleSnapshot [''a'', ''b'']) ()) = Panic ''slice bounds out of range''"
  using page_panics [of "map sampleSnapshot [''a'', ''b'']" "(sampleList 2)\<lparr>lsr_StartingToken := ''5''\<rparr>" 5 "()"]
  by (simp add: sampleList_def tokenOf_def ParseUint_def digit_of_def)

end
