(* ===== verification/Controller_Confined.thy ===== *)
theory Controller_Confined
  imports Controller_Attach Controller_Snapshots
begin

text \<open>
  The controller over any client that honours the contract of \<open>Client_Interface\<close>: every RPC, and every
  sequence of RPCs, keeps to what the contract allows.  The interpretation at the end is the controller
  that \<open>NewControllerService\<close> builds over the client object.
\<close>

section \<open>Sequences of RPCs\<close>

text \<open>The calls of the controller service; \<open>dispatch\<close> runs the handler and drops its answer.\<close>

datatype rpc =
    RpcCreateVolume "CreateVolumeRequest option"
  | RpcDeleteVolume "string option"
  | RpcPublishVolume "ControllerPublishVolumeRequest option"
  | RpcUnpublishVolume "ControllerUnpublishVolumeRequest option"
  | RpcValidateCapabilities "ValidateVolumeCapabilitiesRequest option"
  | RpcListVolumes
  | RpcGetCapacity
  | RpcGetCapabilities
  | RpcCreateSnapshot "CreateSnapshotRequest option"
  | RpcDeleteSnapshot "string option"
  | RpcListSnapshots "ListSnapshotsRequest option"
  | RpcExpandVolume "ControllerExpandVolumeRequest option"
  | RpcGetVolume

definition drop_answer :: "('w, 'a) go \<Rightarrow> ('w, unit) go" where
  "drop_answer m = bindG m (\<lambda>_. ret ())"

primrec dispatch :: "'w ControllerService \<Rightarrow> rpc \<Rightarrow> ('w, unit) go" where
  "dispatch S (RpcCreateVolume req) = drop_answer (CreateVolume S req)"
| "dispatch S (RpcDeleteVolume req) = drop_answer (DeleteVolume S req)"
| "dispatch S (RpcPublishVolume req) = drop_answer (ControllerPublishVolume S req)"
| "dispatch S (RpcUnpublishVolume req) = drop_answer (ControllerUnpublishVolume S req)"
| "dispatch S (RpcValidateCapabilities req) = drop_answer (ValidateVolumeCapabilities S req)"
| "dispatch S RpcListVolumes = drop_answer ListVolumes"
| "dispatch S RpcGetCapacity = drop_answer GetCapacity"
| "dispatch S RpcGetCapabilities = drop_answer ControllerGetCapabilities"
| "dispatch S (RpcCreateSnapshot req) = drop_answer (CreateSnapshot S req)"
| "dispatch S (RpcDeleteSnapshot req) = drop_answer (DeleteSnapshot S req)"
| "dispatch S (RpcListSnapshots req) = drop_answer (ListSnapshots S req)"
| "dispatch S (RpcExpandVolume req) = drop_answer (ControllerExpandVolume S req)"
| "dispatch S RpcGetVolume = drop_answer ControllerGetVolume"

text \<open>Requests one after the other; a panic ends the process and with it the sequence.\<close>

fun serve :: "'w ControllerService \<Rightarrow> rpc list \<Rightarrow> ('w, unit) go" where
  "serve S [] = ret ()"
| "serve S (r # rs) = bindG (dispatch S r) (\<lambda>_. serve S rs)"

section \<open>Every RPC keeps to the contract\<close>

locale confined_controller = confined_client C slp ns labels conf seen met vm_shown vmi_shown
  for C :: "'w Client" and slp ns labels and conf :: "'w \<Rightarrow> 'w \<Rightarrow> bool" and seen met vm_shown vmi_shown +
  fixes S :: "'w ControllerService"
  assumes S_client: "cs_virtClient S = C" and S_ns: "cs_infraClusterNamespace S = ns"
    and S_labels: "cs_infraClusterLabels S = labels" and S_sleep: "cs_sleep S = slp"
begin

lemmas S_sel = S_client S_ns S_labels S_sleep

text \<open>The contract after the volume was seen to be the tenant's, and the VM was seen.\<close>

definition conf_seen :: "string \<Rightarrow> string \<Rightarrow> 'w \<Rightarrow> 'w \<Rightarrow> bool" where
  "conf_seen name vm w w' \<longleftrightarrow> (seen w name \<and> met w vm \<longrightarrow> conf w w')"

lemma conf_seen_reflp: "reflp (conf_seen name vm)"
  by (auto simp: reflp_def conf_seen_def conf_refl)

lemma conf_seen_transp: "transp (conf_seen name vm)"
  by (rule transpI) (auto simp: conf_seen_def intro: conf_trans seen_mono met_mono)

lemma conf_seenI: "keeps conf m \<Longrightarrow> keeps (conf_seen name vm) m"
  by (erule keeps_mono) (simp add: conf_seen_def)

lemmas seen_basic = keeps_ret [OF conf_seen_reflp] keeps_deref [OF conf_seen_reflp]
  keeps_if keeps_case_prod keeps_case_option keeps_Let keeps_bind [OF conf_seen_transp]

lemma drop_answer_conf: "keeps conf m \<Longrightarrow> keeps conf (drop_answer m)"
  unfolding drop_answer_def by (intro conf_basic)

lemma isVolumeAttached_conf: "keeps conf (isVolumeAttached S dvName vmName)"
  unfolding isVolumeAttached_def S_sel by (intro conf_basic conf_methods)

lemma addVolumeToVm_conf:
  "keeps (conf_seen (avo_DataVolume opts) vmName) (addVolumeToVm S dvName vmName opts)"
  unfolding addVolumeToVm_def S_sel
  by (intro seen_basic conf_seenI [OF isVolumeAttached_conf] keepsI)
    (auto simp: conf_seen_def intro: conf_add)

lemma plugIn_conf: "keeps (conf_seen (cpr_VolumeId req) vmName) (plugIn S req vmName)"
proof -
  have "avo_DataVolume (addVolumeOptionsFor req) = cpr_VolumeId req"
    by (simp add: addVolumeOptionsFor_def)
  with addVolumeToVm_conf [of "addVolumeOptionsFor req"]
  have "keeps (conf_seen (cpr_VolumeId req) vmName)
      (retrying (addVolumeToVm S (cpr_VolumeId req) vmName (addVolumeOptionsFor req)))"
    unfolding retrying_def by (intro seen_basic) simp
  then have "keeps (conf_seen (cpr_VolumeId req) vmName) (ExponentialBackoff slp hotplugBackoff
      (retrying (addVolumeToVm S (cpr_VolumeId req) vmName (addVolumeOptionsFor req))))"
    by (rule keeps_ExponentialBackoff [OF conf_seen_reflp conf_seen_transp])
      (simp add: conf_seen_def conf_sleep)
  then show ?thesis
    unfolding plugIn_def S_sel by (intro seen_basic conf_seenI [OF conf_available])
qed

lemma checkExclusive_conf: "keeps conf (checkExclusive S isRWX dvName vmName)"
  unfolding checkExclusive_def IsVolumeAttachedToOtherVMI_def S_sel
  by (intro conf_basic conf_methods)

text \<open>A computation that keeps to the contract, followed by one that does where it is reached.\<close>

lemma bind_at:
  assumes "keeps conf m" and "\<And>x w'. m w = (Ok x, w') \<Longrightarrow> conf w' (snd (f x w'))"
  shows "conf w (snd (bindG m f w))"
proof (cases rule: bindG_cases [of m w f])
  case (ok x w')
  with assms(2) [OF ok(1)] show ?thesis
    using keepsD [OF assms(1) ok(1)] by (auto intro: conf_trans)
next
  case (panic msg w')
  with keepsD [OF assms(1) panic(1)] show ?thesis by simp
qed

text \<open>Reading the VM, once the volume was seen, and reading the volume.\<close>

lemma publish_vm_conf:
  assumes "seen w dvName" and "\<And>p. keeps (conf_seen dvName vmName) (f p)"
  shows "conf w (snd (bindG (ic_GetWorkloadManagingVirtualMachine C ns vmName) (\<lambda>(p, err).
    if err \<noteq> None then (if \<not> IsNotFound err then ret (x err) else ret y) else f p) w))"
proof (rule bind_at [OF conf_get_vm], goal_cases)
  case (1 a w')
  obtain p err where a: "a = (p, err)" by fastforce
  show ?case
  proof (cases err)
    case None
    with 1 a have "met w' vmName" by (auto intro: get_vm_met)
    moreover have "seen w' dvName" using keepsD [OF conf_get_vm 1] assms(1) by (rule seen_mono)
    ultimately show ?thesis using assms(2) [of p] None a by (simp add: keeps_def conf_seen_def)
  qed (auto simp: a intro: conf_refl)
qed

lemma publishChecked_conf: "keeps conf (publishChecked S req vmName)"
  unfolding publishChecked_def S_sel Let_def keeps_def
proof (rule allI, rule bind_at [OF conf_get_dv], goal_cases)
  case (1 w a w')
  obtain p err where a: "a = (p, err)" by fastforce
  show ?case
  proof (cases err)
    case None
    with 1 a have "seen w' (cpr_VolumeId req)" by (auto intro: get_dv_seen)
    then show ?thesis
      unfolding a None prod.case if_not_P [OF IsNotFound_None] simp_thms if_False
      by (rule publish_vm_conf) (intro seen_basic plugIn_conf conf_seenI [OF conf_available_vm])
  qed (auto simp: a intro: conf_refl)
qed

lemma ControllerPublishVolume_conf: "keeps conf (ControllerPublishVolume S request)"
  unfolding ControllerPublishVolume_def Let_def
  by (intro conf_basic checkExclusive_conf publishChecked_conf)

text \<open>Unplugging: the request follows right after the VM, or the VMI, was read.\<close>

lemma remove_vm_at:
  assumes "vm_shown w vm v" and "vm_holds vol v"
  shows "conf w (snd (bindG (ic_RemoveVolumeFromVM C ns vm \<lparr>rvo_Name = vol\<rparr>)
           (\<lambda>err. if err \<noteq> None then ret (f err) else ret y) w))"
  by (cases rule: bindG_cases [of "ic_RemoveVolumeFromVM C ns vm \<lparr>rvo_Name = vol\<rparr>" w
        "\<lambda>err. if err \<noteq> None then ret (f err) else ret y"])
    (auto dest: conf_remove_vm [OF assms])

lemma remove_vmi_at:
  assumes "vmi_shown w vm v" and "vmi_holds vol v"
  shows "conf w (snd (bindG (ic_RemoveVolumeFromVMI C ns vm \<lparr>rvo_Name = vol\<rparr>)
           (\<lambda>err. if err \<noteq> None then ret (f err) else ret y) w))"
  by (cases rule: bindG_cases [of "ic_RemoveVolumeFromVMI C ns vm \<lparr>rvo_Name = vol\<rparr>" w
        "\<lambda>err. if err \<noteq> None then ret (f err) else ret y"])
    (auto dest: conf_remove_vmi [OF assms])

lemma vm_holds_iff: "vm_Template v = Some volumes \<Longrightarrow> vm_holds vol v \<longleftrightarrow> list_ex (hotplugged vol) volumes"
  by (auto simp: vm_holds_def hotplugged_def list_ex_iff split: option.splits)

lemma vmi_holds_iff:
  "vmi_holds vol v \<longleftrightarrow> list_ex (\<lambda>s. vs_HotplugVolume s \<noteq> None \<and> vs_Name s = vol) (vmi_VolumeStatus v)"
  by (auto simp: vmi_holds_def list_ex_iff)

lemma removeFromVMI_conf:
  "keeps conf (bindG (ic_GetVirtualMachine C ns vmName) (\<lambda>(vmi, err).
     if err \<noteq> None then (if IsNotFound err then ret None else ret err)
     else deref vmi (\<lambda>v.
       if list_ex (\<lambda>s. vs_HotplugVolume s \<noteq> None \<and> vs_Name s = dvName) (vmi_VolumeStatus v) then
         bindG (ic_RemoveVolumeFromVMI C ns vmName \<lparr>rvo_Name = dvName\<rparr>) (\<lambda>err.
           if err \<noteq> None then ret err else ret None)
       else ret None)))"
  unfolding keeps_def
proof (rule allI, rule bind_at [OF conf_get_vmi], goal_cases)
  case (1 w x w')
  then show ?case
    by (cases x; cases "fst x"; cases "snd x")
      (auto simp: vmi_holds_iff [symmetric] conf_refl simp del: not_None_eq
        intro!: remove_vmi_at dest: get_vmi_shown)
qed

lemma removeVolumeFromVm_conf: "keeps conf (removeVolumeFromVm S dvName vmName)"
  unfolding removeVolumeFromVm_def Let_def S_sel keeps_def
proof (rule allI, rule bind_at [OF conf_get_vm], goal_cases)
  case (1 w x w')
  obtain p err where x: "x = (p, err)" by fastforce
  note vmi = removeFromVMI_conf [of vmName dvName, unfolded keeps_def, rule_format]
  show ?case
  proof (cases "p = None \<or> (err \<noteq> None \<and> \<not> IsNotFound err)")
    case True
    then show ?thesis using vmi by (auto simp: x conf_refl)
  next
    case False
    then obtain v where p: "p = Some v" by auto
    show ?thesis
    proof (cases err)
      case None
      with 1 x p have "vm_shown w' vmName v" by (auto intro: get_vm_shown)
      with None vmi show ?thesis
        by (cases "vm_Template v") (auto simp: x p conf_refl vm_holds_iff [symmetric]
            simp del: not_None_eq intro: remove_vm_at)
    next
      case (Some e)
      with 1 x p have "vm_Template v = None" by (auto intro: get_vm_err)
      with Some show ?thesis by (auto simp: x p conf_refl)
    qed
  qed
qed

lemma ControllerUnpublishVolume_conf: "keeps conf (ControllerUnpublishVolume S request)"
  unfolding ControllerUnpublishVolume_def volumeStillAttached_def retrying_def S_sel Let_def
  by (intro conf_basic conf_backoff conf_methods removeVolumeFromVm_conf)

lemma determineDvSource_conf: "keeps conf (determineDvSource S req)"
  unfolding determineDvSource_def S_sel Let_def
  by (cases "cvr_VolumeContentSource req")
    (auto split: VolumeContentSource.split intro!: conf_basic conf_methods)

lemma newDataVolume_meta:
  "om_Labels (dv_Meta (newDataVolume S req isRWX src)) = labels"
  "om_Namespace (dv_Meta (newDataVolume S req isRWX src)) = ns"
  by (simp_all add: newDataVolume_def Let_def S_sel)

lemma createOrReuse_conf: "keeps conf (createOrReuse S dvName (newDataVolume S req isRWX src))"
  unfolding createOrReuse_def S_sel
  by (intro conf_basic conf_methods conf_create_dv newDataVolume_meta)

lemma CreateVolume_conf: "keeps conf (CreateVolume S request)"
  unfolding CreateVolume_def Let_def
  by (intro conf_basic determineDvSource_conf createOrReuse_conf)

lemma DeleteVolume_conf: "keeps conf (DeleteVolume S request)"
  unfolding DeleteVolume_def S_sel by (intro conf_basic conf_methods)

lemma ValidateVolumeCapabilities_conf: "keeps conf (ValidateVolumeCapabilities S request)"
  unfolding ValidateVolumeCapabilities_def S_sel by (intro conf_basic conf_methods)

lemma ControllerExpandVolume_conf: "keeps conf (ControllerExpandVolume S request)"
  unfolding ControllerExpandVolume_def S_sel Let_def by (intro conf_basic conf_methods)

lemma createSnapshotResponse_conf: "keeps conf (createSnapshotResponse s)"
  unfolding createSnapshotResponse_def createCsiSnapshot_def by (intro conf_basic)

lemma CreateSnapshot_conf: "keeps conf (CreateSnapshot S request)"
  unfolding CreateSnapshot_def verifySourceVolumeExists_def S_sel Let_def
  by (intro conf_basic conf_methods createSnapshotResponse_conf)

lemma DeleteSnapshot_conf: "keeps conf (DeleteSnapshot S request)"
  unfolding DeleteSnapshot_def S_sel by (intro conf_basic conf_methods)

lemma createEntries_conf: "keeps conf (createEntries items)"
  by (induction items) (auto simp: createCsiSnapshot_def simp del: ret_apply intro!: conf_basic)

lemma createSnapshotResponseFromItems_conf: "keeps conf (createSnapshotResponseFromItems req items)"
  unfolding createSnapshotResponseFromItems_def slice_def Let_def
  by (intro conf_basic createEntries_conf)

lemma ListSnapshots_conf: "keeps conf (ListSnapshots S request)"
  unfolding ListSnapshots_def S_sel Let_def
  by (intro conf_basic conf_methods createSnapshotResponseFromItems_conf)

lemma dispatch_conf: "keeps conf (dispatch S r)"
  by (cases r) (auto intro!: drop_answer_conf ControllerPublishVolume_conf ControllerUnpublishVolume_conf
      CreateVolume_conf DeleteVolume_conf ValidateVolumeCapabilities_conf ControllerExpandVolume_conf
      CreateSnapshot_conf DeleteSnapshot_conf ListSnapshots_conf keeps_ret [OF conf_reflp]
      simp: ListVolumes_def GetCapacity_def ControllerGetCapabilities_def ControllerGetVolume_def)

theorem serve_conf: "keeps conf (serve S rs)"
  by (induction rs) (auto simp del: ret_apply intro!: conf_basic dispatch_conf)

end

section \<open>The controller of the driver\<close>

text \<open>
  The service as \<open>configureControllerService\<close> of \<open>kubevirt-csi-driver.go\<close> builds it: the client and the service get the same
  labels.
\<close>

definition controllerOver :: "'e client \<Rightarrow> string \<Rightarrow> 'e world ControllerService" where
  "controllerOver c ns = NewControllerService (as_Client c) ns (cl_infraLabelMap c)
     (cl_storageClassEnforcement c) (sleep_world (cl_rt c))"

lemma controllerOver_sel [simp]:
  "cs_virtClient (controllerOver c ns) = as_Client c"
  "cs_infraClusterNamespace (controllerOver c ns) = ns"
  "cs_infraClusterLabels (controllerOver c ns) = cl_infraLabelMap c"
  "cs_storageClassEnforcement (controllerOver c ns) = cl_storageClassEnforcement c"
  "cs_sleep (controllerOver c ns) = sleep_world (cl_rt c)"
  by (simp_all add: controllerOver_def NewControllerService_def)

interpretation ctl: confined_controller "as_Client c" "sleep_world (cl_rt c)" ns "cl_infraLabelMap c"
  "confined (client_policy c ns)" "\<lambda>w name. seen_dv (client_policy c ns) (w_log w) name"
  "\<lambda>w name. seen_vm (client_policy c ns) (w_log w) name"
  "\<lambda>w. shown_vm (client_policy c ns) (w_log w)" "\<lambda>w. shown_vmi (client_policy c ns) (w_log w)"
  "controllerOver c ns"
  for c :: "'e client" and ns :: string
  by unfold_locales simp_all

text \<open>C1 Whatever RPCs the tenant's sidecars send, in any order and number, and whatever the infra and the
  tenant API servers answer, each request the driver sends is allowed at the point where it is sent
  (\<open>allowed\<close>): DataVolumes and snapshots are created in the driver's namespace with the tenant's labels;
  deletions and claim patches concern an object that the server showed in the exchange right before with
  the tenant's labels (and name prefix, for volumes); a volume is snapshot only after the server showed it as
  the tenant's, and hot-plugged only after that and into a VM that the server showed; a volume is unplugged only from a VM or VMI that the server showed,
  right before, with a hot-plugged volume of that name.\<close>

theorem tenant_isolation:
  "\<exists>l. w_log (snd (serve (controllerOver c ns) rpcs w)) = w_log w @ l \<and>
       guarded (client_policy c ns) (w_log w) l"
  using ctl.serve_conf [of c ns rpcs] by (simp add: keeps_def confined_def)

end
