(* ===== verification/Sample_Cluster.thy ===== *)
theory Sample_Cluster
  imports Controller_Confined "HOL-Library.Code_Target_Nat"
begin

text \<open>
  A small cluster that answers requests, on which the witnesses of the properties run the driver: the
  objects of one namespace, kept in association lists, with the hot-plug subresources of the VMs.  It is
  one instance of the parameter \<open>runtime\<close>.
\<close>

record cluster =
  sc_DataVolumes :: "(string \<times> DataVolume) list"
  sc_Claims :: "(string \<times> PersistentVolumeClaim) list"
  sc_Volumes :: "(string \<times> PersistentVolume) list"
  sc_Snapshots :: "(string \<times> VolumeSnapshot) list"
  sc_Machines :: "(string \<times> VirtualMachine) list"
  sc_Instances :: "(string \<times> VirtualMachineInstance) list"
  sc_Classes :: "VolumeSnapshotClass list"

definition apiNotFound :: gerr where
  "apiNotFound = ApiStatus ''NotFound'' 404 ''not found''"

definition find_object :: "(string \<times> 'a) list \<Rightarrow> ('a \<Rightarrow> api_object) \<Rightarrow> string \<Rightarrow> answer" where
  "find_object objs wrap name =
     (case map_of objs name of None \<Rightarrow> Inl apiNotFound | Some x \<Rightarrow> Inr (wrap x))"

definition plug :: "AddVolumeOptions \<Rightarrow> VirtualMachine \<Rightarrow> VirtualMachine" where
  "plug opts v = v\<lparr>vm_Template := map_option (\<lambda>vols. vols @ [\<lparr>vol_Name = avo_Name opts,
     vol_DataVolume = Some \<lparr>dvr_Name = avo_DataVolume opts, dvr_Hotpluggable = True\<rparr>,
     vol_PersistentVolumeClaim = None\<rparr>]) (vm_Template v)\<rparr>"

definition report :: "AddVolumeOptions \<Rightarrow> VirtualMachineInstance \<Rightarrow> VirtualMachineInstance" where
  "report opts v = v\<lparr>vmi_VolumeStatus := vmi_VolumeStatus v @ [\<lparr>vs_Name = avo_Name opts,
     vs_Phase = VolumeReady, vs_HotplugVolume = Some ''hp''\<rparr>]\<rparr>"

definition unplug :: "string \<Rightarrow> VirtualMachine \<Rightarrow> VirtualMachine" where
  "unplug name v = v\<lparr>vm_Template :=
     map_option (filter (\<lambda>x. vol_Name x \<noteq> name)) (vm_Template v)\<rparr>"

definition unreport :: "string \<Rightarrow> VirtualMachineInstance \<Rightarrow> VirtualMachineInstance" where
  "unreport name v = v\<lparr>vmi_VolumeStatus := filter (\<lambda>x. vs_Name x \<noteq> name) (vmi_VolumeStatus v)\<rparr>"

definition on_path :: "(string \<Rightarrow> string) \<Rightarrow> string \<Rightarrow> ('a \<Rightarrow> 'a) \<Rightarrow> (string \<times> 'a) list \<Rightarrow> (string \<times> 'a) list" where
  "on_path url path f objs = map (\<lambda>(n, x). if url n = path then (n, f x) else (n, x)) objs"

definition serve_put :: "string \<Rightarrow> string \<Rightarrow> rest_body \<Rightarrow> cluster \<Rightarrow> answer \<times> cluster" where
  "serve_put ns path body e = (case body of
       BodyAddVolume opts \<Rightarrow> (Inr OSuccess, e
         \<lparr>sc_Machines := on_path (\<lambda>n. vmSubresourceURL ns n ''addvolume'') path (plug opts) (sc_Machines e),
          sc_Instances := on_path (\<lambda>n. vmSubresourceURL ns n ''addvolume'') path (report opts) (sc_Instances e)\<rparr>)
     | BodyRemoveVolume opts \<Rightarrow> (Inr OSuccess, e
         \<lparr>sc_Machines := on_path (\<lambda>n. vmSubresourceURL ns n ''removevolume'') path (unplug (rvo_Name opts)) (sc_Machines e),
          sc_Instances := on_path (\<lambda>n. vmSubresourceURL ns n ''removevolume'') path (unreport (rvo_Name opts)) (sc_Instances e)\<rparr>)
     | _ \<Rightarrow> (Inl (ApiStatus ''BadRequest'' 400 ''''), e))"

definition serve_get :: "rest_request \<Rightarrow> cluster \<Rightarrow> answer" where
  "serve_get rq e =
     (if rq_Resource rq = ''datavolumes'' then find_object (sc_DataVolumes e) ODV (the (rq_Name rq))
      else if rq_Resource rq = ''persistentvolumeclaims'' then find_object (sc_Claims e) OPVC (the (rq_Name rq))
      else if rq_Resource rq = ''persistentvolumes'' then find_object (sc_Volumes e) OPV (the (rq_Name rq))
      else if rq_Resource rq = ''virtualmachines'' then find_object (sc_Machines e) OVM (the (rq_Name rq))
      else if rq_Resource rq = ''virtualmachineinstances'' then
        (case rq_Name rq of None \<Rightarrow> Inr (OVMIList (map snd (sc_Instances e)))
         | Some n \<Rightarrow> find_object (sc_Instances e) OVMI n)
      else if rq_Resource rq = ''volumesnapshots'' then
        (case rq_Name rq of None \<Rightarrow> Inr (OSnapshotList (map snd (sc_Snapshots e)))
         | Some n \<Rightarrow> find_object (sc_Snapshots e) OSnapshot n)
      else if rq_Resource rq = ''volumesnapshotclasses'' then Inr (OSnapshotClassList (sc_Classes e))
      else Inr OVersion)"

definition serve_change :: "rest_request \<Rightarrow> cluster \<Rightarrow> answer \<times> cluster" where
  "serve_change rq e = (case (rq_Verb rq, rq_Body rq) of
       (POST, BodyDV dv) \<Rightarrow>
         (let created = dv\<lparr>dv_Meta := (dv_Meta dv)\<lparr>om_UID := ''uid-'' @ om_Name (dv_Meta dv)\<rparr>\<rparr>
          in (Inr (ODV created), e\<lparr>sc_DataVolumes := (om_Name (dv_Meta dv), created) # sc_DataVolumes e\<rparr>))
     | (POST, BodySnapshot s) \<Rightarrow>
         (let created = s\<lparr>snap_Status := Some \<lparr>vss_ReadyToUse = Some True, vss_RestoreSize = Some 10\<rparr>\<rparr>
          in (Inr (OSnapshot created), e\<lparr>sc_Snapshots := (om_Name (snap_Meta s), created) # sc_Snapshots e\<rparr>))
     | (DELETE, _) \<Rightarrow> (Inr OSuccess,
          e\<lparr>sc_DataVolumes := filter (\<lambda>x. rq_Resource rq \<noteq> ''datavolumes'' \<or> Some (fst x) \<noteq> rq_Name rq) (sc_DataVolumes e),
            sc_Snapshots := filter (\<lambda>x. rq_Resource rq \<noteq> ''volumesnapshots'' \<or> Some (fst x) \<noteq> rq_Name rq) (sc_Snapshots e)\<rparr>)
     | _ \<Rightarrow> (Inl (ApiStatus ''BadRequest'' 400 ''''), e))"

definition sampleRuntime :: "string \<Rightarrow> cluster runtime" where
  "sampleRuntime ns = \<lparr>
     rt_serve = (\<lambda>rq e. if rq_Verb rq = GET then (serve_get rq e, e)
                        else if rq_Verb rq = PUT then serve_put ns (rq_Path rq) (rq_Body rq) e
                        else serve_change rq e),
     rt_sleep = (\<lambda>d e. e), rt_tick = (\<lambda>e. ((0, None), e)), rt_checkLabel = (\<lambda>k v. None)\<rparr>"

definition sampleLabels :: "string gomap" where
  "sampleLabels = [(''tenant'', ''t1'')]"

definition sampleEnforcement :: StorageClassEnforcement where
  "sampleEnforcement = \<lparr>sce_AllowList = [''gold''], sce_AllowAll = False, sce_AllowDefault = True,
     sce_StorageSnapshotMapping = [\<lparr>ssm_VolumeSnapshotClasses = [''snapgold''], ssm_StorageClasses = [''gold'']\<rparr>]\<rparr>"

definition sampleClient :: "cluster client" where
  "sampleClient = \<lparr>cl_rt = sampleRuntime ''ns'', cl_storageClassEnforcement = sampleEnforcement,
     cl_infraLabelMap = sampleLabels, cl_volumePrefix = ''pvc-''\<rparr>"

definition sampleMeta :: "string \<Rightarrow> ObjectMeta" where
  "sampleMeta n = zero_ObjectMeta\<lparr>om_Name := n, om_Namespace := ''ns'', om_Labels := sampleLabels,
     om_UID := ''uid-'' @ n\<rparr>"

definition sampleDV :: "string \<Rightarrow> DataVolume" where
  "sampleDV n = zero_DataVolume\<lparr>dv_Meta := sampleMeta n, dv_Storage := Some \<lparr>ss_Requests = [(''storage'', 10)],
     ss_AccessModes = [], ss_StorageClassName = None, ss_DataSourceRef = None\<rparr>\<rparr>"

definition sampleCluster :: cluster where
  "sampleCluster = \<lparr>sc_DataVolumes = [(''pvc-a'', sampleDV ''pvc-a'')],
     sc_Claims = [(''pvc-a'', zero_PersistentVolumeClaim\<lparr>pvc_Meta := sampleMeta ''pvc-a'',
        pvc_Requests := [(''storage'', 10)], pvc_VolumeName := ''pv-a''\<rparr>)],
     sc_Volumes = [(''pv-a'', zero_PersistentVolume\<lparr>pv_Capacity := [(''storage'', 10)]\<rparr>)],
     sc_Snapshots = [],
     sc_Machines = [(''vm1'', zero_VirtualMachine\<lparr>vm_Template := Some []\<rparr>),
                    (''vm2'', zero_VirtualMachine\<lparr>vm_Template := Some []\<rparr>)],
     sc_Instances = [(''vm1'', zero_VirtualMachineInstance\<lparr>vmi_Meta := sampleMeta ''vm1''\<rparr>),
                     (''vm2'', zero_VirtualMachineInstance\<lparr>vmi_Meta := sampleMeta ''vm2''\<rparr>)],
     sc_Classes = [\<lparr>vsc_Meta = zero_ObjectMeta\<lparr>om_Name := ''tenantgold''\<rparr>, vsc_Parameters = [(''infraSnapshotClassName'', ''snapgold'')]\<rparr>]\<rparr>"

definition sampleWorld :: "cluster \<Rightarrow> cluster world" where
  "sampleWorld e = \<lparr>w_env = e, w_log = [], w_mapping = [], w_populated = False\<rparr>"

definition sampleController :: "cluster world ControllerService" where
  "sampleController = controllerOver sampleClient ''ns''"

definition samplePublish :: ControllerPublishVolumeRequest where
  "samplePublish = \<lparr>cpr_VolumeId = ''pvc-a'', cpr_NodeId = ''ns/vm1'',
     cpr_VolumeCapability = Some \<lparr>vc_AccessType = Some (AccessMount ''ext4''),
       vc_AccessMode = Some SINGLE_NODE_WRITER\<rparr>,
     cpr_VolumeContext = [(''bus'', ''scsi''), (''serial'', ''uid-pvc-a'')]\<rparr>"

text \<open>The publication succeeds on the sample cluster, with one hot-plug request.\<close>

lemma sample_publish_runs:
  "let r = ControllerPublishVolume sampleController (Some samplePublish) (sampleWorld sampleCluster)
   in fst r = Ok (Some (), None) \<and>
      map (\<lambda>x. rq_Verb (fst x)) (w_log (snd r)) = [GET, GET, GET, GET, GET, PUT, GET, GET]"
  by code_simp

end
