(* ===== verification/Controller_Guarantees.thy ===== *)
theory Controller_Guarantees
  imports Sample_Cluster
begin

text \<open>
  What the controller guarantees of each RPC beyond the isolation of tenants: how many requests it
  sends, what a success rests on, which errors it returns, and the behaviour of its retries.  All
  statements are about the controller over the client object (\<open>controllerOver\<close>), for every behaviour of
  the API servers.
\<close>

section \<open>How many requests\<close>

definition isAddVolume :: "rest_request \<Rightarrow> bool" where
  "isAddVolume rq = (case rq_Body rq of BodyAddVolume opts \<Rightarrow> True | _ \<Rightarrow> False)"

abbreviation requests :: "'e world \<Rightarrow> nat" where
  "requests \<equiv> count (\<lambda>_. True)"

lemmas client_methods = ListVirtualMachines_def GetVirtualMachine_def GetDataVolume_def
  GetWorkloadManagingVirtualMachine_def EnsureVolumeAvailableVM_def AddVolumeToVM_def
  VirtualMachineInstances_List_def list_request_zero VirtualMachineInstances_Get_def VirtualMachines_Get_def DataVolumes_Get_def

lemma one_ListVirtualMachines: "costs requests 1 (ListVirtualMachines c ns)"
  unfolding client_methods by (rule costs_bind [where k = 1]) (auto intro!: costs_rules)

lemma one_GetVirtualMachine: "costs requests 1 (GetVirtualMachine c ns n)"
  unfolding client_methods by (auto intro!: costs_rules)

lemma one_GetWorkloadManagingVirtualMachine: "costs requests 1 (GetWorkloadManagingVirtualMachine c ns n)"
  unfolding client_methods by (auto intro!: costs_rules)

lemma one_GetDataVolume: "costs requests 1 (GetDataVolume c ns n)"
  unfolding client_methods by (rule costs_bind [where k = 1]) (auto intro!: costs_rules)

lemma one_EnsureVolumeAvailableVM: "costs requests 1 (EnsureVolumeAvailableVM c ns n vol)"
  unfolding client_methods by (rule costs_bind [where k = 1]) (auto intro!: costs_rules)

lemma one_AddVolumeToVM: "costs requests 1 (AddVolumeToVM c ns n opts)"
  unfolding client_methods by (rule costs_bind [where k = 1]) (auto intro!: costs_rules)

lemma poll_EnsureVolumeAvailable: "costs requests 240 (EnsureVolumeAvailable c ns vm vol (2 * Minute))"
  unfolding EnsureVolumeAvailable_def
proof (rule costs_PollUntilContextTimeout)
  show "costs requests 2 (availableCondition c ns vm vol)"
    unfolding availableCondition_def
    by (rule costs_bind [OF one_GetVirtualMachine])
      (auto intro!: costs_rules costs_mono [OF one_EnsureVolumeAvailableVM])
qed (simp_all add: Minute_def Second_def)

lemmas one_request = one_ListVirtualMachines one_GetWorkloadManagingVirtualMachine one_GetDataVolume
  one_EnsureVolumeAvailableVM one_AddVolumeToVM poll_EnsureVolumeAvailable

lemmas bind_request = one_request [THEN costs_bind]

lemma costs_checkExclusive: "costs requests 1 (checkExclusive (controllerOver c ns) rwx dv vm)"
proof -
  have "costs requests 1 (IsVolumeAttachedToOtherVMI (controllerOver c ns) dv ns vm)"
    unfolding IsVolumeAttachedToOtherVMI_def controllerOver_sel as_Client_sel
    by (intro costs_rules bind_request) simp_all
  then show ?thesis
    unfolding checkExclusive_def controllerOver_sel by (intro costs_rules costs_bind [where k = 1]) simp_all
qed

lemma costs_addVolumeToVm: "costs requests 2 (addVolumeToVm (controllerOver c ns) dv vm opts)"
proof -
  have "costs requests 1 (isVolumeAttached (controllerOver c ns) dv vm)"
    unfolding isVolumeAttached_def controllerOver_sel as_Client_sel
    by (intro costs_rules bind_request) simp_all
  then show ?thesis
    unfolding addVolumeToVm_def controllerOver_sel as_Client_sel
    by (rule costs_bind) (intro costs_rules bind_request | simp)+
qed

lemma costs_plugIn: "costs requests 250 (plugIn (controllerOver c ns) req vm)"
proof -
  have two: "costs requests 2 (retrying (addVolumeToVm (controllerOver c ns) dv vm opts))" for dv opts
    unfolding retrying_def by (rule costs_bind [OF costs_addVolumeToVm]) (intro costs_rules | simp)+
  have ten: "costs requests 10 (ExponentialBackoff (sleep_world (cl_rt c)) hotplugBackoff
      (retrying (addVolumeToVm (controllerOver c ns) dv vm opts)))" for dv opts
    by (rule costs_ExponentialBackoff [OF two]) (simp_all add: hotplugBackoff_def)
  show ?thesis
    unfolding plugIn_def controllerOver_sel as_Client_sel
    by (rule costs_bind [OF ten]) (intro costs_rules bind_request | simp)+
qed

lemma costs_publish: "costs requests 254 (ControllerPublishVolume (controllerOver c ns) request)"
  unfolding ControllerPublishVolume_def publishChecked_def Let_def controllerOver_sel as_Client_sel
  by (intro costs_rules bind_request costs_bind [OF costs_checkExclusive] costs_mono [OF costs_plugIn]) simp_all

text \<open>The same for hot-plug requests only: reading adds none.\<close>

abbreviation hotplugs :: "'e world \<Rightarrow> nat" where
  "hotplugs \<equiv> count isAddVolume"

lemma isAddVolume_get [simp]: "\<not> isAddVolume (get_request h path ns res n)"
  by (simp add: isAddVolume_def)

lemma zero_ListVirtualMachines: "costs hotplugs 0 (ListVirtualMachines c ns)"
  unfolding client_methods by (rule costs_bind [where k = 0]) (auto intro!: costs_rules)

lemma zero_GetVirtualMachine: "costs hotplugs 0 (GetVirtualMachine c ns n)"
  unfolding client_methods by (auto intro!: costs_rules)

lemma zero_GetWorkloadManagingVirtualMachine: "costs hotplugs 0 (GetWorkloadManagingVirtualMachine c ns n)"
  unfolding client_methods by (auto intro!: costs_rules)

lemma zero_GetDataVolume: "costs hotplugs 0 (GetDataVolume c ns n)"
  unfolding client_methods by (rule costs_bind [where k = 0]) (auto intro!: costs_rules)

lemma zero_EnsureVolumeAvailableVM: "costs hotplugs 0 (EnsureVolumeAvailableVM c ns n vol)"
  unfolding client_methods by (rule costs_bind [where k = 0]) (auto intro!: costs_rules)

lemma zero_EnsureVolumeAvailable: "costs hotplugs 0 (EnsureVolumeAvailable c ns vm vol timeout)"
  unfolding EnsureVolumeAvailable_def
proof (rule costs_PollUntilContextTimeout [where k = 0])
  show "costs hotplugs 0 (availableCondition c ns vm vol)"
    unfolding availableCondition_def
    by (rule costs_bind [OF zero_GetVirtualMachine])
      (auto intro!: costs_rules zero_EnsureVolumeAvailableVM)
qed simp_all

lemma one_hotplug: "costs hotplugs 1 (AddVolumeToVM c ns n opts)"
  unfolding client_methods by (rule costs_bind [where k = 1]) (auto intro!: costs_rules)

lemmas no_hotplug = zero_ListVirtualMachines zero_GetWorkloadManagingVirtualMachine zero_GetDataVolume
  zero_EnsureVolumeAvailableVM zero_EnsureVolumeAvailable

lemmas bind_hotplug = no_hotplug [THEN costs_bind] one_hotplug [THEN costs_bind]

lemma hotplugs_plugIn: "costs hotplugs 5 (plugIn (controllerOver c ns) req vm)"
proof -
  have "costs hotplugs 0 (isVolumeAttached (controllerOver c ns) dv vm)" for dv
    unfolding isVolumeAttached_def controllerOver_sel as_Client_sel
    by (intro costs_rules bind_hotplug) simp_all
  then have add: "costs hotplugs 1 (addVolumeToVm (controllerOver c ns) dv vm opts)" for dv opts
    unfolding addVolumeToVm_def controllerOver_sel as_Client_sel
    by (rule costs_bind) (intro costs_rules bind_hotplug | simp)+
  have one: "costs hotplugs 1 (retrying (addVolumeToVm (controllerOver c ns) dv vm opts))" for dv opts
    unfolding retrying_def by (rule costs_bind [OF add]) (intro costs_rules | simp)+
  have five: "costs hotplugs 5 (ExponentialBackoff (sleep_world (cl_rt c)) hotplugBackoff
      (retrying (addVolumeToVm (controllerOver c ns) dv vm opts)))" for dv opts
    by (rule costs_ExponentialBackoff [OF one]) (simp_all add: hotplugBackoff_def)
  show ?thesis
    unfolding plugIn_def controllerOver_sel as_Client_sel
    by (rule costs_bind [OF five]) (intro costs_rules bind_hotplug | simp)+
qed

lemma hotplugs_checkExclusive: "costs hotplugs 0 (checkExclusive (controllerOver c ns) rwx dv vm)"
proof -
  have "costs hotplugs 0 (IsVolumeAttachedToOtherVMI (controllerOver c ns) dv ns vm)"
    unfolding IsVolumeAttachedToOtherVMI_def controllerOver_sel as_Client_sel
    by (intro costs_rules bind_hotplug) simp_all
  then show ?thesis
    unfolding checkExclusive_def controllerOver_sel by (intro costs_rules costs_bind [where k = 0]) simp_all
qed

lemma hotplugs_publish: "costs hotplugs 5 (ControllerPublishVolume (controllerOver c ns) request)"
  unfolding ControllerPublishVolume_def publishChecked_def Let_def controllerOver_sel as_Client_sel
  by (intro costs_rules bind_hotplug costs_bind [OF hotplugs_checkExclusive]
      costs_mono [OF hotplugs_plugIn]) simp_all


section \<open>Attaching\<close>

text \<open>The log only grows.\<close>

abbreviation grows :: "'e world \<Rightarrow> 'e world \<Rightarrow> bool" where
  "grows \<equiv> only (\<lambda>_. True)"

lemma confined_grows: "keeps (confined po) m \<Longrightarrow> keeps grows m"
  by (erule keeps_mono) (auto simp: confined_def only_def)

lemma client_grows:
  "keeps grows (GetDataVolume c ns name)"
  "keeps grows (GetWorkloadManagingVirtualMachine c ns name)"
  "keeps grows (EnsureVolumeAvailableVM c ns name vol)"
  "keeps grows (EnsureVolumeAvailable c ns name vol timeout)"
  by (rule confined_grows [where po = "client_policy c ns"], intro keeps_rules; simp)+

lemma plugIn_grows: "keeps grows (plugIn (controllerOver c ns) req vm)"
proof -
  have "keeps grows (retrying (addVolumeToVm (controllerOver c ns) dv vm opts))" for dv opts
    unfolding retrying_def addVolumeToVm_def isVolumeAttached_def AddVolumeToVM_def controllerOver_sel as_Client_sel
    by (intro only_basic client_grows only_rest_do TrueI)
  then have "keeps grows (ExponentialBackoff (sleep_world (cl_rt c)) hotplugBackoff
      (retrying (addVolumeToVm (controllerOver c ns) dv vm opts)))" for dv opts
    by (rule keeps_ExponentialBackoff [OF only_reflp only_transp]) (simp add: only_def)
  then show ?thesis
    unfolding plugIn_def controllerOver_sel as_Client_sel by (intro only_basic client_grows)
qed

definition list_vmis :: "string \<Rightarrow> rest_request" where
  "list_vmis ns = get_request Infra kubevirtPath (Some ns) ''virtualmachineinstances'' None"

lemma attachedElsewhere_iff:
  "attachedElsewhere dvName vmName vmis \<longleftrightarrow>
   (\<exists>vmi \<in> set vmis. om_Name (vmi_Meta vmi) \<noteq> vmName \<and> (\<exists>s \<in> set (vmi_VolumeStatus vmi). vs_Name s = dvName))"
  by (induction vmis) (auto simp: list_ex_iff)

text \<open>The check passes only after the list of the VMIs, just read, shows the volume on no other one.\<close>

lemma checkExclusive_Ok:
  assumes "checkExclusive (controllerOver c ns) False dv vm w = (Ok None, w')"
  obtains vmis where "w_log w' = w_log w @ [(list_vmis ns, Inr (OVMIList vmis))]"
    and "\<not> attachedElsewhere dv vm vmis"
proof -
  from assms obtain vmis where run: "ListVirtualMachines c ns w = (Ok (vmis, None), w')"
    and free: "\<not> attachedElsewhere dv vm vmis"
    by (auto simp: checkExclusive_def IsVolumeAttachedToOtherVMI_def
        elim!: bindG_OkE split: if_splits option.splits)
  from run obtain p where "VirtualMachineInstances_List (cl_rt c) ns zero_ListOptions w = (Ok (p, None), w')"
    and "p = Some vmis"
    by (auto simp: ListVirtualMachines_def elim!: bindG_OkE deref_OkE split: if_splits)
  then have "w_log w' = w_log w @ [(list_vmis ns, Inr (OVMIList vmis))]"
    unfolding VirtualMachineInstances_List_def list_request_zero list_vmis_def by (auto elim!: typed_get_Ok)
  with free that show thesis by blast
qed

lemma publishChecked_grows: "keeps grows (publishChecked (controllerOver c ns) req vm)"
  unfolding publishChecked_def Let_def controllerOver_sel as_Client_sel
  by (intro only_basic client_grows plugIn_grows)

text \<open>A publication of a well-formed request is the check and then the rest.\<close>

lemma publish_eq:
  assumes "validateControllerPublishVolumeRequest (Some req) = None"
    and "SplitMetaNamespaceKey (cpr_NodeId req) = (nodeNs, vmName, None)"
    and "hasRWXCapabiltyAccessMode (GetAccessMode (cpr_VolumeCapability req)) = (isRWX, None)"
  shows "ControllerPublishVolume c (Some req) =
    bindG (checkExclusive c isRWX (cpr_VolumeId req) vmName) (\<lambda>err.
      if err \<noteq> None then ret (None, err) else publishChecked c req vmName)"
  using assms by (simp add: ControllerPublishVolume_def)

text \<open>C2 When the access mode is for a single node, a hot-plug request is only ever sent after the first
  request of the publication listed all VMIs of the namespace, and no VMI other than the target reported
  the volume.\<close>

theorem publish_exclusive:
  assumes run: "ControllerPublishVolume (controllerOver c ns) (Some req) w = (r, w')"
    and vm: "SplitMetaNamespaceKey (cpr_NodeId req) = (nodeNs, vmName, None)"
    and mode: "hasRWXCapabiltyAccessMode (GetAccessMode (cpr_VolumeCapability req)) = (False, None)"
    and plugged: "hotplugs w < hotplugs w'"
  shows "\<exists>vmis l. w_log w' = w_log w @ (list_vmis ns, Inr (OVMIList vmis)) # l \<and>
    (\<forall>vmi \<in> set vmis. om_Name (vmi_Meta vmi) \<noteq> vmName \<longrightarrow>
       (\<forall>s \<in> set (vmi_VolumeStatus vmi). vs_Name s \<noteq> cpr_VolumeId req))"
proof -
  let ?check = "checkExclusive (controllerOver c ns) False (cpr_VolumeId req) vmName"
  have valid: "validateControllerPublishVolumeRequest (Some req) = None"
    using run plugged by (cases "validateControllerPublishVolumeRequest (Some req)")
      (auto simp: ControllerPublishVolume_def)
  obtain x v where check: "?check w = (x, v)" by fastforce
  then have same: "hotplugs v \<le> hotplugs w"
    using hotplugs_checkExclusive [of c ns False "cpr_VolumeId req" vmName]
    unfolding costs_def by (metis add.right_neutral snd_conv)
  have x: "x = Ok None" and rest: "publishChecked (controllerOver c ns) req vmName v = (r, w')"
    using run check same plugged
    by (cases x; auto simp: publish_eq [OF valid vm mode] split: if_splits)+
  obtain vmis where log: "w_log v = w_log w @ [(list_vmis ns, Inr (OVMIList vmis))]"
    and free: "\<not> attachedElsewhere (cpr_VolumeId req) vmName vmis"
    using checkExclusive_Ok check x by metis
  moreover obtain l where "w_log w' = w_log v @ l"
    using keepsD [OF publishChecked_grows rest] by (auto simp: only_def)
  ultimately show ?thesis by (auto simp: attachedElsewhere_iff)
qed

definition afterPublish :: "cluster world" where
  "afterPublish = snd (ControllerPublishVolume sampleController (Some samplePublish) (sampleWorld sampleCluster))"

theorem publish_exclusive_witness:
  "\<exists>vmis l. w_log afterPublish = (list_vmis ''ns'', Inr (OVMIList vmis)) # l \<and>
    (\<forall>vmi \<in> set vmis. om_Name (vmi_Meta vmi) \<noteq> ''vm1'' \<longrightarrow>
       (\<forall>s \<in> set (vmi_VolumeStatus vmi). vs_Name s \<noteq> ''pvc-a''))"
proof -
  obtain r w' where run: "ControllerPublishVolume (controllerOver sampleClient ''ns'') (Some samplePublish)
      (sampleWorld sampleCluster) = (r, w')" by fastforce
  then have w': "w' = afterPublish" by (simp add: afterPublish_def sampleController_def)
  have "SplitMetaNamespaceKey (cpr_NodeId samplePublish) = (''ns'', ''vm1'', None)" by code_simp
  moreover have "hasRWXCapabiltyAccessMode (GetAccessMode (cpr_VolumeCapability samplePublish)) = (False, None)"
    by code_simp
  moreover have "hotplugs (sampleWorld sampleCluster) < hotplugs afterPublish" by code_simp
  ultimately show ?thesis
    using publish_exclusive [OF run] by (simp add: w' sampleWorld_def samplePublish_def)
qed

text \<open>The exchange showed the VM with the volume in its template.\<close>

definition shows_attached :: "policy \<Rightarrow> string \<Rightarrow> string \<Rightarrow> exchange \<Rightarrow> bool" where
  "shows_attached po vm vol x \<longleftrightarrow> (\<exists>v volumes. x = (get_vm po vm, Inr (OVM v)) \<and>
     vm_Template v = Some volumes \<and> claimVolumeNamed vol volumes)"

text \<open>The exchange showed the VMI with the volume ready.\<close>

definition shows_ready :: "policy \<Rightarrow> string \<Rightarrow> string \<Rightarrow> exchange \<Rightarrow> bool" where
  "shows_ready po vm vol x \<longleftrightarrow> (\<exists>vmi. x = (get_vmi po vm, Inr (OVMI vmi)) \<and>
     (\<exists>s \<in> set (vmi_VolumeStatus vmi). vs_Name s = vol \<and> vs_Phase s = VolumeReady))"

lemma EnsureVolumeAvailableVM_True:
  assumes "EnsureVolumeAvailableVM c ns vm vol w = (Ok (True, None), w')"
  obtains x where "w_log w' = w_log w @ [x]" and "shows_attached (client_policy c ns) vm vol x"
proof -
  from assms obtain v volumes where "VirtualMachines_Get (cl_rt c) ns vm w = (Ok (Some v, None), w')"
    and "vm_Template v = Some volumes" and "claimVolumeNamed vol volumes"
    by (auto simp: EnsureVolumeAvailableVM_def elim!: bindG_OkE deref_OkE split: if_splits)
  then show thesis
    unfolding VirtualMachines_Get_def
    by (auto elim!: typed_get_Ok intro!: that simp: shows_attached_def get_vm_def)
qed

lemma EnsureVolumeAvailable_Ok:
  assumes "EnsureVolumeAvailable c ns vm vol timeout w = (Ok None, w')"
  obtains l x y where "w_log w' = l @ [x, y]" and "shows_ready (client_policy c ns) vm vol x"
    and "shows_attached (client_policy c ns) vm vol y"
proof -
  from assms have "last_call (\<lambda>_. True) (availableCondition c ns vm vol) UNIV (Ok None) w'"
    unfolding EnsureVolumeAvailable_def
    using PollUntilContextTimeout_last_call [of "\<lambda>_. True" "availableCondition c ns vm vol"
        "tick_world (cl_rt c)" w timeout "Ok None" w'] by simp
  then obtain u where "availableCondition c ns vm vol u = (Ok (True, None), w')"
    by (auto simp: last_call_def)
  then obtain vmi u' where get: "GetVirtualMachine c ns vm u = (Ok (Some vmi, None), u')"
    and ready: "list_ex (volumeReady vol) (vmi_VolumeStatus vmi)"
    and vm: "EnsureVolumeAvailableVM c ns vm vol u' = (Ok (True, None), w')"
    by (auto simp: availableCondition_def elim!: bindG_OkE deref_OkE split: if_splits)
  from get have "w_log u' = w_log u @ [(get_vmi (client_policy c ns) vm, Inr (OVMI vmi))]"
    unfolding GetVirtualMachine_def VirtualMachineInstances_Get_def
    by (auto elim!: typed_get_Ok simp: get_vmi_def)
  with vm ready that show thesis
    by (elim EnsureVolumeAvailableVM_True)
      (fastforce simp: shows_ready_def volumeReady_def list_ex_iff)
qed

lemma plugIn_Ok:
  assumes "plugIn (controllerOver c ns) req vm w = (Ok (Some (), None), w')"
  obtains l x y where "w_log w' = l @ [x, y]" and "shows_ready (client_policy c ns) vm (cpr_VolumeId req) x"
    and "shows_attached (client_policy c ns) vm (cpr_VolumeId req) y"
proof -
  from assms obtain u
    where "EnsureVolumeAvailable c ns vm (cpr_VolumeId req) (2 * Minute) u = (Ok None, w')"
    by (auto simp: plugIn_def elim!: bindG_OkE split: if_splits)
  with that show thesis by (elim EnsureVolumeAvailable_Ok)
qed

lemma publishChecked_Ok:
  assumes "publishChecked (controllerOver c ns) req vm w = (Ok (Some (), None), w')"
  obtains (attached) x l where "w_log w' = l @ [x]"
    "shows_attached (client_policy c ns) vm (cpr_VolumeId req) x" "hotplugs w' \<le> hotplugs w"
  | (plugged) u where "plugIn (controllerOver c ns) req vm u = (Ok (Some (), None), w')"
proof -
  from assms obtain p q b u1 u2 u3
    where dv: "GetDataVolume c ns (cpr_VolumeId req) w = (Ok (p, None), u1)"
    and get: "GetWorkloadManagingVirtualMachine c ns vm u1 = (Ok (q, None), u2)"
    and avail: "EnsureVolumeAvailableVM c ns vm (cpr_VolumeId req) u2 = (Ok (b, None), u3)"
    and rest: "(if b then ret (Some (), None) else plugIn (controllerOver c ns) req vm) u3 = (Ok (Some (), None), w')"
    by (fastforce simp: publishChecked_def Let_def elim!: bindG_OkE split: if_splits)
  show thesis
  proof (cases b)
    case True
    have "hotplugs u3 \<le> hotplugs w"
      using costsD [OF zero_GetDataVolume dv] costsD [OF zero_GetWorkloadManagingVirtualMachine get]
        costsD [OF zero_EnsureVolumeAvailableVM avail] by simp
    with True avail rest attached show thesis
      by (auto elim: EnsureVolumeAvailableVM_True)
  next
    case False
    with rest plugged show thesis by auto
  qed
qed

text \<open>C4 A publication that succeeds saw, in its last exchange, the VM with the volume in its template; and
  if it sent any hot-plug request itself, it saw, in the exchange before, the VMI with the volume
  ready.\<close>

theorem publish_success:
  assumes run: "ControllerPublishVolume (controllerOver c ns) (Some req) w = (Ok (Some (), None), w')"
    and vm: "SplitMetaNamespaceKey (cpr_NodeId req) = (nodeNs, vmName, None)"
  shows "\<exists>l y. w_log w' = l @ [y] \<and> shows_attached (client_policy c ns) vmName (cpr_VolumeId req) y \<and>
    (hotplugs w < hotplugs w' \<longrightarrow> (\<exists>l' x. l = l' @ [x] \<and> shows_ready (client_policy c ns) vmName (cpr_VolumeId req) x))"
proof -
  obtain isRWX v where check: "checkExclusive (controllerOver c ns) isRWX (cpr_VolumeId req) vmName w = (Ok None, v)"
    and rest: "publishChecked (controllerOver c ns) req vmName v = (Ok (Some (), None), w')"
    using run vm by (auto simp: ControllerPublishVolume_def Let_def
        elim!: bindG_OkE deref_OkE split: if_splits option.splits prod.splits)
  from rest show ?thesis
  proof (cases rule: publishChecked_Ok)
    case (attached x l)
    with costsD [OF hotplugs_checkExclusive check] show ?thesis by auto
  next
    case (plugged u)
    then obtain l x y where "w_log w' = l @ [x, y]"
      and "shows_ready (client_policy c ns) vmName (cpr_VolumeId req) x"
      and "shows_attached (client_policy c ns) vmName (cpr_VolumeId req) y"
      by (rule plugIn_Ok)
    then show ?thesis by (intro exI [of _ "l @ [x]"] exI [of _ y]) auto
  qed
qed

theorem publish_success_witness:
  "\<exists>l x y. w_log afterPublish = l @ [x, y] \<and> shows_ready (client_policy sampleClient ''ns'') ''vm1'' ''pvc-a'' x \<and>
     shows_attached (client_policy sampleClient ''ns'') ''vm1'' ''pvc-a'' y"
proof -
  have "fst (ControllerPublishVolume sampleController (Some samplePublish) (sampleWorld sampleCluster)) =
      Ok (Some (), None)" by code_simp
  then have run: "ControllerPublishVolume (controllerOver sampleClient ''ns'') (Some samplePublish)
      (sampleWorld sampleCluster) = (Ok (Some (), None), afterPublish)"
    by (simp add: afterPublish_def sampleController_def prod_eq_iff)
  have vm: "SplitMetaNamespaceKey (cpr_NodeId samplePublish) = (''ns'', ''vm1'', None)" by code_simp
  have "hotplugs (sampleWorld sampleCluster) < hotplugs afterPublish" by code_simp
  moreover have "cpr_VolumeId samplePublish = ''pvc-a''" by (simp add: samplePublish_def)
  ultimately show ?thesis
    using publish_success [OF run vm] by auto
qed

section \<open>Detaching\<close>

text \<open>The exchange showed that the VM is gone or has no such volume in its template.\<close>

definition shows_vm_free :: "policy \<Rightarrow> string \<Rightarrow> string \<Rightarrow> exchange \<Rightarrow> bool" where
  "shows_vm_free po vm vol x \<longleftrightarrow> (\<exists>e. x = (get_vm po vm, Inl e) \<and> IsNotFound (Some e)) \<or>
     (\<exists>v volumes. x = (get_vm po vm, Inr (OVM v)) \<and> vm_Template v = Some volumes \<and> \<not> claimVolumeNamed vol volumes)"

text \<open>The exchange showed that the VMI is gone or reports no such hot-plugged volume.\<close>

definition shows_vmi_free :: "policy \<Rightarrow> string \<Rightarrow> string \<Rightarrow> exchange \<Rightarrow> bool" where
  "shows_vmi_free po vm vol x \<longleftrightarrow> (\<exists>e. x = (get_vmi po vm, Inl e) \<and> IsNotFound (Some e)) \<or>
     (\<exists>v. x = (get_vmi po vm, Inr (OVMI v)) \<and> \<not> vmi_holds vol v)"

lemma hotplugStatusNamed_iff: "hotplugStatusNamed vol l \<longleftrightarrow> (\<exists>x \<in> set l. vs_HotplugVolume x \<noteq> None \<and> vs_Name x = vol)"
  by (induction l) auto

lemma EnsureVolumeRemovedVM_True:
  assumes "EnsureVolumeRemovedVM c ns vm vol w = (Ok (True, None), w')"
  obtains x where "w_log w' = w_log w @ [x]" and "shows_vm_free (client_policy c ns) vm vol x"
proof -
  from assms obtain p err where get: "VirtualMachines_Get (cl_rt c) ns vm w = (Ok (p, err), w')"
    and res: "IsNotFound err \<or> (\<exists>v volumes. err = None \<and> p = Some v \<and> vm_Template v = Some volumes
      \<and> \<not> claimVolumeNamed vol volumes)"
    by (auto simp: EnsureVolumeRemovedVM_def elim!: bindG_OkE deref_OkE split: if_splits)
  show thesis
  proof (cases err)
    case None
    with get res that show thesis
      unfolding VirtualMachines_Get_def
      by (auto elim!: typed_get_Ok simp: shows_vm_free_def get_vm_def)
  next
    case (Some e)
    with res have "IsNotFound (Some e)" by auto
    with get Some have "w_log w' = w_log w @ [(get_vm (client_policy c ns) vm, Inl e)]"
      unfolding VirtualMachines_Get_def by (auto dest!: typed_get_NotFound simp: get_vm_def)
    with \<open>IsNotFound (Some e)\<close> that show thesis by (auto simp: shows_vm_free_def)
  qed
qed

lemma EnsureVolumeRemovedVMI_True:
  assumes "EnsureVolumeRemovedVMI c ns vm vol w = (Ok (True, None), w')"
  obtains x where "w_log w' = w_log w @ [x]" and "shows_vmi_free (client_policy c ns) vm vol x"
proof -
  from assms obtain p err where get: "VirtualMachineInstances_Get (cl_rt c) ns vm w = (Ok (p, err), w')"
    and res: "IsNotFound err \<or> (\<exists>v. err = None \<and> p = Some v \<and> \<not> vmi_holds vol v)"
    by (auto simp: EnsureVolumeRemovedVMI_def hotplugStatusNamed_iff vmi_holds_def
        elim!: bindG_OkE deref_OkE split: if_splits)
  show thesis
  proof (cases err)
    case None
    with get res that show thesis
      unfolding VirtualMachineInstances_Get_def
      by (auto elim!: typed_get_Ok simp: shows_vmi_free_def get_vmi_def)
  next
    case (Some e)
    with res have "IsNotFound (Some e)" by auto
    with get Some have "w_log w' = w_log w @ [(get_vmi (client_policy c ns) vm, Inl e)]"
      unfolding VirtualMachineInstances_Get_def by (auto dest!: typed_get_NotFound simp: get_vmi_def)
    with \<open>IsNotFound (Some e)\<close> that show thesis by (auto simp: shows_vmi_free_def)
  qed
qed

text \<open>Both were shown, by the last two exchanges.\<close>

definition shows_detached :: "policy \<Rightarrow> string \<Rightarrow> string \<Rightarrow> exchange list \<Rightarrow> bool" where
  "shows_detached po vm vol h \<longleftrightarrow> (\<exists>l x y. h = l @ [x, y] \<and>
     (shows_vm_free po vm vol x \<and> shows_vmi_free po vm vol y \<or>
      shows_vmi_free po vm vol x \<and> shows_vm_free po vm vol y))"

lemma volumeStillAttached_False:
  assumes "volumeStillAttached (controllerOver c ns) vm vol w = (Ok (False, None), w')"
  shows "shows_detached (client_policy c ns) vm vol (w_log w')"
proof -
  from assms obtain p err u where get: "GetWorkloadManagingVirtualMachine c ns vm w = (Ok (p, err), u)"
    and rest: "(err = None \<and> (\<exists>u'. EnsureVolumeRemovedVM c ns vm vol u = (Ok (True, None), u') \<and>
        EnsureVolumeRemovedVMI c ns vm vol u' = (Ok (True, None), w'))) \<or>
      (IsNotFound err \<and> EnsureVolumeRemovedVMI c ns vm vol u = (Ok (True, None), w'))"
    by (fastforce simp: volumeStillAttached_def Let_def elim!: bindG_OkE split: if_splits)
  show ?thesis
  proof (cases err)
    case None
    with rest obtain u' where vm: "EnsureVolumeRemovedVM c ns vm vol u = (Ok (True, None), u')"
      and vmi: "EnsureVolumeRemovedVMI c ns vm vol u' = (Ok (True, None), w')" by auto
    from vm obtain x where "w_log u' = w_log u @ [x]" and "shows_vm_free (client_policy c ns) vm vol x"
      by (rule EnsureVolumeRemovedVM_True)
    moreover from vmi obtain y where "w_log w' = w_log u' @ [y]"
      and "shows_vmi_free (client_policy c ns) vm vol y"
      by (rule EnsureVolumeRemovedVMI_True)
    ultimately show ?thesis by (auto simp: shows_detached_def)
  next
    case (Some e)
    with rest have nf: "IsNotFound (Some e)"
      and vmi: "EnsureVolumeRemovedVMI c ns vm vol u = (Ok (True, None), w')" by auto
    from get Some nf have "w_log u = w_log w @ [(get_vm (client_policy c ns) vm, Inl e)]"
      unfolding GetWorkloadManagingVirtualMachine_def VirtualMachines_Get_def
      by (auto dest!: typed_get_NotFound simp: get_vm_def)
    moreover from vmi obtain y where "w_log w' = w_log u @ [y]"
      and "shows_vmi_free (client_policy c ns) vm vol y"
      by (rule EnsureVolumeRemovedVMI_True)
    ultimately show ?thesis using nf by (auto simp: shows_detached_def shows_vm_free_def)
  qed
qed

lemma removedCondition_True:
  assumes "removedCondition c ns vm vol w = (Ok (True, None), w')"
  shows "shows_detached (client_policy c ns) vm vol (w_log w')"
proof -
  from assms obtain p err u where get: "GetVirtualMachine c ns vm w = (Ok (p, err), u)"
    and vm: "EnsureVolumeRemovedVM c ns vm vol u = (Ok (True, None), w')"
    and res: "IsNotFound err \<or> (\<exists>v. err = None \<and> p = Some v \<and> \<not> vmi_holds vol v)"
    by (fastforce simp: removedCondition_def vmi_holds_def list_ex_iff elim!: bindG_OkE deref_OkE split: if_splits)
  have "\<exists>x. w_log u = w_log w @ [x] \<and> shows_vmi_free (client_policy c ns) vm vol x"
  proof (cases err)
    case None
    with get res show ?thesis
      unfolding GetVirtualMachine_def VirtualMachineInstances_Get_def
      by (auto elim!: typed_get_Ok simp: shows_vmi_free_def get_vmi_def)
  next
    case (Some e)
    with get res show ?thesis
      unfolding GetVirtualMachine_def VirtualMachineInstances_Get_def
      by (auto dest!: typed_get_NotFound simp: shows_vmi_free_def get_vmi_def)
  qed
  moreover from vm obtain y where "w_log w' = w_log u @ [y]"
    and "shows_vm_free (client_policy c ns) vm vol y"
    by (rule EnsureVolumeRemovedVM_True)
  ultimately show ?thesis by (auto simp: shows_detached_def)
qed

text \<open>C5 A detachment that succeeds saw, in its last two exchanges, that the VM is gone or has the volume no
  longer in its template, and that the VMI is gone or reports it no longer as hot-plugged: the success is
  never only that the request to unplug was accepted.\<close>

theorem unpublish_success:
  assumes run: "ControllerUnpublishVolume (controllerOver c ns) (Some req) w = (Ok (Some (), None), w')"
    and vm: "SplitMetaNamespaceKey (cur_NodeId req) = (nodeNs, vmName, None)"
  shows "shows_detached (client_policy c ns) vmName (cur_VolumeId req) (w_log w')"
proof -
  let ?vol = "cur_VolumeId req"
  from run vm consider
      "volumeStillAttached (controllerOver c ns) vmName ?vol w = (Ok (False, None), w')"
    | u where "EnsureVolumeRemoved c ns vmName ?vol (2 * Minute) u = (Ok None, w')"
    by (fastforce simp: ControllerUnpublishVolume_def Let_def elim!: bindG_OkE deref_OkE
        split: if_splits option.splits)
  then show ?thesis
  proof cases
    case 1
    then show ?thesis by (rule volumeStillAttached_False)
  next
    case (2 u)
    then have "last_call (\<lambda>_. True) (removedCondition c ns vmName ?vol) UNIV (Ok None) w'"
      unfolding EnsureVolumeRemoved_def
      using PollUntilContextTimeout_last_call [of "\<lambda>_. True" "removedCondition c ns vmName ?vol"
          "tick_world (cl_rt c)" u "2 * Minute" "Ok None" w'] by simp
    then show ?thesis
      by (auto simp: last_call_def intro: removedCondition_True)
  qed
qed

definition sampleUnpublish :: ControllerUnpublishVolumeRequest where
  "sampleUnpublish = \<lparr>cur_VolumeId = ''pvc-a'', cur_NodeId = ''ns/vm1''\<rparr>"

definition afterUnpublish :: "cluster world" where
  "afterUnpublish = snd (ControllerUnpublishVolume sampleController (Some sampleUnpublish) afterPublish)"

theorem unpublish_success_witness:
  "shows_detached (client_policy sampleClient ''ns'') ''vm1'' ''pvc-a'' (w_log afterUnpublish)"
proof -
  have "fst (ControllerUnpublishVolume sampleController (Some sampleUnpublish) afterPublish) =
      Ok (Some (), None)" by code_simp
  then have run: "ControllerUnpublishVolume (controllerOver sampleClient ''ns'') (Some sampleUnpublish)
      afterPublish = (Ok (Some (), None), afterUnpublish)"
    by (simp add: afterUnpublish_def sampleController_def prod_eq_iff)
  have vm: "SplitMetaNamespaceKey (cur_NodeId sampleUnpublish) = (''ns'', ''vm1'', None)" by code_simp
  show ?thesis
    using unpublish_success [OF run vm] by (simp add: sampleUnpublish_def)
qed

text \<open>
  A server that answers a request always in the same way, and what a typed call then returns.
\<close>

definition answers :: "'e client \<Rightarrow> rest_request \<Rightarrow> answer \<Rightarrow> bool" where
  "answers c rq a \<longleftrightarrow> request_error rq = None \<and> (\<forall>e. rt_serve (cl_rt c) rq e = (a, e))"

lemma typed_get_answers:
  "answers c rq a \<Longrightarrow> typed_get (cl_rt c) rq zero dec w =
     (Ok (Some (fst (Into zero dec a)), snd (Into zero dec a)), w\<lparr>w_log := w_log w @ [(rq, a)]\<rparr>)"
  by (simp add: answers_def typed_get_def rest_do_def bindG_def Let_def split: prod.split)

text \<open>C39 When the VM object is gone but its VMI still holds the volume hot-plugged, a detachment panics: the
  typed client returns a zero VM beside the error, whose template is nil, and \<open>removeVolumeFromVm\<close>
  reads through it before it ever looks at the VMI.\<close>

theorem unpublish_panics_without_vm:
  assumes req: "cur_VolumeId req \<noteq> ''''" "cur_NodeId req \<noteq> ''''"
    and vm: "SplitMetaNamespaceKey (cur_NodeId req) = (nodeNs, vmName, None)"
    and gone: "answers c (get_vm (client_policy c ns) vmName) (Inl e)" "IsNotFound (Some e)"
    and vmi: "answers c (get_vmi (client_policy c ns) vmName) (Inr (OVMI vmi))" "vmi_holds (cur_VolumeId req) vmi"
  shows "fst (ControllerUnpublishVolume (controllerOver c ns) (Some req) w) = Panic nilDeref"
proof -
  let ?S = "controllerOver c ns" and ?vol = "cur_VolumeId req"
  have getvm: "VirtualMachines_Get (cl_rt c) ns vmName v = (Ok (Some zero_VirtualMachine, Some e),
      v\<lparr>w_log := w_log v @ [(get_vm (client_policy c ns) vmName, Inl e)]\<rparr>)" for v
    using typed_get_answers [OF gone(1)] by (simp add: VirtualMachines_Get_def get_vm_def Into_def)
  have getvmi: "VirtualMachineInstances_Get (cl_rt c) ns vmName v = (Ok (Some vmi, None),
      v\<lparr>w_log := w_log v @ [(get_vmi (client_policy c ns) vmName, Inr (OVMI vmi))]\<rparr>)" for v
    using typed_get_answers [OF vmi(1), of zero_VirtualMachineInstance dec_VMI v]
    by (simp add: VirtualMachineInstances_Get_def get_vmi_def Into_def dec_VMI_def)
  have "\<exists>v. volumeStillAttached ?S vmName ?vol w = (Ok (True, None), v)"
    using gone(2) vmi(2)
    by (simp add: volumeStillAttached_def GetWorkloadManagingVirtualMachine_def getvm getvmi bindG_def
        EnsureVolumeRemovedVMI_def hotplugStatusNamed_iff vmi_holds_def)
  then obtain v where still: "volumeStillAttached ?S vmName ?vol w = (Ok (True, None), v)" ..
  have "fst (removeVolumeFromVm ?S ?vol vmName v) = Panic nilDeref"
    using gone(2)
    by (simp add: removeVolumeFromVm_def GetWorkloadManagingVirtualMachine_def getvm bindG_def
        zero_VirtualMachine_def)
  then have "fst (ExponentialBackoff (sleep_world (cl_rt c)) hotplugBackoff
      (retrying (removeVolumeFromVm ?S ?vol vmName)) v) = Panic nilDeref"
    by (intro ExponentialBackoff_panic; cases "removeVolumeFromVm ?S ?vol vmName v")
      (simp_all add: hotplugBackoff_def retrying_def bindG_def)
  with req vm still show ?thesis
    by (cases "ExponentialBackoff (sleep_world (cl_rt c)) hotplugBackoff
          (retrying (removeVolumeFromVm ?S ?vol vmName)) v")
      (simp add: ControllerUnpublishVolume_def validateControllerUnpublishVolumeRequest_def Let_def bindG_def)
qed

definition orphanVMI :: VirtualMachineInstance where
  "orphanVMI = zero_VirtualMachineInstance\<lparr>vmi_VolumeStatus :=
     [\<lparr>vs_Name = ''pvc-a'', vs_Phase = VolumeReady, vs_HotplugVolume = Some ''hp''\<rparr>]\<rparr>"

definition orphanClient :: "unit client" where
  "orphanClient = \<lparr>cl_rt = \<lparr>rt_serve = (\<lambda>rq e. (if rq_Resource rq = ''virtualmachineinstances''
       then Inr (OVMI orphanVMI) else Inl apiNotFound, e)),
       rt_sleep = (\<lambda>d e. e), rt_tick = (\<lambda>e. ((0, None), e)), rt_checkLabel = (\<lambda>k v. None)\<rparr>,
     cl_storageClassEnforcement = sampleEnforcement, cl_infraLabelMap = [], cl_volumePrefix = ''pvc-''\<rparr>"

theorem unpublish_panics_without_vm_witness:
  "fst (ControllerUnpublishVolume (controllerOver orphanClient ''ns'') (Some sampleUnpublish)
     \<lparr>w_env = (), w_log = [], w_mapping = [], w_populated = False\<rparr>) = Panic nilDeref"
proof -
  let ?po = "client_policy orphanClient ''ns''"
  have vm: "SplitMetaNamespaceKey (cur_NodeId sampleUnpublish) = (''ns'', ''vm1'', None)" by code_simp
  have "request_error (get_vm ?po ''vm1'') = None" "request_error (get_vmi ?po ''vm1'') = None" by code_simp+
  then have gone: "answers orphanClient (get_vm ?po ''vm1'') (Inl apiNotFound)"
    and alive: "answers orphanClient (get_vmi ?po ''vm1'') (Inr (OVMI orphanVMI))"
    by (simp_all add: answers_def orphanClient_def get_vm_def get_vmi_def)
  show ?thesis
    using unpublish_panics_without_vm [OF _ _ vm gone _ alive]
    by (simp add: sampleUnpublish_def apiNotFound_def vmi_holds_def orphanVMI_def)
qed

section \<open>Waiting in time\<close>


end
