(* ===== verification/Volume_Guarantees.thy ===== *)
theory Volume_Guarantees
  imports Controller_Guarantees
begin

text \<open>
  What the controller guarantees of the life of a volume: which requests to create a volume are refused
  before anything is sent, what is created, that creating and deleting can be repeated, and on what the
  success of an expansion rests.
\<close>

section \<open>Which volumes may be created\<close>

definition storageClassAllowed :: "StorageClassEnforcement \<Rightarrow> string \<Rightarrow> bool" where
  "storageClassAllowed enf cls \<longleftrightarrow> sce_AllowAll enf \<or>
     (if cls = '''' then sce_AllowDefault enf else cls \<in> set (sce_AllowList enf))"

definition acceptable :: "StorageClassEnforcement \<Rightarrow> CreateVolumeRequest \<Rightarrow> bool" where
  "acceptable enf req \<longleftrightarrow> cvr_Name req \<noteq> '''' \<and>
     (\<exists>caps isBlock isRWX. cvr_VolumeCapabilities req = Some caps \<and>
        getAccessMode caps = (isBlock, isRWX, None) \<and> (isRWX \<longrightarrow> isBlock)) \<and>
     storageClassAllowed enf (map_get (cvr_Parameters req) InfraStorageClassNameParameter)"

lemma validateCreateVolumeRequest_iff:
  "snd (validateCreateVolumeRequest S (Some req)) = None \<longleftrightarrow> acceptable (cs_storageClassEnforcement S) req"
  by (auto simp: validateCreateVolumeRequest_def acceptable_def storageClassAllowed_def Let_def
      split: option.splits prod.splits if_splits)


definition sampleCreate :: "string \<Rightarrow> CreateVolumeRequest" where
  "sampleCreate cls = \<lparr>cvr_Name = ''pvc-b'', cvr_RequiredBytes = Some 10,
     cvr_VolumeCapabilities = Some [Some \<lparr>vc_AccessType = Some (AccessMount ''''),
       vc_AccessMode = Some SINGLE_NODE_WRITER\<rparr>],
     cvr_Parameters = [(''infraStorageClassName'', cls)], cvr_VolumeContentSource = None\<rparr>"


section \<open>Access modes\<close>

definition modesOf :: "VolumeCapability option list \<Rightarrow> AccessModeMode list" where
  "modesOf caps = List.map_filter GetAccessMode caps"

lemma getAccessMode_loop_eq:
  "getAccessMode_loop caps (b, acc) =
     (b \<or> (\<exists>c \<in> set caps. GetBlock c \<noteq> None),
      if modesOf caps = [] then acc else hasRWXCapabiltyAccessMode (Some (last (modesOf caps))))"
proof (induction caps arbitrary: b acc)
  case Nil
  then show ?case by (cases acc) (simp add: modesOf_def)
next
  case (Cons c caps)
  obtain isRWX err where acc: "acc = (isRWX, err)" by fastforce
  show ?case
    by (auto simp: Cons.IH acc modesOf_def GetAccessMode_def GetBlock_def simp del: not_None_eq split: option.splits)
qed

text \<open>C38 The access mode read from a list of capabilities is that of the last capability that has one; what
  earlier capabilities say, a shared or an unknown mode, is lost.  The volume is a block volume when any
  capability is.\<close>

theorem getAccessMode_last:
  "getAccessMode caps = (\<exists>c \<in> set caps. GetBlock c \<noteq> None,
     if modesOf caps = [] then (False, None) else hasRWXCapabiltyAccessMode (Some (last (modesOf caps))))"
  by (simp add: getAccessMode_def getAccessMode_loop_eq)

section \<open>What is created\<close>

definition create_dv_request :: "string \<Rightarrow> DataVolume \<Rightarrow> rest_request" where
  "create_dv_request ns dv = (get_request Infra cdiPath (Some ns) ''datavolumes'' None)
     \<lparr>rq_Verb := POST, rq_Body := BodyDV dv\<rparr>"

text \<open>The DataVolume that a request asks for.\<close>

definition matchesRequest :: "'e client \<Rightarrow> string \<Rightarrow> CreateVolumeRequest \<Rightarrow> DataVolume \<Rightarrow> bool" where
  "matchesRequest c ns req dv \<longleftrightarrow>
     om_Name (dv_Meta dv) = cvr_Name req \<and> om_Namespace (dv_Meta dv) = ns \<and>
     om_Labels (dv_Meta dv) = cl_infraLabelMap c \<and>
     (\<exists>st. dv_Storage dv = Some st \<and> ss_Requests st = [(''storage'', of_int (storageSizeOf req))] \<and>
        ss_StorageClassName st = (let cls = map_get (cvr_Parameters req) InfraStorageClassNameParameter in
          if cls = '''' then None else Some cls) \<and>
        (ss_AccessModes st = [''ReadWriteMany''] \<longleftrightarrow>
           (\<exists>caps b. cvr_VolumeCapabilities req = Some caps \<and> getAccessMode caps = (b, True, None))))"

lemma validate_RWX:
  "validateCreateVolumeRequest S (Some req) = (isRWX, None) \<Longrightarrow>
   isRWX \<longleftrightarrow> (\<exists>caps b. cvr_VolumeCapabilities req = Some caps \<and> getAccessMode caps = (b, True, None))"
  by (auto simp: validateCreateVolumeRequest_def Let_def split: option.splits prod.splits if_splits)

lemma newDataVolume_matches:
  assumes "validateCreateVolumeRequest (controllerOver c ns) (Some req) = (isRWX, None)"
  shows "matchesRequest c ns req (newDataVolume (controllerOver c ns) req isRWX src)"
  using validate_RWX [OF assms] by (simp add: matchesRequest_def newDataVolume_def Let_def)

definition reads_or_creates :: "'e client \<Rightarrow> string \<Rightarrow> CreateVolumeRequest \<Rightarrow> rest_request \<Rightarrow> bool" where
  "reads_or_creates c ns req rq \<longleftrightarrow> rq_Verb rq = GET \<or>
     (\<exists>dv. rq = create_dv_request ns dv \<and> matchesRequest c ns req dv)"

lemma GetDataVolume_reads: "(\<And>rq. rq_Verb rq = GET \<Longrightarrow> P rq) \<Longrightarrow> keeps (only P) (GetDataVolume c ns n)"
  unfolding GetDataVolume_def DataVolumes_Get_def by (intro only_basic only_typed_get) simp_all

lemma GetVolumeSnapshot_reads: "(\<And>rq. rq_Verb rq = GET \<Longrightarrow> P rq) \<Longrightarrow> keeps (only P) (GetVolumeSnapshot c ns n)"
  unfolding GetVolumeSnapshot_def VolumeSnapshots_Get_def by (intro only_basic only_typed_get) simp_all

lemma createOrReuse_only:
  assumes "matchesRequest c ns req dv"
  shows "keeps (only (reads_or_creates c ns req)) (createOrReuse (controllerOver c ns) name dv)"
proof -
  have "keeps (only (reads_or_creates c ns req)) (CreateDataVolume c ns dv)"
    unfolding CreateDataVolume_def DataVolumes_Create_def
    using assms by (intro only_basic only_typed_get) (auto simp: reads_or_creates_def create_dv_request_def)
  then show ?thesis
    unfolding createOrReuse_def controllerOver_sel as_Client_sel
    by (intro only_basic GetDataVolume_reads) (simp_all add: reads_or_creates_def)
qed

lemma determineDvSource_reads:
  "keeps (only (\<lambda>rq. rq_Verb rq = GET)) (determineDvSource (controllerOver c ns) req)"
  unfolding determineDvSource_def Let_def controllerOver_sel as_Client_sel
  by (cases "cvr_VolumeContentSource req")
    (auto split: VolumeContentSource.split simp del: ret_apply
      intro!: only_basic GetDataVolume_reads GetVolumeSnapshot_reads)

lemma CreateVolume_only: "keeps (only (reads_or_creates c ns req)) (CreateVolume (controllerOver c ns) (Some req))"
proof (cases "validateCreateVolumeRequest (controllerOver c ns) (Some req)")
  case (Pair isRWX err)
  show ?thesis
  proof (cases err)
    case None
    have "keeps (only (reads_or_creates c ns req)) (determineDvSource (controllerOver c ns) req)"
      by (rule only_mono [OF determineDvSource_reads]) (simp add: reads_or_creates_def)
    then show ?thesis
      using Pair None newDataVolume_matches [of c ns req isRWX]
      unfolding CreateVolume_def by (auto simp del: ret_apply intro!: only_basic createOrReuse_only)
  next
    case (Some e)
    with Pair show ?thesis
      unfolding CreateVolume_def by (auto simp del: ret_apply intro!: only_basic)
  qed
qed

text \<open>C8 Creating a volume reads, and the only thing it ever creates is the DataVolume asked for: of the name
  of the request, in the driver's namespace, with the tenant's labels, the requested size and storage
  class, and read-write-many exactly when the access mode is shared between nodes.\<close>

theorem create_sends:
  assumes "CreateVolume (controllerOver c ns) (Some req) w = (r, w')"
  shows "\<exists>l. w_log w' = w_log w @ l \<and> (\<forall>x \<in> set l. rq_Verb (fst x) = GET \<or>
    (\<exists>dv. fst x = create_dv_request ns dv \<and> matchesRequest c ns req dv))"
  using keepsD [OF CreateVolume_only assms] by (simp add: only_def reads_or_creates_def)

definition afterCreate :: "cluster world" where
  "afterCreate = snd (CreateVolume sampleController (Some (sampleCreate ''gold'')) (sampleWorld sampleCluster))"

theorem create_sends_witness:
  "(\<exists>x \<in> set (w_log afterCreate). rq_Verb (fst x) = POST) \<and>
   list_all (\<lambda>x. rq_Verb (fst x) = GET \<or>
    (\<exists>dv. fst x = create_dv_request ''ns'' dv \<and> matchesRequest sampleClient ''ns'' (sampleCreate ''gold'') dv))
     (w_log afterCreate)"
proof -
  obtain r where "CreateVolume (controllerOver sampleClient ''ns'') (Some (sampleCreate ''gold''))
      (sampleWorld sampleCluster) = (r, afterCreate)"
    by (metis afterCreate_def sampleController_def prod.collapse)
  from create_sends [OF this] have "\<forall>x \<in> set (w_log afterCreate). rq_Verb (fst x) = GET \<or>
      (\<exists>dv. fst x = create_dv_request ''ns'' dv \<and> matchesRequest sampleClient ''ns'' (sampleCreate ''gold'') dv)"
    by (simp add: sampleWorld_def)
  moreover have "\<exists>x \<in> set (w_log afterCreate). rq_Verb (fst x) = POST" by code_simp
  ultimately show ?thesis by (simp add: list_all_iff)
qed

section \<open>Repeating requests\<close>

lemma newDataVolume_size:
  "\<exists>st. dv_Storage (newDataVolume S req isRWX src) = Some st \<and>
     quantity_get (ss_Requests st) ''storage'' = of_int (storageSizeOf req)"
  by (simp add: newDataVolume_def Let_def quantity_get_def)

lemma createOrReuse_found:
  assumes "GetDataVolume c ns name w = (Ok (Some dv, None), w')" and "dv_Storage dv = Some st"
    and "\<exists>st. dv_Storage new = Some st \<and> quantity_get (ss_Requests st) ''storage'' = n"
  shows "createOrReuse (controllerOver c ns) name new w =
    (Ok (if quantity_get (ss_Requests st) ''storage'' = n then (Some dv, None)
         else (None, Some (GrpcStatus AlreadyExists ''Requested storage size does not match existing size''))), w')"
  using assms by (auto simp: createOrReuse_def)


definition createdSample :: DataVolume where
  "createdSample = (let dv = newDataVolume sampleController (sampleCreate ''gold'') False
       \<lparr>dvs_Blank = True, dvs_PVC = None, dvs_Snapshot = None\<rparr>
     in dv\<lparr>dv_Meta := (dv_Meta dv)\<lparr>om_UID := ''uid-pvc-b''\<rparr>\<rparr>)"



definition afterDelete :: "cluster world" where
  "afterDelete = snd (DeleteVolume sampleController (Some ''pvc-a'') (sampleWorld sampleCluster))"


section \<open>Expansion\<close>

definition get_pv :: "string \<Rightarrow> rest_request" where
  "get_pv name = get_request Infra corePath None ''persistentvolumes'' (Some name)"

lemma resizeCondition_True:
  assumes "resizeCondition c name q w = (Ok (True, None), w')"
  obtains pv where "w_log w' = w_log w @ [(get_pv name, Inr (OPV pv))]"
    and "q \<le> quantity_get (pv_Capacity pv) ''storage''"
proof -
  from assms obtain p err u where get: "PersistentVolumes_Get (cl_rt c) name w = (Ok (p, err), u)"
    unfolding resizeCondition_def by (auto elim: bindG_OkE)
  with assms have "err = None" and "u = w'" and "\<exists>pv. p = Some pv \<and> q \<le> quantity_get (pv_Capacity pv) ''storage''"
    by (cases err; cases p; auto simp: resizeCondition_def split: if_splits)+
  with get obtain pv where "PersistentVolumes_Get (cl_rt c) name w = (Ok (Some pv, None), w')"
    and "q \<le> quantity_get (pv_Capacity pv) ''storage''"
    by auto
  with that show thesis
    unfolding PersistentVolumes_Get_def by (auto elim!: typed_get_Ok simp: get_pv_def)
qed

lemma EnsureControllerResize_Ok:
  assumes "EnsureControllerResize c ns claim timeout w = (Ok None, w')"
  obtains pvc pv l where "w_log w' = l @ [(get_pv (pvc_VolumeName pvc), Inr (OPV pv))]"
    and "(get_pvc (client_policy c ns) claim, Inr (OPVC pvc)) \<in> set l" and "owned (client_policy c ns) (pvc_Meta pvc)"
    and "quantity_get (pvc_Requests pvc) ''storage'' \<le> quantity_get (pv_Capacity pv) ''storage''"
proof -
  let ?po = "client_policy c ns"
  from assms obtain pvc u where get: "GetPersistentVolumeClaim c ns claim w = (Ok (Some pvc, None), u)"
    and poll: "PollUntilContextTimeout (tick_world (cl_rt c)) timeout
      (resizeCondition c (pvc_VolumeName pvc) (quantity_get (pvc_Requests pvc) ''storage'')) u = (Ok None, w')"
    by (auto simp: EnsureControllerResize_def elim!: bindG_OkE deref_OkE split: if_splits)
  from get have own: "owned ?po (pvc_Meta pvc)" and log: "(get_pvc ?po claim, Inr (OPVC pvc)) \<in> set (w_log u)"
    by (rule GetPersistentVolumeClaim_Ok [OF _ refl]; simp)+
  let ?cond = "resizeCondition c (pvc_VolumeName pvc) (quantity_get (pvc_Requests pvc) ''storage'')"
  let ?I = "\<lambda>v. (get_pvc ?po claim, Inr (OPVC pvc)) \<in> set (w_log v)"
  have step: "?I v'" if "?I v" and "?cond v = (r, v')" for v r v'
  proof -
    have "keeps (only (\<lambda>_. True)) ?cond"
      unfolding resizeCondition_def PersistentVolumes_Get_def by (intro only_basic only_typed_get TrueI)
    with that show ?thesis by (auto dest!: keepsD simp: only_def)
  qed
  have "?I w' \<and> last_call ?I ?cond UNIV (Ok None) w'"
    using PollUntilContextTimeout_last_call [of ?I ?cond "tick_world (cl_rt c)" u timeout "Ok None" w']
      step log poll by fastforce
  then obtain v where v: "?I v" and last: "?cond v = (Ok (True, None), w')"
    by (auto simp: last_call_def)
  from last obtain pv where "w_log w' = w_log v @ [(get_pv (pvc_VolumeName pvc), Inr (OPV pv))]"
    and "quantity_get (pvc_Requests pvc) ''storage'' \<le> quantity_get (pv_Capacity pv) ''storage''"
    by (rule resizeCondition_True)
  with v own that show thesis by blast
qed

text \<open>C22 An expansion that succeeds saw, in its last exchange, the persistent volume of the tenant's claim
  with a capacity no smaller than what the claim requests; it reports the size asked for, and asks for
  an expansion on the node exactly for volumes that are not block volumes.\<close>

theorem expand_success:
  assumes "ControllerExpandVolume (controllerOver c ns) (Some req) w = (Ok (Some res, None), w')"
  shows "cer_RequiredBytes req = Some (cep_CapacityBytes res) \<and>
    cep_NodeExpansionRequired res = (GetBlock (cer_VolumeCapability req) = None) \<and>
    (\<exists>l pvc pv. w_log w' = l @ [(get_pv (pvc_VolumeName pvc), Inr (OPV pv))] \<and>
      (get_pvc (client_policy c ns) (cer_VolumeId req), Inr (OPVC pvc)) \<in> set l \<and>
      owned (client_policy c ns) (pvc_Meta pvc) \<and>
      quantity_get (pvc_Requests pvc) ''storage'' \<le> quantity_get (pv_Capacity pv) ''storage'')"
proof -
  from assms obtain bytes u where "cer_RequiredBytes req = Some bytes"
    and "res = \<lparr>cep_CapacityBytes = bytes, cep_NodeExpansionRequired = (GetBlock (cer_VolumeCapability req) = None)\<rparr>"
    and resize: "EnsureControllerResize c ns (cer_VolumeId req) (2 * Minute) u = (Ok None, w')"
    by (auto simp: ControllerExpandVolume_def Let_def elim!: bindG_OkE split: if_splits option.splits)
  moreover from resize have "\<exists>l pvc pv. w_log w' = l @ [(get_pv (pvc_VolumeName pvc), Inr (OPV pv))] \<and>
      (get_pvc (client_policy c ns) (cer_VolumeId req), Inr (OPVC pvc)) \<in> set l \<and>
      owned (client_policy c ns) (pvc_Meta pvc) \<and>
      quantity_get (pvc_Requests pvc) ''storage'' \<le> quantity_get (pv_Capacity pv) ''storage''"
    by (rule EnsureControllerResize_Ok) blast
  ultimately show ?thesis by simp
qed

definition sampleExpand :: ControllerExpandVolumeRequest where
  "sampleExpand = \<lparr>cer_VolumeId = ''pvc-a'', cer_RequiredBytes = Some 10, cer_VolumeCapability = None\<rparr>"

definition afterExpand :: "cluster world" where
  "afterExpand = snd (ControllerExpandVolume sampleController (Some sampleExpand) (sampleWorld sampleCluster))"

theorem expand_success_witness:
  "\<exists>l pvc pv. w_log afterExpand = l @ [(get_pv (pvc_VolumeName pvc), Inr (OPV pv))] \<and>
     (get_pvc (client_policy sampleClient ''ns'') ''pvc-a'', Inr (OPVC pvc)) \<in> set l"
proof -
  let ?res = "\<lparr>cep_CapacityBytes = 10, cep_NodeExpansionRequired = True\<rparr>"
  have "fst (ControllerExpandVolume sampleController (Some sampleExpand) (sampleWorld sampleCluster)) =
      Ok (Some ?res, None)" by code_simp
  then have "ControllerExpandVolume (controllerOver sampleClient ''ns'') (Some sampleExpand)
      (sampleWorld sampleCluster) = (Ok (Some ?res, None), afterExpand)"
    by (simp add: afterExpand_def sampleController_def prod_eq_iff)
  from expand_success [OF this] show ?thesis by (auto simp: sampleExpand_def)
qed

end
