(* ===== verification/Snapshot_Guarantees.thy ===== *)
theory Snapshot_Guarantees
  imports Volume_Guarantees
begin

text \<open>
  What the controller guarantees of snapshots: the class a snapshot gets follows the configured policy,
  the mapping of classes is read from the tenant cluster once, and what a created or listed snapshot
  rests on.  The memory of the client object is a second instance of the contract of
  \<open>Client_Interface\<close>: every RPC keeps it.
\<close>

section \<open>The mapping of classes\<close>

text \<open>The snapshot classes configured for a storage class: those of the first group that lists it.\<close>

fun classesFor :: "StorageSnapshotMapping list \<Rightarrow> string \<Rightarrow> string list" where
  "classesFor [] cls = []"
| "classesFor (m # ms) cls =
     (if cls \<in> set (ssm_StorageClasses m) then ssm_VolumeSnapshotClasses m else classesFor ms cls)"

definition groupFrom :: "VolumeSnapshotClass list \<Rightarrow> StorageSnapshotMapping \<Rightarrow> InfraTenantStorageSnapshotMapping" where
  "groupFrom items m = appendVolumeSnapshotInfraTenantMapping
     \<lparr>its_VolumeSnapshotClasses = [], its_StorageClasses = ssm_StorageClasses m\<rparr>
     (ssm_VolumeSnapshotClasses m) items"

definition mappingFrom :: "StorageClassEnforcement \<Rightarrow> VolumeSnapshotClass list \<Rightarrow> InfraTenantStorageSnapshotMapping list" where
  "mappingFrom enf items = map (groupFrom items) (sce_StorageSnapshotMapping enf)"

lemma append_mapping:
  "appendVolumeSnapshotInfraTenantMapping m infras items = m\<lparr>its_VolumeSnapshotClasses :=
     its_VolumeSnapshotClasses m @
       map (\<lambda>i. \<lparr>itm_Infra = i, itm_Tenant = tenantClassFor i items\<rparr>) infras\<rparr>"
  by (induction m infras items rule: appendVolumeSnapshotInfraTenantMapping.induct) auto

lemma groupOf_mappingFrom:
  "map itm_Infra (case groupOf cls (mappingFrom enf items) of None \<Rightarrow> [] | Some l \<Rightarrow> l) =
   classesFor (sce_StorageSnapshotMapping enf) cls"
proof -
  have "map itm_Infra (case groupOf cls (map (groupFrom items) ms) of None \<Rightarrow> [] | Some l \<Rightarrow> l) =
      classesFor ms cls" for ms
    by (induction ms) (auto simp: groupFrom_def append_mapping comp_def)
  then show ?thesis by (simp add: mappingFrom_def)
qed

text \<open>The memory is what was configured, joined with some list of tenant classes.\<close>

definition mapping_ok :: "'e client \<Rightarrow> 'e world \<Rightarrow> bool" where
  "mapping_ok c w \<longleftrightarrow> (w_populated w \<longrightarrow> (\<exists>items. w_mapping w = mappingFrom (cl_storageClassEnforcement c) items))"

definition listsClasses :: "rest_request \<Rightarrow> bool" where
  "listsClasses rq \<longleftrightarrow> rq_Resource rq = ''volumesnapshotclasses''"

text \<open>
  What every operation keeps of the memory: it stays as configured, and once it is filled it does not
  change and the classes are not listed again.
\<close>

definition memo :: "'e client \<Rightarrow> 'e world \<Rightarrow> 'e world \<Rightarrow> bool" where
  "memo c w w' \<longleftrightarrow> (mapping_ok c w \<longrightarrow> mapping_ok c w') \<and>
     (w_populated w \<longrightarrow> w_populated w' \<and> w_mapping w' = w_mapping w \<and>
        (\<exists>l. w_log w' = w_log w @ l \<and> (\<forall>x \<in> set l. \<not> listsClasses (fst x))))"

lemma memo_reflp: "reflp (memo c)"
  by (simp add: reflp_def memo_def)

lemma memo_transp: "transp (memo c)"
  by (rule transpI) (fastforce simp: memo_def)

lemma memo_same: "w_mapping w' = w_mapping w \<Longrightarrow> w_populated w' = w_populated w \<Longrightarrow>
  w_log w' = w_log w @ l \<Longrightarrow> \<forall>x \<in> set l. \<not> listsClasses (fst x) \<Longrightarrow> memo c w w'"
  by (auto simp: memo_def mapping_ok_def)

lemmas memo_basic = keeps_ret [OF memo_reflp] keeps_deref [OF memo_reflp] keeps_if keeps_case_prod
  keeps_case_option keeps_Let keeps_bind [OF memo_transp]

lemma memo_rest_do:
  assumes "\<not> listsClasses rq"
  shows "keeps (memo c) (rest_do rt rq)"
proof (rule keepsI)
  fix w r w'
  assume "rest_do rt rq w = (r, w')"
  with rest_do_log [OF this] rest_do_memory [OF this] assms show "memo c w w'"
    by (auto intro: memo_same [of w' w "[_]"] reflpD [OF memo_reflp])
qed

lemma memo_typed_get: "\<not> listsClasses rq \<Longrightarrow> keeps (memo c) (typed_get rt rq zero dec)"
  unfolding typed_get_def Let_def by (intro memo_basic memo_rest_do)

lemma memo_log_eq: "w_mapping w' = w_mapping w \<Longrightarrow> w_populated w' = w_populated w \<Longrightarrow>
  w_log w' = w_log w \<Longrightarrow> memo c w w'"
  by (rule memo_same [where l = "[]"]) auto

lemma memo_sleep: "memo c w (sleep_world rt d w)"
  by (rule memo_log_eq) (simp_all add: sleep_world_def)

lemma memo_poll:
  "keeps (memo c) condition \<Longrightarrow> keeps (memo c) (PollUntilContextTimeout (tick_world rt) timeout condition)"
  by (rule keeps_PollUntilContextTimeout [OF memo_reflp memo_transp])
    (auto intro!: memo_log_eq simp: tick_world_def split: prod.splits)

lemmas rest_methods = VirtualMachines_Get_def VirtualMachineInstances_Get_def VirtualMachineInstances_List_def
  DataVolumes_Get_def DataVolumes_Create_def DataVolumes_Delete_def VolumeSnapshots_Get_def
  VolumeSnapshots_Create_def VolumeSnapshots_Delete_def VolumeSnapshots_List_def
  PersistentVolumeClaims_Get_def PersistentVolumeClaims_Patch_def PersistentVolumes_Get_def

lemma memo_rest_methods:
  "keeps (memo c) (VirtualMachines_Get rt ns n)" "keeps (memo c) (VirtualMachineInstances_Get rt ns n)"
  "keeps (memo c) (VirtualMachineInstances_List rt ns opts)" "keeps (memo c) (DataVolumes_Get rt ns n)"
  "keeps (memo c) (DataVolumes_Create rt ns dv)" "keeps (memo c) (DataVolumes_Delete rt ns n)"
  "keeps (memo c) (VolumeSnapshots_Get rt ns n)" "keeps (memo c) (VolumeSnapshots_Create rt ns s)"
  "keeps (memo c) (VolumeSnapshots_Delete rt ns n)" "keeps (memo c) (VolumeSnapshots_List rt ns opts)"
  "keeps (memo c) (PersistentVolumeClaims_Get rt ns n)" "keeps (memo c) (PersistentVolumeClaims_Patch rt ns n b)"
  "keeps (memo c) (PersistentVolumes_Get rt n)"
  unfolding rest_methods
  by (intro memo_basic memo_typed_get memo_rest_do; simp add: listsClasses_def)+

text \<open>Reading the mapping fills the memory, or finds it filled.\<close>

lemma build_Ok:
  assumes "buildStorageClassSnapshotClassMapping c h (sce_StorageSnapshotMapping enf) w = (Ok (m, None), w')"
  shows "\<exists>items. m = mappingFrom enf items"
proof -
  from assms obtain items where "m = map (groupFrom items) (sce_StorageSnapshotMapping enf)"
    unfolding buildStorageClassSnapshotClassMapping_def groupFrom_def [symmetric]
    by (auto elim!: bindG_OkE deref_OkE split: if_splits simp del: map_eq_conv)
  then show ?thesis by (auto simp: mappingFrom_def)
qed

lemma build_memory:
  assumes "buildStorageClassSnapshotClassMapping c h ms w = (r, w')"
  shows "w_mapping w' = w_mapping w \<and> w_populated w' = w_populated w"
proof -
  have "keeps (\<lambda>w w'. w_mapping w' = w_mapping w \<and> w_populated w' = w_populated w)
    (buildStorageClassSnapshotClassMapping c h ms)" (is "keeps ?R _")
  proof -
    have refl: "reflp ?R" and trans: "transp ?R" by (auto simp: reflp_def intro: transpI)
    have "keeps ?R (rest_do rt rq)" for rt :: "'a runtime" and rq
      by (rule keepsI) (rule rest_do_memory)
    then show ?thesis
      unfolding buildStorageClassSnapshotClassMapping_def VolumeSnapshotClasses_List_def typed_get_def Let_def
      by (intro keeps_ret [OF refl] keeps_deref [OF refl] keeps_if keeps_case_prod keeps_bind [OF trans])
  qed
  then show ?thesis using assms by (rule keepsD)
qed

lemma memo_getStorageSnapshotMapping: "keeps (memo c) (getStorageSnapshotMapping c)"
proof (rule keepsI)
  fix w r w'
  assume run: "getStorageSnapshotMapping c w = (r, w')"
  let ?enf = "cl_storageClassEnforcement c"
  show "memo c w w'"
  proof (cases "w_populated w")
    case True
    with run show ?thesis by (auto simp: getStorageSnapshotMapping_def intro: memo_log_eq)
  next
    case False
    let ?build = "buildStorageClassSnapshotClassMapping c Tenant (sce_StorageSnapshotMapping ?enf)"
    obtain x u where b: "?build w = (x, u)" by fastforce
    with False build_memory [OF b] run have "w' = u \<and> \<not> w_populated w' \<or>
        (\<exists>m. x = Ok (m, None) \<and> w_mapping w' = m \<and> w_populated w')"
      by (cases x) (auto simp: getStorageSnapshotMapping_def bindG_def split: if_splits prod.splits)
    with False b build_Ok show ?thesis
      by (auto simp: memo_def mapping_ok_def)
  qed
qed

lemma memo_client_methods:
  "keeps (memo c) (ListVirtualMachines c ns)" "keeps (memo c) (GetVirtualMachine c ns n)"
  "keeps (memo c) (GetWorkloadManagingVirtualMachine c ns n)" "keeps (memo c) (GetDataVolume c ns n)"
  "keeps (memo c) (GetVolumeSnapshot c ns n)" "keeps (memo c) (GetPersistentVolumeClaim c ns n)"
  "keeps (memo c) (EnsureVolumeAvailableVM c ns n v)" "keeps (memo c) (EnsureVolumeRemovedVM c ns n v)"
  "keeps (memo c) (EnsureVolumeRemovedVMI c ns n v)" "keeps (memo c) (CreateDataVolume c ns dv)"
  unfolding ListVirtualMachines_def GetVirtualMachine_def GetWorkloadManagingVirtualMachine_def
    GetDataVolume_def GetVolumeSnapshot_def GetPersistentVolumeClaim_def EnsureVolumeAvailableVM_def
    EnsureVolumeRemovedVM_def EnsureVolumeRemovedVMI_def CreateDataVolume_def
  by (intro memo_basic memo_rest_methods)+

lemma memo_hotplug:
  "keeps (memo c) (AddVolumeToVM c ns vm opts)" "keeps (memo c) (RemoveVolumeFromVM c ns vm ropts)"
  "keeps (memo c) (RemoveVolumeFromVMI c ns vm ropts)"
  unfolding AddVolumeToVM_def RemoveVolumeFromVM_def RemoveVolumeFromVMI_def
  by (intro memo_basic memo_rest_do; simp add: listsClasses_def put_request_def)+

lemma memo_composed:
  "keeps (memo c) (DeleteDataVolume c ns n)" "keeps (memo c) (ExpandPersistentVolumeClaim c ns n b)"
  "keeps (memo c) (EnsureControllerResize c ns n t)" "keeps (memo c) (EnsureVolumeAvailable c ns n v t)"
  "keeps (memo c) (EnsureVolumeRemoved c ns n v t)" "keeps (memo c) (EnsureSnapshotReady c ns n t)"
  "keeps (memo c) (DeleteVolumeSnapshot c ns n)" "keeps (memo c) (ListVolumeSnapshots c ns)"
  "keeps (memo c) (CreateVolumeSnapshot c ns n v s)"
  unfolding DeleteDataVolume_def ExpandPersistentVolumeClaim_def EnsureControllerResize_def
    EnsureVolumeAvailable_def availableCondition_def EnsureVolumeRemoved_def removedCondition_def
    EnsureSnapshotReady_def snapshotReadyCondition_def DeleteVolumeSnapshot_def ListVolumeSnapshots_def
    resizeCondition_def CreateVolumeSnapshot_def getSnapshotClassNameFromVolumeClaimName_def
    getStorageClassNameFromClaimName_def getInfraSnapshotClassesFromInfraStorageClassName_def
    getTenantSnapshotClassesFromInfraStorageClassName_def
  by (intro memo_basic memo_poll memo_client_methods memo_rest_methods memo_getStorageSnapshotMapping)+

text \<open>The second instance of the contract: nothing needs to be seen before.\<close>

interpretation mem: confined_client "as_Client c" "sleep_world (cl_rt c)" ns "cl_infraLabelMap c" "memo c"
  "\<lambda>_ _. True" "\<lambda>_ _. True" "\<lambda>_ _ _. True" "\<lambda>_ _ _. True"
  for c :: "'e client" and ns :: string
proof (unfold_locales, goal_cases)
  case (17 name w v e w')
  then show ?case by (auto dest!: GetWorkloadManagingVirtualMachine_err simp: zero_VirtualMachine_def)
qed (auto intro: memo_reflp memo_transp memo_sleep memo_client_methods memo_composed
    keepsD [OF memo_hotplug(1)] keepsD [OF memo_hotplug(2)] keepsD [OF memo_hotplug(3)])

interpretation memctl: confined_controller "as_Client c" "sleep_world (cl_rt c)" ns "cl_infraLabelMap c" "memo c"
  "\<lambda>_ _. True" "\<lambda>_ _. True" "\<lambda>_ _ _. True" "\<lambda>_ _ _. True" "controllerOver c ns"
  for c :: "'e client" and ns :: string
  by unfold_locales simp_all


definition strictClient :: "cluster client" where
  "strictClient = sampleClient\<lparr>cl_storageClassEnforcement := sampleEnforcement\<lparr>sce_AllowDefault := False\<rparr>\<rparr>"

definition goldCluster :: cluster where
  "goldCluster = sampleCluster\<lparr>sc_Claims := [(''pvc-a'', zero_PersistentVolumeClaim
     \<lparr>pvc_Meta := sampleMeta ''pvc-a'', pvc_StorageClassName := Some ''gold''\<rparr>)]\<rparr>"

definition sampleSnapshotRequest :: CreateSnapshotRequest where
  "sampleSnapshotRequest = \<lparr>csr_Name = ''snap-1'', csr_SourceVolumeId = ''pvc-a'',
     csr_Parameters = [(''infraSnapshotClassName'', ''snapgold'')]\<rparr>"

definition afterSnapshot :: "cluster world" where
  "afterSnapshot = snd (CreateSnapshot (controllerOver strictClient ''ns'') (Some sampleSnapshotRequest)
     (sampleWorld goldCluster))"


section \<open>The class of a snapshot\<close>

lemma getStorageSnapshotMapping_Ok:
  assumes "mapping_ok c w" and "getStorageSnapshotMapping c w = (Ok (m, None), w')"
  shows "\<exists>items. m = mappingFrom (cl_storageClassEnforcement c) items"
proof (cases "w_populated w")
  case True
  with assms show ?thesis by (auto simp: getStorageSnapshotMapping_def mapping_ok_def)
next
  case False
  with assms(2) obtain u where "buildStorageClassSnapshotClassMapping c Tenant
      (sce_StorageSnapshotMapping (cl_storageClassEnforcement c)) w = (Ok (m, None), u)"
    by (auto simp: getStorageSnapshotMapping_def elim!: bindG_OkE split: if_splits)
  then show ?thesis by (rule build_Ok)
qed

lemma getInfraSnapshotClasses_Ok:
  assumes ok: "mapping_ok c w"
    and run: "getInfraSnapshotClassesFromInfraStorageClassName c cls w = (Ok (names, None), w')"
  shows "names = classesFor (sce_StorageSnapshotMapping (cl_storageClassEnforcement c)) cls"
proof -
  from run obtain m where m: "getStorageSnapshotMapping c w = (Ok (m, None), w')"
    and names: "names = (case groupOf cls m of None \<Rightarrow> [] | Some classes \<Rightarrow> map itm_Infra classes)"
    by (auto simp: getInfraSnapshotClassesFromInfraStorageClassName_def elim!: bindG_OkE split: if_splits)
  from getStorageSnapshotMapping_Ok [OF ok m] obtain items
    where "m = mappingFrom (cl_storageClassEnforcement c) items" ..
  with names groupOf_mappingFrom [of cls "cl_storageClassEnforcement c" items] show ?thesis
    by (simp split: option.splits)
qed

lemma getStorageClassName_Ok:
  assumes "getStorageClassNameFromClaimName c ns claim w = (Ok (cls, None), w')"
  obtains pvc where "w_log w' = w_log w @ [(get_pvc (client_policy c ns) claim, Inr (OPVC pvc))]"
    and "cls = (case pvc_StorageClassName pvc of None \<Rightarrow> '''' | Some n \<Rightarrow> n)"
proof -
  from assms obtain pvc where "PersistentVolumeClaims_Get (cl_rt c) ns claim w = (Ok (Some pvc, None), w')"
    and cls: "cls = (case pvc_StorageClassName pvc of None \<Rightarrow> '''' | Some n \<Rightarrow> n)"
    by (auto simp: getStorageClassNameFromClaimName_def elim!: bindG_OkE deref_OkE split: if_splits)
  then have "w_log w' = w_log w @ [(get_pvc (client_policy c ns) claim, Inr (OPVC pvc))]"
    unfolding PersistentVolumeClaims_Get_def by (auto elim!: typed_get_Ok simp: get_pvc_def)
  with cls that show thesis by blast
qed

lemma snapshotClass_default:
  assumes "getSnapshotClassNameFromVolumeClaimName c ns claim requested w = (Ok (name, None), w')"
    and "sce_AllowDefault (cl_storageClassEnforcement c)"
  shows "name = ''''"
  using assms unfolding getSnapshotClassNameFromVolumeClaimName_def Let_def
  by (auto elim!: bindG_OkE split: if_splits)

lemma snapshotClass_chosen:
  assumes "getSnapshotClassNameFromVolumeClaimName c ns claim requested w = (Ok (name, None), w')"
    and "\<not> sce_AllowDefault (cl_storageClassEnforcement c)"
  obtains cls u names where "getStorageClassNameFromClaimName c ns claim w = (Ok (cls, None), u)"
    and "cls \<noteq> ''''" and "storageClassAllowed (cl_storageClassEnforcement c) cls"
    and "getInfraSnapshotClassesFromInfraStorageClassName c cls u = (Ok (names, None), w')"
    and "if requested \<in> set names then name = requested
         else sce_AllowAll (cl_storageClassEnforcement c) \<and> name = ''''"
proof -
  from assms(1) obtain cls err u where g: "getStorageClassNameFromClaimName c ns claim w = (Ok (cls, err), u)"
    unfolding getSnapshotClassNameFromVolumeClaimName_def Let_def by (auto elim!: bindG_OkE)
  with assms have err: "err = None" and cls: "cls \<noteq> ''''"
    and allow: "storageClassAllowed (cl_storageClassEnforcement c) cls"
    unfolding getSnapshotClassNameFromVolumeClaimName_def Let_def storageClassAllowed_def
    by (auto split: if_splits)
  with assms g obtain names err' v
    where i: "getInfraSnapshotClassesFromInfraStorageClassName c cls u = (Ok (names, err'), v)"
    unfolding getSnapshotClassNameFromVolumeClaimName_def Let_def storageClassAllowed_def
    by (auto elim!: bindG_OkE split: if_splits)
  with assms g err cls allow have "err' = None" and "v = w'"
    and "if requested \<in> set names then name = requested
         else sce_AllowAll (cl_storageClassEnforcement c) \<and> name = ''''"
    unfolding getSnapshotClassNameFromVolumeClaimName_def Let_def storageClassAllowed_def
    by (auto split: if_splits elim!: bindG_OkE)
  with that g err cls allow i show thesis by blast
qed



section \<open>Creating a snapshot\<close>

definition create_snapshot_request :: "string \<Rightarrow> VolumeSnapshot \<Rightarrow> rest_request" where
  "create_snapshot_request ns s = (get_request Infra snapshotPath (Some ns) ''volumesnapshots'' None)
     \<lparr>rq_Verb := POST, rq_Body := BodySnapshot s\<rparr>"

definition shows_snapshot :: "policy \<Rightarrow> string \<Rightarrow> VolumeSnapshot \<Rightarrow> exchange \<Rightarrow> bool" where
  "shows_snapshot po name s x \<longleftrightarrow> x = (get_snapshot po name, Inr (OSnapshot s)) \<and>
     containsLabels (om_Labels (snap_Meta s)) (po_Labels po)"

lemma GetVolumeSnapshot_shows:
  assumes "GetVolumeSnapshot c ns name w = (Ok (p, None), w')"
  obtains s x where "p = Some s" and "w_log w' = w_log w @ [x]" and "shows_snapshot (client_policy c ns) name s x"
  using GetVolumeSnapshot_Ok [OF assms refl] that unfolding shows_snapshot_def by metis

lemma EnsureSnapshotReady_Ok:
  assumes "EnsureSnapshotReady c ns name timeout w = (Ok None, w')"
  obtains v x s st where "grows w v" and "w_log w' = w_log v @ [x]"
    and "shows_snapshot (client_policy c ns) name s x"
    and "snap_Status s = Some st" and "vss_ReadyToUse st = Some True"
proof -
  let ?cond = "snapshotReadyCondition c ns name"
  have "keeps (confined (client_policy c ns)) ?cond"
    unfolding snapshotReadyCondition_def by (intro keeps_rules; simp)
  then have cond: "keeps grows ?cond" by (rule confined_grows)
  have "grows w w' \<and> last_call (grows w) ?cond UNIV (Ok None) w'"
  proof (rule PollUntilContextTimeout_last_call [of "grows w" ?cond "tick_world (cl_rt c)" w timeout "Ok None" w'])
    show "grows w v'" if "grows w v" and "?cond v = (r, v')" for v r v'
      using that keepsD [OF cond] only_transp by (blast dest: transpD)
    show "grows w v'" if "grows w v" and "tick_world (cl_rt c) v = ((late, err), v')" for v late err v'
      using that by (auto simp: only_def)
  qed (use assms in \<open>simp_all add: EnsureSnapshotReady_def only_def\<close>)
  then obtain v where v: "grows w v" and ready: "?cond v = (Ok (True, None), w')"
    by (auto simp: last_call_def)
  from ready obtain s st where "GetVolumeSnapshot c ns name v = (Ok (Some s, None), w')"
    and "snap_Status s = Some st" and "vss_ReadyToUse st = Some True"
    by (auto simp: snapshotReadyCondition_def elim!: bindG_OkE deref_OkE split: if_splits option.splits)
  with v that show thesis by (elim GetVolumeSnapshot_shows) auto
qed

lemma CreateVolumeSnapshot_Ok:
  assumes "CreateVolumeSnapshot c ns name claim cls w = (Ok (p, None), w')"
  obtains l created className where "p = Some created"
    and "w_log w' = l @ [(create_snapshot_request ns (newSnapshot c ns name claim className), Inr (OSnapshot created))]"
proof -
  from assms obtain className u
    where "VolumeSnapshots_Create (cl_rt c) ns (newSnapshot c ns name claim className) u = (Ok (p, None), w')"
    by (auto simp: CreateVolumeSnapshot_def elim!: bindG_OkE deref_OkE split: if_splits)
  then show thesis
    unfolding VolumeSnapshots_Create_def create_snapshot_request_def [symmetric]
    by (auto elim!: typed_get_Ok intro: that)
qed

lemma createSnapshotResponse_Ok:
  assumes "createSnapshotResponse s w = (Ok res, w')"
  shows "w' = w \<and> sourced s \<and> res = csi_of s"
proof -
  have "sourced s"
    using assms by (auto simp: createSnapshotResponse_def createCsiSnapshot_def sourced_def elim!: deref_OkE)
  with assms show ?thesis by (simp add: createSnapshotResponse_def createCsiSnapshot_sourced)
qed

lemma CreateSnapshot_cases:
  assumes "CreateSnapshot (controllerOver c ns) (Some req) w = (Ok (Some res, None), w')"
  obtains (existing) s v where "GetVolumeSnapshot c ns (csr_Name req) w = (Ok (Some s, None), v)"
      "snapshotSourceMatchesVolume s (csr_SourceVolumeId req)" "createSnapshotResponse s v = (Ok res, w')"
  | (created) cls s u1 u2 u3 v t where
      "CreateVolumeSnapshot c ns (csr_Name req) (csr_SourceVolumeId req) cls u1 = (Ok (Some s, None), u2)"
      "EnsureSnapshotReady c ns (om_Name (snap_Meta s)) (2 * Minute) u2 = (Ok None, u3)"
      "GetVolumeSnapshot c ns (om_Name (snap_Meta s)) u3 = (Ok (Some t, None), v)"
      "createSnapshotResponse t v = (Ok res, w')"
  using assms
  by (fastforce simp: CreateSnapshot_def Let_def elim!: bindG_OkE deref_OkE split: if_splits option.splits)

text \<open>C9 A snapshot that is reported as created is one that the server showed in the last exchange, with the
  tenant's labels, reported field by field.  Either it existed under the name asked for, of the volume
  asked for; or it was created by this call, of that name and volume and with the tenant's labels, and
  the server showed it ready to use right before.\<close>

theorem create_snapshot_success:
  assumes run: "CreateSnapshot (controllerOver c ns) (Some req) w = (Ok (Some res, None), w')"
  defines "po \<equiv> client_policy c ns"
  shows "\<exists>l x s name. w_log w' = l @ [x] \<and> shows_snapshot po name s x \<and> sourced s \<and> res = csi_of s \<and>
    (name = csr_Name req \<and> sn_SourceVolumeId res = csr_SourceVolumeId req \<or>
     (\<exists>cls created l' y. (create_snapshot_request ns (newSnapshot c ns (csr_Name req) (csr_SourceVolumeId req) cls),
          Inr (OSnapshot created)) \<in> set l' \<and> l = l' @ [y] \<and> name = om_Name (snap_Meta created) \<and>
        (\<exists>t st. shows_snapshot po name t y \<and> snap_Status t = Some st \<and> vss_ReadyToUse st = Some True)))"
  using run
proof (cases rule: CreateSnapshot_cases)
  case (existing s v)
  from existing(1) obtain x where x: "w_log v = w_log w @ [x]" "shows_snapshot po (csr_Name req) s x"
    unfolding po_def by (auto elim: GetVolumeSnapshot_shows)
  from existing(2) have "sn_SourceVolumeId (csi_of s) = csr_SourceVolumeId req"
    by (auto simp: csi_of_def snapshotSourceMatchesVolume_def split: option.splits)
  with x createSnapshotResponse_Ok [OF existing(3)] show ?thesis by blast
next
  case (created cls s u1 u2 u3 v t)
  from created(1) obtain l className where post: "w_log u2 = l @
      [(create_snapshot_request ns (newSnapshot c ns (csr_Name req) (csr_SourceVolumeId req) className), Inr (OSnapshot s))]"
    by (auto elim: CreateVolumeSnapshot_Ok)
  from created(2) obtain u y r st where y: "grows u2 u" "w_log u3 = w_log u @ [y]"
    "shows_snapshot po (om_Name (snap_Meta s)) r y" "snap_Status r = Some st" "vss_ReadyToUse st = Some True"
    unfolding po_def by (rule EnsureSnapshotReady_Ok)
  from created(3) obtain x where x: "w_log v = w_log u3 @ [x]" "shows_snapshot po (om_Name (snap_Meta s)) t x"
    unfolding po_def by (auto elim: GetVolumeSnapshot_shows)
  from post y(1) have "(create_snapshot_request ns (newSnapshot c ns (csr_Name req) (csr_SourceVolumeId req) className),
      Inr (OSnapshot s)) \<in> set (w_log u)" by (auto simp: only_def)
  with x y(2-) createSnapshotResponse_Ok [OF created(4)] show ?thesis
    by (intro exI [of _ "w_log u @ [y]"] exI [of _ x] exI [of _ t] exI [of _ "om_Name (snap_Meta s)"]) auto
qed

definition snapshotResult :: Snapshot where
  "snapshotResult = \<lparr>sn_SnapshotId = ''snap-1'', sn_SourceVolumeId = ''pvc-a'', sn_CreationTime = 0,
     sn_ReadyToUse = True, sn_SizeBytes = 10\<rparr>"

theorem create_snapshot_success_witness:
  "\<exists>l x s name. w_log afterSnapshot = l @ [x] \<and> shows_snapshot (client_policy strictClient ''ns'') name s x \<and>
     snapshotResult = csi_of s"
proof -
  have "fst (CreateSnapshot (controllerOver strictClient ''ns'') (Some sampleSnapshotRequest) (sampleWorld goldCluster)) =
      Ok (Some snapshotResult, None)" by code_simp
  then have "CreateSnapshot (controllerOver strictClient ''ns'') (Some sampleSnapshotRequest) (sampleWorld goldCluster) =
      (Ok (Some snapshotResult, None), afterSnapshot)"
    by (simp add: afterSnapshot_def prod_eq_iff)
  from create_snapshot_success [OF this] show ?thesis by blast
qed

end
