(* ===== verification/Node_System.thy ===== *)
theory Node_System
  imports Go_Strings
begin

text \<open>
  The node as the node service sees it: system calls and commands with their results.  The kernel and
  the programs (\<open>lsblk\<close>, \<open>findmnt\<close>, \<open>mkfs\<close>, \<open>blockdev\<close>, the mount and resize utilities of
  mount-utils) are not part of the repository: they are the record \<open>kernel\<close>, a parameter of the model.
  Every call is recorded, with its result, in the log of the world of the node.
\<close>

section \<open>Calls and their results\<close>

text \<open>The fields of \<open>unix.Statfs_t\<close>: \<open>Bsize\<close> is signed, the others are unsigned.\<close>

record Statfs =
  sf_Bsize :: "64 word"
  sf_Blocks :: "64 word"
  sf_Bfree :: "64 word"
  sf_Bavail :: "64 word"
  sf_Files :: "64 word"
  sf_Ffree :: "64 word"

datatype call =
    Exec "string list"
  | IsLikelyNotMountPoint string
  | Mount string string string "string list"
  | Unmount string
  | NeedResize string string
  | Resize string string
  | MkdirAll string
  | OsStat string
  | OpenCreate string
  | RemoveAll string
  | PathExists string
  | UnixStat string
  | UnixStatfs string

text \<open>A result: text, a truth value, a mode or file system statistics, and the error.\<close>

datatype reply = RText string "gerr option" | RBool bool "gerr option" | RErr "gerr option"
  | RMode "32 word" "gerr option" | RStatfs Statfs "gerr option"

record 'e nworld =
  nw_env :: 'e
  nw_log :: "(call \<times> reply) list"

record 'e kernel =
  k_call :: "call \<Rightarrow> 'e \<Rightarrow> reply \<times> 'e"

definition syscall :: "'e kernel \<Rightarrow> call \<Rightarrow> ('e nworld, reply) go" where
  "syscall k c w = (case k_call k c (nw_env w) of (r, e') \<Rightarrow>
     (Ok r, w\<lparr>nw_env := e', nw_log := nw_log w @ [(c, r)]\<rparr>))"

text \<open>Calls whose result is of one kind; a result of another kind does not occur and reads as zero.\<close>

primrec text_of :: "reply \<Rightarrow> string \<times> gerr option" where
  "text_of (RText s e) = (s, e)" | "text_of (RBool b e) = ('''', e)" | "text_of (RErr e) = ('''', e)"
| "text_of (RMode m e) = ('''', e)" | "text_of (RStatfs s e) = ('''', e)"

primrec bool_of :: "reply \<Rightarrow> bool \<times> gerr option" where
  "bool_of (RText s e) = (False, e)" | "bool_of (RBool b e) = (b, e)" | "bool_of (RErr e) = (False, e)"
| "bool_of (RMode m e) = (False, e)" | "bool_of (RStatfs s e) = (False, e)"

primrec err_of :: "reply \<Rightarrow> gerr option" where
  "err_of (RText s e) = e" | "err_of (RBool b e) = e" | "err_of (RErr e) = e"
| "err_of (RMode m e) = e" | "err_of (RStatfs s e) = e"

primrec mode_of :: "reply \<Rightarrow> 32 word \<times> gerr option" where
  "mode_of (RText s e) = (0, e)" | "mode_of (RBool b e) = (0, e)" | "mode_of (RErr e) = (0, e)"
| "mode_of (RMode m e) = (m, e)" | "mode_of (RStatfs s e) = (0, e)"

definition zero_Statfs :: Statfs where
  "zero_Statfs = \<lparr>sf_Bsize = 0, sf_Blocks = 0, sf_Bfree = 0, sf_Bavail = 0, sf_Files = 0, sf_Ffree = 0\<rparr>"

primrec statfs_of :: "reply \<Rightarrow> Statfs \<times> gerr option" where
  "statfs_of (RText s e) = (zero_Statfs, e)" | "statfs_of (RBool b e) = (zero_Statfs, e)"
| "statfs_of (RErr e) = (zero_Statfs, e)" | "statfs_of (RMode m e) = (zero_Statfs, e)"
| "statfs_of (RStatfs s e) = (s, e)"

definition sys_text :: "'e kernel \<Rightarrow> call \<Rightarrow> ('e nworld, string \<times> gerr option) go" where
  "sys_text k c = bindG (syscall k c) (\<lambda>r. ret (text_of r))"

definition sys_bool :: "'e kernel \<Rightarrow> call \<Rightarrow> ('e nworld, bool \<times> gerr option) go" where
  "sys_bool k c = bindG (syscall k c) (\<lambda>r. ret (bool_of r))"

definition sys_err :: "'e kernel \<Rightarrow> call \<Rightarrow> ('e nworld, gerr option) go" where
  "sys_err k c = bindG (syscall k c) (\<lambda>r. ret (err_of r))"

section \<open>Lemmas\<close>

text \<open>The log of calls grows, and only by calls of a kind.\<close>

definition calls_only :: "(call \<Rightarrow> bool) \<Rightarrow> 'e nworld \<Rightarrow> 'e nworld \<Rightarrow> bool" where
  "calls_only P w w' \<longleftrightarrow> (\<exists>l. nw_log w' = nw_log w @ l \<and> (\<forall>x \<in> set l. P (fst x)))"

lemma calls_reflp: "reflp (calls_only P)"
  by (simp add: reflp_def calls_only_def)

lemma calls_transp: "transp (calls_only P)"
  by (rule transpI) (fastforce simp: calls_only_def)

lemmas calls_basic = keeps_ret [OF calls_reflp] keeps_panic [OF calls_reflp] keeps_deref [OF calls_reflp]
  keeps_if keeps_case_prod keeps_case_option keeps_case_sum keeps_Let keeps_bind [OF calls_transp]

lemma calls_syscall: "P c \<Longrightarrow> keeps (calls_only P) (syscall k c)"
  by (rule keepsI) (auto simp: syscall_def calls_only_def split: prod.splits)

lemma calls_sys:
  "P c \<Longrightarrow> keeps (calls_only P) (sys_text k c)"
  "P c \<Longrightarrow> keeps (calls_only P) (sys_bool k c)"
  "P c \<Longrightarrow> keeps (calls_only P) (sys_err k c)"
  unfolding sys_text_def sys_bool_def sys_err_def by (intro calls_basic calls_syscall; assumption)+

lemma syscall_apply: "syscall k c w = (r, w') \<Longrightarrow>
  \<exists>x. r = Ok x \<and> nw_log w' = nw_log w @ [(c, x)]"
  by (auto simp: syscall_def split: prod.splits)

lemma sys_log:
  "sys_text k c w = (r, w') \<Longrightarrow> \<exists>x. r = Ok (text_of x) \<and> nw_log w' = nw_log w @ [(c, x)]"
  "sys_bool k c w = (r', w') \<Longrightarrow> \<exists>x. r' = Ok (bool_of x) \<and> nw_log w' = nw_log w @ [(c, x)]"
  "sys_err k c w = (r'', w') \<Longrightarrow> \<exists>x. r'' = Ok (err_of x) \<and> nw_log w' = nw_log w @ [(c, x)]"
  by (auto simp: sys_text_def sys_bool_def sys_err_def syscall_def bindG_def split: prod.splits)

end
