(* ===== verification/Mounter.thy ===== *)
theory Mounter
  imports Node_System
begin

text \<open>
  The node mounter of \<open>src/pkg/mounter/mount.go\<close>: what it adds to mount-utils.  The statistics of a
  volume are computed at the width of the code, 64 bits; the theorems show that what is reported is
  exact and when the computation is refused.
\<close>

section \<open>Definitions\<close>

text \<open>\<open>strings.TrimSpace\<close>, for the white space of ASCII.\<close>

definition isSpace :: "char \<Rightarrow> bool" where
  "isSpace c \<longleftrightarrow> c \<in> {CHR 0x20, CHR 0x09, CHR 0x0A, CHR 0x0B, CHR 0x0C, CHR 0x0D}"

definition TrimSpace :: "string \<Rightarrow> string" where
  "TrimSpace s = rev (dropWhile isSpace (rev (dropWhile isSpace s)))"

unbundle bit_operations_syntax

definition S_IFMT :: "32 word" where "S_IFMT = 0xf000"
definition S_IFBLK :: "32 word" where "S_IFBLK = 0x6000"

definition IsBlockDevice :: "'e kernel \<Rightarrow> string \<Rightarrow> ('e nworld, bool \<times> gerr option) go" where
  "IsBlockDevice k fullPath =
     bindG (syscall k (UnixStat fullPath)) (\<lambda>r. let (mode, err) = mode_of r in
       if err \<noteq> None then ret (False, err) else ret (mode AND S_IFMT = S_IFBLK, None))"

definition GetBlockSizeBytes :: "'e kernel \<Rightarrow> string \<Rightarrow> ('e nworld, int \<times> gerr option) go" where
  "GetBlockSizeBytes k devicePath =
     bindG (sys_text k (Exec [''blockdev'', ''--getsize64'', devicePath])) (\<lambda>(output, err).
       case err of
         Some e \<Rightarrow> ret (-1, Some (WrapErr (''error when getting size of block volume at path '' @ devicePath @
                     '': output: '' @ output @ '', err: '' @ Error_string e) e))
       | None \<Rightarrow> (let strOut = TrimSpace output in
           case ParseInt strOut 64 of
             Inl _ \<Rightarrow> ret (-1, Some (PlainErr (''failed to parse size '' @ strOut @ '' as int'')))
           | Inr gotSizeBytes \<Rightarrow> ret (gotSizeBytes, None)))"

record VolumeStats =
  st_AvailableBytes :: "64 word"
  st_TotalBytes :: "64 word"
  st_UsedBytes :: "64 word"
  st_AvailableInodes :: "64 word"
  st_TotalInodes :: "64 word"
  st_UsedInodes :: "64 word"

definition zero_VolumeStats :: VolumeStats where
  "zero_VolumeStats = \<lparr>st_AvailableBytes = 0, st_TotalBytes = 0, st_UsedBytes = 0,
     st_AvailableInodes = 0, st_TotalInodes = 0, st_UsedInodes = 0\<rparr>"

definition MaxUint64 :: "64 word" where "MaxUint64 = - 1"
definition MaxInt64 :: "64 word" where "MaxInt64 = 0x7fffffffffffffff"

text \<open>
  The product of a number of blocks and the block size, checked as the code does: by a division before
  and a comparison after.  The division panics for a block size of zero.
\<close>

definition checkedBytes :: "string \<Rightarrow> string \<Rightarrow> 64 word \<Rightarrow> 64 word \<Rightarrow> (gerr + 64 word) outcome" where
  "checkedBytes wouldOverflow exceeds blocks ubsize =
     (if ubsize = 0 then Panic ''runtime error: integer divide by zero''
      else if MaxUint64 div ubsize < blocks then Ok (Inl (PlainErr wouldOverflow))
      else if MaxInt64 < blocks * ubsize then Ok (Inl (PlainErr exceeds))
      else Ok (Inr (blocks * ubsize)))"

text \<open>The part of \<open>GetVolumeStats\<close> for inodes.\<close>

definition inodeStats :: "Statfs \<Rightarrow> VolumeStats \<Rightarrow> VolumeStats \<times> gerr option" where
  "inodeStats s stats =
     (if MaxInt64 < sf_Ffree s then (stats, Some (PlainErr ''available inodes value exceeds int64 maximum''))
      else let stats = stats\<lparr>st_AvailableInodes := sf_Ffree s\<rparr> in
        if MaxInt64 < sf_Files s then (stats, Some (PlainErr ''total inodes value exceeds int64 maximum''))
        else let stats = stats\<lparr>st_TotalInodes := sf_Files s\<rparr> in
          if sint (st_TotalInodes stats) < sint (st_AvailableInodes stats)
            then (stats, Some (PlainErr ''inconsistent inode counts: total < available''))
          else (stats\<lparr>st_UsedInodes := st_TotalInodes stats - st_AvailableInodes stats\<rparr>, None))"

definition statsOf :: "Statfs \<Rightarrow> (VolumeStats \<times> gerr option) outcome" where
  "statsOf s =
     (let stats = zero_VolumeStats; ubsize = sf_Bsize s in
      if sint (sf_Bsize s) < 0 then
        Ok (stats, Some (PlainErr (''negative block size reported: '' @ FormatInt (sint (sf_Bsize s)))))
      else case checkedBytes ''available bytes calculation would overflow''
                  ''available bytes value exceeds int64 maximum'' (sf_Bavail s) ubsize of
        Panic m \<Rightarrow> Panic m
      | Ok (Inl e) \<Rightarrow> Ok (stats, Some e)
      | Ok (Inr availBytes) \<Rightarrow>
        (let stats = stats\<lparr>st_AvailableBytes := availBytes\<rparr> in
         case checkedBytes ''total bytes calculation would overflow''
                ''total bytes value exceeds int64 maximum'' (sf_Blocks s) ubsize of
           Panic m \<Rightarrow> Panic m
         | Ok (Inl e) \<Rightarrow> Ok (stats, Some e)
         | Ok (Inr totBytes) \<Rightarrow>
           (let stats = stats\<lparr>st_TotalBytes := totBytes\<rparr>;
                usedBlocks = (if sf_Bfree s < sf_Blocks s then sf_Blocks s - sf_Bfree s else 0)
            in case checkedBytes ''used bytes calculation would overflow''
                      ''used bytes value exceeds int64 maximum'' usedBlocks ubsize of
                 Panic m \<Rightarrow> Panic m
               | Ok (Inl e) \<Rightarrow> Ok (stats, Some e)
               | Ok (Inr usedBytes) \<Rightarrow> Ok (inodeStats s (stats\<lparr>st_UsedBytes := usedBytes\<rparr>)))))"

definition GetVolumeStats :: "'e kernel \<Rightarrow> string \<Rightarrow> ('e nworld, VolumeStats \<times> gerr option) go" where
  "GetVolumeStats k volumePath =
     bindG (syscall k (UnixStatfs volumePath)) (\<lambda>r. let (statfs, err) = statfs_of r in
       if err \<noteq> None then ret (zero_VolumeStats, err) else (\<lambda>w. (statsOf statfs, w)))"

section \<open>The statistics are exact\<close>

lemma unat_MaxUint64_div: "unat (MaxUint64 div u) = (2 ^ 64 - 1) div unat u"
  by (simp add: MaxUint64_def unat_div unsigned_minus_1_eq_mask mask_eq_exp_minus_1)

lemma le_MaxInt64: "x \<le> MaxInt64 \<longleftrightarrow> unat x < 2 ^ 63"
  by (auto simp: MaxInt64_def word_le_nat_alt)

lemma checkedBytes_Inr:
  "checkedBytes a b n u = Ok (Inr x) \<longleftrightarrow>
     u \<noteq> 0 \<and> unat n * unat u < 2 ^ 63 \<and> x = n * u"
proof (cases "u = 0")
  case False
  then have pos: "0 < unat u" by (simp add: unat_gt_0)
  have fits: "unat (n * u) = unat n * unat u" if "unat n * unat u < 2 ^ 64"
    using that by (simp add: unat_word_ariths)
  have div: "n \<le> MaxUint64 div u \<longleftrightarrow> unat n * unat u < 2 ^ 64"
  proof -
    have "n \<le> MaxUint64 div u \<longleftrightarrow> unat n \<le> (2 ^ 64 - 1) div unat u"
      by (simp only: word_le_nat_alt unat_MaxUint64_div)
    also have "\<dots> \<longleftrightarrow> unat n * unat u \<le> 2 ^ 64 - 1"
      using pos by (rule less_eq_div_iff_mult_less_eq)
    also have "\<dots> \<longleftrightarrow> unat n * unat u < 2 ^ 64" by auto
    finally show ?thesis .
  qed
  show ?thesis
  proof (cases "unat n * unat u < 2 ^ 64")
    case True
    then show ?thesis
      using False div le_MaxInt64 [of "n * u"] fits [OF True] by (auto simp: checkedBytes_def not_less [symmetric])
  next
    case big: False
    then show ?thesis using False div by (auto simp: checkedBytes_def)
  qed
qed (simp add: checkedBytes_def)

text \<open>The sizes fit: no product reaches \<open>2 ^ 63\<close>, and the numbers of inodes are consistent.\<close>

definition statsFit :: "Statfs \<Rightarrow> bool" where
  "statsFit s \<longleftrightarrow> 0 < sint (sf_Bsize s) \<and>
     unat (sf_Bavail s) * unat (sf_Bsize s) < 2 ^ 63 \<and> unat (sf_Blocks s) * unat (sf_Bsize s) < 2 ^ 63 \<and>
     unat (sf_Ffree s) \<le> unat (sf_Files s) \<and> unat (sf_Files s) < 2 ^ 63"

lemma product_small: "unat a * unat b < 2 ^ 63 \<Longrightarrow> unat (a * b :: 64 word) = unat a * unat b"
  by (simp add: unat_word_ariths)

lemma used_blocks:
  "unat (if bfree < blocks then blocks - bfree else (0 :: 64 word)) = unat blocks - unat bfree"
  by (simp add: word_less_nat_alt unat_sub_if' word_le_nat_alt)

lemma inodeStats_None:
  "snd (inodeStats s stats) = None \<longleftrightarrow> unat (sf_Ffree s) \<le> unat (sf_Files s) \<and> unat (sf_Files s) < 2 ^ 63"
proof -
  have free: "\<not> MaxInt64 < sf_Ffree s \<longleftrightarrow> unat (sf_Ffree s) < 2 ^ 63"
    and files: "\<not> MaxInt64 < sf_Files s \<longleftrightarrow> unat (sf_Files s) < 2 ^ 63"
    unfolding not_less by (rule le_MaxInt64)+
  have "sint (sf_Files s) < sint (sf_Ffree s) \<longleftrightarrow> unat (sf_Files s) < unat (sf_Ffree s)"
    if "unat (sf_Ffree s) < 2 ^ 63" "unat (sf_Files s) < 2 ^ 63"
    using that by (simp only: sint_small of_nat_less_iff)
  then show ?thesis
    using free files unfolding inodeStats_def Let_def
    by (cases "MaxInt64 < sf_Ffree s"; cases "MaxInt64 < sf_Files s") (auto simp del: power_numeral)
qed

definition usedBlocksOf :: "Statfs \<Rightarrow> 64 word" where
  "usedBlocksOf s = (if sf_Bfree s < sf_Blocks s then sf_Blocks s - sf_Bfree s else 0)"

text \<open>The statistics of a file system whose numbers fit, computed without a check.\<close>

definition exactStats :: "Statfs \<Rightarrow> VolumeStats" where
  "exactStats s = \<lparr>st_AvailableBytes = sf_Bavail s * sf_Bsize s, st_TotalBytes = sf_Blocks s * sf_Bsize s,
     st_UsedBytes = usedBlocksOf s * sf_Bsize s, st_AvailableInodes = sf_Ffree s,
     st_TotalInodes = sf_Files s, st_UsedInodes = sf_Files s - sf_Ffree s\<rparr>"

lemma inodeStats_fst:
  "inodeStats s x = (st, None) \<longleftrightarrow> snd (inodeStats s x) = None \<and>
     st = x\<lparr>st_AvailableInodes := sf_Ffree s, st_TotalInodes := sf_Files s,
            st_UsedInodes := sf_Files s - sf_Ffree s\<rparr>"
  by (auto simp: inodeStats_def Let_def split: if_splits)

lemma used_fits:
  assumes "unat (sf_Blocks s) * unat (sf_Bsize s) < 2 ^ 63"
  shows "unat (usedBlocksOf s) * unat (sf_Bsize s) < 2 ^ 63"
proof -
  have "unat (usedBlocksOf s) * unat (sf_Bsize s) \<le> unat (sf_Blocks s) * unat (sf_Bsize s)"
    by (simp add: usedBlocksOf_def used_blocks)
  with assms show ?thesis by linarith
qed

lemma Bsize_pos: "0 < sint (sf_Bsize s) \<longleftrightarrow> \<not> sint (sf_Bsize s) < 0 \<and> sf_Bsize s \<noteq> 0"
proof -
  have "sint (sf_Bsize s) = 0 \<longleftrightarrow> sf_Bsize s = 0" by (rule signed_eq_0_iff)
  then show ?thesis by auto
qed

lemma statsOf_fit:
  assumes "statsFit s"
  shows "statsOf s = Ok (exactStats s, None)"
proof -
  have u: "sf_Bsize s \<noteq> 0" "\<not> sint (sf_Bsize s) < 0"
    and a: "unat (sf_Bavail s) * unat (sf_Bsize s) < 2 ^ 63"
    and t: "unat (sf_Blocks s) * unat (sf_Bsize s) < 2 ^ 63"
    and i: "\<And>x. snd (inodeStats s x) = None"
    using assms by (auto simp: statsFit_def Bsize_pos inodeStats_None simp del: power_numeral)
  have ca: "checkedBytes x y (sf_Bavail s) (sf_Bsize s) = Ok (Inr (sf_Bavail s * sf_Bsize s))"
    and ct: "checkedBytes x y (sf_Blocks s) (sf_Bsize s) = Ok (Inr (sf_Blocks s * sf_Bsize s))"
    and cu: "checkedBytes x y (usedBlocksOf s) (sf_Bsize s) = Ok (Inr (usedBlocksOf s * sf_Bsize s))" for x y
    using u(1) a t used_fits [OF t] by (simp_all add: checkedBytes_Inr del: power_numeral)
  have "inodeStats s x = (x\<lparr>st_AvailableInodes := sf_Ffree s, st_TotalInodes := sf_Files s,
      st_UsedInodes := sf_Files s - sf_Ffree s\<rparr>, None)" for x
    using i inodeStats_fst by blast
  then show ?thesis
    using u(2) by (simp add: statsOf_def Let_def usedBlocksOf_def [symmetric] ca ct cu exactStats_def zero_VolumeStats_def)
qed

lemma statsOf_None:
  assumes "statsOf s = Ok (st, None)"
  shows "statsFit s"
proof -
  let ?cb = "\<lambda>n x y. checkedBytes x y n (sf_Bsize s)"
  from assms have neg: "\<not> sint (sf_Bsize s) < 0" by (auto simp: statsOf_def Let_def)
  obtain x1 y1 a where a: "?cb (sf_Bavail s) x1 y1 = Ok (Inr a)"
    using assms neg by (auto simp: statsOf_def Let_def split: outcome.split_asm sum.split_asm)
  then have u: "sf_Bsize s \<noteq> 0" and a': "unat (sf_Bavail s) * unat (sf_Bsize s) < 2 ^ 63"
    by (auto simp: checkedBytes_Inr simp del: power_numeral)
  then have ca: "?cb (sf_Bavail s) x y = Ok (Inr (sf_Bavail s * sf_Bsize s))" for x y
    by (simp add: checkedBytes_Inr del: power_numeral)
  obtain x2 y2 t where "?cb (sf_Blocks s) x2 y2 = Ok (Inr t)"
    using assms neg ca by (auto simp: statsOf_def Let_def split: outcome.split_asm sum.split_asm)
  then have t': "unat (sf_Blocks s) * unat (sf_Bsize s) < 2 ^ 63" by (auto simp: checkedBytes_Inr simp del: power_numeral)
  with u have ct: "?cb (sf_Blocks s) x y = Ok (Inr (sf_Blocks s * sf_Bsize s))"
    and cu: "?cb (usedBlocksOf s) x y = Ok (Inr (usedBlocksOf s * sf_Bsize s))" for x y
    using used_fits [OF t'] by (simp_all add: checkedBytes_Inr del: power_numeral)
  from assms neg ca ct cu obtain x where "inodeStats s x = (st, None)"
    by (auto simp: statsOf_def Let_def usedBlocksOf_def [symmetric])
  then have "snd (inodeStats s x) = None" by simp
  with u neg a' t' show ?thesis by (simp add: statsFit_def Bsize_pos inodeStats_None del: power_numeral)
qed

text \<open>C35 Statistics that \<open>GetVolumeStats\<close> reports without an error are exact: each byte count is the product,
  as unbounded numbers, of the block count the kernel reported and the block size, used blocks are total
  minus free ones (none when more are free than there are), and the inode counts are the kernel's; no
  64-bit computation wrapped around.\<close>

theorem volume_stats_exact:
  assumes "GetVolumeStats k path w = (Ok (st, None), w')"
  shows "\<exists>s r. nw_log w' = nw_log w @ [(UnixStatfs path, r)] \<and> statfs_of r = (s, None) \<and>
    (let b = int (unat (sf_Bsize s)) in
      sint (st_AvailableBytes st) = int (unat (sf_Bavail s)) * b \<and>
      sint (st_TotalBytes st) = int (unat (sf_Blocks s)) * b \<and>
      sint (st_UsedBytes st) = int (unat (sf_Blocks s) - unat (sf_Bfree s)) * b \<and>
      sint (st_AvailableInodes st) = int (unat (sf_Ffree s)) \<and>
      sint (st_TotalInodes st) = int (unat (sf_Files s)) \<and>
      sint (st_UsedInodes st) = int (unat (sf_Files s)) - int (unat (sf_Ffree s)))"
proof -
  obtain r s where run: "statsOf s = Ok (st, None)" and err: "statfs_of r = (s, None)"
    and log: "nw_log w' = nw_log w @ [(UnixStatfs path, r)]"
    using assms by (auto simp: GetVolumeStats_def syscall_def bindG_def split: prod.splits if_splits)
  from run have fit: "statsFit s" by (rule statsOf_None)
  with run have st: "st = exactStats s" by (simp add: statsOf_fit)
  have t: "unat (sf_Blocks s) * unat (sf_Bsize s) < 2 ^ 63" using fit by (simp add: statsFit_def)
  have "let b = int (unat (sf_Bsize s)) in
      sint (st_AvailableBytes st) = int (unat (sf_Bavail s)) * b \<and>
      sint (st_TotalBytes st) = int (unat (sf_Blocks s)) * b \<and>
      sint (st_UsedBytes st) = int (unat (sf_Blocks s) - unat (sf_Bfree s)) * b"
    using fit used_fits [OF t] used_blocks [of "sf_Bfree s" "sf_Blocks s"]
    by (simp add: st exactStats_def statsFit_def sint_small product_small usedBlocksOf_def del: power_numeral)
  moreover have "sint (st_AvailableInodes st) = int (unat (sf_Ffree s)) \<and>
      sint (st_TotalInodes st) = int (unat (sf_Files s)) \<and>
      sint (st_UsedInodes st) = int (unat (sf_Files s)) - int (unat (sf_Ffree s))"
  proof -
    have le: "unat (sf_Ffree s) \<le> unat (sf_Files s)" and lt: "unat (sf_Files s) < 2 ^ 63"
      using fit by (simp_all add: statsFit_def)
    have sub: "unat (sf_Files s - sf_Ffree s) = unat (sf_Files s) - unat (sf_Ffree s)"
      using le by (simp add: unat_sub word_le_nat_alt)
    have small: "unat (sf_Ffree s) < 2 ^ 63" "unat (sf_Files s - sf_Ffree s) < 2 ^ 63"
      using le lt unfolding sub by simp_all
    have "sint (sf_Files s - sf_Ffree s) = int (unat (sf_Files s) - unat (sf_Ffree s))"
      unfolding sint_small [OF small(2)] sub ..
    with le lt small(1) show ?thesis
      by (simp only: st exactStats_def VolumeStats.simps sint_small of_nat_diff)
  qed
  ultimately show ?thesis
    using log err by (intro exI [of _ s] exI [of _ r]) (simp add: Let_def)
qed

text \<open>\<open>GetVolumeStats\<close> reports statistics exactly for a positive block size when the available and the
  total bytes are below \<open>2 ^ 63\<close>, and the inodes consistent and below \<open>2 ^ 63\<close>; it panics, by a division
  by zero, exactly when the kernel reports a block size of zero.\<close>

theorem volume_stats_cases:
  "(\<exists>st. statsOf s = Ok (st, None)) = statsFit s \<and>
   (\<exists>msg. statsOf s = Panic msg) = (sf_Bsize s = 0)"
proof
  show "(\<exists>st. statsOf s = Ok (st, None)) = statsFit s"
    using statsOf_None statsOf_fit by blast
  show "(\<exists>msg. statsOf s = Panic msg) = (sf_Bsize s = 0)"
    by (auto simp: statsOf_def Let_def checkedBytes_def split: if_splits)
qed

definition sampleStatfs :: Statfs where
  "sampleStatfs = \<lparr>sf_Bsize = 4096, sf_Blocks = 100, sf_Bfree = 40, sf_Bavail = 30, sf_Files = 10, sf_Ffree = 4\<rparr>"

definition sampleKernel :: "reply \<Rightarrow> unit kernel" where
  "sampleKernel r = \<lparr>k_call = (\<lambda>c e. (r, e))\<rparr>"

theorem volume_stats_exact_witness:
  "sint (st_UsedBytes (exactStats sampleStatfs)) = 60 * 4096"
proof -
  let ?w = "\<lparr>nw_env = (), nw_log = []\<rparr>" and ?r = "RStatfs sampleStatfs None"
  have "statsFit sampleStatfs" by (simp add: statsFit_def sampleStatfs_def)
  then have "GetVolumeStats (sampleKernel ?r) ''/data'' ?w =
      (Ok (exactStats sampleStatfs, None), \<lparr>nw_env = (), nw_log = [(UnixStatfs ''/data'', ?r)]\<rparr>)"
    by (simp add: GetVolumeStats_def syscall_def sampleKernel_def bindG_def statsOf_fit)
  from volume_stats_exact [OF this] show ?thesis by (auto simp: Let_def sampleStatfs_def)
qed

end
