(* ===== verification/Go_Json.thy ===== *)
theory Go_Json
  imports Go_Prelude
begin

text \<open>
  What the node service uses of \<open>encoding/json\<close>: reading a JSON text of bytes, and storing strings of an
  object into the fields of a struct.  The reader takes fuel; twice the length of the text and two more
  are enough, since every second call takes a character.  Texts nested deeper than 10000 levels, which Go
  refuses, and bytes that are not valid UTF-8, which Go replaces, are read as they are.
\<close>

section \<open>Reading\<close>

datatype json = JNull | JBool bool | JNum string | JStr string | JArr "json list" | JObj "(string \<times> json) list"

definition isWs :: "char \<Rightarrow> bool" where
  "isWs c \<longleftrightarrow> c \<in> {CHR 0x20, CHR 0x09, CHR 0x0A, CHR 0x0D}"

definition skip_ws :: "string \<Rightarrow> string" where
  "skip_ws s = dropWhile isWs s"

definition hex_of :: "char \<Rightarrow> nat option" where
  "hex_of c = (let k = (of_char c :: nat) in
     if 48 \<le> k \<and> k \<le> 57 then Some (k - 48)
     else if 97 \<le> k \<and> k \<le> 102 then Some (k - 87)
     else if 65 \<le> k \<and> k \<le> 70 then Some (k - 55) else None)"

definition hex4 :: "char \<Rightarrow> char \<Rightarrow> char \<Rightarrow> char \<Rightarrow> nat option" where
  "hex4 a b c d = (case (hex_of a, hex_of b, hex_of c, hex_of d) of
     (Some w, Some x, Some y, Some z) \<Rightarrow> Some (4096 * w + 256 * x + 16 * y + z) | _ \<Rightarrow> None)"

definition utf8 :: "nat \<Rightarrow> string" where
  "utf8 n = map char_of
     (if n < 0x80 then [n]
      else if n < 0x800 then [0xC0 + n div 64, 0x80 + n mod 64]
      else if n < 0x10000 then [0xE0 + n div 4096, 0x80 + (n div 64) mod 64, 0x80 + n mod 64]
      else [0xF0 + n div 262144, 0x80 + (n div 4096) mod 64, 0x80 + (n div 64) mod 64, 0x80 + n mod 64])"

definition replacement :: nat where "replacement = 0xFFFD"

definition is_surrogate :: "nat \<Rightarrow> bool" where
  "is_surrogate n \<longleftrightarrow> 0xD800 \<le> n \<and> n < 0xE000"

text \<open>The characters of a string after its opening quote, with the escapes; what follows the closing quote.\<close>

definition simple_escape :: "char \<Rightarrow> char option" where
  "simple_escape c = map_of [(CHR 0x22, CHR 0x22), (CHR 0x5C, CHR 0x5C), (CHR ''/'', CHR ''/''),
     (CHR ''b'', CHR 0x08), (CHR ''f'', CHR 0x0C), (CHR ''n'', CHR 0x0A), (CHR ''r'', CHR 0x0D),
     (CHR ''t'', CHR 0x09)] c"

definition consStr :: "string \<Rightarrow> (string \<times> string) option \<Rightarrow> (string \<times> string) option" where
  "consStr u r = map_option (\<lambda>(s, rest). (u @ s, rest)) r"

fun read_string :: "string \<Rightarrow> (string \<times> string) option" where
  "read_string [] = None"
| "read_string (c # cs) =
     (if c = CHR 0x22 then Some ([], cs)
      else if (of_char c :: nat) < 32 then None
      else if c \<noteq> CHR 0x5C then consStr [c] (read_string cs)
      else case cs of
          [] \<Rightarrow> None
        | e # rest \<Rightarrow>
            (case simple_escape e of
               Some x \<Rightarrow> consStr [x] (read_string rest)
             | None \<Rightarrow>
                 if e \<noteq> CHR ''u'' then None
                 else (case rest of
                     a # b # c' # d # rest' \<Rightarrow>
                       (case hex4 a b c' d of
                          None \<Rightarrow> None
                        | Some n \<Rightarrow>
                            if \<not> is_surrogate n then consStr (utf8 n) (read_string rest')
                            else (case rest' of
                                b1 # u1 # a2 # b2 # c2 # d2 # rest'' \<Rightarrow>
                                  (case hex4 a2 b2 c2 d2 of
                                     Some m \<Rightarrow>
                                       if b1 = CHR 0x5C \<and> u1 = CHR ''u'' \<and> n < 0xDC00 \<and> 0xDC00 \<le> m \<and> m < 0xE000
                                       then consStr (utf8 (0x10000 + (n - 0xD800) * 1024 + (m - 0xDC00))) (read_string rest'')
                                       else consStr (utf8 replacement) (read_string rest')
                                   | None \<Rightarrow> consStr (utf8 replacement) (read_string rest'))
                              | _ \<Rightarrow> consStr (utf8 replacement) (read_string rest')))
                   | _ \<Rightarrow> None)))"

text \<open>The grammar of numbers: an integer without leading zeros, a fraction, an exponent.\<close>

definition isDigit :: "char \<Rightarrow> bool" where
  "isDigit c \<longleftrightarrow> (let k = (of_char c :: nat) in 48 \<le> k \<and> k \<le> 57)"

definition numeric :: "char \<Rightarrow> bool" where
  "numeric c \<longleftrightarrow> isDigit c \<or> c \<in> {CHR ''-'', CHR ''+'', CHR ''.'', CHR ''e'', CHR ''E''}"

definition valid_exp :: "string \<Rightarrow> bool" where
  "valid_exp s = (case s of [] \<Rightarrow> True
     | c # r \<Rightarrow> (c = CHR ''e'' \<or> c = CHR ''E'') \<and>
         (let d = (case r of [] \<Rightarrow> [] | x # r' \<Rightarrow> if x = CHR ''+'' \<or> x = CHR ''-'' then r' else r)
          in d \<noteq> [] \<and> list_all isDigit d))"

definition valid_frac :: "string \<Rightarrow> bool" where
  "valid_frac s = (case s of [] \<Rightarrow> True
     | c # r \<Rightarrow> if c = CHR ''.'' then takeWhile isDigit r \<noteq> [] \<and> valid_exp (dropWhile isDigit r)
                else valid_exp s)"

definition valid_number :: "string \<Rightarrow> bool" where
  "valid_number s = (let u = (case s of [] \<Rightarrow> [] | c # r \<Rightarrow> if c = CHR ''-'' then r else s);
       i = takeWhile isDigit u
     in i \<noteq> [] \<and> (length i = 1 \<or> hd i \<noteq> CHR ''0'') \<and> valid_frac (dropWhile isDigit u))"

fun read_value :: "nat \<Rightarrow> string \<Rightarrow> (json \<times> string) option"
  and read_array :: "nat \<Rightarrow> string \<Rightarrow> (json list \<times> string) option"
  and read_object :: "nat \<Rightarrow> string \<Rightarrow> ((string \<times> json) list \<times> string) option" where
  "read_value 0 s = None"
| "read_value (Suc fuel) s =
     (case skip_ws s of
        [] \<Rightarrow> None
      | c # cs \<Rightarrow>
          if c = CHR 0x22 then map_option (\<lambda>(x, r). (JStr x, r)) (read_string cs)
          else if c = CHR ''{'' then
            (case skip_ws cs of
               [] \<Rightarrow> None
             | d # r \<Rightarrow> if d = CHR ''}'' then Some (JObj [], r)
                        else map_option (\<lambda>(m, q). (JObj m, q)) (read_object fuel (d # r)))
          else if c = CHR ''['' then
            (case skip_ws cs of
               [] \<Rightarrow> None
             | d # r \<Rightarrow> if d = CHR '']'' then Some (JArr [], r)
                        else map_option (\<lambda>(m, q). (JArr m, q)) (read_array fuel (d # r)))
          else if take 4 (c # cs) = ''null'' then Some (JNull, drop 4 (c # cs))
          else if take 4 (c # cs) = ''true'' then Some (JBool True, drop 4 (c # cs))
          else if take 5 (c # cs) = ''false'' then Some (JBool False, drop 5 (c # cs))
          else if valid_number (takeWhile numeric (c # cs))
            then Some (JNum (takeWhile numeric (c # cs)), dropWhile numeric (c # cs))
          else None)"
| "read_array 0 s = None"
| "read_array (Suc fuel) s =
     (case read_value fuel s of
        None \<Rightarrow> None
      | Some (v, r) \<Rightarrow>
          (case skip_ws r of
             [] \<Rightarrow> None
           | c # q \<Rightarrow> if c = CHR '']'' then Some ([v], q)
                      else if c = CHR '','' then map_option (\<lambda>(vs, q'). (v # vs, q')) (read_array fuel q)
                      else None))"
| "read_object 0 s = None"
| "read_object (Suc fuel) s =
     (case skip_ws s of
        [] \<Rightarrow> None
      | c # cs \<Rightarrow>
          if c \<noteq> CHR 0x22 then None
          else (case read_string cs of
              None \<Rightarrow> None
            | Some (k, r) \<Rightarrow>
                (case skip_ws r of
                   [] \<Rightarrow> None
                 | d # q \<Rightarrow>
                     if d \<noteq> CHR '':'' then None
                     else (case read_value fuel q of
                         None \<Rightarrow> None
                       | Some (v, q1) \<Rightarrow>
                           (case skip_ws q1 of
                              [] \<Rightarrow> None
                            | e # q2 \<Rightarrow> if e = CHR ''}'' then Some ([(k, v)], q2)
                                        else if e = CHR '','' then
                                          map_option (\<lambda>(m, q3). ((k, v) # m, q3)) (read_object fuel q2)
                                        else None)))))"

definition read_json :: "string \<Rightarrow> json option" where
  "read_json s = (case read_value (2 * length s + 2) s of
     None \<Rightarrow> None | Some (v, r) \<Rightarrow> if skip_ws r = [] then Some v else None)"

section \<open>Storing into fields\<close>

text \<open>Keys match the name of a field without regard to the case of ASCII letters.\<close>

definition lowerChar :: "char \<Rightarrow> char" where
  "lowerChar c = (let k = (of_char c :: nat) in if 65 \<le> k \<and> k \<le> 90 then char_of (k + 32) else c)"

definition keyIs :: "string \<Rightarrow> string \<Rightarrow> bool" where
  "keyIs field k \<longleftrightarrow> map lowerChar k = map lowerChar field"

text \<open>A string field: a string is stored, null changes nothing, another value is an error.\<close>

definition storeString :: "string \<Rightarrow> json \<Rightarrow> gerr + string" where
  "storeString old v = (case v of JStr s \<Rightarrow> Inr s | JNull \<Rightarrow> Inr old | _ \<Rightarrow> Inl DecodeErr)"

end
