(* ===== verification/Node_Service.thy ===== *)
theory Node_Service
  imports Mounter Go_Json Api_Types
begin

text \<open>
  The node service of \<open>src/pkg/service/node.go\<close>: it runs inside the tenant's node, finds the disk that
  the controller plugged in by its serial number, formats and mounts it.  The interfaces the service is
  given (device lister, mounter, file system maker, resizer and so on) are fields of the record, filled
  by \<open>NewNodeService\<close> with the system calls and commands of \<open>Node_System\<close>.
\<close>

section \<open>The service and its parts\<close>

record 'w MounterI =
  mi_IsLikelyNotMountPoint :: "string \<Rightarrow> ('w, bool \<times> gerr option) go"
  mi_Mount :: "string \<Rightarrow> string \<Rightarrow> string \<Rightarrow> string list \<Rightarrow> ('w, gerr option) go"
  mi_Unmount :: "string \<Rightarrow> ('w, gerr option) go"
  mi_IsBlockDevice :: "string \<Rightarrow> ('w, bool \<times> gerr option) go"
  mi_GetBlockSizeBytes :: "string \<Rightarrow> ('w, int \<times> gerr option) go"
  mi_GetVolumeStats :: "string \<Rightarrow> ('w, VolumeStats \<times> gerr option) go"

record 'w ResizerInterface =
  ri_NeedResize :: "string \<Rightarrow> string \<Rightarrow> ('w, bool \<times> gerr option) go"
  ri_Resize :: "string \<Rightarrow> string \<Rightarrow> ('w, bool \<times> gerr option) go"

text \<open>The calls to package os and to mount-utils that the service makes itself.\<close>

record 'w OsCalls =
  os_Stat :: "string \<Rightarrow> ('w, gerr option) go"
  os_OpenCreate :: "string \<Rightarrow> ('w, gerr option) go"
  os_RemoveAll :: "string \<Rightarrow> ('w, gerr option) go"
  os_PathExists :: "string \<Rightarrow> ('w, bool \<times> gerr option) go"

record 'w NodeService =
  nd_nodeID :: string
  nd_deviceLister :: "('w, string \<times> gerr option) go"
  nd_fsMaker :: "string \<Rightarrow> string \<Rightarrow> ('w, gerr option) go"
  nd_mounter :: "'w MounterI"
  nd_resizer :: "'w ResizerInterface"
  nd_devicePathGetter :: "string \<Rightarrow> ('w, string \<times> gerr option) go"
  nd_dirMaker :: "string \<Rightarrow> ('w, gerr option) go"
  nd_os :: "'w OsCalls"

datatype NodeCap = STAGE_UNSTAGE_VOLUME | NODE_EXPAND_VOLUME | GET_VOLUME_STATS

definition nodeCaps :: "NodeCap list" where
  "nodeCaps = [STAGE_UNSTAGE_VOLUME, NODE_EXPAND_VOLUME, GET_VOLUME_STATS]"

definition serialKey :: string where "serialKey = ''serial''"

text \<open>The error is, or wraps, that of an exited command: its message and its output on stderr.\<close>

primrec exitError :: "gerr \<Rightarrow> (string \<times> string) option" where
  "exitError (GrpcStatus c m) = None" | "exitError (ApiStatus r c m) = None" | "exitError (PlainErr m) = None"
| "exitError (WrapErr m e) = exitError e" | "exitError (NumErr f n c) = None" | "exitError DecodeErr = None"
| "exitError CtxDeadlineExceeded = None" | "exitError CtxCanceled = None" | "exitError ErrWaitTimeout = None"
| "exitError (OsNotExist m) = None" | "exitError (ExitErr m s) = Some (m, s)" | "exitError ErrMountDeviceNotFound = None"

primrec isErrNotExist :: "gerr \<Rightarrow> bool" where
  "isErrNotExist (GrpcStatus c m) = False" | "isErrNotExist (ApiStatus r c m) = False" | "isErrNotExist (PlainErr m) = False"
| "isErrNotExist (WrapErr m e) = isErrNotExist e" | "isErrNotExist (NumErr f n c) = False" | "isErrNotExist DecodeErr = False"
| "isErrNotExist CtxDeadlineExceeded = False" | "isErrNotExist CtxCanceled = False" | "isErrNotExist ErrWaitTimeout = False"
| "isErrNotExist (OsNotExist m) = True" | "isErrNotExist (ExitErr m s) = False" | "isErrNotExist ErrMountDeviceNotFound = False"

text \<open>\<open>os.IsNotExist\<close> does not look through wrapped errors.\<close>

definition IsNotExist :: "gerr option \<Rightarrow> bool" where
  "IsNotExist err = (case err of Some (OsNotExist m) \<Rightarrow> True | _ \<Rightarrow> False)"

primrec isMountDeviceNotFound :: "gerr \<Rightarrow> bool" where
  "isMountDeviceNotFound (GrpcStatus c m) = False" | "isMountDeviceNotFound (ApiStatus r c m) = False"
| "isMountDeviceNotFound (PlainErr m) = False" | "isMountDeviceNotFound (WrapErr m e) = isMountDeviceNotFound e"
| "isMountDeviceNotFound (NumErr f n c) = False" | "isMountDeviceNotFound DecodeErr = False"
| "isMountDeviceNotFound CtxDeadlineExceeded = False" | "isMountDeviceNotFound CtxCanceled = False"
| "isMountDeviceNotFound ErrWaitTimeout = False" | "isMountDeviceNotFound (OsNotExist m) = False"
| "isMountDeviceNotFound (ExitErr m s) = False" | "isMountDeviceNotFound ErrMountDeviceNotFound = True"

section \<open>Devices\<close>

record device =
  dev_SerialID :: string
  dev_Path :: string
  dev_Name :: string
  dev_Fstype :: string

definition zero_device :: device where
  "zero_device = \<lparr>dev_SerialID = '''', dev_Path = '''', dev_Name = '''', dev_Fstype = ''''\<rparr>"

text \<open>\<open>json.Unmarshal\<close> into the structs \<open>devices\<close> and \<open>device\<close>.\<close>

definition storeDeviceField :: "string \<Rightarrow> json \<Rightarrow> device \<Rightarrow> gerr + device" where
  "storeDeviceField k v d =
     (if keyIs ''serial'' k then map_sum id (\<lambda>s. d\<lparr>dev_SerialID := s\<rparr>) (storeString (dev_SerialID d) v)
      else if keyIs ''path'' k then map_sum id (\<lambda>s. d\<lparr>dev_Path := s\<rparr>) (storeString (dev_Path d) v)
      else if keyIs ''name'' k then map_sum id (\<lambda>s. d\<lparr>dev_Name := s\<rparr>) (storeString (dev_Name d) v)
      else if keyIs ''fstype'' k then map_sum id (\<lambda>s. d\<lparr>dev_Fstype := s\<rparr>) (storeString (dev_Fstype d) v)
      else Inr d)"

fun storeDevice :: "(string \<times> json) list \<Rightarrow> device \<Rightarrow> gerr + device" where
  "storeDevice [] d = Inr d"
| "storeDevice ((k, v) # m) d =
     (case storeDeviceField k v d of Inl e \<Rightarrow> Inl e | Inr d' \<Rightarrow> storeDevice m d')"

definition decodeDevice :: "json \<Rightarrow> gerr + device" where
  "decodeDevice v = (case v of JObj m \<Rightarrow> storeDevice m zero_device | JNull \<Rightarrow> Inr zero_device | _ \<Rightarrow> Inl DecodeErr)"

fun decodeDeviceList :: "json list \<Rightarrow> gerr + device list" where
  "decodeDeviceList [] = Inr []"
| "decodeDeviceList (v # vs) =
     (case decodeDevice v of
        Inl e \<Rightarrow> Inl e
      | Inr d \<Rightarrow> map_sum id (\<lambda>ds. d # ds) (decodeDeviceList vs))"

fun decodeDevicesFields :: "(string \<times> json) list \<Rightarrow> device list \<Rightarrow> gerr + device list" where
  "decodeDevicesFields [] ds = Inr ds"
| "decodeDevicesFields ((k, v) # m) ds =
     (if \<not> keyIs ''blockdevices'' k then decodeDevicesFields m ds
      else case v of
          JArr vs \<Rightarrow> (case decodeDeviceList vs of Inl e \<Rightarrow> Inl e | Inr ds' \<Rightarrow> decodeDevicesFields m ds')
        | JNull \<Rightarrow> decodeDevicesFields m []
        | _ \<Rightarrow> Inl DecodeErr)"

definition Unmarshal_devices :: "string \<Rightarrow> gerr + device list" where
  "Unmarshal_devices out = (case read_json out of
       None \<Rightarrow> Inl DecodeErr
     | Some (JObj m) \<Rightarrow> decodeDevicesFields m []
     | Some JNull \<Rightarrow> Inr []
     | Some _ \<Rightarrow> Inl DecodeErr)"

fun findDevice :: "string \<Rightarrow> device list \<Rightarrow> device option" where
  "findDevice serialID [] = None"
| "findDevice serialID (d # ds) =
     (if dev_SerialID d = serialID then Some (d\<lparr>dev_Path := ''/dev/'' @ dev_Name d\<rparr>) else findDevice serialID ds)"

definition getDeviceBySerialID ::
  "string \<Rightarrow> ('w, string \<times> gerr option) go \<Rightarrow> ('w, device \<times> gerr option) go" where
  "getDeviceBySerialID serialID deviceLister =
     bindG deviceLister (\<lambda>(out, err).
       case err of
         Some e \<Rightarrow> ret (zero_device, Some (case exitError e of
             Some (m, stderr) \<Rightarrow> PlainErr (Error_string e @ '' lsblk failed with '' @ stderr)
           | None \<Rightarrow> e))
       | None \<Rightarrow> (case Unmarshal_devices out of
             Inl e \<Rightarrow> ret (zero_device, Some e)
           | Inr ds \<Rightarrow> (case findDevice serialID ds of
                 Some d \<Rightarrow> ret (d, None)
               | None \<Rightarrow> ret (zero_device, Some (PlainErr (''couldn'' @ [CHR 0x27] @ ''t find device by serial id''))))))"

definition mkfsCommand :: "string \<Rightarrow> string \<Rightarrow> string list option" where
  "mkfsCommand dev fsType =
     (if HasPrefix fsType ''ext4'' then Some [''mkfs'', ''-m'', ''0'', ''-F'', ''-t'', fsType, dev]
      else if HasPrefix fsType ''xfs'' then Some [''mkfs'', ''-t'', fsType, ''-f'', dev]
      else None)"

definition makeFS :: "'e kernel \<Rightarrow> string \<Rightarrow> string \<Rightarrow> ('e nworld, gerr option) go" where
  "makeFS k dev fsType = (case mkfsCommand dev fsType of
       None \<Rightarrow> ret (Some (PlainErr (fsType @ '' is not supported, only xfs and ext4 are supported'')))
     | Some cmd \<Rightarrow> bindG (sys_err k (Exec cmd)) (\<lambda>err.
         case err of
           None \<Rightarrow> ret None
         | Some e \<Rightarrow> (case exitError e of
               Some (m, stderr) \<Rightarrow> ret (Some (PlainErr (Error_string e @ '' mkfs failed with '' @ m)))
             | None \<Rightarrow> ret (Some e))))"

definition lsblk :: call where
  "lsblk = Exec [''lsblk'', ''-nJo'', ''SERIAL,FSTYPE,NAME'']"

definition findmnt :: "string \<Rightarrow> call" where
  "findmnt mountPath = Exec [''findmnt'', ''-o'', ''source'', ''--nofsroot'', ''--noheadings'', ''--target'', mountPath]"

text \<open>\<open>NewDevicePathGetter\<close>: an absolute path that findmnt printed, else the sentinel error.\<close>

definition devicePathOf :: "'e kernel \<Rightarrow> string \<Rightarrow> ('e nworld, string \<times> gerr option) go" where
  "devicePathOf k mountPath =
     bindG (sys_text k (findmnt mountPath)) (\<lambda>(out, err).
       if err \<noteq> None then ret ('''', err)
       else let devicePath = TrimSpace out in
         if HasPrefix devicePath ''/'' then ret (devicePath, None) else ret ('''', Some ErrMountDeviceNotFound))"

definition NewNodeMounter :: "'e kernel \<Rightarrow> 'e nworld MounterI" where
  "NewNodeMounter k = \<lparr>mi_IsLikelyNotMountPoint = (\<lambda>p. sys_bool k (IsLikelyNotMountPoint p)),
     mi_Mount = (\<lambda>src tgt fs opts. sys_err k (Mount src tgt fs opts)),
     mi_Unmount = (\<lambda>p. sys_err k (Unmount p)),
     mi_IsBlockDevice = IsBlockDevice k, mi_GetBlockSizeBytes = GetBlockSizeBytes k,
     mi_GetVolumeStats = GetVolumeStats k\<rparr>"

definition NewResizer :: "'e kernel \<Rightarrow> 'e nworld ResizerInterface" where
  "NewResizer k = \<lparr>ri_NeedResize = (\<lambda>d m. sys_bool k (NeedResize d m)),
     ri_Resize = (\<lambda>d m. sys_bool k (Resize d m))\<rparr>"

definition NewNodeService :: "'e kernel \<Rightarrow> string \<Rightarrow> 'e nworld NodeService" where
  "NewNodeService k nodeId = \<lparr>nd_nodeID = nodeId,
     nd_deviceLister = sys_text k lsblk,
     nd_fsMaker = makeFS k,
     nd_mounter = NewNodeMounter k,
     nd_resizer = NewResizer k,
     nd_devicePathGetter = devicePathOf k,
     nd_dirMaker = (\<lambda>p. sys_err k (MkdirAll p)),
     nd_os = \<lparr>os_Stat = (\<lambda>p. sys_err k (OsStat p)), os_OpenCreate = (\<lambda>p. sys_err k (OpenCreate p)),
       os_RemoveAll = (\<lambda>p. sys_err k (RemoveAll p)), os_PathExists = (\<lambda>p. sys_bool k (PathExists p))\<rparr>\<rparr>"

section \<open>Requests\<close>

record NodeStageVolumeRequest =
  nsr_VolumeId :: string
  nsr_StagingTargetPath :: string
  nsr_VolumeCapability :: "VolumeCapability option"
  nsr_VolumeContext :: "string gomap"

record NodeUnstageVolumeRequest =
  nur_VolumeId :: string
  nur_StagingTargetPath :: string

record NodePublishVolumeRequest =
  npr_VolumeId :: string
  npr_TargetPath :: string
  npr_VolumeCapability :: "VolumeCapability option"
  npr_VolumeContext :: "string gomap"

record NodeUnpublishVolumeRequest =
  nupr_VolumeId :: string
  nupr_TargetPath :: string

record NodeGetVolumeStatsRequest =
  ngr_VolumeId :: string
  ngr_VolumePath :: string

record NodeExpandVolumeRequest =
  ner_VolumeId :: string
  ner_VolumePath :: string
  ner_VolumeCapability :: "VolumeCapability option"

datatype UsageUnit = BYTES | INODES

record VolumeUsage =
  vu_Unit :: UsageUnit
  vu_Available :: int
  vu_Total :: int
  vu_Used :: int

section \<open>Staging\<close>

definition validateNodeStageVolumeRequest :: "NodeStageVolumeRequest option \<Rightarrow> gerr option" where
  "validateNodeStageVolumeRequest request = (case request of
       None \<Rightarrow> Some (GrpcStatus InvalidArgument ''missing request'')
     | Some req \<Rightarrow>
         if length (nsr_VolumeId req) = 0 then Some (GrpcStatus InvalidArgument ''volume ID not provided'')
         else if nsr_StagingTargetPath req = ''''
           then Some (GrpcStatus InvalidArgument ''staging target path not provided'')
         else if nsr_VolumeCapability req = None
           then Some (GrpcStatus InvalidArgument ''volume capability not provided'')
         else None)"

definition NodeStageVolume :: "'w NodeService \<Rightarrow> NodeStageVolumeRequest option
    \<Rightarrow> ('w, unit option \<times> gerr option) go" where
  "NodeStageVolume n request = (case validateNodeStageVolumeRequest request of
       Some e \<Rightarrow> ret (None, Some e)
     | None \<Rightarrow> deref request (\<lambda>req.
         case GetMount (nsr_VolumeCapability req) of
           None \<Rightarrow> ret (Some (), None)
         | Some fsType \<Rightarrow>
             bindG (getDeviceBySerialID (map_get (nsr_VolumeContext req) serialKey) (nd_deviceLister n))
               (\<lambda>(dev, err).
                 if err \<noteq> None then ret (None, err)
                 else if dev_Fstype dev \<noteq> '''' then ret (Some (), None)
                 else bindG (nd_fsMaker n (dev_Path dev) fsType) (\<lambda>err.
                   if err \<noteq> None then ret (None, err) else ret (Some (), None)))))"

definition validateNodeUnstageVolumeRequest :: "NodeUnstageVolumeRequest option \<Rightarrow> gerr option" where
  "validateNodeUnstageVolumeRequest request = (case request of
       None \<Rightarrow> Some (GrpcStatus InvalidArgument ''missing request'')
     | Some req \<Rightarrow>
         if length (nur_VolumeId req) = 0 then Some (GrpcStatus InvalidArgument ''volume ID not provided'')
         else if nur_StagingTargetPath req = ''''
           then Some (GrpcStatus InvalidArgument ''staging target path not provided'')
         else None)"

definition NodeUnstageVolume :: "'w NodeService \<Rightarrow> NodeUnstageVolumeRequest option
    \<Rightarrow> ('w, unit option \<times> gerr option) go" where
  "NodeUnstageVolume n request = (case validateNodeUnstageVolumeRequest request of
       Some e \<Rightarrow> ret (None, Some e) | None \<Rightarrow> ret (Some (), None))"

section \<open>Publishing\<close>

definition validateRequestCapabilties :: "NodePublishVolumeRequest option \<Rightarrow> gerr option" where
  "validateRequestCapabilties request = (case request of
       None \<Rightarrow> Some (GrpcStatus InvalidArgument ''missing request'')
     | Some req \<Rightarrow>
         if length (npr_VolumeId req) = 0 then Some (GrpcStatus InvalidArgument ''volume ID not provided'')
         else if npr_TargetPath req = '''' then Some (GrpcStatus InvalidArgument ''target path not provided'')
         else if npr_VolumeCapability req = None
           then Some (GrpcStatus InvalidArgument ''volume capability not provided'')
         else None)"

definition validateNodePublishRequest :: "NodePublishVolumeRequest option \<Rightarrow> gerr option" where
  "validateNodePublishRequest request = (case validateRequestCapabilties request of
       Some e \<Rightarrow> Some e
     | None \<Rightarrow> (let capability = (case request of None \<Rightarrow> None | Some req \<Rightarrow> npr_VolumeCapability req) in
         if GetBlock capability \<noteq> None \<and> GetMount capability \<noteq> None
           then Some (GrpcStatus InvalidArgument ''cannot publish volume as both block and filesystem'')
         else if GetMount capability = None \<and> GetBlock capability = None
           then Some (GrpcStatus InvalidArgument ''volume mode is not specified'')
         else None))"

definition resizeFs :: "'w NodeService \<Rightarrow> string \<Rightarrow> string \<Rightarrow> ('w, gerr option) go" where
  "resizeFs n devicePath targetPath =
     bindG (ri_NeedResize (nd_resizer n) devicePath targetPath) (\<lambda>(ok, err).
       case err of
         Some e \<Rightarrow> ret (Some (GrpcStatus Internal (''need resize check failed on devicePath '' @ devicePath @
                     '' and targetPath '' @ targetPath @ '', error: '' @ Error_string e)))
       | None \<Rightarrow>
           if \<not> ok then ret None
           else bindG (ri_Resize (nd_resizer n) devicePath targetPath) (\<lambda>(ok, err).
             if \<not> ok \<or> err \<noteq> None then ret (Some (GrpcStatus Internal (''resize failed on path '' @ targetPath @
                 '', error: '' @ (case err of None \<Rightarrow> ''<nil>'' | Some e \<Rightarrow> Error_string e))))
             else ret None))"

definition ensureMountFileExists :: "'w NodeService \<Rightarrow> string \<Rightarrow> ('w, gerr option) go" where
  "ensureMountFileExists n mountFile =
     bindG (os_Stat (nd_os n) mountFile) (\<lambda>err.
       case err of
         None \<Rightarrow> ret None
       | Some e \<Rightarrow>
           if isErrNotExist e then
             bindG (os_OpenCreate (nd_os n) mountFile) (\<lambda>err. if err \<noteq> None then ret err else ret None)
           else ret (Some e))"

definition mountToTargetPath ::
  "'w NodeService \<Rightarrow> bool \<Rightarrow> string \<Rightarrow> device \<Rightarrow> string \<Rightarrow> string list \<Rightarrow> ('w, gerr option) go" where
  "mountToTargetPath n isBlock targetPath dev fsType mountOptions =
     bindG (if isBlock then ensureMountFileExists n targetPath else nd_dirMaker n targetPath) (\<lambda>err.
       if err \<noteq> None then ret err
       else bindG (mi_Mount (nd_mounter n) (dev_Path dev) targetPath fsType mountOptions) (\<lambda>err.
         if err \<noteq> None then ret err else ret None))"

definition mountOptionsFor :: "bool \<Rightarrow> string \<Rightarrow> string list" where
  "mountOptionsFor isBlock fsType =
     (if isBlock then [''bind''] else if fsType = ''xfs'' then [''nouuid''] else [])"

definition NodePublishVolume :: "'w NodeService \<Rightarrow> NodePublishVolumeRequest option
    \<Rightarrow> ('w, unit option \<times> gerr option) go" where
  "NodePublishVolume n request = (case validateNodePublishRequest request of
       Some e \<Rightarrow> ret (None, Some e)
     | None \<Rightarrow> deref request (\<lambda>req.
         let fsType = (case GetMount (npr_VolumeCapability req) of None \<Rightarrow> '''' | Some fs \<Rightarrow> fs);
             isBlock = (GetBlock (npr_VolumeCapability req) \<noteq> None);
             mountOptions = mountOptionsFor isBlock fsType;
             targetPath = npr_TargetPath req
         in bindG (getDeviceBySerialID (map_get (npr_VolumeContext req) serialKey) (nd_deviceLister n))
           (\<lambda>(dev, err).
             if err \<noteq> None then ret (None, err)
             else bindG (mi_IsLikelyNotMountPoint (nd_mounter n) targetPath) (\<lambda>(notMnt, err).
               if err \<noteq> None \<and> \<not> IsNotExist err
                 then ret (None, Some (GrpcStatus Internal (case err of None \<Rightarrow> '''' | Some e \<Rightarrow> Error_string e)))
               else bindG (if notMnt then mountToTargetPath n isBlock targetPath dev fsType mountOptions
                           else ret None) (\<lambda>err.
                 if err \<noteq> None then ret (None, err)
                 else bindG (if \<not> isBlock then resizeFs n (dev_Path dev) targetPath else ret None) (\<lambda>err.
                   if err \<noteq> None then ret (None, err) else ret (Some (), None)))))))"

definition validateNodeUnpublishRequest :: "NodeUnpublishVolumeRequest option \<Rightarrow> gerr option" where
  "validateNodeUnpublishRequest request =
     (let volumeId = (case request of None \<Rightarrow> '''' | Some req \<Rightarrow> nupr_VolumeId req);
          targetPath = (case request of None \<Rightarrow> '''' | Some req \<Rightarrow> nupr_TargetPath req)
      in if length volumeId = 0 then Some (GrpcStatus InvalidArgument ''volume ID not provided'')
         else if length targetPath = 0 then Some (GrpcStatus InvalidArgument ''target path not provided'')
         else None)"

definition NodeUnpublishVolume :: "'w NodeService \<Rightarrow> NodeUnpublishVolumeRequest option
    \<Rightarrow> ('w, unit option \<times> gerr option) go" where
  "NodeUnpublishVolume n request = (case validateNodeUnpublishRequest request of
       Some e \<Rightarrow> ret (None, Some e)
     | None \<Rightarrow> deref request (\<lambda>req.
         let targetPath = nupr_TargetPath req in
         bindG (mi_Unmount (nd_mounter n) targetPath) (\<lambda>err.
           if err \<noteq> None then ret (None, err)
           else bindG (os_RemoveAll (nd_os n) targetPath) (\<lambda>err.
             case err of
               Some e \<Rightarrow> ret (None, Some (WrapErr (''remove target path: '' @ Error_string e) e))
             | None \<Rightarrow> ret (Some (), None)))))"

section \<open>Statistics, expansion, information\<close>

definition usageOf :: "VolumeStats \<Rightarrow> VolumeUsage list" where
  "usageOf stats =
     \<lparr>vu_Unit = BYTES, vu_Available = sint (st_AvailableBytes stats), vu_Total = sint (st_TotalBytes stats),
      vu_Used = sint (st_UsedBytes stats)\<rparr> #
     (if st_TotalInodes stats \<noteq> 0 then
        [\<lparr>vu_Unit = INODES, vu_Available = sint (st_AvailableInodes stats),
          vu_Total = sint (st_TotalInodes stats), vu_Used = sint (st_UsedInodes stats)\<rparr>] else [])"

definition NodeGetVolumeStats :: "'w NodeService \<Rightarrow> NodeGetVolumeStatsRequest option
    \<Rightarrow> ('w, VolumeUsage list option \<times> gerr option) go" where
  "NodeGetVolumeStats n request =
     (let volumeId = (case request of None \<Rightarrow> '''' | Some req \<Rightarrow> ngr_VolumeId req);
          volumePath = (case request of None \<Rightarrow> '''' | Some req \<Rightarrow> ngr_VolumePath req)
      in if length volumeId = 0
           then ret (None, Some (GrpcStatus InvalidArgument ''NodeGetVolumeStats volume ID was empty''))
         else if length volumePath = 0
           then ret (None, Some (GrpcStatus InvalidArgument ''NodeGetVolumeStats volume path was empty''))
         else bindG (os_PathExists (nd_os n) volumePath) (\<lambda>(exists, err).
           case err of
             Some e \<Rightarrow> ret (None, Some (GrpcStatus Internal
                 (''unknown error when stat on '' @ volumePath @ '': '' @ Error_string e)))
           | None \<Rightarrow>
               if \<not> exists then ret (None, Some (GrpcStatus NotFound (''path '' @ volumePath @ '' does not exist'')))
               else bindG (mi_IsBlockDevice (nd_mounter n) volumePath) (\<lambda>(isBlock, err).
                 case err of
                   Some e \<Rightarrow> ret (None, Some (GrpcStatus Internal
                       (''failed to determine whether '' @ volumePath @ '' is block device: '' @ Error_string e)))
                 | None \<Rightarrow>
                     if isBlock then
                       bindG (mi_GetBlockSizeBytes (nd_mounter n) volumePath) (\<lambda>(bcap, err).
                         case err of
                           Some e \<Rightarrow> ret (None, Some (GrpcStatus Internal
                               (''failed to get block capacity on path '' @ volumePath @ '': '' @ Error_string e)))
                         | None \<Rightarrow> ret (Some [\<lparr>vu_Unit = BYTES, vu_Available = 0, vu_Total = bcap, vu_Used = 0\<rparr>], None))
                     else
                       bindG (mi_GetVolumeStats (nd_mounter n) volumePath) (\<lambda>(stats, err).
                         case err of
                           Some e \<Rightarrow> ret (None, Some (GrpcStatus Internal
                               (''failed to get fs info on path '' @ volumePath @ '': '' @ Error_string e)))
                         | None \<Rightarrow> ret (Some (usageOf stats), None)))))"

definition NodeExpandVolume :: "'w NodeService \<Rightarrow> NodeExpandVolumeRequest option
    \<Rightarrow> ('w, unit option \<times> gerr option) go" where
  "NodeExpandVolume n request =
     (let volumeID = (case request of None \<Rightarrow> '''' | Some req \<Rightarrow> ner_VolumeId req);
          volumePath = (case request of None \<Rightarrow> '''' | Some req \<Rightarrow> ner_VolumePath req);
          capability = (case request of None \<Rightarrow> None | Some req \<Rightarrow> ner_VolumeCapability req)
      in if length volumeID = 0 then ret (None, Some (GrpcStatus InvalidArgument ''no volume_id is provided''))
         else if length volumePath = 0 then ret (None, Some (GrpcStatus InvalidArgument ''no volume_path is provided''))
         else if GetBlock capability \<noteq> None then ret (Some (), None)
         else bindG (nd_devicePathGetter n volumePath) (\<lambda>(devicePath, err).
           case err of
             Some e \<Rightarrow> if \<not> isMountDeviceNotFound e then ret (None, Some e)
                       else ret (None, Some (GrpcStatus NotFound (''device path for '' @ volumePath @ '' not found'')))
           | None \<Rightarrow> bindG (resizeFs n devicePath volumePath) (\<lambda>err.
               if err \<noteq> None then ret (None, err) else ret (Some (), None))))"

definition NodeGetInfo :: "'w NodeService \<Rightarrow> ('w, string option \<times> gerr option) go" where
  "NodeGetInfo n = ret (Some (nd_nodeID n), None)"

definition NodeGetCapabilities :: "('w, NodeCap list option \<times> gerr option) go" where
  "NodeGetCapabilities = ret (Some (map (\<lambda>c. c) nodeCaps), None)"

end
