(* ===== verification/Node_Guarantees.thy ===== *)
theory Node_Guarantees
  imports Node_Service
begin

text \<open>
  What the node service guarantees, for every behaviour of the kernel and of the commands: which device it
  formats and mounts and with which options, that it does so only when needed, and that a path is removed
  only after it was unmounted.
\<close>

section \<open>Finding the device\<close>

text \<open>The device is the first of the list with the serial number, under \<open>/dev\<close>.\<close>

lemma findDevice_Some:
  assumes "findDevice sn ds = Some d"
  obtains pre d' post where "ds = pre @ d' # post" and "dev_SerialID d' = sn"
    and "\<forall>x \<in> set pre. dev_SerialID x \<noteq> sn" and "d = d'\<lparr>dev_Path := ''/dev/'' @ dev_Name d'\<rparr>"
proof -
  have "\<exists>pre d' post. ds = pre @ d' # post \<and> dev_SerialID d' = sn \<and>
      (\<forall>x \<in> set pre. dev_SerialID x \<noteq> sn) \<and> d = d'\<lparr>dev_Path := ''/dev/'' @ dev_Name d'\<rparr>"
    using assms
  proof (induction ds)
    case (Cons a ds)
    show ?case
    proof (cases "dev_SerialID a = sn")
      case True
      with Cons.prems show ?thesis by (intro exI [of _ "[]"]) auto
    next
      case False
      with Cons obtain pre d' post where "ds = pre @ d' # post" "dev_SerialID d' = sn"
        "\<forall>x \<in> set pre. dev_SerialID x \<noteq> sn" "d = d'\<lparr>dev_Path := ''/dev/'' @ dev_Name d'\<rparr>" by auto
      with False show ?thesis by (intro exI [of _ "a # pre"]) auto
    qed
  qed simp
  with that show thesis by blast
qed

text \<open>The device that the output of \<open>lsblk\<close> gives for a serial number.\<close>

definition listedDevice :: "reply \<Rightarrow> string \<Rightarrow> device \<Rightarrow> bool" where
  "listedDevice x sn d \<longleftrightarrow> (\<exists>out ds. text_of x = (out, None) \<and> Unmarshal_devices out = Inr ds \<and>
     findDevice sn ds = Some d)"

lemma getDeviceBySerialID_log:
  assumes "getDeviceBySerialID sn (sys_text k lsblk) w = (r, w')"
  obtains x d err where "nw_log w' = nw_log w @ [(lsblk, x)]" and "r = Ok (d, err)"
    and "err = None \<longrightarrow> listedDevice x sn d"
proof -
  obtain y u where y: "sys_text k lsblk w = (y, u)" by fastforce
  from sys_log(1) [OF this] obtain x where x: "y = Ok (text_of x)" "nw_log u = nw_log w @ [(lsblk, x)]"
    by blast
  obtain out e where oe: "text_of x = (out, e)" by fastforce
  from assms y x(1) oe have run: "(case e of
         Some e \<Rightarrow> ret (zero_device, Some (case exitError e of
             Some (m, stderr) \<Rightarrow> PlainErr (Error_string e @ '' lsblk failed with '' @ stderr)
           | None \<Rightarrow> e))
       | None \<Rightarrow> (case Unmarshal_devices out of
             Inl e \<Rightarrow> ret (zero_device, Some e)
           | Inr ds \<Rightarrow> (case findDevice sn ds of
                 Some d \<Rightarrow> ret (d, None)
               | None \<Rightarrow> ret (zero_device, Some (PlainErr (''couldn'' @ [CHR 0x27] @ ''t find device by serial id'')))))) u
      = (r, w')"
    by (simp add: getDeviceBySerialID_def)
  then have "w' = u" and "\<exists>d err. r = Ok (d, err) \<and> (err = None \<longrightarrow> listedDevice x sn d)"
    using oe by (auto simp: listedDevice_def split: option.splits sum.splits)
  with x(2) that show thesis by auto
qed

lemma nodeService_sel [simp]:
  "nd_deviceLister (NewNodeService k i) = sys_text k lsblk"
  "nd_fsMaker (NewNodeService k i) = makeFS k"
  "nd_mounter (NewNodeService k i) = NewNodeMounter k"
  "nd_resizer (NewNodeService k i) = NewResizer k"
  "nd_dirMaker (NewNodeService k i) = (\<lambda>p. sys_err k (MkdirAll p))"
  "os_Stat (nd_os (NewNodeService k i)) = (\<lambda>p. sys_err k (OsStat p))"
  "os_OpenCreate (nd_os (NewNodeService k i)) = (\<lambda>p. sys_err k (OpenCreate p))"
  "os_RemoveAll (nd_os (NewNodeService k i)) = (\<lambda>p. sys_err k (RemoveAll p))"
  "mi_IsLikelyNotMountPoint (NewNodeMounter k) = (\<lambda>p. sys_bool k (IsLikelyNotMountPoint p))"
  "mi_Mount (NewNodeMounter k) = (\<lambda>src tgt fs opts. sys_err k (Mount src tgt fs opts))"
  "mi_Unmount (NewNodeMounter k) = (\<lambda>p. sys_err k (Unmount p))"
  "ri_NeedResize (NewResizer k) = (\<lambda>d m. sys_bool k (NeedResize d m))"
  "ri_Resize (NewResizer k) = (\<lambda>d m. sys_bool k (Resize d m))"
  by (simp_all add: NewNodeService_def NewNodeMounter_def NewResizer_def)

section \<open>Staging\<close>

lemma makeFS_log:
  assumes "makeFS k dev fs w = (r, w')"
  shows "(mkfsCommand dev fs = None \<and> w' = w) \<or>
    (\<exists>cmd y. mkfsCommand dev fs = Some cmd \<and> nw_log w' = nw_log w @ [(Exec cmd, y)])"
proof (cases "mkfsCommand dev fs")
  case None
  with assms show ?thesis by (simp add: makeFS_def)
next
  case (Some cmd)
  obtain y u where y: "sys_err k (Exec cmd) w = (y, u)" by fastforce
  from sys_log(3) [OF y] obtain x where x: "y = Ok (err_of x)" "nw_log u = nw_log w @ [(Exec cmd, x)]" by blast
  with assms Some y have "w' = u"
    by (auto simp: makeFS_def split: option.splits)
  with Some x show ?thesis by auto
qed

lemma NodeStageVolume_log:
  assumes run: "NodeStageVolume (NewNodeService k i) (Some req) w = (r, w')"
  shows "\<exists>l. nw_log w' = nw_log w @ l \<and> (l = [] \<or> (\<exists>x. l = [(lsblk, x)]) \<or>
    (\<exists>x y d fsType cmd. l = [(lsblk, x), (Exec cmd, y)] \<and>
       listedDevice x (map_get (nsr_VolumeContext req) ''serial'') d \<and> dev_Fstype d = '''' \<and>
       GetMount (nsr_VolumeCapability req) = Some fsType \<and> mkfsCommand (dev_Path d) fsType = Some cmd))"
proof (cases "validateNodeStageVolumeRequest (Some req) = None \<and> GetMount (nsr_VolumeCapability req) \<noteq> None")
  case False
  with run show ?thesis by (auto simp: NodeStageVolume_def split: option.splits)
next
  case True
  then obtain fsType where valid: "validateNodeStageVolumeRequest (Some req) = None"
    and fs: "GetMount (nsr_VolumeCapability req) = Some fsType" by auto
  let ?sn = "map_get (nsr_VolumeContext req) ''serial''"
  obtain q u where q: "getDeviceBySerialID ?sn (sys_text k lsblk) w = (q, u)" by fastforce
  then obtain x d err where log: "nw_log u = nw_log w @ [(lsblk, x)]" and q': "q = Ok (d, err)"
    and d: "err = None \<longrightarrow> listedDevice x ?sn d" by (rule getDeviceBySerialID_log)
  from run valid fs q q' have rest: "(if err \<noteq> None then ret (None, err)
      else if dev_Fstype d \<noteq> '''' then ret (Some (), None)
      else bindG (makeFS k (dev_Path d) fsType) (\<lambda>err.
        if err \<noteq> None then ret (None, err) else ret (Some (), None))) u = (r, w')"
    by (simp add: NodeStageVolume_def serialKey_def cong: if_cong)
  show ?thesis
  proof (cases "err = None \<and> dev_Fstype d = ''''")
    case False
    with rest have "w' = u" by (auto split: if_splits)
    with log show ?thesis by auto
  next
    case fmt: True
    obtain z v where z: "makeFS k (dev_Path d) fsType u = (z, v)" by fastforce
    with rest fmt have "w' = v" by (cases z) (auto split: if_splits)
    with makeFS_log [OF z] log d fmt fs show ?thesis by auto
  qed
qed

text \<open>C6 Staging a volume calls nothing but \<open>lsblk\<close> and then, at most once, \<open>mkfs\<close>; and \<open>mkfs\<close> only on the device
  that the listing just made shows with the serial number of the volume and without a file system, with
  the file system type of the request.  A device that has a file system is never formatted.\<close>

theorem stage_formats:
  assumes run: "NodeStageVolume (NewNodeService k i) (Some req) w = (r, w')"
  shows "\<exists>l. nw_log w' = nw_log w @ l \<and> (l = [] \<or> (\<exists>x. l = [(lsblk, x)]) \<or>
    (\<exists>x y d fsType cmd. l = [(lsblk, x), (Exec cmd, y)] \<and>
       listedDevice x (map_get (nsr_VolumeContext req) ''serial'') d \<and> dev_Fstype d = '''' \<and>
       GetMount (nsr_VolumeCapability req) = Some fsType \<and> mkfsCommand (dev_Path d) fsType = Some cmd))"
  using run by (rule NodeStageVolume_log)

text \<open>A listing in the form \<open>lsblk\<close> prints it, of a formatted and of a new disk.\<close>

definition q :: string where "q = [CHR 0x22]"

definition jsonField :: "string \<Rightarrow> string \<Rightarrow> string" where
  "jsonField k v = q @ k @ q @ '':'' @ v"

definition jsonDevice :: "string \<Rightarrow> string \<Rightarrow> string \<Rightarrow> string" where
  "jsonDevice sn fs name = ''{'' @ jsonField ''serial'' sn @ '', '' @ jsonField ''fstype'' fs @ '', '' @
     jsonField ''name'' (q @ name @ q) @ ''}''"

definition sampleListing :: string where
  "sampleListing = ''{ '' @ q @ ''blockdevices'' @ q @ '': ['' @ jsonDevice ''null'' ''null'' ''sr0'' @ '', '' @
     jsonDevice (q @ ''uid-1'' @ q) (q @ ''ext4'' @ q) ''sda'' @ '', '' @
     jsonDevice (q @ ''uid-2'' @ q) ''null'' ''sdb'' @ ''] }''"

definition listingKernel :: "unit kernel" where
  "listingKernel = \<lparr>k_call = (\<lambda>c e. (if c = lsblk then RText sampleListing None
     else case c of IsLikelyNotMountPoint p \<Rightarrow> RBool True None | NeedResize d m \<Rightarrow> RBool False None
       | _ \<Rightarrow> RErr None, e))\<rparr>"

definition noCalls :: "unit nworld" where
  "noCalls = \<lparr>nw_env = (), nw_log = []\<rparr>"

definition sampleStage :: "string \<Rightarrow> NodeStageVolumeRequest" where
  "sampleStage sn = \<lparr>nsr_VolumeId = ''pvc-a'', nsr_StagingTargetPath = ''/staging'',
     nsr_VolumeCapability = Some \<lparr>vc_AccessType = Some (AccessMount ''ext4''), vc_AccessMode = None\<rparr>,
     nsr_VolumeContext = [(''serial'', sn)]\<rparr>"

definition afterStage :: "unit nworld" where
  "afterStage = snd (NodeStageVolume (NewNodeService listingKernel ''ns/vm1'') (Some (sampleStage ''uid-2'')) noCalls)"

theorem stage_formats_witness:
  "\<exists>x y d cmd. nw_log afterStage = [(lsblk, x), (Exec cmd, y)] \<and> listedDevice x ''uid-2'' d \<and>
     dev_Fstype d = '''' \<and> mkfsCommand (dev_Path d) ''ext4'' = Some cmd"
proof -
  obtain r where run: "NodeStageVolume (NewNodeService listingKernel ''ns/vm1'') (Some (sampleStage ''uid-2'')) noCalls
      = (r, afterStage)" by (metis afterStage_def prod.collapse)
  have "length (nw_log afterStage) = 2" by code_simp
  with stage_formats [OF run] show ?thesis
    by (auto simp: noCalls_def sampleStage_def map_get_def GetMount_def)
qed

section \<open>Publishing\<close>

definition fsTypeOf :: "NodePublishVolumeRequest \<Rightarrow> string" where
  "fsTypeOf req = (case GetMount (npr_VolumeCapability req) of None \<Rightarrow> '''' | Some fs \<Rightarrow> fs)"

definition wantsBlock :: "NodePublishVolumeRequest \<Rightarrow> bool" where
  "wantsBlock req \<longleftrightarrow> GetBlock (npr_VolumeCapability req) \<noteq> None"

definition serialOf :: "NodePublishVolumeRequest \<Rightarrow> string" where
  "serialOf req = map_get (npr_VolumeContext req) ''serial''"

text \<open>The mount that a request asks for, of a device.\<close>

definition mountCall :: "NodePublishVolumeRequest \<Rightarrow> device \<Rightarrow> call" where
  "mountCall req d = Mount (dev_Path d) (npr_TargetPath req) (fsTypeOf req)
     (mountOptionsFor (wantsBlock req) (fsTypeOf req))"

definition isMount :: "call \<Rightarrow> bool" where
  "isMount c = (case c of Mount s t f os \<Rightarrow> True | _ \<Rightarrow> False)"

text \<open>The part of the publication after the two questions about the device and the mount point.\<close>

definition publishRest :: "'e kernel \<Rightarrow> string \<Rightarrow> NodePublishVolumeRequest \<Rightarrow> device \<Rightarrow> bool
    \<Rightarrow> ('e nworld, unit option \<times> gerr option) go" where
  "publishRest k i req d notMnt =
     bindG (if notMnt then mountToTargetPath (NewNodeService k i) (wantsBlock req) (npr_TargetPath req) d
              (fsTypeOf req) (mountOptionsFor (wantsBlock req) (fsTypeOf req)) else ret None) (\<lambda>err.
       if err \<noteq> None then ret (None, err)
       else bindG (if \<not> wantsBlock req then resizeFs (NewNodeService k i) (dev_Path d) (npr_TargetPath req)
                   else ret None) (\<lambda>err.
         if err \<noteq> None then ret (None, err) else ret (Some (), None)))"

lemma NodePublishVolume_eq:
  assumes "validateNodePublishRequest (Some req) = None"
  shows "NodePublishVolume (NewNodeService k i) (Some req) =
    bindG (getDeviceBySerialID (serialOf req) (sys_text k lsblk)) (\<lambda>(dev, err).
      if err \<noteq> None then ret (None, err)
      else bindG (sys_bool k (IsLikelyNotMountPoint (npr_TargetPath req))) (\<lambda>(notMnt, err).
        if err \<noteq> None \<and> \<not> IsNotExist err
          then ret (None, Some (GrpcStatus Internal (case err of None \<Rightarrow> '''' | Some e \<Rightarrow> Error_string e)))
        else publishRest k i req dev notMnt))"
  unfolding NodePublishVolume_def publishRest_def serialOf_def serialKey_def fsTypeOf_def wantsBlock_def
    Let_def assms option.case deref_Some nodeService_sel ..

lemma resizeFs_calls: "keeps (calls_only (\<lambda>c. \<not> isMount c)) (resizeFs (NewNodeService k i) dev tgt)"
  unfolding resizeFs_def nodeService_sel
  by (intro calls_basic calls_sys) (simp_all add: isMount_def)

lemma mountToTargetPath_calls:
  "keeps (calls_only (\<lambda>c. isMount c \<longrightarrow> c = Mount (dev_Path d) tgt fs opts))
     (mountToTargetPath (NewNodeService k i) blk tgt d fs opts)"
  unfolding mountToTargetPath_def ensureMountFileExists_def nodeService_sel
  by (intro calls_basic calls_sys) (simp_all add: isMount_def)

lemma publishRest_calls:
  "keeps (calls_only (\<lambda>c. isMount c \<longrightarrow> notMnt \<and> c = mountCall req d)) (publishRest k i req d notMnt)"
proof -
  have "keeps (calls_only (\<lambda>c. isMount c \<longrightarrow> notMnt \<and> c = mountCall req d))
      (resizeFs (NewNodeService k i) (dev_Path d) (npr_TargetPath req))"
    by (rule keeps_mono [OF resizeFs_calls]) (fastforce simp: calls_only_def)
  moreover have "notMnt \<Longrightarrow> keeps (calls_only (\<lambda>c. isMount c \<longrightarrow> notMnt \<and> c = mountCall req d))
      (mountToTargetPath (NewNodeService k i) (wantsBlock req) (npr_TargetPath req) d (fsTypeOf req)
         (mountOptionsFor (wantsBlock req) (fsTypeOf req)))"
    by (rule keeps_mono [OF mountToTargetPath_calls]) (auto simp: calls_only_def mountCall_def)
  ultimately show ?thesis
    unfolding publishRest_def by (intro calls_basic)
qed

text \<open>C10 Publishing a volume mounts, if anything, the device that the listing of the same call shows with the
  serial number of the volume, on the target path of the request, with its file system type and with the
  options for block volumes or xfs; and only after the mounter said, in the same call, that the target is
  not a mount point.  A target that is mounted is left alone.\<close>

theorem node_publish_mounts:
  assumes run: "NodePublishVolume (NewNodeService k i) (Some req) w = (r, w')"
  shows "\<exists>l. nw_log w' = nw_log w @ l \<and> (\<forall>c \<in> fst ` set l. isMount c \<longrightarrow>
    (\<exists>x y l' d. l = (lsblk, x) # (IsLikelyNotMountPoint (npr_TargetPath req), y) # l' \<and> fst (bool_of y) \<and>
       listedDevice x (serialOf req) d \<and> c = mountCall req d))"
proof (cases "validateNodePublishRequest (Some req)")
  case (Some e)
  with run show ?thesis by (auto simp: NodePublishVolume_def)
next
  case None
  obtain p u where p: "getDeviceBySerialID (serialOf req) (sys_text k lsblk) w = (p, u)" by fastforce
  then obtain x d err where log: "nw_log u = nw_log w @ [(lsblk, x)]" and p': "p = Ok (d, err)"
    and d: "err = None \<longrightarrow> listedDevice x (serialOf req) d" by (rule getDeviceBySerialID_log)
  show ?thesis
  proof (cases err)
    case (Some e)
    with run None p p' have "w' = u" by (simp add: NodePublishVolume_eq)
    with log show ?thesis by (intro exI [of _ "[(lsblk, x)]"]) (auto simp: isMount_def lsblk_def)
  next
    case ok: None
    obtain m v where m: "sys_bool k (IsLikelyNotMountPoint (npr_TargetPath req)) u = (m, v)" by fastforce
    from sys_log(2) [OF m] obtain y where y: "m = Ok (bool_of y)"
      "nw_log v = nw_log u @ [(IsLikelyNotMountPoint (npr_TargetPath req), y)]" by blast
    obtain notMnt err' where bo: "bool_of y = (notMnt, err')" by fastforce
    from run None p p' ok m y(1) bo have "w' = v \<or> publishRest k i req d notMnt v = (r, w')"
      by (auto simp: NodePublishVolume_eq split: if_splits)
    then obtain l' where l': "nw_log w' = nw_log v @ l'"
      "\<forall>z \<in> set l'. isMount (fst z) \<longrightarrow> notMnt \<and> fst z = mountCall req d"
      using keepsD [OF publishRest_calls] by (fastforce simp: calls_only_def)
    with log y(2) d ok bo show ?thesis
      by (intro exI [of _ "(lsblk, x) # (IsLikelyNotMountPoint (npr_TargetPath req), y) # l'"])
        (auto simp: isMount_def lsblk_def)
  qed
qed

definition samplePublishNode :: NodePublishVolumeRequest where
  "samplePublishNode = \<lparr>npr_VolumeId = ''pvc-a'', npr_TargetPath = ''/target'',
     npr_VolumeCapability = Some \<lparr>vc_AccessType = Some (AccessMount ''xfs''), vc_AccessMode = None\<rparr>,
     npr_VolumeContext = [(''serial'', ''uid-1'')]\<rparr>"

definition afterNodePublish :: "unit nworld" where
  "afterNodePublish = snd (NodePublishVolume (NewNodeService listingKernel ''ns/vm1'') (Some samplePublishNode) noCalls)"

theorem node_publish_mounts_witness:
  "list_ex (\<lambda>z. fst z = Mount ''/dev/sda'' ''/target'' ''xfs'' [''nouuid'']) (nw_log afterNodePublish) \<and>
   list_all (\<lambda>z. isMount (fst z) \<longrightarrow>
     (\<exists>x y l' d. nw_log afterNodePublish = (lsblk, x) # (IsLikelyNotMountPoint ''/target'', y) # l' \<and>
        fst (bool_of y) \<and> listedDevice x ''uid-1'' d \<and> fst z = mountCall samplePublishNode d))
     (nw_log afterNodePublish)"
proof -
  obtain r where run: "NodePublishVolume (NewNodeService listingKernel ''ns/vm1'') (Some samplePublishNode) noCalls
      = (r, afterNodePublish)" by (metis afterNodePublish_def prod.collapse)
  have "list_ex (\<lambda>z. fst z = Mount ''/dev/sda'' ''/target'' ''xfs'' [''nouuid'']) (nw_log afterNodePublish)"
    by code_simp
  moreover have "npr_TargetPath samplePublishNode = ''/target''" "serialOf samplePublishNode = ''uid-1''"
    by (simp_all add: samplePublishNode_def serialOf_def map_get_def)
  ultimately show ?thesis
    using node_publish_mounts [OF run] by (simp add: noCalls_def list_all_iff)
qed

section \<open>Unpublishing\<close>

lemma sys_err_log: "\<exists>x v. sys_err k c w = (Ok (err_of x), v) \<and> nw_log v = nw_log w @ [(c, x)]"
  using sys_log(3) [of k c w] by (metis surj_pair)

text \<open>Unpublishing first unmounts the target path; only when that succeeded it removes the path, and it
  succeeds only when both did.  An unmount that failed leaves everything under the path alone.\<close>

theorem node_unpublish_order:
  assumes run: "NodeUnpublishVolume (NewNodeService k i) (Some req) w = (r, w')"
    and args: "nupr_VolumeId req \<noteq> ''''" "nupr_TargetPath req \<noteq> ''''"
  shows "(\<exists>x e. nw_log w' = nw_log w @ [(Unmount (nupr_TargetPath req), x)] \<and> err_of x = Some e \<and>
       r = Ok (None, Some e)) \<or>
    (\<exists>x y. nw_log w' = nw_log w @ [(Unmount (nupr_TargetPath req), x), (RemoveAll (nupr_TargetPath req), y)] \<and>
       err_of x = None \<and> (r = Ok (Some (), None) \<longleftrightarrow> err_of y = None))"
proof -
  let ?t = "nupr_TargetPath req"
  obtain x u where u: "sys_err k (Unmount ?t) w = (Ok (err_of x), u)" "nw_log u = nw_log w @ [(Unmount ?t, x)]"
    using sys_err_log by blast
  obtain y v where v: "sys_err k (RemoveAll ?t) u = (Ok (err_of y), v)" "nw_log v = nw_log u @ [(RemoveAll ?t, y)]"
    using sys_err_log by blast
  have "validateNodeUnpublishRequest (Some req) = None"
    using args by (simp add: validateNodeUnpublishRequest_def)
  with run u(1) v(1) show ?thesis
    using u(2) v(2)
    by (cases "err_of x"; cases "err_of y") (auto simp: NodeUnpublishVolume_def Let_def)
qed

definition sampleNodeUnpublish :: NodeUnpublishVolumeRequest where
  "sampleNodeUnpublish = \<lparr>nupr_VolumeId = ''pvc-a'', nupr_TargetPath = ''/target''\<rparr>"

theorem node_unpublish_order_witness:
  "\<exists>x y. nw_log (snd (NodeUnpublishVolume (NewNodeService listingKernel ''n'') (Some sampleNodeUnpublish) noCalls)) =
     [(Unmount ''/target'', x), (RemoveAll ''/target'', y)]"
proof -
  obtain r w' where run: "NodeUnpublishVolume (NewNodeService listingKernel ''n'') (Some sampleNodeUnpublish) noCalls
      = (r, w')" by fastforce
  moreover have "length (nw_log (snd (NodeUnpublishVolume (NewNodeService listingKernel ''n'')
      (Some sampleNodeUnpublish) noCalls))) = 2" by code_simp
  ultimately show ?thesis
    using node_unpublish_order [OF run] by (auto simp: sampleNodeUnpublish_def noCalls_def)
qed

section \<open>A volume context without a serial number\<close>

text \<open>C40 A volume context without a serial number is read as the empty serial number, and a device without
  one has the empty serial number: staging then takes the first device of the listing that reports no
  serial number, and formats it when it reports no file system.\<close>

theorem stage_without_serial:
  assumes req: "nsr_VolumeId req \<noteq> ''''" "nsr_StagingTargetPath req \<noteq> ''''"
    "GetMount (nsr_VolumeCapability req) = Some fsType" "map_of (nsr_VolumeContext req) ''serial'' = None"
    and listing: "sys_text k lsblk w = (Ok (out, None), u)" "Unmarshal_devices out = Inr ds"
    and dev: "findDevice '''' ds = Some d" "dev_Fstype d = ''''"
    and fs: "mkfsCommand (dev_Path d) fsType = Some cmd"
  shows "\<exists>y. nw_log (snd (NodeStageVolume (NewNodeService k i) (Some req) w)) = nw_log u @ [(Exec cmd, y)]"
proof -
  have "GetMount None = None" by simp
  with req have valid: "validateNodeStageVolumeRequest (Some req) = None"
    by (cases "nsr_VolumeCapability req") (auto simp: validateNodeStageVolumeRequest_def)
  have sn: "map_get (nsr_VolumeContext req) serialKey = ''''"
    using req(4) by (simp add: map_get_def serialKey_def)
  have get: "getDeviceBySerialID '''' (sys_text k lsblk) w = (Ok (d, None), u)"
    using listing dev by (simp add: getDeviceBySerialID_def)
  obtain r v where mk: "makeFS k (dev_Path d) fsType u = (r, v)" by fastforce
  with makeFS_log [OF mk] fs obtain y where "nw_log v = nw_log u @ [(Exec cmd, y)]" by auto
  moreover have "snd (NodeStageVolume (NewNodeService k i) (Some req) w) = v"
    using valid req(3) sn get dev(2) mk by (cases r) (auto simp: NodeStageVolume_def)
  ultimately show ?thesis by simp
qed

theorem stage_without_serial_witness:
  "\<exists>y. nw_log (snd (NodeStageVolume (NewNodeService listingKernel ''n'')
      (Some ((sampleStage '''')\<lparr>nsr_VolumeContext := []\<rparr>)) noCalls)) =
    [(lsblk, RText sampleListing None),
     (Exec [''mkfs'', ''-m'', ''0'', ''-F'', ''-t'', ''ext4'', ''/dev/sr0''], y)]"
proof -
  let ?req = "(sampleStage '''')\<lparr>nsr_VolumeContext := []\<rparr>"
  define d where "d = zero_device\<lparr>dev_Name := ''sr0'', dev_Path := ''/dev/sr0''\<rparr>"
  have "sys_text listingKernel lsblk noCalls =
      (Ok (sampleListing, None), \<lparr>nw_env = (), nw_log = [(lsblk, RText sampleListing None)]\<rparr>)"
    by (simp add: sys_text_def syscall_def listingKernel_def noCalls_def bindG_def)
  moreover have "(case Unmarshal_devices sampleListing of Inl e \<Rightarrow> None | Inr ds \<Rightarrow> findDevice '''' ds) =
      Some (zero_device\<lparr>dev_Name := ''sr0'', dev_Path := ''/dev/sr0''\<rparr>)" by code_simp
  then obtain ds where "Unmarshal_devices sampleListing = Inr ds" and "findDevice '''' ds = Some d"
    by (auto simp: d_def split: sum.splits)
  moreover have "mkfsCommand ''/dev/sr0'' ''ext4'' =
      Some [''mkfs'', ''-m'', ''0'', ''-F'', ''-t'', ''ext4'', ''/dev/sr0'']" by code_simp
  ultimately show ?thesis
    using stage_without_serial [of ?req "''ext4''" listingKernel noCalls sampleListing
        "\<lparr>nw_env = (), nw_log = [(lsblk, RText sampleListing None)]\<rparr>" ds d
        "[''mkfs'', ''-m'', ''0'', ''-F'', ''-t'', ''ext4'', ''/dev/sr0'']" "''n''"]
    by (simp add: sampleStage_def GetMount_def d_def zero_device_def)
qed

end
