(* ===== verification/Go_Flags.thy ===== *)
theory Go_Flags
  imports Go_Strings
begin

text \<open>
  Package flag of the standard library, as far as the driver's command line needs it: a set of string
  and boolean flags, and \<open>FlagSet.Parse\<close> with \<open>ContinueOnError\<close>.  A flag writes into a variable, here
  a field of a record \<open>'c\<close>; parsing stops at the first argument that is no flag and drops the rest.
\<close>

section \<open>Flags\<close>

record 'c flag =
  fl_Name :: string
  fl_IsBool :: bool
  fl_Set :: "string \<Rightarrow> 'c \<Rightarrow> string + 'c"

definition ParseBool :: "string \<Rightarrow> bool option" where
  "ParseBool s =
     (if s \<in> {''1'', ''t'', ''T'', ''true'', ''TRUE'', ''True''} then Some True
      else if s \<in> {''0'', ''f'', ''F'', ''false'', ''FALSE'', ''False''} then Some False
      else None)"

definition StringVar :: "string \<Rightarrow> (string \<Rightarrow> 'c \<Rightarrow> 'c) \<Rightarrow> 'c flag" where
  "StringVar name assign = \<lparr>fl_Name = name, fl_IsBool = False, fl_Set = (\<lambda>s c. Inr (assign s c))\<rparr>"

definition BoolVar :: "string \<Rightarrow> (bool \<Rightarrow> 'c \<Rightarrow> 'c) \<Rightarrow> 'c flag" where
  "BoolVar name assign = \<lparr>fl_Name = name, fl_IsBool = True, fl_Set = (\<lambda>s c.
     case ParseBool s of None \<Rightarrow> Inl ''parse error'' | Some b \<Rightarrow> Inr (assign b c))\<rparr>"

section \<open>Parsing\<close>

definition ErrHelp :: gerr where
  "ErrHelp = PlainErr ''flag: help requested''"

text \<open>\<open>name=value\<close>, split at the first equals sign that is not at the front.\<close>

definition splitValue :: "string \<Rightarrow> string \<times> string option" where
  "splitValue s = (case s of
       [] \<Rightarrow> ([], None)
     | x # xs \<Rightarrow> if CHR ''='' \<in> set xs
         then (x # takeWhile (\<lambda>c. c \<noteq> CHR ''='') xs, Some (tl (dropWhile (\<lambda>c. c \<noteq> CHR ''='') xs)))
         else (s, None))"

text \<open>The name part of an argument with one or two dashes, when it is a flag at all.\<close>

datatype arg = NotFlag | Terminator | Flag string

definition classify :: "string \<Rightarrow> arg" where
  "classify s =
     (if length s < 2 \<or> hd s \<noteq> CHR ''-'' then NotFlag
      else if s = ''--'' then Terminator
      else if s ! 1 = CHR ''-'' then Flag (drop 2 s) else Flag (drop 1 s))"

fun Parse :: "'c flag list \<Rightarrow> string list \<Rightarrow> 'c \<Rightarrow> gerr + 'c" where
  "Parse formal [] c = Inr c"
| "Parse formal (s # args) c = (case classify s of
       NotFlag \<Rightarrow> Inr c
     | Terminator \<Rightarrow> Inr c
     | Flag nm \<Rightarrow>
         if nm = [] \<or> hd nm = CHR ''-'' \<or> hd nm = CHR ''=''
           then Inl (PlainErr (''bad flag syntax: '' @ s))
         else let (name, val) = splitValue nm in
           (case find (\<lambda>f. fl_Name f = name) formal of
              None \<Rightarrow> if name = ''help'' \<or> name = ''h'' then Inl ErrHelp
                else Inl (PlainErr (''flag provided but not defined: -'' @ name))
            | Some f \<Rightarrow>
                if fl_IsBool f then
                  (case fl_Set f (case val of Some v \<Rightarrow> v | None \<Rightarrow> ''true'') c of
                     Inl e \<Rightarrow> Inl (PlainErr (case val of
                         Some v \<Rightarrow> ''invalid boolean value '' @ quoted v @ '' for -'' @ name @ '': '' @ e
                       | None \<Rightarrow> ''invalid boolean flag '' @ name @ '': '' @ e))
                   | Inr c' \<Rightarrow> Parse formal args c')
                else
                  (case val of
                     Some v \<Rightarrow> (case fl_Set f v c of
                         Inl e \<Rightarrow> Inl (PlainErr (''invalid value '' @ quoted v @ '' for flag -'' @ name @ '': '' @ e))
                       | Inr c' \<Rightarrow> Parse formal args c')
                   | None \<Rightarrow> (case args of
                         [] \<Rightarrow> Inl (PlainErr (''flag needs an argument: -'' @ name))
                       | v # args' \<Rightarrow> (case fl_Set f v c of
                           Inl e \<Rightarrow> Inl (PlainErr (''invalid value '' @ quoted v @ '' for flag -'' @ name @ '': '' @ e))
                         | Inr c' \<Rightarrow> Parse formal args' c')))))"

section \<open>Lemmas\<close>

text \<open>The argument \<open>--name=value\<close> sets the flag, whatever the value is.\<close>

definition plainName :: "string \<Rightarrow> bool" where
  "plainName name \<longleftrightarrow> name \<noteq> [] \<and> hd name \<noteq> CHR ''-'' \<and> CHR ''='' \<notin> set name"

lemma splitValue_eq: "plainName name \<Longrightarrow> splitValue (name @ CHR ''='' # v) = (name, Some v)"
  by (cases name) (auto simp: plainName_def splitValue_def takeWhile_append dropWhile_append)

lemma Parse_eq:
  assumes name: "plainName name" and f: "find (\<lambda>f. fl_Name f = name) formal = Some f"
    and set: "fl_Set f v c = Inr c'"
  shows "Parse formal ((''--'' @ name @ CHR ''='' # v) # args) c = Parse formal args c'"
proof -
  have ok: "\<not> (name @ CHR ''='' # v = [] \<or> hd (name @ CHR ''='' # v) = CHR ''-'' \<or> hd (name @ CHR ''='' # v) = CHR ''='')"
    using name by (cases name) (auto simp: plainName_def)
  have flag: "classify (''--'' @ name @ CHR ''='' # v) = Flag (name @ CHR ''='' # v)"
    by (simp add: classify_def)
  show ?thesis
    unfolding Parse.simps(2) flag arg.case if_not_P [OF ok] splitValue_eq [OF name] Let_def prod.case f
      option.case set sum.case if_cancel ..
qed

lemma ParseBool_text [simp]: "ParseBool (if b then ''true'' else ''false'') = Some b"
  by (simp add: ParseBool_def)

end
