(* ===== verification/Driver_Config.thy ===== *)
theory Driver_Config
  imports Go_Flags Infra_Client
begin

text \<open>
  The configuration of the process: \<open>src/cmd/kubevirt-csi-driver/config.go\<close> and the functions of
  \<open>kubevirt-csi-driver.go\<close> that read it (flags, labels, storage class policy, node ID).

  The struct \<open>config\<close> caches the rest configurations and the clients built from them.  It is part of the
  state of the process, beside the world of the exchanges and a record of what was loaded and built.
  Loading a configuration, the exchange behind a client and the YAML decoder are the record
  \<open>platform\<close>, a parameter of the model.
\<close>

section \<open>The process\<close>

record 'e config =
  cfg_endpoint :: string
  cfg_nodeName :: string
  cfg_infraClusterNamespace :: string
  cfg_infraClusterKubeconfig :: string
  cfg_infraClusterLabels :: string
  cfg_volumePrefix :: string
  cfg_infraStorageClassEnforcement :: string
  cfg_tenantClusterKubeconfig :: string
  cfg_runNodeService :: bool
  cfg_runControllerService :: bool
  cfg_tenantConfig :: "RestConfig option"
  cfg_infraConfig :: "RestConfig option"
  cfg_tenantClientset :: "KubeClientset option"
  cfg_tenantSnapshotClientset :: "Clientset option"
  cfg_infraClientset :: "KubeClientset option"
  cfg_virtClient :: "'e client option"

text \<open>What was done outside the process: a configuration loaded, a clientset built.\<close>

datatype event = Load string | BuildKube RestConfig | BuildSnap RestConfig | BuildVirt RestConfig

record 'e process =
  ps_world :: "'e world"
  ps_cfg :: "'e config"
  ps_events :: "event list"

record 'e platform =
  pf_lib :: ClientGo
  pf_InClusterConfig :: "'e \<Rightarrow> (gerr + RestConfig) \<times> 'e"
  pf_BuildConfigFromFlags :: "string \<Rightarrow> 'e \<Rightarrow> (gerr + RestConfig) \<times> 'e"
  pf_dial :: "ApiClients \<Rightarrow> 'e runtime"
  pf_dialKube :: "KubeClientset \<Rightarrow> 'e runtime"
  pf_UnmarshalYaml :: "string \<Rightarrow> StorageClassEnforcement \<times> gerr option"

definition reading :: "('e config \<Rightarrow> 'a) \<Rightarrow> ('a \<Rightarrow> ('e process, 'b) go) \<Rightarrow> ('e process, 'b) go" where
  "reading sel f = (\<lambda>p. f (sel (ps_cfg p)) p)"

definition storing :: "('e config \<Rightarrow> 'e config) \<Rightarrow> ('e process, unit) go" where
  "storing f = (\<lambda>p. (Ok (), p\<lparr>ps_cfg := f (ps_cfg p)\<rparr>))"

definition noting :: "event \<Rightarrow> ('e process, unit) go" where
  "noting ev = (\<lambda>p. (Ok (), p\<lparr>ps_events := ps_events p @ [ev]\<rparr>))"

definition in_world :: "('e world, 'a) go \<Rightarrow> ('e process, 'a) go" where
  "in_world m = (\<lambda>p. case m (ps_world p) of (r, w') \<Rightarrow> (r, p\<lparr>ps_world := w'\<rparr>))"

text \<open>\<open>fmt.Errorf("...: %w", err)\<close>.\<close>

definition wrapf :: "string \<Rightarrow> gerr \<Rightarrow> gerr" where
  "wrapf msg e = WrapErr (msg @ '': '' @ Error_string e) e"

text \<open>Returning early with the error that a call gave, wrapped or not.\<close>

definition try_call :: "(gerr \<Rightarrow> gerr) \<Rightarrow> ('w, 'a option \<times> gerr option) go
    \<Rightarrow> ('a \<Rightarrow> ('w, 'b option \<times> gerr option) go) \<Rightarrow> ('w, 'b option \<times> gerr option) go" where
  "try_call wrap m f = bindG m (\<lambda>(x, err). case err of
       Some e \<Rightarrow> ret (None, Some (wrap e))
     | None \<Rightarrow> deref x f)"

section \<open>Rest configurations\<close>

definition load :: "'e platform \<Rightarrow> string \<Rightarrow> ('e world, gerr + RestConfig) go" where
  "load pf kubeconfig w =
     (case (if kubeconfig = '''' then pf_InClusterConfig pf (w_env w)
            else pf_BuildConfigFromFlags pf kubeconfig (w_env w)) of
        (r, e') \<Rightarrow> (Ok r, w\<lparr>w_env := e'\<rparr>))"

definition getConfigOrInCluster ::
  "'e platform \<Rightarrow> string \<Rightarrow> ('e process, RestConfig option \<times> gerr option) go" where
  "getConfigOrInCluster pf kubeconfig =
     bindG (noting (Load kubeconfig)) (\<lambda>_.
     bindG (in_world (load pf kubeconfig)) (\<lambda>r. case r of
         Inl e \<Rightarrow> ret (None, Some (if kubeconfig = '''' then wrapf ''failed to build in cluster config'' e
                     else wrapf ''failed to build cluster config'' e))
       | Inr c \<Rightarrow> ret (Some c, None)))"

definition getTenantConfig :: "'e platform \<Rightarrow> ('e process, RestConfig option \<times> gerr option) go" where
  "getTenantConfig pf = reading cfg_tenantConfig (\<lambda>cached. case cached of
       Some rc \<Rightarrow> ret (Some rc, None)
     | None \<Rightarrow> reading cfg_tenantClusterKubeconfig (\<lambda>kubeconfig.
         try_call (wrapf ''failed to get tenant rest config'') (getConfigOrInCluster pf kubeconfig) (\<lambda>rc.
         bindG (storing (\<lambda>c. c\<lparr>cfg_tenantConfig := Some rc\<rparr>)) (\<lambda>_. ret (Some rc, None)))))"

definition getInfraConfig :: "'e platform \<Rightarrow> ('e process, RestConfig option \<times> gerr option) go" where
  "getInfraConfig pf = reading cfg_infraConfig (\<lambda>cached. case cached of
       Some rc \<Rightarrow> ret (Some rc, None)
     | None \<Rightarrow> reading cfg_infraClusterKubeconfig (\<lambda>kubeconfig.
         try_call (wrapf ''failed to get infra rest config'') (getConfigOrInCluster pf kubeconfig) (\<lambda>rc.
         bindG (storing (\<lambda>c. c\<lparr>cfg_infraConfig := Some rc\<rparr>)) (\<lambda>_. ret (Some rc, None)))))"

section \<open>Clients\<close>

definition getTenantClientset :: "'e platform \<Rightarrow> ('e process, KubeClientset option \<times> gerr option) go" where
  "getTenantClientset pf = reading cfg_tenantClientset (\<lambda>cached. case cached of
       Some tc \<Rightarrow> ret (Some tc, None)
     | None \<Rightarrow>
         try_call id (getTenantConfig pf) (\<lambda>rc.
         bindG (noting (BuildKube rc)) (\<lambda>_.
         try_call (wrapf ''failed to build tenant client set'')
             (ret (kubernetes_NewForConfig (pf_lib pf) Tenant rc)) (\<lambda>tc.
         bindG (storing (\<lambda>c. c\<lparr>cfg_tenantClientset := Some tc\<rparr>)) (\<lambda>_. ret (Some tc, None))))))"

definition getTenantSnapshotClientset :: "'e platform \<Rightarrow> ('e process, Clientset option \<times> gerr option) go" where
  "getTenantSnapshotClientset pf = reading cfg_tenantSnapshotClientset (\<lambda>cached. case cached of
       Some tc \<Rightarrow> ret (Some tc, None)
     | None \<Rightarrow>
         try_call id (getTenantConfig pf) (\<lambda>rc.
         bindG (noting (BuildSnap rc)) (\<lambda>_.
         try_call (wrapf ''failed to build tenant snapshot client set'')
             (ret (snapcli_NewForConfig (pf_lib pf) rc)) (\<lambda>tc.
         bindG (storing (\<lambda>c. c\<lparr>cfg_tenantSnapshotClientset := Some tc\<rparr>)) (\<lambda>_. ret (Some tc, None))))))"

definition getInfraClientset :: "'e platform \<Rightarrow> ('e process, KubeClientset option \<times> gerr option) go" where
  "getInfraClientset pf = reading cfg_infraClientset (\<lambda>cached. case cached of
       Some tc \<Rightarrow> ret (Some tc, None)
     | None \<Rightarrow>
         try_call id (getInfraConfig pf) (\<lambda>rc.
         bindG (noting (BuildKube rc)) (\<lambda>_.
         try_call (wrapf ''failed to build infra client set'')
             (ret (kubernetes_NewForConfig (pf_lib pf) Infra rc)) (\<lambda>tc.
         bindG (storing (\<lambda>c. c\<lparr>cfg_infraClientset := Some tc\<rparr>)) (\<lambda>_. ret (Some tc, None))))))"

text \<open>
  \<open>kubevirt.NewClient\<close> may set the user agent in the cached configuration, which it gets as a pointer.
\<close>

definition buildVirtClient :: "'e platform \<Rightarrow> RestConfig \<Rightarrow> string gomap \<Rightarrow> KubeClientset \<Rightarrow> Clientset
    \<Rightarrow> StorageClassEnforcement \<Rightarrow> string \<Rightarrow> ('e process, 'e client option \<times> gerr option) go" where
  "buildVirtClient pf rc labels tc tsc enforcement pfx =
     (case NewClient (pf_lib pf) (pf_dial pf) rc labels tc tsc enforcement pfx of (r, rc') \<Rightarrow>
        bindG (noting (BuildVirt rc)) (\<lambda>_.
        bindG (storing (\<lambda>c. c\<lparr>cfg_infraConfig := Some rc'\<rparr>)) (\<lambda>_. ret r)))"

definition getVirtClient :: "'e platform \<Rightarrow> string gomap \<Rightarrow> StorageClassEnforcement
    \<Rightarrow> ('e process, 'e client option \<times> gerr option) go" where
  "getVirtClient pf infraClusterLabelsMap enforcement = reading cfg_virtClient (\<lambda>cached. case cached of
       Some vc \<Rightarrow> ret (Some vc, None)
     | None \<Rightarrow> reading cfg_volumePrefix (\<lambda>volumePrefix.
         if volumePrefix = '''' then
           ret (None, Some (PlainErr ''volume-prefix must be set when deploying the controller''))
         else
           try_call id (getInfraConfig pf) (\<lambda>rc.
           try_call id (getTenantClientset pf) (\<lambda>tc.
           try_call id (getTenantSnapshotClientset pf) (\<lambda>tsc.
           try_call (wrapf ''failed to initialize virt client'')
               (buildVirtClient pf rc infraClusterLabelsMap tc tsc enforcement volumePrefix) (\<lambda>vc.
           bindG (storing (\<lambda>c. c\<lparr>cfg_virtClient := Some vc\<rparr>)) (\<lambda>_. ret (Some vc, None))))))))"

section \<open>The command line\<close>

definition zero_config :: "'e config" where
  "zero_config = \<lparr>cfg_endpoint = '''', cfg_nodeName = '''', cfg_infraClusterNamespace = '''',
     cfg_infraClusterKubeconfig = '''', cfg_infraClusterLabels = '''', cfg_volumePrefix = '''',
     cfg_infraStorageClassEnforcement = '''', cfg_tenantClusterKubeconfig = '''',
     cfg_runNodeService = False, cfg_runControllerService = False, cfg_tenantConfig = None,
     cfg_infraConfig = None, cfg_tenantClientset = None, cfg_tenantSnapshotClientset = None,
     cfg_infraClientset = None, cfg_virtClient = None\<rparr>"

text \<open>The defaults, which \<open>StringVar\<close> and \<open>BoolVar\<close> store at once.\<close>

definition default_config :: "'e config" where
  "default_config = zero_config\<lparr>cfg_endpoint := ''unix:/csi/csi.sock'', cfg_volumePrefix := ''pvc'',
     cfg_runNodeService := True, cfg_runControllerService := True\<rparr>"

definition configFlags :: "'e config flag list" where
  "configFlags =
    [StringVar ''endpoint'' (\<lambda>s c. c\<lparr>cfg_endpoint := s\<rparr>),
     StringVar ''node-name'' (\<lambda>s c. c\<lparr>cfg_nodeName := s\<rparr>),
     StringVar ''infra-cluster-namespace'' (\<lambda>s c. c\<lparr>cfg_infraClusterNamespace := s\<rparr>),
     StringVar ''infra-cluster-kubeconfig'' (\<lambda>s c. c\<lparr>cfg_infraClusterKubeconfig := s\<rparr>),
     StringVar ''infra-cluster-labels'' (\<lambda>s c. c\<lparr>cfg_infraClusterLabels := s\<rparr>),
     StringVar ''volume-prefix'' (\<lambda>s c. c\<lparr>cfg_volumePrefix := s\<rparr>),
     StringVar ''tenant-cluster-kubeconfig'' (\<lambda>s c. c\<lparr>cfg_tenantClusterKubeconfig := s\<rparr>),
     BoolVar ''run-node-service'' (\<lambda>b c. c\<lparr>cfg_runNodeService := b\<rparr>),
     BoolVar ''run-controller-service'' (\<lambda>b c. c\<lparr>cfg_runControllerService := b\<rparr>)]"

text \<open>
  \<open>klogFlags\<close> are the flags that klog adds to the set: name, whether boolean, and the error that a
  value gives.  They write into variables of klog.
\<close>

definition klogFlag :: "string \<times> bool \<times> (string \<Rightarrow> string option) \<Rightarrow> 'e config flag" where
  "klogFlag k = (case k of (name, isBool, check) \<Rightarrow> \<lparr>fl_Name = name, fl_IsBool = isBool,
     fl_Set = (\<lambda>s c. case check s of Some e \<Rightarrow> Inl e | None \<Rightarrow> Inr c)\<rparr>)"

definition parseConfig :: "(string \<times> bool \<times> (string \<Rightarrow> string option)) list \<Rightarrow> (string \<Rightarrow> string)
    \<Rightarrow> string list \<Rightarrow> 'e config option \<times> gerr option" where
  "parseConfig klogFlags Getenv args =
     (case Parse (configFlags @ map klogFlag klogFlags) args default_config of
        Inl e \<Rightarrow> (None, Some e)
      | Inr cfg \<Rightarrow> (Some (cfg\<lparr>cfg_infraStorageClassEnforcement :=
            Getenv ''INFRA_STORAGE_CLASS_ENFORCEMENT''\<rparr>), None))"

section \<open>Labels, policy and node ID\<close>

fun parseLabels_loop :: "string list \<Rightarrow> string gomap \<Rightarrow> gerr + string gomap" where
  "parseLabels_loop [] m = Inr m"
| "parseLabels_loop (label # labels) m = (case SplitN2 label CHR ''='' of
       [k, v] \<Rightarrow> parseLabels_loop labels (AList.update k v m)
     | _ \<Rightarrow> Inl (PlainErr (''bad labels format. Should be '' @ [CHR 0x27] @ ''key=value,key=value,...'' @ [CHR 0x27])))"

definition parseLabels :: "'e config \<Rightarrow> gerr + string gomap" where
  "parseLabels cfg =
     (if cfg_infraClusterLabels cfg = '''' then Inl (PlainErr ''infra-cluster-labels must be set'')
      else parseLabels_loop (Split (cfg_infraClusterLabels cfg) CHR '','') [])"

definition configureStorageClassEnforcement ::
  "(string \<Rightarrow> StorageClassEnforcement \<times> gerr option) \<Rightarrow> string \<Rightarrow> StorageClassEnforcement \<times> gerr option" where
  "configureStorageClassEnforcement UnmarshalYaml infraStorageClassEnforcement =
     (if infraStorageClassEnforcement = '''' then
        (\<lparr>sce_AllowList = [], sce_AllowAll = True, sce_AllowDefault = True, sce_StorageSnapshotMapping = []\<rparr>, None)
      else case UnmarshalYaml infraStorageClassEnforcement of
          (enforcement, Some e) \<Rightarrow>
            (enforcement, Some (WrapErr (''failed to parse infra-storage-class-enforcement '' @ Error_string e) e))
        | (enforcement, None) \<Rightarrow> (enforcement, None))"

definition kubevirtScheme :: string where "kubevirtScheme = ''kubevirt://''"

definition tick :: string where "tick = [CHR 0x27]"

definition nodeIDError :: gerr where
  "nodeIDError = PlainErr (''vmName or vmNamespace not found. '' @
     ''Ensure the node has a valid providerID (kubevirt://) with annotation '' @ tick @
     ''cluster.x-k8s.io/cluster-namespace'' @ tick @ '', '' @
     ''or set annotations '' @ tick @ ''csi.kubevirt.io/infra-vm-name'' @ tick @ '' and '' @ tick @
     ''csi.kubevirt.io/infra-vm-namespace'' @ tick @ '' on the node. '' @
     ''After setting the annotations, restart the kubevirt-csi-node pod on this node for the changes to take effect'')"

definition resolveNodeID :: "string \<Rightarrow> string gomap \<Rightarrow> string \<times> gerr option" where
  "resolveNodeID providerID annotations =
     (let (vmName, vmNamespace) =
        (if HasPrefix providerID kubevirtScheme
           then (TrimPrefix providerID kubevirtScheme,
                 map_get annotations ''cluster.x-k8s.io/cluster-namespace'')
         else (map_get annotations ''csi.kubevirt.io/infra-vm-name'',
               map_get annotations ''csi.kubevirt.io/infra-vm-namespace''))
      in if vmName = '''' \<or> vmNamespace = '''' then ('''', Some nodeIDError)
         else (vmNamespace @ ''/'' @ vmName, None))"

section \<open>Reasoning about the process\<close>

lemma try_call_Ok:
  "try_call wrap m f p = (Ok (r, None), p'') \<longleftrightarrow>
     (\<exists>x p'. m p = (Ok (Some x, None), p') \<and> f x p' = (Ok (r, None), p''))"
proof (cases "m p")
  case (Pair o' p1)
  then show ?thesis
    by (cases o') (auto simp: try_call_def bindG_def deref_def panic_def split: option.splits)
qed

lemma reading_apply [simp]: "reading sel f p = f (sel (ps_cfg p)) p"
  by (simp add: reading_def)

lemma storing_bind [simp]: "bindG (storing g) f p = f () (p\<lparr>ps_cfg := g (ps_cfg p)\<rparr>)"
  by (simp add: bindG_def storing_def)

lemma noting_bind [simp]: "bindG (noting ev) f p = f () (p\<lparr>ps_events := ps_events p @ [ev]\<rparr>)"
  by (simp add: bindG_def noting_def)

text \<open>
  \<open>settles m\<close>: from every state \<open>m\<close> returns, and with a result where it returns no error, so that no
  caller dereferences nil.
\<close>

definition settles :: "('w, 'a option \<times> gerr option) go \<Rightarrow> bool" where
  "settles m \<longleftrightarrow> (\<forall>p. \<exists>x err p'. m p = (Ok (x, err), p') \<and> (err = None \<longrightarrow> x \<noteq> None))"

lemma settlesE:
  assumes "settles m"
  obtains (got) x p' where "m p = (Ok (Some x, None), p')"
    | (failed) x e p' where "m p = (Ok (x, Some e), p')"
proof -
  from assms obtain x err p' where "m p = (Ok (x, err), p')" and "err = None \<longrightarrow> x \<noteq> None"
    unfolding settles_def by blast
  then show thesis by (cases err; cases x) (auto intro: got failed)
qed

lemma settles_ret [simp]: "settles (ret (x, err)) \<longleftrightarrow> err \<noteq> None \<or> x \<noteq> None"
  by (auto simp: settles_def)

lemma settles_try_call:
  assumes m: "settles m" and f: "\<And>x. settles (f x)"
  shows "settles (try_call wrap m f)"
  unfolding settles_def
proof
  fix p
  show "\<exists>x err p'. try_call wrap m f p = (Ok (x, err), p') \<and> (err = None \<longrightarrow> x \<noteq> None)"
  proof (rule settlesE [OF m, of p])
    fix x p'
    assume "m p = (Ok (Some x, None), p')"
    with f [of x] show ?thesis by (simp add: try_call_def settles_def)
  next
    fix x e p'
    assume "m p = (Ok (x, Some e), p')"
    then show ?thesis by (simp add: try_call_def)
  qed
qed

lemma settles_bind: "never_panics m \<Longrightarrow> (\<And>x. settles (f x)) \<Longrightarrow> settles (bindG m f)"
  by (auto simp: settles_def never_panics_def bindG_def split: prod.splits outcome.splits)
    (metis Pair_inject outcome.inject(1) outcome.distinct(1))

lemma settles_reading: "(\<And>x. settles (f x)) \<Longrightarrow> settles (reading sel f)"
  by (auto simp: settles_def)

lemma settles_if: "(b \<Longrightarrow> settles m) \<Longrightarrow> (\<not> b \<Longrightarrow> settles m') \<Longrightarrow> settles (if b then m else m')"
  by simp

lemma settles_case_option:
  "(x = None \<Longrightarrow> settles m) \<Longrightarrow> (\<And>a. x = Some a \<Longrightarrow> settles (f a)) \<Longrightarrow>
   settles (case x of None \<Rightarrow> m | Some a \<Rightarrow> f a)"
  by (cases x) simp_all

lemma settles_case_sum:
  "(\<And>a. x = Inl a \<Longrightarrow> settles (f a)) \<Longrightarrow> (\<And>b. x = Inr b \<Longrightarrow> settles (g b)) \<Longrightarrow>
   settles (case x of Inl a \<Rightarrow> f a | Inr b \<Rightarrow> g b)"
  by (cases x) simp_all

lemma settles_in_world: "settles m \<Longrightarrow> settles (in_world m)"
  unfolding settles_def in_world_def by (metis (no_types, lifting) prod.case)

lemma storing_never_panics [simp]: "never_panics (storing f)"
  by (simp add: never_panics_def storing_def)

lemma noting_never_panics [simp]: "never_panics (noting ev)"
  by (simp add: never_panics_def noting_def)

lemma load_never_panics [simp]: "never_panics (in_world (load pf kubeconfig))"
  by (auto simp: never_panics_def in_world_def load_def split: prod.splits)

lemmas settles_rules = settles_reading settles_case_option settles_case_sum settles_if settles_try_call
  settles_bind

text \<open>Constructors give a value or an error.\<close>

definition settled :: "'a option \<times> gerr option \<Rightarrow> bool" where
  "settled r \<longleftrightarrow> r \<noteq> (None, None)"

lemma settled_simps [simp]: "settled (Some x, err)" "settled (y, Some e)"
  by (simp_all add: settled_def)

lemma settled_try_new: "settled r \<Longrightarrow> (\<And>x. settled (f x)) \<Longrightarrow> settled (try_new r f)"
  by (auto simp: try_new_def settled_def split: prod.splits option.splits)

lemma constructors_settle:
  "settled (kubernetes_NewForConfig lib h c)" "settled (RESTClientForConfigAndClient lib c hc)"
  "settled (NewDiscoveryClientForConfigAndClient lib c hc)" "settled (HTTPClientFor lib c)"
  by (auto simp: kubernetes_NewForConfig_def RESTClientForConfigAndClient_def
      NewDiscoveryClientForConfigAndClient_def UnversionedRESTClientForConfigAndClient_def
      HTTPClientFor_def split: option.split)

lemma RESTClientFor_settles: "settled (RESTClientFor lib c)"
  by (auto simp: RESTClientFor_def split: option.split intro!: settled_try_new constructors_settle)

lemma clientset_settles:
  "(\<And>c hc. settled (new c hc)) \<Longrightarrow>
   settled (clientset_NewForConfig lib (clientset_NewForConfigAndClient lib new) c)"
  unfolding clientset_NewForConfig_def clientset_NewForConfigAndClient_def Let_def
  by (auto split: sum.split intro!: settled_try_new constructors_settle)

lemma generated_settle:
  "settled (kubecli_NewForConfig lib c)" "settled (cdicli_NewForConfig lib c)"
  "settled (snapcli_NewForConfig lib c)"
  unfolding kubecli_NewForConfig_def cdicli_NewForConfig_def snapcli_NewForConfig_def
    kubecli_NewForConfigAndClient_def cdicli_NewForConfigAndClient_def snapcli_NewForConfigAndClient_def
  by (rule clientset_settles, simp only: kubevirtv1_NewForConfigAndClient_def
      cdiv1beta1_NewForConfigAndClient_def snapshotv1_NewForConfigAndClient_def, rule constructors_settle)+

lemma NewClient_settles: "settled (fst (NewClient lib dial rc labels tc tsc enf pfx))"
  by (auto simp: NewClient_def Let_def split: option.split
      intro!: settled_try_new constructors_settle generated_settle RESTClientFor_settles)

lemma settles_ret_new: "settled r \<Longrightarrow> settles (ret r)"
  by (cases r) (auto simp: settled_def)

lemma getConfigOrInCluster_settles: "settles (getConfigOrInCluster pf kubeconfig)"
  unfolding getConfigOrInCluster_def by (intro settles_rules) auto

lemma buildVirtClient_settles: "settles (buildVirtClient pf rc labels tc tsc enf pfx)"
  using NewClient_settles [of "pf_lib pf" "pf_dial pf" rc labels tc tsc enf pfx]
  by (auto simp: buildVirtClient_def simp del: ret_apply split: prod.split
      intro!: settles_bind settles_ret_new)

lemma getters_settle:
  "settles (getTenantConfig pf)" "settles (getInfraConfig pf)" "settles (getTenantClientset pf)"
  "settles (getTenantSnapshotClientset pf)" "settles (getInfraClientset pf)"
  "settles (getVirtClient pf labels enf)"
proof -
  show t: "settles (getTenantConfig pf)" and i: "settles (getInfraConfig pf)"
    unfolding getTenantConfig_def getInfraConfig_def
    by (intro settles_rules getConfigOrInCluster_settles; simp)+
  show tc: "settles (getTenantClientset pf)" and "settles (getInfraClientset pf)"
    and ts: "settles (getTenantSnapshotClientset pf)"
    unfolding getTenantClientset_def getInfraClientset_def getTenantSnapshotClientset_def
    by (intro settles_rules t i settles_ret_new constructors_settle generated_settle; simp)+
  show "settles (getVirtClient pf labels enf)"
    unfolding getVirtClient_def
    by (intro settles_rules t i tc ts buildVirtClient_settles; simp)
qed

end
