(* ===== verification/Driver_Startup.thy ===== *)
theory Driver_Startup
  imports Driver_Config Controller_Confined Node_Service
begin

text \<open>
  The driver object and how the process puts it together: \<open>src/pkg/service/driver.go\<close>,
  \<open>src/pkg/service/identity.go\<close> and \<open>initializeDriver\<close>, \<open>configureControllerService\<close>,
  \<open>configureNodeService\<close> of \<open>src/cmd/kubevirt-csi-driver/kubevirt-csi-driver.go\<close>.
\<close>

section \<open>The identity service\<close>

record 'w IdentityService =
  id_connectivityProbe :: "('w, gerr option) go"

definition connectivityProbe_Probe :: "'e platform \<Rightarrow> KubeClientset \<Rightarrow> ('e world, gerr option) go" where
  "connectivityProbe_Probe pf clientset = ServerVersion (pf_dialKube pf clientset) (kk_Host clientset)"

definition NewIdentityService :: "'e platform \<Rightarrow> KubeClientset \<Rightarrow> 'e world IdentityService" where
  "NewIdentityService pf clientset = \<lparr>id_connectivityProbe = connectivityProbe_Probe pf clientset\<rparr>"

record GetPluginInfoResponse =
  gpi_Name :: string
  gpi_VendorVersion :: string

definition VendorName :: string where "VendorName = ''csi.kubevirt.io''"

text \<open>The version is a variable that the linker may set; \<open>VendorVersion\<close> is its value in the source.\<close>

definition VendorVersion :: string where "VendorVersion = ''0.2.0''"

definition GetPluginInfo ::
  "string \<Rightarrow> 'w IdentityService \<Rightarrow> ('w, GetPluginInfoResponse option \<times> gerr option) go" where
  "GetPluginInfo version i = ret (Some \<lparr>gpi_Name = VendorName, gpi_VendorVersion = version\<rparr>, None)"

datatype PluginCapability = Service_CONTROLLER_SERVICE | VolumeExpansion_ONLINE | VolumeExpansion_OFFLINE

definition GetPluginCapabilities ::
  "'w IdentityService \<Rightarrow> ('w, PluginCapability list option \<times> gerr option) go" where
  "GetPluginCapabilities i =
     ret (Some [Service_CONTROLLER_SERVICE, VolumeExpansion_ONLINE, VolumeExpansion_OFFLINE], None)"

text \<open>The answer of \<open>Probe\<close> is its \<open>Ready\<close> value.\<close>

definition Probe :: "'w IdentityService \<Rightarrow> ('w, bool option \<times> gerr option) go" where
  "Probe i = bindG (id_connectivityProbe i) (\<lambda>err.
     if err \<noteq> None then ret (None, err) else ret (Some True, None))"

section \<open>The driver\<close>

record ('e, 'n) KubevirtCSIDriver =
  dr_IdentityService :: "'e world IdentityService option"
  dr_ControllerService :: "'e world ControllerService option"
  dr_NodeService :: "'n nworld NodeService option"

definition NewKubevirtCSIDriver :: "('e, 'n) KubevirtCSIDriver" where
  "NewKubevirtCSIDriver =
     \<lparr>dr_IdentityService = None, dr_ControllerService = None, dr_NodeService = None\<rparr>"

definition WithIdentityService ::
  "'e platform \<Rightarrow> KubeClientset \<Rightarrow> ('e, 'n) KubevirtCSIDriver \<Rightarrow> ('e, 'n) KubevirtCSIDriver" where
  "WithIdentityService pf identityClientset d =
     d\<lparr>dr_IdentityService := Some (NewIdentityService pf identityClientset)\<rparr>"

definition WithControllerService :: "'e world Client \<Rightarrow> string \<Rightarrow> string gomap \<Rightarrow> StorageClassEnforcement
    \<Rightarrow> (nat \<Rightarrow> 'e world \<Rightarrow> 'e world) \<Rightarrow> ('e, 'n) KubevirtCSIDriver \<Rightarrow> ('e, 'n) KubevirtCSIDriver" where
  "WithControllerService virtClient infraClusterNamespace infraClusterLabels enforcement slp d =
     d\<lparr>dr_ControllerService := Some (NewControllerService virtClient infraClusterNamespace
         infraClusterLabels enforcement slp)\<rparr>"

definition WithNodeService ::
  "'n kernel \<Rightarrow> string \<Rightarrow> ('e, 'n) KubevirtCSIDriver \<Rightarrow> ('e, 'n) KubevirtCSIDriver" where
  "WithNodeService k nodeID d = d\<lparr>dr_NodeService := Some (NewNodeService k nodeID)\<rparr>"

section \<open>Starting up\<close>

definition prechecks :: "string \<Rightarrow> gerr option" where
  "prechecks version =
     (if version = '''' then Some (PlainErr ''VendorVersion must be set at compile time'') else None)"

definition configureControllerService :: "'e platform \<Rightarrow> ('e, 'n) KubevirtCSIDriver
    \<Rightarrow> ('e process, ('e, 'n) KubevirtCSIDriver option \<times> gerr option) go" where
  "configureControllerService pf driver = reading id (\<lambda>cfg. case parseLabels cfg of
       Inl e \<Rightarrow> ret (None, Some (wrapf ''failed to parse labels'' e))
     | Inr infraClusterLabelsMap \<Rightarrow>
         (case configureStorageClassEnforcement (pf_UnmarshalYaml pf)
                 (cfg_infraStorageClassEnforcement cfg) of
            (_, Some e) \<Rightarrow> ret (None, Some (wrapf ''failed to configure storage class enforcement'' e))
          | (enforcement, None) \<Rightarrow>
              try_call id (getInfraClientset pf) (\<lambda>identityClientset.
              try_call id (getVirtClient pf infraClusterLabelsMap enforcement) (\<lambda>virtClient.
                ret (Some (WithIdentityService pf identityClientset
                  (WithControllerService (as_Client virtClient) (cfg_infraClusterNamespace cfg)
                     infraClusterLabelsMap enforcement (sleep_world (cl_rt virtClient)) driver)), None)))))"

text \<open>The last part of \<open>configureNodeService\<close>, with the node object at hand.\<close>

definition withNode :: "'e platform \<Rightarrow> 'n kernel \<Rightarrow> KubeClientset \<Rightarrow> string \<Rightarrow> ('e, 'n) KubevirtCSIDriver
    \<Rightarrow> Node \<Rightarrow> ('e process, ('e, 'n) KubevirtCSIDriver option \<times> gerr option) go" where
  "withNode pf k tenantClientset nodeName driver node =
     (case resolveNodeID (node_ProviderID node) (om_Annotations (node_Meta node)) of
        (_, Some e) \<Rightarrow> ret (None, Some (wrapf (''failed to resolve infra VM for node '' @ quoted nodeName) e))
      | (nodeID, None) \<Rightarrow>
          ret (Some (WithIdentityService pf tenantClientset (WithNodeService k nodeID driver)), None))"

definition configureNodeService :: "'e platform \<Rightarrow> 'n kernel \<Rightarrow> ('e, 'n) KubevirtCSIDriver
    \<Rightarrow> ('e process, ('e, 'n) KubevirtCSIDriver option \<times> gerr option) go" where
  "configureNodeService pf k driver =
     try_call id (getTenantClientset pf) (\<lambda>tenantClientset.
     reading cfg_nodeName (\<lambda>nodeName.
       if nodeName = '''' then ret (None, Some (PlainErr ''cannot start NodeService without a node name''))
       else
         try_call (wrapf (''failed to find node by name '' @ nodeName))
             (in_world (Nodes_Get (pf_dialKube pf tenantClientset) (kk_Host tenantClientset) nodeName))
             (withNode pf k tenantClientset nodeName driver)))"

definition initializeDriver :: "'e platform \<Rightarrow> 'n kernel
    \<Rightarrow> ('e process, ('e, 'n) KubevirtCSIDriver option \<times> gerr option) go" where
  "initializeDriver pf k =
     try_call (wrapf ''failed to configure controller service'')
       (reading cfg_runControllerService (\<lambda>b.
          if b then configureControllerService pf NewKubevirtCSIDriver
          else ret (Some NewKubevirtCSIDriver, None))) (\<lambda>driver.
     try_call (wrapf ''failed to configure node service'')
       (reading cfg_runNodeService (\<lambda>b.
          if b then configureNodeService pf k driver else ret (Some driver, None))) (\<lambda>driver.
     ret (Some driver, None)))"

end
