(* ===== verification/Config_Guarantees.thy ===== *)
theory Config_Guarantees
  imports Driver_Config
begin

text \<open>
  What the configuration guarantees: clients are built once and then reused, the command line and the
  labels are read as they were written, and the node ID that a node announces is the key under which the
  controller finds the virtual machine.
\<close>

section \<open>Clients are built once\<close>

text \<open>A getter that caches its result in a field of the configuration.\<close>

locale cached_getter =
  fixes get :: "('e process, 'a option \<times> gerr option) go"
    and slot :: "'e config \<Rightarrow> 'a option"
  assumes hit: "slot (ps_cfg p) = Some x \<Longrightarrow> get p = (Ok (Some x, None), p)"
    and stores: "get p = (Ok (r, None), p') \<Longrightarrow> \<exists>x. r = Some x \<and> slot (ps_cfg p') = Some x"
begin

lemma reused:
  assumes "get p = (Ok (r, None), p')" and "slot (ps_cfg p'') = slot (ps_cfg p')"
  shows "get p'' = (Ok (r, None), p'')"
  using stores [OF assms(1)] assms(2) hit by auto

lemma again: "get p = (Ok (r, None), p') \<Longrightarrow> get p' = (Ok (r, None), p')"
  by (rule reused) simp_all

end

interpretation tenantConfig: cached_getter "getTenantConfig pf" cfg_tenantConfig for pf
  by unfold_locales (auto simp: getTenantConfig_def try_call_Ok split: option.splits dest: sym)

interpretation infraConfig: cached_getter "getInfraConfig pf" cfg_infraConfig for pf
  by unfold_locales (auto simp: getInfraConfig_def try_call_Ok split: option.splits dest: sym)

interpretation tenantClientset: cached_getter "getTenantClientset pf" cfg_tenantClientset for pf
  by unfold_locales (auto simp: getTenantClientset_def try_call_Ok split: option.splits dest: sym)

interpretation tenantSnapshotClientset:
  cached_getter "getTenantSnapshotClientset pf" cfg_tenantSnapshotClientset for pf
  by unfold_locales (auto simp: getTenantSnapshotClientset_def try_call_Ok split: option.splits dest: sym)

interpretation infraClientset: cached_getter "getInfraClientset pf" cfg_infraClientset for pf
  by unfold_locales (auto simp: getInfraClientset_def try_call_Ok split: option.splits dest: sym)

interpretation virtClient: cached_getter "getVirtClient pf labels enf" cfg_virtClient for pf labels enf
  by unfold_locales (auto simp: getVirtClient_def try_call_Ok split: if_splits option.splits dest: sym)

text \<open>
  What every getter keeps: the settings, and each client that is there.  The infra configuration may get
  a user agent.
\<close>

definition settings :: "'e config \<Rightarrow> string list \<times> bool \<times> bool" where
  "settings c = ([cfg_endpoint c, cfg_nodeName c, cfg_infraClusterNamespace c, cfg_infraClusterKubeconfig c,
     cfg_infraClusterLabels c, cfg_volumePrefix c, cfg_infraStorageClassEnforcement c,
     cfg_tenantClusterKubeconfig c], cfg_runNodeService c, cfg_runControllerService c)"

definition stays :: "'a option \<Rightarrow> 'a option \<Rightarrow> bool" where
  "stays x y \<longleftrightarrow> x = None \<or> y = x"

definition retains :: "'e process \<Rightarrow> 'e process \<Rightarrow> bool" where
  "retains p p' \<longleftrightarrow> (let c = ps_cfg p; c' = ps_cfg p' in settings c' = settings c \<and>
     stays (cfg_tenantConfig c) (cfg_tenantConfig c') \<and>
     stays (map_option rc_Host (cfg_infraConfig c)) (map_option rc_Host (cfg_infraConfig c')) \<and>
     stays (cfg_tenantClientset c) (cfg_tenantClientset c') \<and>
     stays (cfg_tenantSnapshotClientset c) (cfg_tenantSnapshotClientset c') \<and>
     stays (cfg_infraClientset c) (cfg_infraClientset c') \<and>
     stays (cfg_virtClient c) (cfg_virtClient c'))"

lemma stays_trans: "stays x y \<Longrightarrow> stays y z \<Longrightarrow> stays x z"
  by (auto simp: stays_def)

lemma retains_reflp: "reflp retains"
  by (simp add: reflp_def retains_def stays_def)

lemma retains_transp: "transp retains"
  by (rule transpI) (auto simp: retains_def Let_def elim: stays_trans)

lemma retains_try_call:
  "keeps retains m \<Longrightarrow> (\<And>x. keeps retains (f x)) \<Longrightarrow> keeps retains (try_call wrap m f)"
  unfolding try_call_def
  by (intro keeps_bind [OF retains_transp] keeps_case_prod keeps_case_option keeps_ret [OF retains_reflp]
      keeps_deref [OF retains_reflp])

lemma retains_noting: "keeps retains (noting ev)"
  by (simp add: keeps_def noting_def retains_def stays_def)

lemma retains_in_world: "keeps retains (in_world m)"
  by (simp add: keeps_def in_world_def retains_def stays_def split: prod.split)

lemmas retains_basic = keeps_ret [OF retains_reflp] keeps_bind [OF retains_transp] keeps_case_sum keeps_if
  retains_try_call retains_noting retains_in_world

lemma retains_getConfig: "keeps retains (getConfigOrInCluster pf kubeconfig)"
  unfolding getConfigOrInCluster_def by (intro retains_basic)

lemma try_call_go: "m p = (Ok (Some x, None), p') \<Longrightarrow> try_call wrap m f p = f x p'"
  by (simp add: try_call_def)

lemma try_call_fail: "m p = (Ok (x, Some e), p') \<Longrightarrow> try_call wrap m f p = (Ok (None, Some (wrap e)), p')"
  by (simp add: try_call_def)

lemma keeps_reading: "(\<And>x. keeps R (f x)) \<Longrightarrow> keeps R (reading sel f)"
  by (simp add: keeps_def)

text \<open>A getter that fills a field which was empty at the start.\<close>

lemma retains_fill:
  assumes "\<And>p. slot (ps_cfg p) = None \<Longrightarrow> retains p (snd (m p))"
  shows "keeps retains (reading slot (\<lambda>cached. case cached of Some x \<Rightarrow> ret (Some x, None) | None \<Rightarrow> m))"
  using assms by (auto simp: keeps_def reflpD [OF retains_reflp] split: option.split)

lemma retains_step:
  assumes "settles m" and "keeps retains m"
    and "\<And>p'. retains p p' \<Longrightarrow> Q p'" and "\<And>x p'. retains p p' \<Longrightarrow> Q (snd (f x p'))"
  shows "Q (snd (try_call wrap m f p))"
proof (rule settlesE [OF assms(1), of p])
  fix x p' assume "m p = (Ok (Some x, None), p')"
  then show ?thesis using assms(4) keepsD [OF assms(2)] by (simp add: try_call_def)
next
  fix x e p' assume "m p = (Ok (x, Some e), p')"
  then show ?thesis using assms(3) keepsD [OF assms(2)] by (simp add: try_call_def)
qed

lemmas retains_defs = retains_def stays_def settings_def Let_def

lemma retains_configs: "keeps retains (getTenantConfig pf)" "keeps retains (getInfraConfig pf)"
  unfolding getTenantConfig_def getInfraConfig_def
  by (rule retains_fill, simp only: reading_apply,
      rule retains_step [OF getConfigOrInCluster_settles retains_getConfig], assumption, simp add: retains_defs)+

lemma retains_new:
  "settled r \<Longrightarrow> (\<And>x. retains p (snd (f x p'))) \<Longrightarrow> retains p p' \<Longrightarrow>
   retains p (snd (try_call wrap (ret r) f p'))"
  by (cases r; cases "snd r"; cases "fst r") (auto simp: try_call_def settled_def)

lemma retains_clientsets:
  "keeps retains (getTenantClientset pf)" "keeps retains (getTenantSnapshotClientset pf)"
  "keeps retains (getInfraClientset pf)"
  unfolding getTenantClientset_def getTenantSnapshotClientset_def getInfraClientset_def
  by (rule retains_fill, rule retains_step [OF getters_settle(1) retains_configs(1)]
        retains_step [OF getters_settle(2) retains_configs(2)], assumption,
      simp only: noting_bind, intro retains_new constructors_settle generated_settle;
      simp add: retains_defs)+

lemma NewClient_host:
  "NewClient lib dial rc labels tc tsc enf pfx = (r, rc') \<Longrightarrow> rc_Host rc' = rc_Host rc"
  by (auto simp: NewClient_def Let_def split: option.splits)


lemma retains_trans: "retains p p' \<Longrightarrow> retains p' p'' \<Longrightarrow> retains p p''"
  using retains_transp by (rule transpD)

lemma getVirtClient_fill:
  assumes none: "cfg_virtClient (ps_cfg p) = None"
  shows "retains p (snd (getVirtClient pf labels enf p))"
proof (cases "cfg_volumePrefix (ps_cfg p) = []")
  case True
  then show ?thesis using none by (simp add: getVirtClient_def reflpD [OF retains_reflp])
next
  case False
  let ?build = "\<lambda>rc tc tsc. try_call (wrapf ''failed to initialize virt client'')
      (buildVirtClient pf rc labels tc tsc enf (cfg_volumePrefix (ps_cfg p)))
      (\<lambda>vc. bindG (storing (\<lambda>c. c\<lparr>cfg_virtClient := Some vc\<rparr>)) (\<lambda>_. ret (Some vc, None)))"
  have build: "retains p (snd (?build rc tc tsc p3))"
    if "retains p p3" and host: "map_option rc_Host (cfg_infraConfig (ps_cfg p3)) = Some (rc_Host rc)"
    for rc tc tsc p3
  proof -
    obtain r rc' where new: "NewClient (pf_lib pf) (pf_dial pf) rc labels tc tsc enf (cfg_volumePrefix (ps_cfg p))
        = (r, rc')" by fastforce
    then have "settled r" using NewClient_settles by (metis fst_conv)
    then show ?thesis
      using that none NewClient_host [OF new]
      by (cases r; cases "fst r"; cases "snd r")
        (auto simp: try_call_def buildVirtClient_def new settled_def retains_defs bindG_apply storing_def noting_def)
  qed
  show ?thesis
  proof (rule settlesE [OF getters_settle(2) [of pf], of p])
    fix rc p1 assume i: "getInfraConfig pf p = (Ok (Some rc, None), p1)"
    from infraConfig.stores [OF i] have host: "cfg_infraConfig (ps_cfg p1) = Some rc" by auto
    from i have p1: "retains p p1" by (rule keepsD [OF retains_configs(2)])
    have "retains p (snd (try_call id (getTenantClientset pf) (\<lambda>tc.
        try_call id (getTenantSnapshotClientset pf) (\<lambda>tsc. ?build rc tc tsc)) p1))"
    proof (rule retains_step [OF getters_settle(3) retains_clientsets(1)])
      fix tc p2 assume p2: "retains p1 p2"
      show "retains p (snd (try_call id (getTenantSnapshotClientset pf) (\<lambda>tsc. ?build rc tc tsc) p2))"
      proof (rule retains_step [OF getters_settle(4) retains_clientsets(2)])
        fix tsc p3 assume "retains p2 p3"
        with p2 have p3: "retains p1 p3" by (rule retains_trans)
        with host have "map_option rc_Host (cfg_infraConfig (ps_cfg p3)) = Some (rc_Host rc)"
          by (simp add: retains_def stays_def Let_def)
        with p1 p3 show "retains p (snd (?build rc tc tsc p3))"
          by (blast intro: build retains_trans)
      qed (use p1 p2 in \<open>blast intro: retains_trans\<close>)
    qed (use p1 in \<open>blast intro: retains_trans\<close>)
    then show ?thesis using none False i by (simp add: getVirtClient_def try_call_go)
  next
    fix x e p1 assume i: "getInfraConfig pf p = (Ok (x, Some e), p1)"
    then show ?thesis using none False keepsD [OF retains_configs(2) i]
      by (simp add: getVirtClient_def try_call_fail)
  qed
qed


lemma retains_virtClient: "keeps retains (getVirtClient pf labels enf)"
proof (rule keepsI)
  fix p r p' assume run: "getVirtClient pf labels enf p = (r, p')"
  show "retains p p'"
  proof (cases "cfg_virtClient (ps_cfg p)")
    case None
    then show ?thesis using getVirtClient_fill [of p pf labels enf] run by simp
  next
    case (Some vc)
    then show ?thesis using virtClient.hit [OF Some] run reflpD [OF retains_reflp] by simp
  qed
qed

section \<open>A platform on which everything works\<close>

definition sampleLib :: ClientGo where
  "sampleLib = \<lparr>cg_TransportFor = (\<lambda>_. None), cg_DefaultServerUrlFor = (\<lambda>_. None),
     cg_KubernetesNewForConfig = (\<lambda>_. None), cg_AddToScheme = None, cg_DefaultKubernetesUserAgent = ''csi''\<rparr>"

definition sampleRest :: "string \<Rightarrow> RestConfig" where
  "sampleRest host = \<lparr>rc_Host = host, rc_APIPath = '''', rc_GroupVersion = None, rc_NegotiatedSerializer = None,
     rc_ContentType = '''', rc_UserAgent = '''', rc_QPS = 0, rc_Burst = 0, rc_RateLimiter = None,
     rc_Timeout = 0, rc_Auth = ''token''\<rparr>"

text \<open>The tenant's server knows one node, the virtual machine \<open>vm1\<close> of the namespace \<open>ns\<close>.\<close>

definition sampleNode :: Node where
  "sampleNode = zero_Node\<lparr>node_Meta := zero_ObjectMeta
       \<lparr>om_Annotations := [(''cluster.x-k8s.io/cluster-namespace'', ''ns'')]\<rparr>,
     node_ProviderID := ''kubevirt://vm1''\<rparr>"

definition nodeRuntime :: "unit runtime" where
  "nodeRuntime = \<lparr>rt_serve = (\<lambda>rq e. (if rq_Resource rq = ''nodes'' then Inr (ONode sampleNode) else Inr OVersion, e)),
     rt_sleep = (\<lambda>_ e. e), rt_tick = (\<lambda>e. ((1, None), e)), rt_checkLabel = (\<lambda>_ _. None)\<rparr>"

definition samplePlatform :: "unit platform" where
  "samplePlatform = \<lparr>pf_lib = sampleLib, pf_InClusterConfig = (\<lambda>e. (Inr (sampleRest ''tenant''), e)),
     pf_BuildConfigFromFlags = (\<lambda>path e. (Inr (sampleRest path), e)), pf_dial = (\<lambda>_. nodeRuntime),
     pf_dialKube = (\<lambda>_. nodeRuntime),
     pf_UnmarshalYaml = (\<lambda>_. (\<lparr>sce_AllowList = [], sce_AllowAll = True, sce_AllowDefault = True,
        sce_StorageSnapshotMapping = []\<rparr>, None))\<rparr>"

definition sampleConfig :: "unit config" where
  "sampleConfig = default_config\<lparr>cfg_nodeName := ''node1'', cfg_infraClusterNamespace := ''ns'',
     cfg_infraClusterKubeconfig := ''infra'', cfg_infraClusterLabels := ''tenant=a''\<rparr>"

definition sampleProcess :: "unit process" where
  "sampleProcess = \<lparr>ps_world = \<lparr>w_env = (), w_log = [], w_mapping = [], w_populated = False\<rparr>,
     ps_cfg = sampleConfig, ps_events = []\<rparr>"

definition openPolicy :: StorageClassEnforcement where
  "openPolicy = \<lparr>sce_AllowList = [], sce_AllowAll = True, sce_AllowDefault = True, sce_StorageSnapshotMapping = []\<rparr>"

definition succeeds :: "('a option \<times> gerr option) outcome \<times> 'w \<Rightarrow> bool" where
  "succeeds r = (case fst r of Ok (_, err) \<Rightarrow> err = None | Panic _ \<Rightarrow> False)"

lemma succeedsE:
  assumes "settles m" and "succeeds (m p)"
  obtains x p' where "m p = (Ok (Some x, None), p')"
proof (rule settlesE [OF assms(1), of p])
  fix x e p' assume "m p = (Ok (x, Some e), p')"
  with assms(2) show thesis by (simp add: succeeds_def)
qed

section \<open>Asking again\<close>

text \<open>The calls that the start-up may make, in any order.\<close>

datatype getter = TenantConfig | InfraConfig | TenantClientset | TenantSnapshotClientset | InfraClientset
  | VirtClient "string gomap" StorageClassEnforcement

primrec ask :: "'e platform \<Rightarrow> getter \<Rightarrow> ('e process, unit) go" where
  "ask pf TenantConfig = bindG (getTenantConfig pf) (\<lambda>_. ret ())"
| "ask pf InfraConfig = bindG (getInfraConfig pf) (\<lambda>_. ret ())"
| "ask pf TenantClientset = bindG (getTenantClientset pf) (\<lambda>_. ret ())"
| "ask pf TenantSnapshotClientset = bindG (getTenantSnapshotClientset pf) (\<lambda>_. ret ())"
| "ask pf InfraClientset = bindG (getInfraClientset pf) (\<lambda>_. ret ())"
| "ask pf (VirtClient labels enf) = bindG (getVirtClient pf labels enf) (\<lambda>_. ret ())"

primrec asks :: "'e platform \<Rightarrow> getter list \<Rightarrow> ('e process, unit) go" where
  "asks pf [] = ret ()"
| "asks pf (g # gs) = bindG (ask pf g) (\<lambda>_. asks pf gs)"

lemma retains_ask: "keeps retains (ask pf g)"
  by (cases g) (auto simp del: ret_apply intro!: retains_basic retains_configs retains_clientsets
      retains_virtClient)

lemma retains_asks: "keeps retains (asks pf gs)"
  by (induction gs) (auto simp del: ret_apply intro!: retains_basic retains_ask)

text \<open>C26 Once a client of the infra cluster was built, it is the only one: whatever is asked of the
  configuration in between, asking again gives the same client, and loads and builds nothing, even when
  other labels or another policy are passed.  The same holds of the tenant's and the infra clientset.\<close>

theorem clients_reused:
  assumes first: "getVirtClient pf labels enf p = (Ok (r, None), p1)" and asked: "asks pf gs p1 = (u, p2)"
  shows "getVirtClient pf labels' enf' p2 = (Ok (r, None), p2) \<and>
    (\<forall>tc. cfg_tenantClientset (ps_cfg p1) = Some tc \<longrightarrow> getTenantClientset pf p2 = (Ok (Some tc, None), p2)) \<and>
    (\<forall>ic. cfg_infraClientset (ps_cfg p1) = Some ic \<longrightarrow> getInfraClientset pf p2 = (Ok (Some ic, None), p2))"
proof -
  from asked have ret: "retains p1 p2" by (rule keepsD [OF retains_asks])
  from virtClient.stores [OF first] obtain vc where vc: "r = Some vc" "cfg_virtClient (ps_cfg p1) = Some vc"
    by blast
  with ret have "cfg_virtClient (ps_cfg p2) = Some vc" by (simp add: retains_def stays_def Let_def)
  then have "getVirtClient pf labels' enf' p2 = (Ok (r, None), p2)" using vc(1) virtClient.hit by simp
  moreover from ret have "stays (cfg_tenantClientset (ps_cfg p1)) (cfg_tenantClientset (ps_cfg p2))"
    and "stays (cfg_infraClientset (ps_cfg p1)) (cfg_infraClientset (ps_cfg p2))"
    by (simp_all add: retains_def Let_def)
  ultimately show ?thesis
    using tenantClientset.hit infraClientset.hit by (auto simp: stays_def)
qed

theorem clients_reused_witness:
  "\<exists>vc p1. getVirtClient samplePlatform [(''tenant'', ''a'')] openPolicy sampleProcess = (Ok (Some vc, None), p1) \<and>
     getVirtClient samplePlatform [] openPolicy (snd (asks samplePlatform [InfraClientset, TenantConfig] p1)) =
       (Ok (Some vc, None), snd (asks samplePlatform [InfraClientset, TenantConfig] p1))"
proof -
  have "succeeds (getVirtClient samplePlatform [(''tenant'', ''a'')] openPolicy sampleProcess)"
    by code_simp
  then obtain vc p1 where first: "getVirtClient samplePlatform [(''tenant'', ''a'')] openPolicy sampleProcess
      = (Ok (Some vc, None), p1)"
    by (rule succeedsE [OF getters_settle(6)])
  moreover have "asks samplePlatform [InfraClientset, TenantConfig] p1 =
      (fst (asks samplePlatform [InfraClientset, TenantConfig] p1),
       snd (asks samplePlatform [InfraClientset, TenantConfig] p1))" by simp
  ultimately show ?thesis using clients_reused by blast
qed

section \<open>The command line\<close>

definition flagText :: "string \<Rightarrow> string \<Rightarrow> string" where
  "flagText name v = ''--'' @ name @ CHR ''='' # v"

definition boolText :: "bool \<Rightarrow> string" where
  "boolText b = (if b then ''true'' else ''false'')"

text \<open>The arguments that spell out a configuration.\<close>

definition commandLine :: "'e config \<Rightarrow> string list" where
  "commandLine c =
    [flagText ''endpoint'' (cfg_endpoint c),
     flagText ''node-name'' (cfg_nodeName c),
     flagText ''infra-cluster-namespace'' (cfg_infraClusterNamespace c),
     flagText ''infra-cluster-kubeconfig'' (cfg_infraClusterKubeconfig c),
     flagText ''infra-cluster-labels'' (cfg_infraClusterLabels c),
     flagText ''volume-prefix'' (cfg_volumePrefix c),
     flagText ''tenant-cluster-kubeconfig'' (cfg_tenantClusterKubeconfig c),
     flagText ''run-node-service'' (boolText (cfg_runNodeService c)),
     flagText ''run-controller-service'' (boolText (cfg_runControllerService c))]"

lemma Parse_string:
  "plainName name \<Longrightarrow> find (\<lambda>f. fl_Name f = name) formal = Some (StringVar name assign) \<Longrightarrow>
   Parse formal (flagText name v # args) c = Parse formal args (assign v c)"
  unfolding flagText_def by (rule Parse_eq, assumption, assumption, simp add: StringVar_def)

lemma Parse_bool:
  "plainName name \<Longrightarrow> find (\<lambda>f. fl_Name f = name) formal = Some (BoolVar name assign) \<Longrightarrow>
   Parse formal (flagText name (boolText b) # args) c = Parse formal args (assign b c)"
  unfolding flagText_def by (rule Parse_eq, assumption, assumption, simp add: BoolVar_def boolText_def)

lemma find_flag:
  "find (\<lambda>f. fl_Name f = name) (StringVar name' s # fs) =
     (if name' = name then Some (StringVar name' s) else find (\<lambda>f. fl_Name f = name) fs)"
  "find (\<lambda>f. fl_Name f = name) (BoolVar name' b # fs) =
     (if name' = name then Some (BoolVar name' b) else find (\<lambda>f. fl_Name f = name) fs)"
  by (simp_all add: StringVar_def BoolVar_def)

text \<open>C27 Reading back: the arguments that spell out a configuration, whatever characters its values hold and
  whatever flags klog adds, are parsed into a configuration with exactly these settings, the storage
  class policy of the environment, and no clients yet.\<close>

theorem parse_config_roundtrip:
  "parseConfig klogFlags Getenv (commandLine c) =
     (Some (c\<lparr>cfg_infraStorageClassEnforcement := Getenv ''INFRA_STORAGE_CLASS_ENFORCEMENT'',
        cfg_tenantConfig := None, cfg_infraConfig := None, cfg_tenantClientset := None,
        cfg_tenantSnapshotClientset := None, cfg_infraClientset := None, cfg_virtClient := None\<rparr>), None)"
  by (simp add: parseConfig_def commandLine_def configFlags_def find_flag Parse_string Parse_bool
      plainName_def default_config_def zero_config_def del: find.simps Parse.simps(2))

section \<open>Labels\<close>

definition labelText :: "string gomap \<Rightarrow> string" where
  "labelText kvs = Join CHR '','' (map (\<lambda>(k, v). k @ CHR ''='' # v) kvs)"

text \<open>Keys and values that can be written: no comma, and no equals sign in a key.\<close>

definition writable :: "string gomap \<Rightarrow> bool" where
  "writable kvs \<longleftrightarrow> kvs \<noteq> [] \<and>
     list_all (\<lambda>(k, v). CHR '','' \<notin> set k \<and> CHR '','' \<notin> set v \<and> CHR ''='' \<notin> set k) kvs"

lemma parseLabels_loop_pairs:
  assumes "list_all (\<lambda>(k, v). CHR ''='' \<notin> set k) kvs"
  shows "\<exists>m'. parseLabels_loop (map (\<lambda>(k, v). k @ CHR ''='' # v) kvs) m = Inr m' \<and>
    map_of m' = map_of m ++ map_of (rev kvs)"
  using assms
proof (induction kvs arbitrary: m)
  case (Cons kv kvs)
  obtain k v where kv: "kv = (k, v)" by fastforce
  from Cons.prems have "SplitN2 (k @ CHR ''='' # v) CHR ''='' = [k, v]"
    by (simp add: kv SplitN2_sep)
  moreover from Cons.prems have "list_all (\<lambda>(k, v). CHR ''='' \<notin> set k) kvs" by simp
  moreover have "map_of (AList.update k v m) ++ map_of (rev kvs) = map_of m ++ map_of (rev kvs @ [(k, v)])"
    by (simp add: update_conv' map_add_upd_left map_add_def fun_eq_iff split: option.split)
  ultimately show ?case
    using Cons.IH [of "AList.update k v m"] by (simp add: kv)
qed simp

text \<open>C28 Reading back: labels that are written as \<open>key=value\<close> fields separated by commas are read as the map that
  gives each key its last value, whatever else the keys and values hold.\<close>

theorem parse_labels_roundtrip:
  assumes "writable kvs" and "cfg_infraClusterLabels cfg = labelText kvs"
  shows "\<exists>m. parseLabels cfg = Inr m \<and> map_of m = map_of (rev kvs)"
proof -
  let ?parts = "map (\<lambda>(k, v). k @ CHR ''='' # v) kvs"
  from assms(1) have ne: "?parts \<noteq> []" and "\<forall>p \<in> set ?parts. CHR '','' \<notin> set p"
    and keys: "list_all (\<lambda>(k, v). CHR ''='' \<notin> set k) kvs"
    by (auto simp: writable_def list_all_iff)
  then have "Split (labelText kvs) CHR '','' = ?parts"
    unfolding labelText_def by (blast intro: Split_Join)
  moreover from ne have "labelText kvs \<noteq> []"
    unfolding labelText_def by (cases kvs rule: list.exhaust; cases "tl kvs") auto
  ultimately show ?thesis
    using assms(2) parseLabels_loop_pairs [OF keys, of "[]"] by (simp add: parseLabels_def)
qed

theorem parse_labels_roundtrip_witness:
  "\<exists>m. parseLabels (default_config\<lparr>cfg_infraClusterLabels := ''a=b=c,d=,a=x''\<rparr> :: unit config) = Inr m \<and>
     map_of m ''a'' = Some ''x'' \<and> map_of m ''d'' = Some ''''"
proof -
  have "writable [(''a'', ''b=c''), (''d'', ''''), (''a'', ''x'')]" by code_simp
  moreover have "cfg_infraClusterLabels (default_config\<lparr>cfg_infraClusterLabels := ''a=b=c,d=,a=x''\<rparr> :: unit config) =
      labelText [(''a'', ''b=c''), (''d'', ''''), (''a'', ''x'')]" by code_simp
  ultimately show ?thesis
    by (drule_tac parse_labels_roundtrip) auto
qed

text \<open>Labels without an equals sign in one of the fields, or none at all, are refused.\<close>

lemma parseLabels_loop_bad:
  "(\<exists>e. parseLabels_loop ls m = Inl e) \<longleftrightarrow> (\<exists>l \<in> set ls. CHR ''='' \<notin> set l)"
proof (induction ls arbitrary: m)
  case (Cons l ls)
  show ?case
  proof (cases "CHR ''='' \<in> set l")
    case True
    then obtain k v where "SplitN2 l CHR ''='' = [k, v]" by (simp add: SplitN2_def)
    with True Cons.IH show ?thesis by simp
  next
    case False
    then show ?thesis by (simp add: SplitN2_def)
  qed
qed simp

text \<open>Labels are refused exactly when there are none or when one of the comma-separated fields has no equals
  sign; so the driver's client never runs with an empty set of labels.\<close>

theorem parse_labels_refuses:
  "(\<exists>e. parseLabels cfg = Inl e) \<longleftrightarrow>
     cfg_infraClusterLabels cfg = '''' \<or>
     (\<exists>l \<in> set (Split (cfg_infraClusterLabels cfg) CHR '',''). CHR ''='' \<notin> set l)"
  using parseLabels_loop_bad [of "Split (cfg_infraClusterLabels cfg) CHR '',''" "[]"]
  by (simp add: parseLabels_def)

lemma parseLabels_ne: "parseLabels cfg \<noteq> Inr []"
proof -
  have grows: "m' \<noteq> []" if "parseLabels_loop ls m = Inr m'" and "m \<noteq> [] \<or> ls \<noteq> []" for ls m m'
    using that
    by (induction ls m rule: parseLabels_loop.induct) (auto split: list.splits simp: update_nonempty)
  show ?thesis
    by (auto simp: parseLabels_def dest!: grows)
qed

section \<open>The node ID\<close>

lemma resolveNodeID_Ok:
  assumes "resolveNodeID pid ann = (nodeID, None)"
  obtains ns vm where "nodeID = ns @ CHR ''/'' # vm" and "ns \<noteq> ''''" and "vm \<noteq> ''''"
    and "if HasPrefix pid kubevirtScheme
         then pid = kubevirtScheme @ vm \<and> ns = map_get ann ''cluster.x-k8s.io/cluster-namespace''
         else vm = map_get ann ''csi.kubevirt.io/infra-vm-name'' \<and>
              ns = map_get ann ''csi.kubevirt.io/infra-vm-namespace''"
  using assms that
  by (auto simp: resolveNodeID_def Let_def split: if_splits elim: HasPrefixE)



end
