(* ===== verification/Driver_Guarantees.thy ===== *)
theory Driver_Guarantees
  imports Driver_Startup Config_Guarantees
begin

text \<open>
  What holds of the driver that the process puts together: starting up ends with a driver or an error, the
  clients address the right servers, the controller keeps to the namespace, labels and prefix of the
  command line, and the node service announces the virtual machine that the tenant's node object names.
\<close>

section \<open>Starting up ends\<close>

lemma Nodes_Get_settles: "settles (Nodes_Get rt h name)"
  unfolding settles_def Nodes_Get_def
  by (metis typed_getE typed_get_never_panics never_panicsE option.distinct(1) surj_pair)

lemma withNode_settles: "settles (withNode pf k tc nodeName driver node)"
  by (auto simp: withNode_def simp del: ret_apply split: prod.split option.split)

lemma configure_settles:
  "settles (configureControllerService pf driver)" "settles (configureNodeService pf k driver)"
  unfolding configureControllerService_def configureNodeService_def
  by (intro settles_rules getters_settle settles_in_world Nodes_Get_settles withNode_settles;
      simp split: prod.split option.split add: settles_try_call getters_settle)+

lemma initialize_settles: "settles (initializeDriver pf k)"
  unfolding initializeDriver_def by (intro settles_rules configure_settles) simp_all

text \<open>C33 From every state and on every platform, start-up returns a driver or an error: it never dereferences a
  nil client, and it returns no driver beside an error.\<close>

theorem startup_settles:
  "\<exists>driver err p'. initializeDriver pf k p = (Ok (driver, err), p') \<and> (driver = None \<longleftrightarrow> err \<noteq> None)"
proof (rule settlesE [OF initialize_settles, of pf k p])
  fix x e p' assume run: "initializeDriver pf k p = (Ok (x, Some e), p')"
  then have "x = None"
    by (auto simp: initializeDriver_def try_call_def bindG_def deref_def split: prod.splits outcome.splits
        option.splits if_splits)
  with run show ?thesis by blast
qed blast

section \<open>The clients address the right servers\<close>

lemma RESTClientFor_Ok:
  assumes "RESTClientFor lib c = (Some r, None)"
  shows "rs_Host r = rc_Host c \<and> rs_APIPath r = rc_APIPath c \<and> hc_UserAgent (rs_Http r) = rc_UserAgent c \<and>
    hc_Auth (rs_Http r) = rc_Auth c"
  using assms by (auto simp: RESTClientFor_def try_new_Ok RESTClient_Ok HTTPClientFor_Ok split: if_splits option.splits)

text \<open>C34 A client of the infra cluster that was built has the labels, the policy and the prefix it was given, the
  prefix followed by a dash.  Its clients for KubeVirt, CDI and snapshots are those of the right group at the
  server of the infra configuration, with its credentials and a user agent; its tenant clients are the ones
  it was given.  The client for hot-plug requests has the same server and credentials, but the user agent of
  the configuration before the default was filled in.\<close>

theorem new_client_targets:
  assumes "NewClient lib dial rc labels tc tsc enf pfx = ((Some c, None), rc')"
  shows "cl_infraLabelMap c = labels \<and> cl_storageClassEnforcement c = enf \<and> cl_volumePrefix c = pfx @ ''-'' \<and>
    rc' = withUserAgent lib rc \<and>
    (\<exists>a. cl_rt c = dial a \<and>
       clientset_for lib rc (''kubevirt.io'', ''v1'') (ac_virtClient a) \<and>
       clientset_for lib rc (''cdi.kubevirt.io'', ''v1beta1'') (ac_cdiClient a) \<and>
       clientset_for lib rc (''snapshot.storage.k8s.io'', ''v1'') (ac_infraSnapClient a) \<and>
       ac_infraKubernetesClient a = \<lparr>kk_Host = Infra, kk_Config = rc'\<rparr> \<and>
       ac_tenantKubernetesClient a = tc \<and> ac_tenantSnapClient a = tsc \<and>
       rs_Host (ac_restClient a) = rc_Host rc \<and> hc_Auth (rs_Http (ac_restClient a)) = rc_Auth rc \<and>
       hc_UserAgent (rs_Http (ac_restClient a)) = rc_UserAgent rc)"
proof -
  have agent: "withUserAgent lib (withUserAgent lib rc) = withUserAgent lib rc"
    by (auto simp: withUserAgent_def)
  have same: "clientset_for lib (withUserAgent lib rc) gv s \<Longrightarrow> clientset_for lib rc gv s" for gv s
    by (cases "rc_RateLimiter rc") (auto simp: clientset_for_def agent)
  from assms obtain r k v d s where rc': "rc' = withUserAgent lib rc"
    and r: "RESTClientFor lib (subresourceConfig rc) = (Some r, None)"
    and k: "kubernetes_NewForConfig lib Infra rc' = (Some k, None)"
    and v: "kubecli_NewForConfig lib rc' = (Some v, None)" and d: "cdicli_NewForConfig lib rc' = (Some d, None)"
    and s: "snapcli_NewForConfig lib rc' = (Some s, None)"
    and c: "c = \<lparr>cl_rt = dial \<lparr>ac_restClient = r, ac_infraKubernetesClient = k, ac_virtClient = v,
        ac_cdiClient = d, ac_infraSnapClient = s, ac_tenantKubernetesClient = tc, ac_tenantSnapClient = tsc\<rparr>,
        cl_storageClassEnforcement = enf, cl_infraLabelMap = labels, cl_volumePrefix = pfx @ ''-''\<rparr>"
    by (auto simp: NewClient_def Let_def try_new_Ok split: option.splits)
  from k have "k = \<lparr>kk_Host = Infra, kk_Config = rc'\<rparr>"
    by (auto simp: kubernetes_NewForConfig_def split: option.splits)
  moreover have "clientset_for lib rc (''kubevirt.io'', ''v1'') v"
    using clientsets_Ok(1) [OF v] same rc' by simp
  moreover have "clientset_for lib rc (''cdi.kubevirt.io'', ''v1beta1'') d"
    using clientsets_Ok(2) [OF d] same rc' by simp
  moreover have "clientset_for lib rc (''snapshot.storage.k8s.io'', ''v1'') s"
    using clientsets_Ok(3) [OF s] same rc' by simp
  ultimately show ?thesis
    using RESTClientFor_Ok [OF r] c rc' by (auto simp: subresourceConfig_def)
qed

definition sampleKube :: KubeClientset where
  "sampleKube = \<lparr>kk_Host = Tenant, kk_Config = sampleRest ''tenant''\<rparr>"

definition sampleTenantSnap :: Clientset where
  "sampleTenantSnap = (case snapcli_NewForConfig sampleLib (sampleRest ''tenant'') of (Some s, _) \<Rightarrow> s)"

theorem new_client_targets_witness:
  "\<exists>c. \<exists>a :: ApiClients. fst (NewClient sampleLib (\<lambda>_. nodeRuntime) (sampleRest ''infra'') [(''tenant'', ''a'')] sampleKube
      sampleTenantSnap openPolicy ''pvc'') = (Some c, None) \<and>
     cl_volumePrefix c = ''pvc-'' \<and> rs_Host (kc_group (ac_virtClient a)) = ''infra'' \<and>
     hc_UserAgent (rs_Http (kc_group (ac_virtClient a))) = ''csi'' \<and>
     hc_UserAgent (rs_Http (ac_restClient a)) = ''''"
proof -
  let ?new = "NewClient sampleLib (\<lambda>_. nodeRuntime) (sampleRest ''infra'') [(''tenant'', ''a'')] sampleKube
      sampleTenantSnap openPolicy ''pvc''"
  have "snd (fst ?new) = None \<and> fst (fst ?new) \<noteq> None" by code_simp
  then obtain c rc' where "?new = ((Some c, None), rc')" by (metis not_None_eq prod.collapse)
  moreover from new_client_targets [OF this] obtain a :: ApiClients where "cl_volumePrefix c = ''pvc'' @ ''-''"
    and "clientset_for sampleLib (sampleRest ''infra'') (''kubevirt.io'', ''v1'') (ac_virtClient a)"
    and "hc_UserAgent (rs_Http (ac_restClient a)) = rc_UserAgent (sampleRest ''infra'')" by blast
  ultimately show ?thesis
    by (intro exI [of _ c] exI [of _ a])
      (simp add: clientset_for_def sampleRest_def withUserAgent_def sampleLib_def)
qed

section \<open>The controller keeps to the command line\<close>

lemma getVirtClient_Ok:
  assumes "getVirtClient pf labels enf p = (Ok (Some vc, None), p')" and "cfg_virtClient (ps_cfg p) = None"
  shows "cfg_volumePrefix (ps_cfg p) \<noteq> '''' \<and> cl_infraLabelMap vc = labels \<and>
    cl_storageClassEnforcement vc = enf \<and> cl_volumePrefix vc = cfg_volumePrefix (ps_cfg p) @ ''-''"
proof -
  from assms obtain rc tc tsc p1 p2 where "cfg_volumePrefix (ps_cfg p) \<noteq> ''''"
    and "buildVirtClient pf rc labels tc tsc enf (cfg_volumePrefix (ps_cfg p)) p1 = (Ok (Some vc, None), p2)"
    by (auto simp: getVirtClient_def try_call_Ok split: if_splits)
  moreover from this obtain rc' where "NewClient (pf_lib pf) (pf_dial pf) rc labels tc tsc enf
      (cfg_volumePrefix (ps_cfg p)) = ((Some vc, None), rc')"
    by (auto simp: buildVirtClient_def split: prod.splits)
  ultimately show ?thesis
    by (auto simp: NewClient_def Let_def try_new_Ok split: option.splits)
qed

definition sameVirt :: "'e process \<Rightarrow> 'e process \<Rightarrow> bool" where
  "sameVirt p p' \<longleftrightarrow> cfg_virtClient (ps_cfg p') = cfg_virtClient (ps_cfg p)"

lemma sameVirt_reflp: "reflp sameVirt"
  by (simp add: reflp_def sameVirt_def)

lemma sameVirt_transp: "transp sameVirt"
  by (rule transpI) (simp add: sameVirt_def)

lemma sameVirt_getInfraClientset: "keeps sameVirt (getInfraClientset pf)"
  unfolding getInfraClientset_def getInfraConfig_def getConfigOrInCluster_def try_call_def
  by (intro keeps_reading keeps_bind [OF sameVirt_transp] keeps_case_option keeps_case_prod keeps_case_sum
      keeps_ret [OF sameVirt_reflp] keeps_deref [OF sameVirt_reflp];
      simp add: keeps_def sameVirt_def storing_def noting_def in_world_def split: prod.split)

lemma configureController_Ok:
  assumes run: "configureControllerService pf driver p = (Ok (Some d, None), p')"
    and fresh: "cfg_virtClient (ps_cfg p) = None"
  shows "\<exists>c labels. dr_ControllerService d = Some (controllerOver c (cfg_infraClusterNamespace (ps_cfg p))) \<and>
    parseLabels (ps_cfg p) = Inr labels \<and> cl_infraLabelMap c = labels \<and>
    cl_volumePrefix c = cfg_volumePrefix (ps_cfg p) @ ''-'' \<and> cfg_volumePrefix (ps_cfg p) \<noteq> '''' \<and>
    (cl_storageClassEnforcement c, None) = configureStorageClassEnforcement (pf_UnmarshalYaml pf)
       (cfg_infraStorageClassEnforcement (ps_cfg p))"
proof -
  from run obtain labels enf ic vc p1 where labels: "parseLabels (ps_cfg p) = Inr labels"
    and enf: "configureStorageClassEnforcement (pf_UnmarshalYaml pf)
       (cfg_infraStorageClassEnforcement (ps_cfg p)) = (enf, None)"
    and i: "getInfraClientset pf p = (Ok (Some ic, None), p1)"
    and v: "getVirtClient pf labels enf p1 = (Ok (Some vc, None), p')"
    and d: "d = WithIdentityService pf ic (WithControllerService (as_Client vc)
       (cfg_infraClusterNamespace (ps_cfg p)) labels enf (sleep_world (cl_rt vc)) driver)"
    by (auto simp: configureControllerService_def try_call_Ok split: sum.splits prod.splits option.splits)
  from keepsD [OF sameVirt_getInfraClientset i] fresh have "cfg_virtClient (ps_cfg p1) = None"
    by (simp add: sameVirt_def)
  moreover have "cfg_volumePrefix (ps_cfg p1) = cfg_volumePrefix (ps_cfg p)"
    using keepsD [OF retains_clientsets(3) i] by (simp add: retains_def settings_def Let_def)
  ultimately show ?thesis
    using getVirtClient_Ok [OF v] labels enf d
    by (auto simp: WithIdentityService_def WithControllerService_def controllerOver_def)
qed

lemma withNode_Ok:
  assumes "withNode pf k tc nodeName driver node p = (Ok (Some d, None), p')"
  obtains nodeID where "resolveNodeID (node_ProviderID node) (om_Annotations (node_Meta node)) = (nodeID, None)"
    and "d = WithIdentityService pf tc (WithNodeService k nodeID driver)" and "p' = p"
proof -
  obtain nodeID err where id: "resolveNodeID (node_ProviderID node) (om_Annotations (node_Meta node)) = (nodeID, err)"
    by fastforce
  with assms that show thesis by (cases err) (auto simp: withNode_def)
qed

lemma configureNode_Ok:
  assumes "configureNodeService pf k driver p = (Ok (Some d, None), p')"
  obtains tc p1 node nodeID where "getTenantClientset pf p = (Ok (Some tc, None), p1)"
    and "in_world (Nodes_Get (pf_dialKube pf tc) (kk_Host tc) (cfg_nodeName (ps_cfg p1))) p1 = (Ok (Some node, None), p')"
    and "resolveNodeID (node_ProviderID node) (om_Annotations (node_Meta node)) = (nodeID, None)"
    and "d = WithIdentityService pf tc (WithNodeService k nodeID driver)"
proof -
  from assms obtain tc p1 node p2 where tc: "getTenantClientset pf p = (Ok (Some tc, None), p1)"
    and node: "in_world (Nodes_Get (pf_dialKube pf tc) (kk_Host tc) (cfg_nodeName (ps_cfg p1))) p1 =
        (Ok (Some node, None), p2)"
    and "withNode pf k tc (cfg_nodeName (ps_cfg p1)) driver node p2 = (Ok (Some d, None), p')"
    by (auto simp: configureNodeService_def try_call_Ok split: if_splits)
  from this(3) that tc node show thesis by (elim withNode_Ok) simp
qed

lemma configureNode_controller:
  "configureNodeService pf k driver p = (Ok (Some d, None), p') \<Longrightarrow>
   dr_ControllerService d = dr_ControllerService driver"
  by (erule configureNode_Ok) (simp add: WithIdentityService_def WithNodeService_def)

lemma initialize_Ok:
  assumes "initializeDriver pf k p = (Ok (Some d, None), p')"
  shows "\<exists>d1 p1. (if cfg_runControllerService (ps_cfg p)
      then configureControllerService pf NewKubevirtCSIDriver p = (Ok (Some d1, None), p1)
      else d1 = NewKubevirtCSIDriver \<and> p1 = p) \<and>
    (if cfg_runNodeService (ps_cfg p1) then configureNodeService pf k d1 p1 = (Ok (Some d, None), p')
     else d = d1 \<and> p' = p1)"
proof -
  from assms obtain d1 p1 where
    one: "(if cfg_runControllerService (ps_cfg p) then configureControllerService pf NewKubevirtCSIDriver
       else ret (Some NewKubevirtCSIDriver, None)) p = (Ok (Some d1, None), p1)"
    and two: "(if cfg_runNodeService (ps_cfg p1) then configureNodeService pf k d1 else ret (Some d1, None)) p1
       = (Ok (Some d, None), p')"
    unfolding initializeDriver_def try_call_Ok reading_apply ret_apply by blast
  then show ?thesis by (intro exI [of _ d1] exI [of _ p1]) (simp split: if_splits)
qed

text \<open>C7 The controller of a started driver keeps to the command line: whatever RPCs it serves and whatever the
  clusters answer, each request it sends is allowed for the namespace, the labels and the prefix that the
  flags give; the labels are those of the flag, and neither they nor the prefix are empty.\<close>

theorem started_controller_confined:
  assumes run: "initializeDriver pf k p = (Ok (Some d, None), p')"
    and fresh: "cfg_virtClient (ps_cfg p) = None" and ctl: "cfg_runControllerService (ps_cfg p)"
  shows "\<exists>S labels. dr_ControllerService d = Some S \<and> parseLabels (ps_cfg p) = Inr labels \<and> labels \<noteq> [] \<and>
    cfg_volumePrefix (ps_cfg p) \<noteq> '''' \<and>
    (\<forall>rpcs w. \<exists>l. w_log (snd (serve S rpcs w)) = w_log w @ l \<and>
       guarded \<lparr>po_Namespace = cfg_infraClusterNamespace (ps_cfg p), po_Labels = labels,
         po_Prefix = cfg_volumePrefix (ps_cfg p) @ ''-''\<rparr> (w_log w) l)"
proof -
  from initialize_Ok [OF run] ctl obtain d1 p1
    where cc: "configureControllerService pf NewKubevirtCSIDriver p = (Ok (Some d1, None), p1)"
    and "if cfg_runNodeService (ps_cfg p1) then configureNodeService pf k d1 p1 = (Ok (Some d, None), p')
        else d = d1 \<and> p' = p1" by (metis (full_types))
  then have d: "dr_ControllerService d = dr_ControllerService d1"
    by (auto dest: configureNode_controller split: if_splits)
  from configureController_Ok [OF cc fresh] obtain c labels where
    "dr_ControllerService d1 = Some (controllerOver c (cfg_infraClusterNamespace (ps_cfg p)))"
    and labels: "parseLabels (ps_cfg p) = Inr labels" and "cl_infraLabelMap c = labels"
      "cl_volumePrefix c = cfg_volumePrefix (ps_cfg p) @ ''-''" and "cfg_volumePrefix (ps_cfg p) \<noteq> ''''"
    by blast
  moreover have "labels \<noteq> []" using labels parseLabels_ne by blast
  moreover have "\<exists>l. w_log (snd (serve (controllerOver c ns) rpcs w)) = w_log w @ l \<and>
      guarded (client_policy c ns) (w_log w) l" for ns rpcs w
    using ctl.serve_conf [of c ns rpcs] by (simp add: keeps_def confined_def)
  ultimately show ?thesis
    using d unfolding client_policy_def by metis
qed

definition sampleStarted :: "((unit, unit) KubevirtCSIDriver option \<times> gerr option) outcome \<times> unit process" where
  "sampleStarted = initializeDriver samplePlatform \<lparr>k_call = (\<lambda>_ e. (RErr None, e))\<rparr> sampleProcess"

lemma sampleStarted_Ok:
  obtains d p' where "sampleStarted = (Ok (Some d, None), p')"
proof -
  have "succeeds sampleStarted" by code_simp
  then show thesis using that unfolding sampleStarted_def by (rule succeedsE [OF initialize_settles])
qed

theorem started_controller_confined_witness:
  "\<exists>d S. fst sampleStarted = Ok (Some d, None) \<and> dr_ControllerService d = Some S \<and>
     (\<exists>l. w_log (snd (serve S [RpcDeleteVolume (Some ''pvc-a'')] \<lparr>w_env = (), w_log = [], w_mapping = [], w_populated = False\<rparr>)) = l \<and>
       guarded \<lparr>po_Namespace = ''ns'', po_Labels = [(''tenant'', ''a'')], po_Prefix = ''pvc-''\<rparr> [] l)"
proof -
  obtain d p' where run: "sampleStarted = (Ok (Some d, None), p')" by (rule sampleStarted_Ok)
  have cfg: "cfg_virtClient (ps_cfg sampleProcess) = None" "cfg_runControllerService (ps_cfg sampleProcess)"
    "parseLabels (ps_cfg sampleProcess) = Inr [(''tenant'', ''a'')]"
    "cfg_volumePrefix (ps_cfg sampleProcess) @ ''-'' = ''pvc-''"
    "cfg_infraClusterNamespace (ps_cfg sampleProcess) = ''ns''"
  proof -
    show "parseLabels (ps_cfg sampleProcess) = Inr [(''tenant'', ''a'')]" by code_simp
  qed (simp_all add: sampleProcess_def sampleConfig_def default_config_def zero_config_def)
  from started_controller_confined [OF run [unfolded sampleStarted_def] cfg(1,2)] obtain S
    where "dr_ControllerService d = Some S" and guard: "\<And>rpcs w. \<exists>l. w_log (snd (serve S rpcs w)) = w_log w @ l \<and>
       guarded \<lparr>po_Namespace = ''ns'', po_Labels = [(''tenant'', ''a'')], po_Prefix = ''pvc-''\<rparr> (w_log w) l"
    unfolding cfg(3,4,5) by blast
  moreover from guard [of "[RpcDeleteVolume (Some ''pvc-a'')]" "\<lparr>w_env = (), w_log = [], w_mapping = [], w_populated = False\<rparr>"]
  have "\<exists>l. w_log (snd (serve S [RpcDeleteVolume (Some ''pvc-a'')] \<lparr>w_env = (), w_log = [], w_mapping = [], w_populated = False\<rparr>)) = l \<and>
       guarded \<lparr>po_Namespace = ''ns'', po_Labels = [(''tenant'', ''a'')], po_Prefix = ''pvc-''\<rparr> [] l" by simp
  ultimately show ?thesis unfolding run fst_conv by blast
qed

section \<open>The node service announces its virtual machine\<close>

text \<open>The tenant's clientset in the configuration, when there is one, is one for the tenant cluster.\<close>

definition tenantTagged :: "'e process \<Rightarrow> bool" where
  "tenantTagged p \<longleftrightarrow> (\<forall>tc. cfg_tenantClientset (ps_cfg p) = Some tc \<longrightarrow> kk_Host tc = Tenant)"

definition keepsTag :: "'e process \<Rightarrow> 'e process \<Rightarrow> bool" where
  "keepsTag p p' \<longleftrightarrow> (tenantTagged p \<longrightarrow> tenantTagged p')"

lemma keepsTag_reflp: "reflp keepsTag"
  by (simp add: reflp_def keepsTag_def)

lemma keepsTag_transp: "transp keepsTag"
  by (rule transpI) (simp add: keepsTag_def)

lemma keepsTag_same: "(\<And>p. cfg_tenantClientset (ps_cfg (snd (m p))) = cfg_tenantClientset (ps_cfg p)) \<Longrightarrow>
   keeps keepsTag m"
  by (simp add: keeps_def keepsTag_def tenantTagged_def)

lemmas keepsTag_basic = keeps_reading keeps_bind [OF keepsTag_transp] keeps_case_option keeps_case_prod
  keeps_case_sum keeps_if keeps_ret [OF keepsTag_reflp] keeps_deref [OF keepsTag_reflp]

lemma keepsTag_steps:
  "keeps keepsTag (noting ev)" "keeps keepsTag (in_world m)"
  "(\<And>c. cfg_tenantClientset (f c) = cfg_tenantClientset c) \<Longrightarrow> keeps keepsTag (storing f)"
  "kk_Host tc = Tenant \<Longrightarrow> keeps keepsTag (storing (\<lambda>c. c\<lparr>cfg_tenantClientset := Some tc\<rparr>))"
  by (auto simp: keeps_def keepsTag_def tenantTagged_def noting_def in_world_def storing_def split: prod.split)

lemma keepsTag_getters:
  "keeps keepsTag (getTenantConfig pf)" "keeps keepsTag (getInfraConfig pf)"
  "keeps keepsTag (getTenantSnapshotClientset pf)" "keeps keepsTag (getInfraClientset pf)"
proof -
  show t: "keeps keepsTag (getTenantConfig pf)" and i: "keeps keepsTag (getInfraConfig pf)"
    unfolding getTenantConfig_def getInfraConfig_def getConfigOrInCluster_def try_call_def
    by (intro keepsTag_basic keepsTag_steps; simp)+
  show "keeps keepsTag (getTenantSnapshotClientset pf)" and "keeps keepsTag (getInfraClientset pf)"
    unfolding getTenantSnapshotClientset_def getInfraClientset_def try_call_def
    by (intro keepsTag_basic keepsTag_steps t i; simp)+
qed

lemma keepsTag_tenant: "keeps keepsTag (getTenantClientset pf)"
proof -
  have tag: "kk_Host tc = Tenant" if "kubernetes_NewForConfig lib Tenant rc = (Some tc, err)" for tc rc lib err
    using that by (auto simp: kubernetes_NewForConfig_def split: option.splits)
  show ?thesis
    unfolding getTenantClientset_def try_call_def bindG_ret
    by (intro keepsTag_basic keepsTag_steps(1,2,4) keepsTag_getters) (use tag in auto)
qed

lemma keepsTag_virt: "keeps keepsTag (getVirtClient pf labels enf)"
  unfolding getVirtClient_def try_call_def buildVirtClient_def
  by (intro keepsTag_basic keepsTag_steps keepsTag_getters keepsTag_tenant; simp)

lemma configureController_keeps:
  "keeps keepsTag (configureControllerService pf d)" "keeps retains (configureControllerService pf d)"
  unfolding configureControllerService_def try_call_def
  by (intro keepsTag_basic keepsTag_getters keepsTag_virt)
    (intro keeps_reading keeps_case_sum keeps_case_prod keeps_case_option keeps_deref [OF retains_reflp]
      retains_basic retains_clientsets retains_virtClient)



end
