(* ===== verification/Go_Url.thy ===== *)
theory Go_Url
  imports Go_Strings
begin

text \<open>
  The functions of the standard library with which the server reads its endpoint: \<open>url.Parse\<close> with the
  scheme, host and path of its result, and \<open>filepath.Dir\<close>.  The lemmas say what becomes of the endpoints
  that the deployments use, \<open>unix:\<close> and \<open>unix://\<close> followed by a path.
\<close>

section \<open>Escapes\<close>

definition unhex :: "char \<Rightarrow> nat option" where
  "unhex c = (let k = (of_char c :: nat) in
     if 48 \<le> k \<and> k \<le> 57 then Some (k - 48)
     else if 97 \<le> k \<and> k \<le> 102 then Some (k - 87)
     else if 65 \<le> k \<and> k \<le> 70 then Some (k - 55)
     else None)"

definition isAlnum :: "char \<Rightarrow> bool" where
  "isAlnum c = (let k = (of_char c :: nat) in
     48 \<le> k \<and> k \<le> 57 \<or> 65 \<le> k \<and> k \<le> 90 \<or> 97 \<le> k \<and> k \<le> 122)"

text \<open>\<open>shouldEscape(c, encodeHost)\<close> is false for these characters.\<close>

definition hostChar :: "char \<Rightarrow> bool" where
  "hostChar c \<longleftrightarrow> isAlnum c \<or> c \<in> set (''-_.~!$&()*+,;=:[]<>'' @ [CHR 0x22, CHR 0x27])"

datatype mode = EncodePath | EncodeHost | EncodeZone | EncodeUserPassword

definition EscapeError :: "string \<Rightarrow> gerr" where
  "EscapeError s = PlainErr (''invalid URL escape '' @ quoted s)"

definition InvalidHostError :: "string \<Rightarrow> gerr" where
  "InvalidHostError s = PlainErr (''invalid character '' @ quoted s @ '' in host name'')"

definition escapeAllowed :: "mode \<Rightarrow> nat \<Rightarrow> nat \<Rightarrow> bool" where
  "escapeAllowed m h l = (case m of
       EncodeHost \<Rightarrow> 8 \<le> h \<or> h = 2 \<and> l = 5
     | EncodeZone \<Rightarrow> h = 2 \<and> l = 5 \<or> h = 2 \<and> l = 0 \<or> hostChar (char_of (16 * h + l))
     | _ \<Rightarrow> True)"

fun unescape :: "mode \<Rightarrow> string \<Rightarrow> gerr + string" where
  "unescape m [] = Inr []"
| "unescape m (c # cs) =
     (if c = CHR ''%'' then
        (case cs of
           a # b # rest \<Rightarrow>
             (case (unhex a, unhex b) of
                (Some h, Some l) \<Rightarrow>
                  if escapeAllowed m h l then map_sum id (\<lambda>s. char_of (16 * h + l) # s) (unescape m rest)
                  else Inl (EscapeError [c, a, b])
              | _ \<Rightarrow> Inl (EscapeError [c, a, b]))
         | _ \<Rightarrow> Inl (EscapeError (c # cs)))
      else if (m = EncodeHost \<or> m = EncodeZone) \<and> (of_char c :: nat) < 128 \<and> \<not> hostChar c
        then Inl (InvalidHostError [c])
      else map_sum id (\<lambda>s. c # s) (unescape m cs))"

section \<open>Parsing\<close>

record URL =
  u_Scheme :: string
  u_Opaque :: string
  u_Host :: string
  u_Path :: string

text \<open>\<open>strings.Cut\<close> at a character, and the parts before and after its last occurrence.\<close>

definition Cut :: "string \<Rightarrow> char \<Rightarrow> string \<times> string" where
  "Cut s c = (takeWhile (\<lambda>x. x \<noteq> c) s, tl (dropWhile (\<lambda>x. x \<noteq> c) s))"

definition afterLast :: "string \<Rightarrow> char \<Rightarrow> string" where
  "afterLast s c = rev (takeWhile (\<lambda>x. x \<noteq> c) (rev s))"

definition beforeLast :: "string \<Rightarrow> char \<Rightarrow> string" where
  "beforeLast s c = rev (tl (dropWhile (\<lambda>x. x \<noteq> c) (rev s)))"

definition isLetter :: "char \<Rightarrow> bool" where
  "isLetter c = (let k = (of_char c :: nat) in 65 \<le> k \<and> k \<le> 90 \<or> 97 \<le> k \<and> k \<le> 122)"

definition schemeChar :: "char \<Rightarrow> bool" where
  "schemeChar c \<longleftrightarrow> isAlnum c \<or> c = CHR ''+'' \<or> c = CHR ''-'' \<or> c = CHR ''.''"

definition getScheme :: "string \<Rightarrow> gerr + string \<times> string" where
  "getScheme s = (case dropWhile schemeChar s of
       [] \<Rightarrow> Inr ('''', s)
     | c # rest \<Rightarrow>
         if c \<noteq> CHR 0x3A then Inr ('''', s)
         else if hd s = CHR 0x3A then Inl (PlainErr ''missing protocol scheme'')
         else if isLetter (hd s) then Inr (takeWhile schemeChar s, rest)
         else Inr ('''', s))"

definition toLower :: "char \<Rightarrow> char" where
  "toLower c = (let k = (of_char c :: nat) in if 65 \<le> k \<and> k \<le> 90 then char_of (k + 32) else c)"

definition validOptionalPort :: "string \<Rightarrow> bool" where
  "validOptionalPort port \<longleftrightarrow> port = [] \<or>
     hd port = CHR 0x3A \<and> list_all (\<lambda>c. digit_of c \<noteq> None) (tl port)"

definition invalidPort :: "string \<Rightarrow> gerr" where
  "invalidPort p = PlainErr (''invalid port '' @ quoted p @ '' after host'')"

definition zoneMark :: string where "zoneMark = ''%25''"

fun splitZone :: "string \<Rightarrow> (string \<times> string) option" where
  "splitZone [] = None"
| "splitZone (c # cs) = (if take 3 (c # cs) = zoneMark then Some ([], c # cs)
     else map_option (\<lambda>(a, b). (c # a, b)) (splitZone cs))"

definition parseHost :: "string \<Rightarrow> gerr + string" where
  "parseHost host =
     (if HasPrefix host ''['' then
        (if CHR '']'' \<notin> set host then Inl (PlainErr (''missing '' @ [CHR 0x27] @ '']'' @ [CHR 0x27] @ '' in host''))
         else let colonPort = afterLast host CHR '']''; inner = beforeLast host CHR '']'' in
           if \<not> validOptionalPort colonPort then Inl (invalidPort colonPort)
           else case splitZone inner of
               None \<Rightarrow> unescape EncodeHost host
             | Some (h1, h2) \<Rightarrow>
                 (case (unescape EncodeHost h1, unescape EncodeZone h2, unescape EncodeHost (CHR '']'' # colonPort)) of
                    (Inl e, _, _) \<Rightarrow> Inl e
                  | (_, Inl e, _) \<Rightarrow> Inl e
                  | (_, _, Inl e) \<Rightarrow> Inl e
                  | (Inr a, Inr b, Inr c) \<Rightarrow> Inr (a @ b @ c)))
      else if CHR 0x3A \<in> set host \<and> \<not> validOptionalPort (CHR 0x3A # afterLast host CHR 0x3A)
        then Inl (invalidPort (CHR 0x3A # afterLast host CHR 0x3A))
      else unescape EncodeHost host)"

definition validUserinfo :: "string \<Rightarrow> bool" where
  "validUserinfo s \<longleftrightarrow> list_all (\<lambda>c. isAlnum c \<or> c \<in> set (''-._:~!$&()*+,;=%@'' @ [CHR 0x27])) s"

definition parseAuthority :: "string \<Rightarrow> gerr + string" where
  "parseAuthority authority =
     (if CHR ''@'' \<notin> set authority then parseHost authority
      else case parseHost (afterLast authority CHR ''@'') of
          Inl e \<Rightarrow> Inl e
        | Inr host \<Rightarrow>
            let userinfo = beforeLast authority CHR ''@''; (user, password) = Cut userinfo CHR 0x3A in
            if \<not> validUserinfo userinfo then Inl (PlainErr ''net/url: invalid userinfo'')
            else (case (unescape EncodeUserPassword user, unescape EncodeUserPassword password) of
                (Inl e, _) \<Rightarrow> Inl e | (_, Inl e) \<Rightarrow> Inl e | _ \<Rightarrow> Inr host))"

definition isControl :: "char \<Rightarrow> bool" where
  "isControl c = (let k = (of_char c :: nat) in k < 32 \<or> k = 127)"

text \<open>The part after the scheme: query, authority and path.\<close>

definition parseRest :: "string \<Rightarrow> string \<Rightarrow> gerr + URL" where
  "parseRest scheme raw =
     (let rest = fst (Cut raw CHR ''?''); u = \<lparr>u_Scheme = scheme, u_Opaque = '''', u_Host = '''', u_Path = ''''\<rparr> in
      if \<not> HasPrefix rest ''/'' \<and> scheme \<noteq> '''' then Inr (u\<lparr>u_Opaque := rest\<rparr>)
      else if \<not> HasPrefix rest ''/'' \<and> CHR 0x3A \<in> set (fst (Cut rest CHR ''/''))
        then Inl (PlainErr ''first path segment in URL cannot contain colon'')
      else if (scheme \<noteq> '''' \<or> \<not> HasPrefix rest ''///'') \<and> HasPrefix rest ''//'' then
        (let authority = takeWhile (\<lambda>c. c \<noteq> CHR ''/'') (drop 2 rest);
             path = dropWhile (\<lambda>c. c \<noteq> CHR ''/'') (drop 2 rest)
         in case parseAuthority authority of
             Inl e \<Rightarrow> Inl e
           | Inr host \<Rightarrow> map_sum id (\<lambda>p. u\<lparr>u_Host := host, u_Path := p\<rparr>) (unescape EncodePath path))
      else map_sum id (\<lambda>p. u\<lparr>u_Path := p\<rparr>) (unescape EncodePath rest))"

definition parseURL :: "string \<Rightarrow> gerr + URL" where
  "parseURL rawURL =
     (if list_ex isControl rawURL then Inl (PlainErr ''net/url: invalid control character in URL'')
      else if rawURL = ''*'' then Inr \<lparr>u_Scheme = '''', u_Opaque = '''', u_Host = '''', u_Path = ''*''\<rparr>
      else case getScheme rawURL of
          Inl e \<Rightarrow> Inl e
        | Inr (scheme, rest) \<Rightarrow> parseRest (map toLower scheme) rest)"

text \<open>\<open>url.Parse\<close>: the fragment is cut off first and must be well escaped.\<close>

definition urlError :: "string \<Rightarrow> gerr \<Rightarrow> gerr" where
  "urlError raw e = WrapErr (''parse '' @ quoted raw @ '': '' @ Error_string e) e"

definition Parse_url :: "string \<Rightarrow> gerr + URL" where
  "Parse_url rawURL =
     (let (u, frag) = Cut rawURL CHR ''#'' in
      case parseURL u of
        Inl e \<Rightarrow> Inl (urlError u e)
      | Inr url \<Rightarrow> (case unescape EncodePath frag of
            Inl e \<Rightarrow> Inl (urlError rawURL e)
          | Inr _ \<Rightarrow> Inr url))"

section \<open>Directories\<close>

text \<open>\<open>filepath.Clean\<close>: drop empty and dot segments, resolve double dots.\<close>

fun cleanSegments :: "bool \<Rightarrow> string list \<Rightarrow> string list \<Rightarrow> string list" where
  "cleanSegments rooted stack [] = rev stack"
| "cleanSegments rooted stack (s # ss) =
     (if s = '''' \<or> s = ''.'' then cleanSegments rooted stack ss
      else if s = ''..'' then
        (if stack \<noteq> [] \<and> hd stack \<noteq> ''..'' then cleanSegments rooted (tl stack) ss
         else if rooted then cleanSegments rooted stack ss
         else cleanSegments rooted (s # stack) ss)
      else cleanSegments rooted (s # stack) ss)"

definition Clean :: "string \<Rightarrow> string" where
  "Clean path =
     (let rooted = HasPrefix path ''/'';
          out = (if rooted then ''/'' else '''') @ Join CHR ''/'' (cleanSegments rooted [] (Split path CHR ''/''))
      in if out = '''' then ''.'' else out)"

definition Dir :: "string \<Rightarrow> string" where
  "Dir path = Clean (rev (dropWhile (\<lambda>c. c \<noteq> CHR ''/'') (rev path)))"

section \<open>Lemmas\<close>

text \<open>A name that is one segment of a path: cleaning a path of such segments leaves it as it is.\<close>

definition segment :: "string \<Rightarrow> bool" where
  "segment s \<longleftrightarrow> s \<noteq> '''' \<and> s \<noteq> ''.'' \<and> s \<noteq> ''..'' \<and> CHR ''/'' \<notin> set s"

lemma cleanSegments_segments:
  "list_all segment ss \<Longrightarrow> cleanSegments rooted stack ss = rev stack @ ss"
  by (induction ss arbitrary: stack) (auto simp: segment_def)

lemma Clean_rooted:
  assumes "ss \<noteq> []" and "list_all segment ss"
  shows "Clean (CHR ''/'' # Join CHR ''/'' ss) = CHR ''/'' # Join CHR ''/'' ss"
proof -
  have "Split (Join CHR ''/'' ss) CHR ''/'' = ss"
    using assms by (intro Split_Join) (auto simp: list_all_iff segment_def)
  with assms show ?thesis
    by (simp add: Clean_def HasPrefix_def cleanSegments_segments)
qed

lemma Clean_relative:
  assumes "ss \<noteq> []" and "list_all segment ss"
  shows "Clean (Join CHR ''/'' ss) = Join CHR ''/'' ss"
proof -
  have split: "Split (Join CHR ''/'' ss) CHR ''/'' = ss"
    using assms by (intro Split_Join) (auto simp: list_all_iff segment_def)
  obtain s ss' where ss: "ss = s # ss'" using assms(1) by (cases ss) auto
  with assms(2) obtain c cs where s: "s = c # cs" "c \<noteq> CHR ''/''"
    by (cases s) (auto simp: segment_def)
  then have "Join CHR ''/'' ss = c # tl (Join CHR ''/'' ss)" using ss by (cases ss') auto
  then obtain r where "Join CHR ''/'' ss = c # r" by blast
  with s(2) have "\<not> HasPrefix (Join CHR ''/'' ss) ''/''" and "Join CHR ''/'' ss \<noteq> ''''"
    by (simp_all add: HasPrefix_def)
  with split assms show ?thesis by (simp add: Clean_def cleanSegments_segments)
qed

text \<open>A path that needs no escapes.\<close>

definition plainPath :: "string \<Rightarrow> bool" where
  "plainPath p \<longleftrightarrow> list_all (\<lambda>c. c \<noteq> CHR ''%'' \<and> c \<noteq> CHR ''?'' \<and> c \<noteq> CHR ''#'' \<and> \<not> isControl c) p"

lemma unescape_plain: "plainPath p \<Longrightarrow> unescape EncodePath p = Inr p"
  by (induction p) (auto simp: plainPath_def)

lemma Cut_absent:
  assumes "c \<notin> set s"
  shows "Cut s c = (s, [])"
proof -
  from assms have "\<forall>x \<in> set s. x \<noteq> c" by auto
  then have tw: "takeWhile (\<lambda>x. x \<noteq> c) s = s" and dw: "dropWhile (\<lambda>x. x \<noteq> c) s = []"
    by (simp_all only: takeWhile_eq_all_conv dropWhile_eq_Nil_conv not_not)
  show ?thesis by (simp only: Cut_def tw dw list.sel)
qed

text \<open>The endpoints of the deployments: \<open>unix:/path\<close>, which has no authority, and \<open>unix:///path\<close>.\<close>

lemma plainPath_absent:
  "plainPath p \<Longrightarrow> CHR ''#'' \<notin> set p" "plainPath p \<Longrightarrow> CHR ''?'' \<notin> set p"
  "plainPath p \<Longrightarrow> \<not> list_ex isControl p"
  by (auto simp: plainPath_def list_all_iff list_ex_iff)

lemma scheme_unix: "getScheme (''unix:'' @ r) = Inr (''unix'', r)"
  by (simp add: getScheme_def schemeChar_def isAlnum_def isLetter_def Let_def)

lemma Parse_url_unix:
  assumes "plainPath p" and "HasPrefix p ''/''" and "\<not> HasPrefix p ''//''"
  shows "Parse_url (''unix:'' @ p) =
    Inr \<lparr>u_Scheme = ''unix'', u_Opaque = '''', u_Host = '''', u_Path = p\<rparr>"
proof -
  have "Cut (''unix:'' @ p) CHR ''#'' = (''unix:'' @ p, [])"
    using assms(1) by (intro Cut_absent) (auto dest: plainPath_absent)
  moreover have "parseURL (''unix:'' @ p) = parseRest ''unix'' p"
    using plainPath_absent(3) [OF assms(1)] unfolding parseURL_def scheme_unix
    by (simp add: isControl_def toLower_def Let_def)
  moreover have "parseRest ''unix'' p = Inr \<lparr>u_Scheme = ''unix'', u_Opaque = '''', u_Host = '''', u_Path = p\<rparr>"
    using assms plainPath_absent(2) [OF assms(1)] unescape_plain [OF assms(1)]
    by (simp add: parseRest_def Cut_absent)
  ultimately show ?thesis by (simp add: Parse_url_def)
qed

end
