(* ===== verification/Driver_Server.thy ===== *)
theory Driver_Server
  imports Driver_Startup Go_Url
begin

text \<open>
  The gRPC server of \<open>src/pkg/service/server.go\<close>, \<open>Run\<close> of \<open>driver.go\<close> and \<open>main\<close>.  Files and sockets
  are behind the record \<open>netsys\<close>, a parameter; every call to them is recorded in a log.  \<open>klog.Fatal\<close>
  ends the process, here a panic with its message.

  A parameter of interface type is nil only when it was given as nil; an interface made from a pointer is
  never nil, even when the pointer is.  The model keeps the two apart.
\<close>

section \<open>Files and sockets\<close>

datatype netcall = OsRemove string | OsStatDir string | NetListen string string | GrpcServe string

record 'e nsworld =
  ns_env :: 'e
  ns_log :: "(netcall \<times> gerr option) list"

record 'e netsys =
  sy_call :: "netcall \<Rightarrow> 'e \<Rightarrow> gerr option \<times> 'e"

definition netcall_do :: "'e netsys \<Rightarrow> netcall \<Rightarrow> ('e nsworld, gerr option) go" where
  "netcall_do s c w = (case sy_call s c (ns_env w) of (err, e') \<Rightarrow>
     (Ok err, w\<lparr>ns_env := e', ns_log := ns_log w @ [(c, err)]\<rparr>))"

definition Fatal :: "string \<Rightarrow> ('w, 'a) go" where
  "Fatal msg = panic (''fatal: '' @ msg)"

section \<open>The server\<close>

datatype 'a iface = NilInterface | Interface "'a option"

record ('i, 'c, 'n) grpcServer =
  gr_Identity :: "'i option option"
  gr_Controller :: "'c option option"
  gr_Node :: "'n option option"

primrec registered :: "'a iface \<Rightarrow> 'a option option" where
  "registered NilInterface = None"
| "registered (Interface p) = Some p"

definition register :: "'i iface \<Rightarrow> 'c iface \<Rightarrow> 'n iface \<Rightarrow> ('i, 'c, 'n) grpcServer" where
  "register ids cs ns =
     \<lparr>gr_Identity = registered ids, gr_Controller = registered cs, gr_Node = registered ns\<rparr>"

text \<open>The address to listen on: for a socket of the file system, after removing a stale one.\<close>

definition listenAddress :: "'e netsys \<Rightarrow> URL \<Rightarrow> ('e nsworld, string) go" where
  "listenAddress s u =
     (if u_Scheme u = ''unix'' then
        bindG (netcall_do s (OsRemove (u_Path u))) (\<lambda>err.
          if err \<noteq> None \<and> \<not> IsNotExist err then Fatal (''Failed to remove '' @ u_Path u)
          else bindG (netcall_do s (OsStatDir (Dir (u_Path u)))) (\<lambda>err.
            if err \<noteq> None then
              (if IsNotExist err then Fatal (''Expected Kubelet plugin watcher to create parent dir '' @
                  Dir (u_Path u) @ '' but did not find such a dir'')
               else Fatal (''Failed to stat '' @ Dir (u_Path u)))
            else ret (u_Path u)))
      else if u_Scheme u = ''tcp'' then ret (u_Host u)
      else Fatal (u_Scheme u @ '' endpoint scheme not supported''))"

definition serveGRPC :: "'e netsys \<Rightarrow> string \<Rightarrow> 'i iface \<Rightarrow> 'c iface \<Rightarrow> 'n iface
    \<Rightarrow> ('e nsworld, ('i, 'c, 'n) grpcServer) go" where
  "serveGRPC s endpoint ids cs ns = (case Parse_url endpoint of
       Inl e \<Rightarrow> Fatal (Error_string e)
     | Inr u \<Rightarrow>
         bindG (listenAddress s u) (\<lambda>addr.
         bindG (netcall_do s (NetListen (u_Scheme u) addr)) (\<lambda>err.
           if err \<noteq> None then Fatal ''Failed to listen''
           else let server = register ids cs ns in
             bindG (netcall_do s (GrpcServe addr)) (\<lambda>err.
               if err \<noteq> None then Fatal ''Failed to serve'' else ret server))))"

text \<open>\<open>Run\<close> gives the server the pointers of the driver, as interfaces.\<close>

definition Run :: "'s netsys \<Rightarrow> ('e, 'n) KubevirtCSIDriver \<Rightarrow> string \<Rightarrow> ('s nsworld,
    ('e world IdentityService, 'e world ControllerService, 'n nworld NodeService) grpcServer) go" where
  "Run s driver endpoint = serveGRPC s endpoint (Interface (dr_IdentityService driver))
     (Interface (dr_ControllerService driver)) (Interface (dr_NodeService driver))"

text \<open>The interceptor: it logs, and passes request and result through.\<close>

definition logGRPC :: "('req \<Rightarrow> ('w, 'resp option \<times> gerr option) go) \<Rightarrow> 'req
    \<Rightarrow> ('w, 'resp option \<times> gerr option) go" where
  "logGRPC handler req = bindG (handler req) (\<lambda>(resp, err). ret (resp, err))"

section \<open>The life of the server object\<close>

text \<open>
  The server object as the main goroutine and the serving goroutine change it: the counter of the wait
  group, the field \<open>server\<close> and where the serving goroutine is.
\<close>

datatype phase = NotStarted | Preparing | Serving | Returned | Exited

record nonBlockingGRPCServer =
  sv_wg :: nat
  sv_server :: bool
  sv_phase :: phase

definition NewNonBlockingGRPCServer :: nonBlockingGRPCServer where
  "NewNonBlockingGRPCServer = \<lparr>sv_wg = 0, sv_server = False, sv_phase = NotStarted\<rparr>"

definition Start :: "nonBlockingGRPCServer \<Rightarrow> nonBlockingGRPCServer" where
  "Start s = s\<lparr>sv_wg := sv_wg s + 1, sv_phase := Preparing\<rparr>"

text \<open>\<open>Wait\<close> can return only when the counter is zero.\<close>

definition canWaitReturn :: "nonBlockingGRPCServer \<Rightarrow> bool" where
  "canWaitReturn s \<longleftrightarrow> sv_wg s = 0"

text \<open>\<open>Stop\<close> and \<open>ForceStop\<close> dereference the field \<open>server\<close>.\<close>

definition Stop :: "nonBlockingGRPCServer \<Rightarrow> nonBlockingGRPCServer outcome" where
  "Stop s = (if sv_server s then Ok (if sv_phase s = Serving then s\<lparr>sv_phase := Returned\<rparr> else s)
     else Panic nilDeref)"

inductive server_step :: "nonBlockingGRPCServer \<Rightarrow> nonBlockingGRPCServer \<Rightarrow> bool" where
  fatal: "sv_phase s = Preparing \<Longrightarrow> server_step s (s\<lparr>sv_phase := Exited\<rparr>)"
| listening: "sv_phase s = Preparing \<Longrightarrow> server_step s (s\<lparr>sv_server := True, sv_phase := Serving\<rparr>)"
| broken: "sv_phase s = Serving \<Longrightarrow> server_step s (s\<lparr>sv_phase := Exited\<rparr>)"
| stop: "Stop s = Ok s' \<Longrightarrow> server_step s s'"

inductive reachable :: "nonBlockingGRPCServer \<Rightarrow> bool" where
  started: "reachable (Start NewNonBlockingGRPCServer)"
| step: "reachable s \<Longrightarrow> server_step s s' \<Longrightarrow> reachable s'"

inductive_simps stop_simps: "server_step s s'"

section \<open>The process\<close>

text \<open>
  How the process ends: with an exit code, by a fatal error of either goroutine, or not at all, when the
  serving goroutine returned and the main one waits for a wait group that nobody releases.
\<close>

datatype exit = ExitCode nat | FatalExit string | WaitsForever

definition main :: "(string \<times> bool \<times> (string \<Rightarrow> string option)) list \<Rightarrow> (string \<Rightarrow> string) \<Rightarrow> string
    \<Rightarrow> 'e platform \<Rightarrow> 'n kernel \<Rightarrow> 's netsys \<Rightarrow> string list \<Rightarrow> 'e world \<Rightarrow> 's nsworld \<Rightarrow> exit" where
  "main klogFlags Getenv version pf k s args w v = (case parseConfig klogFlags Getenv args of
       (Some cfg, None) \<Rightarrow> (case prechecks version of
           Some e \<Rightarrow> FatalExit (''Prechecks failed: '' @ Error_string e)
         | None \<Rightarrow> (case initializeDriver pf k \<lparr>ps_world = w, ps_cfg = cfg, ps_events = []\<rparr> of
             (Ok (Some driver, None), _) \<Rightarrow> (case Run s driver (cfg_endpoint cfg) v of
                 (Ok _, _) \<Rightarrow> WaitsForever
               | (Panic msg, _) \<Rightarrow> FatalExit msg)
           | (Ok (_, Some e), _) \<Rightarrow> FatalExit (''Failed to initialize driver: '' @ Error_string e)
           | (Ok (None, None), _) \<Rightarrow> FatalExit nilDeref
           | (Panic msg, _) \<Rightarrow> FatalExit msg))
     | _ \<Rightarrow> ExitCode 1)"

end
