(* ===== verification/Server_Guarantees.thy ===== *)
theory Server_Guarantees
  imports Driver_Server
begin

text \<open>
  What the server does with its endpoint, which services it registers, and why \<open>Wait\<close> never returns.
\<close>

section \<open>Listening\<close>

lemma netcall_log:
  "\<exists>err w'. netcall_do s c w = (Ok err, w') \<and> ns_log w' = ns_log w @ [(c, err)]"
  by (simp add: netcall_do_def split: prod.split)

text \<open>The calls that serving on a socket of the file system makes, in this order.\<close>

definition serveCalls :: "string \<Rightarrow> netcall list" where
  "serveCalls p = [OsRemove p, OsStatDir (Dir p), NetListen ''unix'' p, GrpcServe p]"

definition tolerated :: "netcall \<times> gerr option \<Rightarrow> bool" where
  "tolerated x = (case x of (OsRemove p, err) \<Rightarrow> err = None \<or> IsNotExist err | (_, err) \<Rightarrow> err = None)"

text \<open>Serving on \<open>unix:\<close> and an absolute path removes a stale socket, looks for the directory, listens on
  that path and serves, in this order, and goes on only after a call without error (a missing socket is none);
  it returns the server with the registered services exactly when all four calls went well, and otherwise
  ends the process.\<close>

theorem serve_unix:
  assumes path: "plainPath p" "HasPrefix p ''/''" "\<not> HasPrefix p ''//''"
  shows "\<exists>l w' r. serveGRPC s (''unix:'' @ p) ids cs ns w = (r, w') \<and> ns_log w' = ns_log w @ l \<and>
    l \<noteq> [] \<and> map fst l = take (length l) (serveCalls p) \<and> list_all tolerated (butlast l) \<and>
    (if list_all tolerated l then length l = 4 \<and> r = Ok (register ids cs ns)
     else \<exists>msg. r = Panic (''fatal: '' @ msg))"
proof -
  let ?u = "\<lparr>u_Scheme = ''unix'', u_Opaque = '''', u_Host = '''', u_Path = p\<rparr>"
  have serve: "serveGRPC s (''unix:'' @ p) ids cs ns = bindG (listenAddress s ?u) (\<lambda>addr.
      bindG (netcall_do s (NetListen ''unix'' addr)) (\<lambda>err.
        if err \<noteq> None then Fatal ''Failed to listen''
        else bindG (netcall_do s (GrpcServe addr)) (\<lambda>err.
          if err \<noteq> None then Fatal ''Failed to serve'' else ret (register ids cs ns))))"
    by (simp only: serveGRPC_def Parse_url_unix [OF path] sum.case Let_def URL.simps)
  note run = bindG_def ret_def panic_def Fatal_def listenAddress_def serveCalls_def tolerated_def
  obtain e1 w1 where n1: "netcall_do s (OsRemove p) w = (Ok e1, w1)" "ns_log w1 = ns_log w @ [(OsRemove p, e1)]"
    using netcall_log by blast
  obtain e2 w2 where n2: "netcall_do s (OsStatDir (Dir p)) w1 = (Ok e2, w2)"
    "ns_log w2 = ns_log w1 @ [(OsStatDir (Dir p), e2)]" using netcall_log by blast
  obtain e3 w3 where n3: "netcall_do s (NetListen ''unix'' p) w2 = (Ok e3, w3)"
    "ns_log w3 = ns_log w2 @ [(NetListen ''unix'' p, e3)]" using netcall_log by blast
  obtain e4 w4 where n4: "netcall_do s (GrpcServe p) w3 = (Ok e4, w4)"
    "ns_log w4 = ns_log w3 @ [(GrpcServe p, e4)]" using netcall_log by blast
  consider "e1 \<noteq> None" "\<not> IsNotExist e1" | "e1 = None \<or> IsNotExist e1" "e2 \<noteq> None"
    | "e1 = None \<or> IsNotExist e1" "e2 = None" "e3 \<noteq> None"
    | "e1 = None \<or> IsNotExist e1" "e2 = None" "e3 = None"
    by (cases "e1 = None \<or> IsNotExist e1"; cases "e2 = None"; cases "e3 = None") auto
  then show ?thesis
  proof cases
    case 1
    then show ?thesis
      by (simp only: serve, intro exI [of _ "[(OsRemove p, e1)]"] exI [of _ w1])
        (auto simp: run n1)
  next
    case 2
    then show ?thesis
      by (simp only: serve, intro exI [of _ "[(OsRemove p, e1), (OsStatDir (Dir p), e2)]"] exI [of _ w2])
        (auto simp: run n1 n2)
  next
    case 3
    then show ?thesis
      by (simp only: serve, intro exI [of _ "[(OsRemove p, e1), (OsStatDir (Dir p), e2), (NetListen ''unix'' p, e3)]"] exI [of _ w3])
        (auto simp: run n1 n2 n3)
  next
    case 4
    then show ?thesis
      by (simp only: serve, intro exI [of _ "[(OsRemove p, e1), (OsStatDir (Dir p), e2), (NetListen ''unix'' p, e3), (GrpcServe p, e4)]"]
          exI [of _ w4])
        (auto simp: run n1 n2 n3 n4)
  qed
qed

theorem serve_unix_witness:
  "\<exists>l w' r. serveGRPC \<lparr>sy_call = (\<lambda>c e. (None, e))\<rparr> (cfg_endpoint (default_config :: unit config))
      (Interface (Some ())) (NilInterface :: unit iface) (Interface None :: unit iface)
      \<lparr>ns_env = (), ns_log = []\<rparr> = (r, w') \<and>
    ns_log w' = l \<and> l \<noteq> [] \<and> map fst l = take (length l) (serveCalls ''/csi/csi.sock'') \<and>
    list_all tolerated (butlast l) \<and>
    (if list_all tolerated l
     then length l = 4 \<and> r = Ok \<lparr>gr_Identity = Some (Some ()), gr_Controller = None, gr_Node = Some None\<rparr>
     else \<exists>msg. r = Panic (''fatal: '' @ msg))"
proof -
  have path: "plainPath ''/csi/csi.sock''" "HasPrefix ''/csi/csi.sock'' ''/''" "\<not> HasPrefix ''/csi/csi.sock'' ''//''"
    by code_simp+
  have endpoint: "cfg_endpoint (default_config :: unit config) = ''unix:'' @ ''/csi/csi.sock''" by code_simp
  have reg: "register (Interface (Some ())) (NilInterface :: unit iface) (Interface None :: unit iface) =
      \<lparr>gr_Identity = Some (Some ()), gr_Controller = None, gr_Node = Some None\<rparr>" by (simp add: register_def)
  show ?thesis
    using serve_unix [OF path, of "\<lparr>sy_call = (\<lambda>c e. (None, e))\<rparr>" "Interface (Some ())"
        "NilInterface :: unit iface" "Interface None :: unit iface" "\<lparr>ns_env = (), ns_log = []\<rparr>"]
    unfolding endpoint reg by (simp only: nsworld.simps append_Nil)
qed

section \<open>The services behind the server\<close>

lemma serveGRPC_registers:
  assumes "serveGRPC s endpoint ids cs ns w = (Ok server, w')"
  shows "server = register ids cs ns"
  using assms
  by (auto simp: serveGRPC_def Fatal_def panic_def ret_def bindG_def Let_def split: sum.splits prod.splits
      outcome.splits if_splits)

text \<open>A server that \<open>Run\<close> brings up answers for all three services, whichever of them the driver was
  configured with: the guards \<open>!= nil\<close> compare interfaces that hold a pointer, so a service that is
  switched off is registered with a nil receiver.\<close>

theorem registers_all:
  assumes "Run s driver endpoint w = (Ok server, w')"
  shows "server = \<lparr>gr_Identity = Some (dr_IdentityService driver), gr_Controller = Some (dr_ControllerService driver),
    gr_Node = Some (dr_NodeService driver)\<rparr>"
  using serveGRPC_registers [OF assms [unfolded Run_def]] by (simp add: register_def)

theorem registers_all_witness:
  "\<exists>server w'. Run \<lparr>sy_call = (\<lambda>c e. (None, e))\<rparr> (NewKubevirtCSIDriver :: (unit, unit) KubevirtCSIDriver)
      ''tcp://127.0.0.1:9000'' \<lparr>ns_env = (), ns_log = []\<rparr> = (Ok server, w') \<and>
    gr_Controller server = Some None \<and> gr_Node server = Some None"
proof -
  have url: "Parse_url ''tcp://127.0.0.1:9000'' =
      Inr \<lparr>u_Scheme = ''tcp'', u_Opaque = '''', u_Host = ''127.0.0.1:9000'', u_Path = ''''\<rparr>" by code_simp
  obtain server w' where run: "Run \<lparr>sy_call = (\<lambda>c e. (None, e))\<rparr>
      (NewKubevirtCSIDriver :: (unit, unit) KubevirtCSIDriver) ''tcp://127.0.0.1:9000''
      \<lparr>ns_env = (), ns_log = []\<rparr> = (Ok server, w')"
    by (simp add: Run_def serveGRPC_def url listenAddress_def netcall_do_def bindG_def ret_def Let_def)
  from run registers_all [OF run] show ?thesis by (simp add: NewKubevirtCSIDriver_def)
qed

section \<open>Waiting\<close>

lemma reachable_inv:
  assumes "reachable s"
  shows "sv_wg s = 1 \<and> (sv_server s \<longleftrightarrow> sv_phase s \<in> {Serving, Returned}) \<or>
    sv_wg s = 1 \<and> sv_phase s = Exited"
  using assms
  by induction (auto simp: Start_def NewNonBlockingGRPCServer_def stop_simps Stop_def split: if_splits)

text \<open>C37 Along every run of the server object from \<open>Start\<close> the wait group keeps its one count, so \<open>Wait\<close>
  returns in no reachable state, not even after \<open>Stop\<close>; and a \<open>Stop\<close> before the server has been created
  dereferences a nil pointer.\<close>

theorem wait_never_returns:
  assumes "reachable s"
  shows "\<not> canWaitReturn s \<and> (sv_phase s = Preparing \<longrightarrow> Stop s = Panic nilDeref) \<and>
    (sv_phase s = Serving \<longrightarrow> (\<exists>s'. Stop s = Ok s' \<and> sv_phase s' = Returned \<and> \<not> canWaitReturn s'))"
  using reachable_inv [OF assms] by (auto simp: canWaitReturn_def Stop_def)

theorem wait_never_returns_witness:
  "\<exists>s. sv_phase s = Serving \<and> reachable s \<and> \<not> canWaitReturn s \<and>
    (\<exists>s'. Stop s = Ok s' \<and> sv_phase s' = Returned \<and> \<not> canWaitReturn s')"
proof -
  let ?s = "Start NewNonBlockingGRPCServer" and ?t = "(Start NewNonBlockingGRPCServer)\<lparr>sv_server := True, sv_phase := Serving\<rparr>"
  have "server_step ?s ?t" by (rule server_step.listening) (simp add: Start_def)
  then have r: "reachable ?t" by (rule reachable.step [OF reachable.started])
  have "sv_phase ?t = Serving" by simp
  with r wait_never_returns [OF r] show ?thesis by blast
qed

end
