(* ===== verification/End_To_End.thy ===== *)
theory End_To_End
  imports Volume_Guarantees Controller_Guarantees Node_Guarantees
begin

text \<open>
  The way of a volume through the driver: the controller creates it, plugs it into a VM, and the node
  service in that VM looks for the disk.  The two services share nothing but the messages of CSI, which
  the container orchestrator carries: the volume context, with the serial number, and the node ID.
\<close>

section \<open>What CreateVolume returns\<close>

text \<open>A DataVolume that the infra cluster showed in the exchanges from one world to the next.\<close>

definition showed_dv :: "'e world \<Rightarrow> 'e world \<Rightarrow> DataVolume \<Rightarrow> bool" where
  "showed_dv w w' dv \<longleftrightarrow> (\<exists>l rq. w_log w' = w_log w @ l @ [(rq, Inr (ODV dv))] \<and> rq_Resource rq = ''datavolumes'')"

lemma showed_dv_before: "keeps grows m \<Longrightarrow> m w = (r, v) \<Longrightarrow> showed_dv v w' dv \<Longrightarrow> showed_dv w w' dv"
  by (fastforce simp: showed_dv_def only_def dest!: keepsD)

lemma showed_dv_last:
  "w_log w' = w_log v @ [(rq, Inr (ODV dv))] \<Longrightarrow> rq_Resource rq = ''datavolumes'' \<Longrightarrow> showed_dv v w' dv"
  by (auto simp: showed_dv_def)

text \<open>
  The volume is the one that the cluster showed, or the request itself, when the volume that exists has
  no storage section.
\<close>

lemma createOrReuse_shows:
  assumes "createOrReuse (controllerOver c ns) name new w = (Ok (p, None), w')"
  shows "\<exists>dv. p = Some dv \<and> (showed_dv w w' dv \<or>
    (dv = new \<and> (\<exists>old. showed_dv w w' old \<and> dv_Storage old = None)))"
proof -
  let ?po = "client_policy c ns"
  obtain x v where get: "GetDataVolume c ns name w = (x, v)" by fastforce
  with assms obtain p0 e0 where x: "x = Ok (p0, e0)" by (cases x) (auto simp: createOrReuse_def bindG_def)
  show ?thesis
  proof (cases e0)
    case None
    with get x obtain old where old: "p0 = Some old" and log: "w_log v = w_log w @ [(get_dv ?po name, Inr (ODV old))]"
      by (metis GetDataVolume_Ok)
    have "rq_Resource (get_dv ?po name) = ''datavolumes''" by (simp add: get_dv_def)
    with log have shown: "showed_dv w v old" by (rule showed_dv_last)
    from assms get x None old have "w' = v" and "p = Some new \<and> dv_Storage old = None \<or> p = Some old"
      by (auto simp: createOrReuse_def IsNotFound_def elim!: deref_OkE split: option.splits if_splits)
    with shown show ?thesis by auto
  next
    case (Some e)
    with assms get x have "CreateDataVolume c ns new v = (Ok (p, None), w')"
      by (auto simp: createOrReuse_def elim!: bindG_OkE split: if_splits)
    then have "DataVolumes_Create (cl_rt c) ns new v = (Ok (p, None), w')"
      by (auto simp: CreateDataVolume_def split: if_splits)
    then obtain dv where "p = Some dv" and log: "w_log w' = w_log v @ [((get_request Infra cdiPath (Some ns) ''datavolumes'' None)
        \<lparr>rq_Verb := POST, rq_Body := BodyDV new\<rparr>, Inr (ODV dv))]"
      unfolding DataVolumes_Create_def by (auto elim: typed_get_Ok)
    moreover have "showed_dv v w' dv" using log by (rule showed_dv_last) simp
    ultimately show ?thesis using showed_dv_before [OF client_grows(1) get [unfolded x]] x by blast
  qed
qed

lemma newDataVolume_UID [simp]: "om_UID (dv_Meta (newDataVolume S req isRWX src)) = ''''"
  by (simp add: newDataVolume_def Let_def zero_ObjectMeta_def)

lemma determineDvSource_grows: "keeps grows (determineDvSource (controllerOver c ns) req)"
  by (rule only_mono [OF determineDvSource_reads]) simp

lemma CreateVolume_context:
  assumes "CreateVolume (controllerOver c ns) (Some req) w = (Ok (Some vol, None), w')"
  shows "cvp_VolumeId vol = cvr_Name req \<and>
    (\<exists>dv. showed_dv w w' dv \<and> (map_get (cvp_VolumeContext vol) ''serial'' = om_UID (dv_Meta dv) \<or>
       dv_Storage dv = None \<and> map_get (cvp_VolumeContext vol) ''serial'' = ''''))"
proof -
  from assms obtain isRWX src v d where source: "determineDvSource (controllerOver c ns) req w = (Ok (Some src, None), v)"
    and run: "createOrReuse (controllerOver c ns) (cvr_Name req) (newDataVolume (controllerOver c ns) req isRWX src) v =
        (Ok (Some d, None), w')" and vol: "vol = createVolumeResponse req d"
    by (auto simp: CreateVolume_def Let_def elim!: bindG_OkE deref_OkE split: prod.splits if_splits)
  note before = showed_dv_before [OF determineDvSource_grows source]
  have "map_get (cvp_VolumeContext vol) ''serial'' = om_UID (dv_Meta d)" and "cvp_VolumeId vol = cvr_Name req"
    by (simp_all add: vol createVolumeResponse_def map_get_def busParameter_def serialParameter_def)
  with createOrReuse_shows [OF run] before show ?thesis by fastforce
qed

section \<open>What ControllerPublishVolume sends\<close>

text \<open>Requests that read, or ask the VM of a name to plug a volume in.\<close>

definition reads_or_plugs :: "string \<Rightarrow> string \<Rightarrow> AddVolumeOptions \<Rightarrow> rest_request \<Rightarrow> bool" where
  "reads_or_plugs ns vmName opts rq \<longleftrightarrow> rq_Verb rq = GET \<or>
     rq = put_request (vmSubresourceURL ns vmName ''addvolume'') (BodyAddVolume opts)"

lemma only_poll: "keeps (only P) condition \<Longrightarrow>
  keeps (only P) (PollUntilContextTimeout (tick_world rt) timeout condition)"
  by (rule keeps_PollUntilContextTimeout [OF only_reflp only_transp])
    (auto simp: only_def dest: tick_world_log)

lemma client_reads:
  assumes "\<And>rq. rq_Verb rq = GET \<Longrightarrow> P rq"
  shows "keeps (only P) (ListVirtualMachines c ns)" "keeps (only P) (GetVirtualMachine c ns n)"
    "keeps (only P) (GetWorkloadManagingVirtualMachine c ns n)" "keeps (only P) (EnsureVolumeAvailableVM c ns n vol)"
    "keeps (only P) (EnsureVolumeAvailable c ns n vol timeout)"
proof -
  show vm: "keeps (only P) (GetWorkloadManagingVirtualMachine c ns n)"
    unfolding client_methods by (intro only_basic only_typed_get assms) simp
  show vmi: "keeps (only P) (GetVirtualMachine c ns n)"
    unfolding client_methods by (intro only_basic only_typed_get assms) simp
  show "keeps (only P) (ListVirtualMachines c ns)"
    unfolding client_methods by (intro only_basic only_typed_get assms) simp
  show av: "keeps (only P) (EnsureVolumeAvailableVM c ns n vol)"
    unfolding client_methods EnsureVolumeAvailableVM_def by (intro only_basic only_typed_get assms) simp
  show "keeps (only P) (EnsureVolumeAvailable c ns n vol timeout)"
    unfolding EnsureVolumeAvailable_def availableCondition_def by (intro only_poll only_basic vmi av)
qed

lemma ControllerPublishVolume_sends:
  assumes vm: "SplitMetaNamespaceKey (cpr_NodeId req) = (nodeNs, vmName, err)"
  shows "keeps (only (reads_or_plugs ns vmName (addVolumeOptionsFor req)))
    (ControllerPublishVolume (controllerOver c ns) (Some req))" (is "keeps (only ?P) _")
proof -
  have reads: "rq_Verb rq = GET \<Longrightarrow> ?P rq" for rq by (simp add: reads_or_plugs_def)
  have "keeps (only ?P) (AddVolumeToVM c ns vmName (addVolumeOptionsFor req))"
    unfolding AddVolumeToVM_def by (intro only_basic only_rest_do) (simp add: reads_or_plugs_def)
  then have "keeps (only ?P) (retrying (addVolumeToVm (controllerOver c ns) dv vmName (addVolumeOptionsFor req)))" for dv
    unfolding retrying_def addVolumeToVm_def isVolumeAttached_def controllerOver_sel as_Client_sel
    by (intro only_basic client_reads reads)
  then have "keeps (only ?P) (ExponentialBackoff (sleep_world (cl_rt c)) hotplugBackoff
      (retrying (addVolumeToVm (controllerOver c ns) dv vmName (addVolumeOptionsFor req))))" for dv
    by (rule keeps_ExponentialBackoff [OF only_reflp only_transp]) (simp add: only_def)
  then have "keeps (only ?P) (plugIn (controllerOver c ns) req vmName)"
    unfolding plugIn_def controllerOver_sel as_Client_sel by (intro only_basic client_reads reads)
  then have checked: "keeps (only ?P) (publishChecked (controllerOver c ns) req vmName)"
    unfolding publishChecked_def Let_def controllerOver_sel as_Client_sel
    by (intro only_basic client_reads GetDataVolume_reads reads)
  have "keeps (only ?P) (checkExclusive (controllerOver c ns) rwx dv vmName)" for rwx dv
    unfolding checkExclusive_def IsVolumeAttachedToOtherVMI_def controllerOver_sel as_Client_sel
    by (intro only_basic client_reads reads)
  with checked show ?thesis
    unfolding ControllerPublishVolume_def deref_def vm Let_def option.case prod.case by (intro only_basic)
qed

section \<open>From creation to the disk\<close>

text \<open>C3 The volume context that CreateVolume returned goes to ControllerPublishVolume, with the ID of a node,
  and to the node service of that node.  Then the serial number in it is the UID of the DataVolume that the
  infra cluster showed during the creation (or empty, when an existing volume has no storage section); the
  controller plugs the volume of that name into no VM but the one that the node ID names, with this serial;
  and the node service formats no device but the one that is listed with this serial.\<close>

theorem disk_reaches_node:
  assumes create: "CreateVolume (controllerOver c ns) (Some creq) w = (Ok (Some vol, None), w1)"
    and publish: "ControllerPublishVolume (controllerOver c ns) (Some preq) u = (rp, u1)"
    and stage: "NodeStageVolume (NewNodeService k nodeId) (Some sreq) n = (rs, n1)"
    and carried: "cpr_VolumeId preq = cvp_VolumeId vol" "cpr_VolumeContext preq = cvp_VolumeContext vol"
      "nsr_VolumeContext sreq = cvp_VolumeContext vol" "cpr_NodeId preq = nodeId"
    and vm: "SplitMetaNamespaceKey nodeId = (vmNs, vmName, None)"
  shows "\<exists>serial dv lp ln. showed_dv w w1 dv \<and> (serial = om_UID (dv_Meta dv) \<or> dv_Storage dv = None \<and> serial = '''') \<and>
    w_log u1 = w_log u @ lp \<and>
    list_all (\<lambda>x. rq_Verb (fst x) = GET \<or> (\<exists>opts. fst x = put_request (vmSubresourceURL ns vmName ''addvolume'')
        (BodyAddVolume opts) \<and> avo_Name opts = cvr_Name creq \<and> dk_Serial (avo_Disk opts) = serial)) lp \<and>
    nw_log n1 = nw_log n @ ln \<and>
    list_all (\<lambda>x. fst x = lsblk \<or> (\<exists>y d fsType cmd. (lsblk, y) \<in> set ln \<and> listedDevice y serial d \<and>
        dev_Fstype d = '''' \<and> mkfsCommand (dev_Path d) fsType = Some cmd \<and> fst x = Exec cmd)) ln"
proof -
  let ?serial = "map_get (cvp_VolumeContext vol) ''serial''"
  from CreateVolume_context [OF create] obtain dv where name: "cvp_VolumeId vol = cvr_Name creq"
    and dv: "showed_dv w w1 dv" "?serial = om_UID (dv_Meta dv) \<or> dv_Storage dv = None \<and> ?serial = ''''" by blast
  have "only (reads_or_plugs ns vmName (addVolumeOptionsFor preq)) u u1"
    using ControllerPublishVolume_sends [of preq vmNs vmName None] vm carried(4) publish by (metis keepsD)
  then obtain lp where lp: "w_log u1 = w_log u @ lp"
    and sent: "\<forall>x \<in> set lp. reads_or_plugs ns vmName (addVolumeOptionsFor preq) (fst x)" by (auto simp: only_def)
  have "avo_Name (addVolumeOptionsFor preq) = cvr_Name creq" "dk_Serial (avo_Disk (addVolumeOptionsFor preq)) = ?serial"
    by (simp_all add: addVolumeOptionsFor_def carried name serialParameter_def)
  with sent have plugs: "list_all (\<lambda>x. rq_Verb (fst x) = GET \<or> (\<exists>opts. fst x = put_request (vmSubresourceURL ns vmName ''addvolume'')
        (BodyAddVolume opts) \<and> avo_Name opts = cvr_Name creq \<and> dk_Serial (avo_Disk opts) = ?serial)) lp"
    by (auto simp: list_all_iff reads_or_plugs_def)
  obtain ln where "nw_log n1 = nw_log n @ ln" and "list_all (\<lambda>x. fst x = lsblk \<or> (\<exists>y d fsType cmd. (lsblk, y) \<in> set ln \<and>
      listedDevice y ?serial d \<and> dev_Fstype d = '''' \<and> mkfsCommand (dev_Path d) fsType = Some cmd \<and> fst x = Exec cmd)) ln"
    using NodeStageVolume_log [OF stage] carried(3) by fastforce
  with dv lp plugs show ?thesis by blast
qed

text \<open>A volume created on the sample cluster, plugged into \<open>vm1\<close> and staged there.\<close>

definition sampleVolume :: CreateVolumeResponse where
  "sampleVolume = createVolumeResponse (sampleCreate ''gold'') createdSample"

definition samplePublished :: "cluster world" where
  "samplePublished = snd (ControllerPublishVolume sampleController (Some (samplePublish
     \<lparr>cpr_VolumeId := cvp_VolumeId sampleVolume, cpr_VolumeContext := cvp_VolumeContext sampleVolume\<rparr>)) afterCreate)"

definition sampleStaged :: "unit nworld" where
  "sampleStaged = snd (NodeStageVolume (NewNodeService listingKernel ''ns/vm1'')
     (Some ((sampleStage '''')\<lparr>nsr_VolumeContext := cvp_VolumeContext sampleVolume\<rparr>)) noCalls)"

theorem disk_reaches_node_witness:
  "(\<exists>x \<in> set (w_log samplePublished). isAddVolume (fst x)) \<and>
   (\<exists>serial dv lp ln. showed_dv (sampleWorld sampleCluster) afterCreate dv \<and>
    (serial = om_UID (dv_Meta dv) \<or> dv_Storage dv = None \<and> serial = '''') \<and>
    w_log samplePublished = w_log afterCreate @ lp \<and>
    list_all (\<lambda>x. rq_Verb (fst x) = GET \<or> (\<exists>opts. fst x = put_request (vmSubresourceURL ''ns'' ''vm1'' ''addvolume'')
        (BodyAddVolume opts) \<and> avo_Name opts = cvr_Name (sampleCreate ''gold'') \<and> dk_Serial (avo_Disk opts) = serial)) lp \<and>
    nw_log sampleStaged = nw_log noCalls @ ln \<and>
    list_all (\<lambda>x. fst x = lsblk \<or> (\<exists>y d fsType cmd. (lsblk, y) \<in> set ln \<and> listedDevice y serial d \<and>
        dev_Fstype d = '''' \<and> mkfsCommand (dev_Path d) fsType = Some cmd \<and> fst x = Exec cmd)) ln)"
proof -
  let ?preq = "samplePublish\<lparr>cpr_VolumeId := cvp_VolumeId sampleVolume, cpr_VolumeContext := cvp_VolumeContext sampleVolume\<rparr>"
  let ?sreq = "(sampleStage '''')\<lparr>nsr_VolumeContext := cvp_VolumeContext sampleVolume\<rparr>"
  have "fst (CreateVolume sampleController (Some (sampleCreate ''gold'')) (sampleWorld sampleCluster)) =
      Ok (Some sampleVolume, None)" by code_simp
  then have create: "CreateVolume (controllerOver sampleClient ''ns'') (Some (sampleCreate ''gold''))
      (sampleWorld sampleCluster) = (Ok (Some sampleVolume, None), afterCreate)"
    by (metis afterCreate_def sampleController_def prod.collapse)
  obtain rp where publish: "ControllerPublishVolume (controllerOver sampleClient ''ns'') (Some ?preq) afterCreate =
      (rp, samplePublished)" by (metis samplePublished_def sampleController_def prod.collapse)
  obtain rs where stage: "NodeStageVolume (NewNodeService listingKernel ''ns/vm1'') (Some ?sreq) noCalls =
      (rs, sampleStaged)" by (metis sampleStaged_def prod.collapse)
  have node: "cpr_NodeId ?preq = ''ns/vm1''" by (simp add: samplePublish_def)
  have vm: "SplitMetaNamespaceKey ''ns/vm1'' = (''ns'', ''vm1'', None)" by code_simp
  have "\<exists>x \<in> set (w_log samplePublished). isAddVolume (fst x)" by code_simp
  moreover note disk_reaches_node [OF create publish stage _ _ _ node vm]
  ultimately show ?thesis by simp
qed

end
