(* ===== verification/Publish_Race.thy ===== *)
theory Publish_Race
  imports Sample_Cluster
begin

text \<open>
  Two publications at the same time.  The gRPC server handles calls concurrently, and
  \<open>ControllerPublishVolume\<close> holds no lock between its test that no other machine has the volume and its
  hot-plug request.  Here the calls interleave as the environment of the first lets the second run as a whole
  before it answers the first one's hot-plug request: the parameter \<open>runtime\<close> allows other actors at every
  exchange, and another call of the driver is such an actor.
\<close>

definition secondPublish :: ControllerPublishVolumeRequest where
  "secondPublish = samplePublish\<lparr>cpr_NodeId := ''ns/vm2''\<rparr>"

text \<open>The second call on a cluster, alone.\<close>

definition second_call :: "cluster \<Rightarrow> (unit option \<times> gerr option) outcome \<times> cluster" where
  "second_call e = (case ControllerPublishVolume sampleController (Some secondPublish) (sampleWorld e) of
     (r, w) \<Rightarrow> (r, w_env w))"

text \<open>A cluster in which the second call runs when the first one's hot-plug request arrives; what the second
  call returned is kept beside the cluster.\<close>

type_synonym race = "cluster \<times> (unit option \<times> gerr option) outcome option"

definition race_serve :: "rest_request \<Rightarrow> race \<Rightarrow> answer \<times> race" where
  "race_serve rq s = (case s of (e, second) \<Rightarrow>
     (let (second', e') = (if rq_Verb rq = PUT then (case second_call e of (r, e') \<Rightarrow> (Some r, e')) else (second, e));
          (resp, e'') = rt_serve (sampleRuntime ''ns'') rq e'
      in (resp, e'', second')))"

definition raceRuntime :: "race runtime" where
  "raceRuntime = \<lparr>rt_serve = race_serve, rt_sleep = (\<lambda>d s. s), rt_tick = (\<lambda>s. ((0, None), s)),
     rt_checkLabel = (\<lambda>k v. None)\<rparr>"

definition raceClient :: "race client" where
  "raceClient = \<lparr>cl_rt = raceRuntime, cl_storageClassEnforcement = sampleEnforcement,
     cl_infraLabelMap = sampleLabels, cl_volumePrefix = ''pvc-''\<rparr>"

definition raceWorld :: "race world" where
  "raceWorld = \<lparr>w_env = (sampleCluster, None), w_log = [], w_mapping = [], w_populated = False\<rparr>"

definition first_call :: "(unit option \<times> gerr option) outcome \<times> race world" where
  "first_call = ControllerPublishVolume (controllerOver raceClient ''ns'') (Some samplePublish) raceWorld"

text \<open>The machines whose running instance reports a volume.\<close>

definition holders :: "string \<Rightarrow> cluster \<Rightarrow> string list" where
  "holders vol e = map fst (filter (\<lambda>(n, vmi). list_ex (\<lambda>s. vs_Name s = vol) (vmi_VolumeStatus vmi)) (sc_Instances e))"


end
