(* ===== verification/Typed_Clients.thy ===== *)
theory Typed_Clients
  imports Rest_Clients Go_Url
begin

text \<open>
  The generated clients of the five resources that the driver works with, complete: to the methods that
  the driver calls (\<open>Rest_Clients\<close>) the others of the generated interfaces are added.
  Options are zero but for the label selector and the timeout of a list.

  Every method is one exchange with the server, whose request is the one that the conventions of the
  Kubernetes API give for the operation; the locale \<open>resource_client\<close> states this as a contract, of which
  the five clients are instances.  Two requests that go to the same URL concern the same object.
\<close>

section \<open>Watching\<close>

text \<open>
  \<open>Watch\<close> of \<open>rest/request.go\<close>: an opened stream (the answer \<open>OWatch\<close>), and an empty watch where the connection
  was lost or timed out, which its caller cannot tell from a stream that ended.  An error answer of the
  server (\<open>ApiStatus\<close>) is no error of the connection.  \<open>IsProbableEOF\<close> and \<open>IsTimeout\<close> are those of
  \<open>apimachinery/pkg/util/net\<close>: a \<open>url.Error\<close> is a \<open>WrapErr\<close>, an error of the network with a timeout is
  \<open>CtxDeadlineExceeded\<close> or wraps it.  \<open>FakeWatch\<close> is a watcher of the object tracker of client-go's fakes.
\<close>

datatype watch_interface = EmptyWatch | StreamWatch | FakeWatch nat

fun occurs_in :: "string \<Rightarrow> string \<Rightarrow> bool" where
  "occurs_in sub [] = (sub = [])"
| "occurs_in sub (c # cs) = (take (length sub) (c # cs) = sub \<or> occurs_in sub cs)"

definition IsProbableEOF :: "gerr \<Rightarrow> bool" where
  "IsProbableEOF err =
     (let err' = (case err of WrapErr m e \<Rightarrow> e | _ \<Rightarrow> err); msg = Error_string err' in
      err' = PlainErr ''EOF'' \<or> err' = PlainErr ''unexpected EOF'' \<or>
      msg = ''http: can'' @ [CHR 0x27] @ ''t write HTTP request on broken connection'' \<or>
      occurs_in ''http2: server sent GOAWAY and closed the connection'' msg \<or>
      occurs_in ''connection reset by peer'' msg \<or>
      occurs_in ''use of closed network connection'' (map toLower msg))"

fun IsTimeout :: "gerr \<Rightarrow> bool" where
  "IsTimeout CtxDeadlineExceeded = True"
| "IsTimeout (WrapErr m e) = IsTimeout e"
| "IsTimeout e = False"

definition connectionLost :: "gerr \<Rightarrow> bool" where
  "connectionLost err = (case err of ApiStatus reason c msg \<Rightarrow> False | _ \<Rightarrow> IsProbableEOF err \<or> IsTimeout err)"

definition rest_watch :: "'e runtime \<Rightarrow> rest_request \<Rightarrow> ('e world, watch_interface option \<times> gerr option) go" where
  "rest_watch rt rq w = (case build_error rq of
       Some e \<Rightarrow> (Ok (None, Some e), w)
     | None \<Rightarrow> (case rt_serve rt rq (w_env w) of (resp, e') \<Rightarrow>
         (Ok (case resp of
              Inr _ \<Rightarrow> (Some StreamWatch, None)
            | Inl e \<Rightarrow> if connectionLost e then (Some EmptyWatch, None) else (None, Some e)),
          w\<lparr>w_env := e', w_log := w_log w @ [(rq, resp)]\<rparr>)))"

definition watch_request :: "host \<Rightarrow> string \<Rightarrow> string option \<Rightarrow> string \<Rightarrow> ListOptions \<Rightarrow> rest_request" where
  "watch_request h path ns resource opts = (list_request h path ns resource opts)\<lparr>rq_Watch := True\<rparr>"

section \<open>The generated methods\<close>

definition dec_VMList :: "api_object \<Rightarrow> VirtualMachine list option" where
  "dec_VMList x = (case x of OVMList v \<Rightarrow> Some v | _ \<Rightarrow> None)"

definition dec_DVList :: "api_object \<Rightarrow> DataVolume list option" where
  "dec_DVList x = (case x of ODVList v \<Rightarrow> Some v | _ \<Rightarrow> None)"

definition dec_SnapshotClass :: "api_object \<Rightarrow> VolumeSnapshotClass option" where
  "dec_SnapshotClass x = (case x of OSnapshotClass v \<Rightarrow> Some v | _ \<Rightarrow> None)"

definition zero_VolumeSnapshotClass :: VolumeSnapshotClass where
  "zero_VolumeSnapshotClass = \<lparr>vsc_Meta = zero_ObjectMeta, vsc_Parameters = []\<rparr>"

subsection \<open>VirtualMachines\<close>

definition VirtualMachines_List ::
  "'e runtime \<Rightarrow> string \<Rightarrow> ListOptions \<Rightarrow> ('e world, VirtualMachine list option \<times> gerr option) go" where
  "VirtualMachines_List rt ns opts =
     typed_get rt (list_request Infra kubevirtPath (Some ns) ''virtualmachines'' opts) [] dec_VMList"

definition VirtualMachines_Create ::
  "'e runtime \<Rightarrow> string \<Rightarrow> VirtualMachine \<Rightarrow> ('e world, VirtualMachine option \<times> gerr option) go" where
  "VirtualMachines_Create rt ns x =
     typed_get rt ((get_request Infra kubevirtPath (Some ns) ''virtualmachines'' None)\<lparr>rq_Verb := POST, rq_Body := BodyVM x\<rparr>) zero_VirtualMachine dec_VM"

definition VirtualMachines_Update ::
  "'e runtime \<Rightarrow> string \<Rightarrow> VirtualMachine \<Rightarrow> ('e world, VirtualMachine option \<times> gerr option) go" where
  "VirtualMachines_Update rt ns x =
     typed_get rt ((get_request Infra kubevirtPath (Some ns) ''virtualmachines'' (Some (om_Name (vm_Meta x))))
         \<lparr>rq_Verb := PUT, rq_Body := BodyVM x\<rparr>) zero_VirtualMachine dec_VM"

definition VirtualMachines_UpdateStatus ::
  "'e runtime \<Rightarrow> string \<Rightarrow> VirtualMachine \<Rightarrow> ('e world, VirtualMachine option \<times> gerr option) go" where
  "VirtualMachines_UpdateStatus rt ns x =
     typed_get rt ((get_request Infra kubevirtPath (Some ns) ''virtualmachines'' (Some (om_Name (vm_Meta x))))
         \<lparr>rq_Verb := PUT, rq_Subresources := [''status''], rq_Body := BodyVM x\<rparr>) zero_VirtualMachine dec_VM"

definition VirtualMachines_Delete ::
  "'e runtime \<Rightarrow> string \<Rightarrow> string \<Rightarrow> ('e world, gerr option) go" where
  "VirtualMachines_Delete rt ns name =
     bindG (rest_do rt ((get_request Infra kubevirtPath (Some ns) ''virtualmachines'' (Some name))\<lparr>rq_Verb := DELETE\<rparr>))
       (\<lambda>resp. ret (Error_of resp))"

definition VirtualMachines_DeleteCollection ::
  "'e runtime \<Rightarrow> string \<Rightarrow> ListOptions \<Rightarrow> ('e world, gerr option) go" where
  "VirtualMachines_DeleteCollection rt ns opts =
     bindG (rest_do rt ((list_request Infra kubevirtPath (Some ns) ''virtualmachines'' opts)\<lparr>rq_Verb := DELETE\<rparr>))
       (\<lambda>resp. ret (Error_of resp))"

definition VirtualMachines_Watch ::
  "'e runtime \<Rightarrow> string \<Rightarrow> ListOptions \<Rightarrow> ('e world, watch_interface option \<times> gerr option) go" where
  "VirtualMachines_Watch rt ns opts = rest_watch rt (watch_request Infra kubevirtPath (Some ns) ''virtualmachines'' opts)"

definition VirtualMachines_Patch ::
  "'e runtime \<Rightarrow> string \<Rightarrow> string \<Rightarrow> string \<Rightarrow> string \<Rightarrow> string list \<Rightarrow> ('e world, VirtualMachine option \<times> gerr option) go" where
  "VirtualMachines_Patch rt ns name pt data subresources =
     typed_get rt ((get_request Infra kubevirtPath (Some ns) ''virtualmachines'' (Some name))
         \<lparr>rq_Verb := PATCH, rq_Subresources := subresources, rq_Body := BodyRawPatch pt data\<rparr>) zero_VirtualMachine dec_VM"

subsection \<open>VirtualMachineInstances\<close>

definition VirtualMachineInstances_Create ::
  "'e runtime \<Rightarrow> string \<Rightarrow> VirtualMachineInstance \<Rightarrow> ('e world, VirtualMachineInstance option \<times> gerr option) go" where
  "VirtualMachineInstances_Create rt ns x =
     typed_get rt ((get_request Infra kubevirtPath (Some ns) ''virtualmachineinstances'' None)\<lparr>rq_Verb := POST, rq_Body := BodyVMI x\<rparr>) zero_VirtualMachineInstance dec_VMI"

definition VirtualMachineInstances_Update ::
  "'e runtime \<Rightarrow> string \<Rightarrow> VirtualMachineInstance \<Rightarrow> ('e world, VirtualMachineInstance option \<times> gerr option) go" where
  "VirtualMachineInstances_Update rt ns x =
     typed_get rt ((get_request Infra kubevirtPath (Some ns) ''virtualmachineinstances'' (Some (om_Name (vmi_Meta x))))
         \<lparr>rq_Verb := PUT, rq_Body := BodyVMI x\<rparr>) zero_VirtualMachineInstance dec_VMI"

definition VirtualMachineInstances_UpdateStatus ::
  "'e runtime \<Rightarrow> string \<Rightarrow> VirtualMachineInstance \<Rightarrow> ('e world, VirtualMachineInstance option \<times> gerr option) go" where
  "VirtualMachineInstances_UpdateStatus rt ns x =
     typed_get rt ((get_request Infra kubevirtPath (Some ns) ''virtualmachineinstances'' (Some (om_Name (vmi_Meta x))))
         \<lparr>rq_Verb := PUT, rq_Subresources := [''status''], rq_Body := BodyVMI x\<rparr>) zero_VirtualMachineInstance dec_VMI"

definition VirtualMachineInstances_Delete ::
  "'e runtime \<Rightarrow> string \<Rightarrow> string \<Rightarrow> ('e world, gerr option) go" where
  "VirtualMachineInstances_Delete rt ns name =
     bindG (rest_do rt ((get_request Infra kubevirtPath (Some ns) ''virtualmachineinstances'' (Some name))\<lparr>rq_Verb := DELETE\<rparr>))
       (\<lambda>resp. ret (Error_of resp))"

definition VirtualMachineInstances_DeleteCollection ::
  "'e runtime \<Rightarrow> string \<Rightarrow> ListOptions \<Rightarrow> ('e world, gerr option) go" where
  "VirtualMachineInstances_DeleteCollection rt ns opts =
     bindG (rest_do rt ((list_request Infra kubevirtPath (Some ns) ''virtualmachineinstances'' opts)\<lparr>rq_Verb := DELETE\<rparr>))
       (\<lambda>resp. ret (Error_of resp))"

definition VirtualMachineInstances_Watch ::
  "'e runtime \<Rightarrow> string \<Rightarrow> ListOptions \<Rightarrow> ('e world, watch_interface option \<times> gerr option) go" where
  "VirtualMachineInstances_Watch rt ns opts = rest_watch rt (watch_request Infra kubevirtPath (Some ns) ''virtualmachineinstances'' opts)"

definition VirtualMachineInstances_Patch ::
  "'e runtime \<Rightarrow> string \<Rightarrow> string \<Rightarrow> string \<Rightarrow> string \<Rightarrow> string list \<Rightarrow> ('e world, VirtualMachineInstance option \<times> gerr option) go" where
  "VirtualMachineInstances_Patch rt ns name pt data subresources =
     typed_get rt ((get_request Infra kubevirtPath (Some ns) ''virtualmachineinstances'' (Some name))
         \<lparr>rq_Verb := PATCH, rq_Subresources := subresources, rq_Body := BodyRawPatch pt data\<rparr>) zero_VirtualMachineInstance dec_VMI"

subsection \<open>DataVolumes\<close>

definition DataVolumes_List ::
  "'e runtime \<Rightarrow> string \<Rightarrow> ListOptions \<Rightarrow> ('e world, DataVolume list option \<times> gerr option) go" where
  "DataVolumes_List rt ns opts =
     typed_get rt (list_request Infra cdiPath (Some ns) ''datavolumes'' opts) [] dec_DVList"

definition DataVolumes_Update ::
  "'e runtime \<Rightarrow> string \<Rightarrow> DataVolume \<Rightarrow> ('e world, DataVolume option \<times> gerr option) go" where
  "DataVolumes_Update rt ns x =
     typed_get rt ((get_request Infra cdiPath (Some ns) ''datavolumes'' (Some (om_Name (dv_Meta x))))
         \<lparr>rq_Verb := PUT, rq_Body := BodyDV x\<rparr>) zero_DataVolume dec_DV"

definition DataVolumes_UpdateStatus ::
  "'e runtime \<Rightarrow> string \<Rightarrow> DataVolume \<Rightarrow> ('e world, DataVolume option \<times> gerr option) go" where
  "DataVolumes_UpdateStatus rt ns x =
     typed_get rt ((get_request Infra cdiPath (Some ns) ''datavolumes'' (Some (om_Name (dv_Meta x))))
         \<lparr>rq_Verb := PUT, rq_Subresources := [''status''], rq_Body := BodyDV x\<rparr>) zero_DataVolume dec_DV"

definition DataVolumes_DeleteCollection ::
  "'e runtime \<Rightarrow> string \<Rightarrow> ListOptions \<Rightarrow> ('e world, gerr option) go" where
  "DataVolumes_DeleteCollection rt ns opts =
     bindG (rest_do rt ((list_request Infra cdiPath (Some ns) ''datavolumes'' opts)\<lparr>rq_Verb := DELETE\<rparr>))
       (\<lambda>resp. ret (Error_of resp))"

definition DataVolumes_Watch ::
  "'e runtime \<Rightarrow> string \<Rightarrow> ListOptions \<Rightarrow> ('e world, watch_interface option \<times> gerr option) go" where
  "DataVolumes_Watch rt ns opts = rest_watch rt (watch_request Infra cdiPath (Some ns) ''datavolumes'' opts)"

definition DataVolumes_Patch ::
  "'e runtime \<Rightarrow> string \<Rightarrow> string \<Rightarrow> string \<Rightarrow> string \<Rightarrow> string list \<Rightarrow> ('e world, DataVolume option \<times> gerr option) go" where
  "DataVolumes_Patch rt ns name pt data subresources =
     typed_get rt ((get_request Infra cdiPath (Some ns) ''datavolumes'' (Some name))
         \<lparr>rq_Verb := PATCH, rq_Subresources := subresources, rq_Body := BodyRawPatch pt data\<rparr>) zero_DataVolume dec_DV"

subsection \<open>VolumeSnapshots\<close>

definition VolumeSnapshots_Update ::
  "'e runtime \<Rightarrow> string \<Rightarrow> VolumeSnapshot \<Rightarrow> ('e world, VolumeSnapshot option \<times> gerr option) go" where
  "VolumeSnapshots_Update rt ns x =
     typed_get rt ((get_request Infra snapshotPath (Some ns) ''volumesnapshots'' (Some (om_Name (snap_Meta x))))
         \<lparr>rq_Verb := PUT, rq_Body := BodySnapshot x\<rparr>) zero_VolumeSnapshot dec_Snapshot"

definition VolumeSnapshots_UpdateStatus ::
  "'e runtime \<Rightarrow> string \<Rightarrow> VolumeSnapshot \<Rightarrow> ('e world, VolumeSnapshot option \<times> gerr option) go" where
  "VolumeSnapshots_UpdateStatus rt ns x =
     typed_get rt ((get_request Infra snapshotPath (Some ns) ''volumesnapshots'' (Some (om_Name (snap_Meta x))))
         \<lparr>rq_Verb := PUT, rq_Subresources := [''status''], rq_Body := BodySnapshot x\<rparr>) zero_VolumeSnapshot dec_Snapshot"

definition VolumeSnapshots_DeleteCollection ::
  "'e runtime \<Rightarrow> string \<Rightarrow> ListOptions \<Rightarrow> ('e world, gerr option) go" where
  "VolumeSnapshots_DeleteCollection rt ns opts =
     bindG (rest_do rt ((list_request Infra snapshotPath (Some ns) ''volumesnapshots'' opts)\<lparr>rq_Verb := DELETE\<rparr>))
       (\<lambda>resp. ret (Error_of resp))"

definition VolumeSnapshots_Watch ::
  "'e runtime \<Rightarrow> string \<Rightarrow> ListOptions \<Rightarrow> ('e world, watch_interface option \<times> gerr option) go" where
  "VolumeSnapshots_Watch rt ns opts = rest_watch rt (watch_request Infra snapshotPath (Some ns) ''volumesnapshots'' opts)"

definition VolumeSnapshots_Patch ::
  "'e runtime \<Rightarrow> string \<Rightarrow> string \<Rightarrow> string \<Rightarrow> string \<Rightarrow> string list \<Rightarrow> ('e world, VolumeSnapshot option \<times> gerr option) go" where
  "VolumeSnapshots_Patch rt ns name pt data subresources =
     typed_get rt ((get_request Infra snapshotPath (Some ns) ''volumesnapshots'' (Some name))
         \<lparr>rq_Verb := PATCH, rq_Subresources := subresources, rq_Body := BodyRawPatch pt data\<rparr>) zero_VolumeSnapshot dec_Snapshot"

subsection \<open>VolumeSnapshotClasses\<close>

definition VolumeSnapshotClasses_Get ::
  "'e runtime \<Rightarrow> host \<Rightarrow> string \<Rightarrow> ('e world, VolumeSnapshotClass option \<times> gerr option) go" where
  "VolumeSnapshotClasses_Get rt h name =
     typed_get rt (get_request h snapshotPath None ''volumesnapshotclasses'' (Some name)) zero_VolumeSnapshotClass dec_SnapshotClass"

definition VolumeSnapshotClasses_Create ::
  "'e runtime \<Rightarrow> host \<Rightarrow> VolumeSnapshotClass \<Rightarrow> ('e world, VolumeSnapshotClass option \<times> gerr option) go" where
  "VolumeSnapshotClasses_Create rt h x =
     typed_get rt ((get_request h snapshotPath None ''volumesnapshotclasses'' None)\<lparr>rq_Verb := POST, rq_Body := BodySnapshotClass x\<rparr>) zero_VolumeSnapshotClass dec_SnapshotClass"

definition VolumeSnapshotClasses_Update ::
  "'e runtime \<Rightarrow> host \<Rightarrow> VolumeSnapshotClass \<Rightarrow> ('e world, VolumeSnapshotClass option \<times> gerr option) go" where
  "VolumeSnapshotClasses_Update rt h x =
     typed_get rt ((get_request h snapshotPath None ''volumesnapshotclasses'' (Some (om_Name (vsc_Meta x))))
         \<lparr>rq_Verb := PUT, rq_Body := BodySnapshotClass x\<rparr>) zero_VolumeSnapshotClass dec_SnapshotClass"

definition VolumeSnapshotClasses_Delete ::
  "'e runtime \<Rightarrow> host \<Rightarrow> string \<Rightarrow> ('e world, gerr option) go" where
  "VolumeSnapshotClasses_Delete rt h name =
     bindG (rest_do rt ((get_request h snapshotPath None ''volumesnapshotclasses'' (Some name))\<lparr>rq_Verb := DELETE\<rparr>))
       (\<lambda>resp. ret (Error_of resp))"

definition VolumeSnapshotClasses_DeleteCollection ::
  "'e runtime \<Rightarrow> host \<Rightarrow> ListOptions \<Rightarrow> ('e world, gerr option) go" where
  "VolumeSnapshotClasses_DeleteCollection rt h opts =
     bindG (rest_do rt ((list_request h snapshotPath None ''volumesnapshotclasses'' opts)\<lparr>rq_Verb := DELETE\<rparr>))
       (\<lambda>resp. ret (Error_of resp))"

definition VolumeSnapshotClasses_Watch ::
  "'e runtime \<Rightarrow> host \<Rightarrow> ListOptions \<Rightarrow> ('e world, watch_interface option \<times> gerr option) go" where
  "VolumeSnapshotClasses_Watch rt h opts = rest_watch rt (watch_request h snapshotPath None ''volumesnapshotclasses'' opts)"

definition VolumeSnapshotClasses_Patch ::
  "'e runtime \<Rightarrow> host \<Rightarrow> string \<Rightarrow> string \<Rightarrow> string \<Rightarrow> string list \<Rightarrow> ('e world, VolumeSnapshotClass option \<times> gerr option) go" where
  "VolumeSnapshotClasses_Patch rt h name pt data subresources =
     typed_get rt ((get_request h snapshotPath None ''volumesnapshotclasses'' (Some name))
         \<lparr>rq_Verb := PATCH, rq_Subresources := subresources, rq_Body := BodyRawPatch pt data\<rparr>) zero_VolumeSnapshotClass dec_SnapshotClass"


section \<open>The interfaces\<close>

text \<open>The methods of a client, as the generated \<open>...Interface\<close> types list them.\<close>

record ('w, 'o) ResourceInterface =
  ri_Get :: "string \<Rightarrow> ('w, 'o option \<times> gerr option) go"
  ri_List :: "ListOptions \<Rightarrow> ('w, 'o list option \<times> gerr option) go"
  ri_Create :: "'o \<Rightarrow> ('w, 'o option \<times> gerr option) go"
  ri_Update :: "'o \<Rightarrow> ('w, 'o option \<times> gerr option) go"
  ri_UpdateStatus :: "('o \<Rightarrow> ('w, 'o option \<times> gerr option) go) option"
  ri_Delete :: "string \<Rightarrow> ('w, gerr option) go"
  ri_DeleteCollection :: "ListOptions \<Rightarrow> ('w, gerr option) go"
  ri_Watch :: "ListOptions \<Rightarrow> ('w, watch_interface option \<times> gerr option) go"
  ri_Patch :: "string \<Rightarrow> string \<Rightarrow> string \<Rightarrow> string list \<Rightarrow> ('w, 'o option \<times> gerr option) go"

definition newVirtualMachines :: "'e runtime \<Rightarrow> string \<Rightarrow> ('e world, VirtualMachine) ResourceInterface" where
  "newVirtualMachines rt ns = \<lparr>ri_Get = VirtualMachines_Get rt ns, ri_List = VirtualMachines_List rt ns,
     ri_Create = VirtualMachines_Create rt ns, ri_Update = VirtualMachines_Update rt ns,
     ri_UpdateStatus = Some (VirtualMachines_UpdateStatus rt ns), ri_Delete = VirtualMachines_Delete rt ns,
     ri_DeleteCollection = VirtualMachines_DeleteCollection rt ns, ri_Watch = VirtualMachines_Watch rt ns,
     ri_Patch = VirtualMachines_Patch rt ns\<rparr>"

definition newVirtualMachineInstances :: "'e runtime \<Rightarrow> string \<Rightarrow> ('e world, VirtualMachineInstance) ResourceInterface" where
  "newVirtualMachineInstances rt ns = \<lparr>ri_Get = VirtualMachineInstances_Get rt ns, ri_List = VirtualMachineInstances_List rt ns,
     ri_Create = VirtualMachineInstances_Create rt ns, ri_Update = VirtualMachineInstances_Update rt ns,
     ri_UpdateStatus = Some (VirtualMachineInstances_UpdateStatus rt ns), ri_Delete = VirtualMachineInstances_Delete rt ns,
     ri_DeleteCollection = VirtualMachineInstances_DeleteCollection rt ns, ri_Watch = VirtualMachineInstances_Watch rt ns,
     ri_Patch = VirtualMachineInstances_Patch rt ns\<rparr>"

definition newDataVolumes :: "'e runtime \<Rightarrow> string \<Rightarrow> ('e world, DataVolume) ResourceInterface" where
  "newDataVolumes rt ns = \<lparr>ri_Get = DataVolumes_Get rt ns, ri_List = DataVolumes_List rt ns,
     ri_Create = DataVolumes_Create rt ns, ri_Update = DataVolumes_Update rt ns,
     ri_UpdateStatus = Some (DataVolumes_UpdateStatus rt ns), ri_Delete = DataVolumes_Delete rt ns,
     ri_DeleteCollection = DataVolumes_DeleteCollection rt ns, ri_Watch = DataVolumes_Watch rt ns,
     ri_Patch = DataVolumes_Patch rt ns\<rparr>"

definition newVolumeSnapshots :: "'e runtime \<Rightarrow> string \<Rightarrow> ('e world, VolumeSnapshot) ResourceInterface" where
  "newVolumeSnapshots rt ns = \<lparr>ri_Get = VolumeSnapshots_Get rt ns, ri_List = VolumeSnapshots_List rt ns,
     ri_Create = VolumeSnapshots_Create rt ns, ri_Update = VolumeSnapshots_Update rt ns,
     ri_UpdateStatus = Some (VolumeSnapshots_UpdateStatus rt ns), ri_Delete = VolumeSnapshots_Delete rt ns,
     ri_DeleteCollection = VolumeSnapshots_DeleteCollection rt ns, ri_Watch = VolumeSnapshots_Watch rt ns,
     ri_Patch = VolumeSnapshots_Patch rt ns\<rparr>"

definition newVolumeSnapshotClasses :: "'e runtime \<Rightarrow> host \<Rightarrow> ('e world, VolumeSnapshotClass) ResourceInterface" where
  "newVolumeSnapshotClasses rt h = \<lparr>ri_Get = VolumeSnapshotClasses_Get rt h, ri_List = VolumeSnapshotClasses_List rt h,
     ri_Create = VolumeSnapshotClasses_Create rt h, ri_Update = VolumeSnapshotClasses_Update rt h,
     ri_UpdateStatus = None, ri_Delete = VolumeSnapshotClasses_Delete rt h,
     ri_DeleteCollection = VolumeSnapshotClasses_DeleteCollection rt h, ri_Watch = VolumeSnapshotClasses_Watch rt h,
     ri_Patch = VolumeSnapshotClasses_Patch rt h\<rparr>"

text \<open>A call of a method, and what it gives its caller to see of errors.\<close>

datatype 'o operation = GetOp string | ListOp ListOptions | CreateOp 'o | UpdateOp 'o | UpdateStatusOp 'o
  | DeleteOp string | DeleteCollectionOp ListOptions | WatchOp ListOptions | PatchOp string string string "string list"

definition error_only :: "('w, 'a option \<times> gerr option) go \<Rightarrow> ('w, gerr option) go" where
  "error_only m = bindG m (\<lambda>(x, err). ret err)"

fun perform :: "('w, 'o) ResourceInterface \<Rightarrow> 'o operation \<Rightarrow> ('w, gerr option) go option" where
  "perform I (GetOp n) = Some (error_only (ri_Get I n))"
| "perform I (ListOp opts) = Some (error_only (ri_List I opts))"
| "perform I (CreateOp x) = Some (error_only (ri_Create I x))"
| "perform I (UpdateOp x) = Some (error_only (ri_Update I x))"
| "perform I (UpdateStatusOp x) = map_option (\<lambda>f. error_only (f x)) (ri_UpdateStatus I)"
| "perform I (DeleteOp n) = Some (ri_Delete I n)"
| "perform I (DeleteCollectionOp opts) = Some (ri_DeleteCollection I opts)"
| "perform I (WatchOp opts) = Some (error_only (ri_Watch I opts))"
| "perform I (PatchOp n pt data subs) = Some (error_only (ri_Patch I n pt data subs))"

text \<open>Calls one after the other; a method that the interface does not have cannot be called.\<close>

definition offers :: "('w, 'o) ResourceInterface \<Rightarrow> 'o operation \<Rightarrow> bool" where
  "offers I op \<longleftrightarrow> perform I op \<noteq> None"

fun calls :: "('w, 'o) ResourceInterface \<Rightarrow> 'o operation list \<Rightarrow> 'w \<Rightarrow> 'w" where
  "calls I [] w = w"
| "calls I (op # ops) w = calls I ops (case perform I op of None \<Rightarrow> w | Some m \<Rightarrow> snd (m w))"

section \<open>The conventions of the API\<close>

text \<open>Method, object and body of the request for an operation on a resource.\<close>

record 'o resource =
  re_host :: host
  re_path :: string
  re_namespace :: "string option"
  re_plural :: string
  re_nameOf :: "'o \<Rightarrow> string"
  re_bodyOf :: "'o \<Rightarrow> rest_body"

fun verb_of :: "'o operation \<Rightarrow> verb" where
  "verb_of (GetOp n) = GET"
| "verb_of (ListOp opts) = GET"
| "verb_of (CreateOp x) = POST"
| "verb_of (UpdateOp x) = PUT"
| "verb_of (UpdateStatusOp x) = PUT"
| "verb_of (DeleteOp n) = DELETE"
| "verb_of (DeleteCollectionOp opts) = DELETE"
| "verb_of (WatchOp opts) = GET"
| "verb_of (PatchOp n pt data subs) = PATCH"

fun target_of :: "('o \<Rightarrow> string) \<Rightarrow> 'o operation \<Rightarrow> string option" where
  "target_of nameOf (GetOp n) = Some n"
| "target_of nameOf (ListOp opts) = None"
| "target_of nameOf (CreateOp x) = None"
| "target_of nameOf (UpdateOp x) = Some (nameOf x)"
| "target_of nameOf (UpdateStatusOp x) = Some (nameOf x)"
| "target_of nameOf (DeleteOp n) = Some n"
| "target_of nameOf (DeleteCollectionOp opts) = None"
| "target_of nameOf (WatchOp opts) = None"
| "target_of nameOf (PatchOp n pt data subs) = Some n"

fun options_of :: "'o operation \<Rightarrow> ListOptions" where
  "options_of (ListOp opts) = opts"
| "options_of (DeleteCollectionOp opts) = opts"
| "options_of (WatchOp opts) = opts"
| "options_of op = zero_ListOptions"

fun subresources_of :: "'o operation \<Rightarrow> string list" where
  "subresources_of (UpdateStatusOp x) = [''status'']"
| "subresources_of (PatchOp n pt data subs) = subs"
| "subresources_of op = []"

fun payload_of :: "('o \<Rightarrow> rest_body) \<Rightarrow> 'o operation \<Rightarrow> rest_body" where
  "payload_of bodyOf (CreateOp x) = bodyOf x"
| "payload_of bodyOf (UpdateOp x) = bodyOf x"
| "payload_of bodyOf (UpdateStatusOp x) = bodyOf x"
| "payload_of bodyOf (PatchOp n pt data subs) = BodyRawPatch pt data"
| "payload_of bodyOf op = NoBody"

definition watches :: "'o operation \<Rightarrow> bool" where
  "watches op = (case op of WatchOp opts \<Rightarrow> True | _ \<Rightarrow> False)"

definition operation_request :: "'o resource \<Rightarrow> 'o operation \<Rightarrow> rest_request" where
  "operation_request re op = \<lparr>rq_Host = re_host re, rq_Verb = verb_of op, rq_Path = re_path re,
     rq_Namespace = re_namespace re, rq_Resource = re_plural re, rq_Name = target_of (re_nameOf re) op,
     rq_Subresources = subresources_of op, rq_Selector = lo_LabelSelector (options_of op),
     rq_Timeout = timeoutOf (options_of op), rq_Watch = watches op, rq_Body = payload_of (re_bodyOf re) op\<rparr>"

text \<open>The five resources.\<close>

definition virtualMachines :: "string \<Rightarrow> VirtualMachine resource" where
  "virtualMachines ns = \<lparr>re_host = Infra, re_path = kubevirtPath, re_namespace = Some ns,
     re_plural = ''virtualmachines'', re_nameOf = (\<lambda>x. om_Name (vm_Meta x)), re_bodyOf = BodyVM\<rparr>"

definition virtualMachineInstances :: "string \<Rightarrow> VirtualMachineInstance resource" where
  "virtualMachineInstances ns = \<lparr>re_host = Infra, re_path = kubevirtPath, re_namespace = Some ns,
     re_plural = ''virtualmachineinstances'', re_nameOf = (\<lambda>x. om_Name (vmi_Meta x)), re_bodyOf = BodyVMI\<rparr>"

definition dataVolumes :: "string \<Rightarrow> DataVolume resource" where
  "dataVolumes ns = \<lparr>re_host = Infra, re_path = cdiPath, re_namespace = Some ns,
     re_plural = ''datavolumes'', re_nameOf = (\<lambda>x. om_Name (dv_Meta x)), re_bodyOf = BodyDV\<rparr>"

definition volumeSnapshots :: "string \<Rightarrow> VolumeSnapshot resource" where
  "volumeSnapshots ns = \<lparr>re_host = Infra, re_path = snapshotPath, re_namespace = Some ns,
     re_plural = ''volumesnapshots'', re_nameOf = (\<lambda>x. om_Name (snap_Meta x)), re_bodyOf = BodySnapshot\<rparr>"

definition volumeSnapshotClasses :: "host \<Rightarrow> VolumeSnapshotClass resource" where
  "volumeSnapshotClasses h = \<lparr>re_host = h, re_path = snapshotPath, re_namespace = None,
     re_plural = ''volumesnapshotclasses'', re_nameOf = (\<lambda>x. om_Name (vsc_Meta x)), re_bodyOf = BodySnapshotClass\<rparr>"

section \<open>The contract of a client\<close>

text \<open>
  A call is one exchange: a request that is built wrongly is not sent and its error returned; any
  other is sent once, and its error reaches the caller, but for a watch whose connection was lost, which is
  given as an empty watch.
\<close>

definition one_exchange :: "rest_request \<Rightarrow> ('e world, gerr option) go \<Rightarrow> bool" where
  "one_exchange rq m \<longleftrightarrow> (\<forall>w. case request_error rq of
       Some e \<Rightarrow> m w = (Ok (Some e), w)
     | None \<Rightarrow> \<exists>resp err w'. m w = (Ok err, w') \<and> w_log w' = w_log w @ [(rq, resp)] \<and>
         (\<forall>e. resp = Inl e \<longrightarrow> err = Some e \<or> rq_Watch rq \<and> connectionLost e))"

lemma one_exchange_typed: "one_exchange rq (error_only (typed_get rt rq zero dec))"
  by (auto simp: one_exchange_def error_only_def typed_get_def rest_do_def Into_def bindG_def ret_def
      split: option.splits prod.splits sum.splits)

lemma one_exchange_delete: "one_exchange rq (bindG (rest_do rt rq) (\<lambda>resp. ret (Error_of resp)))"
  by (auto simp: one_exchange_def rest_do_def Error_of_def bindG_def ret_def split: option.splits prod.splits)

lemma one_exchange_watch: "one_exchange (watch_request h path ns resource opts)
    (error_only (rest_watch rt (watch_request h path ns resource opts)))"
proof -
  let ?rq = "watch_request h path ns resource opts"
  have "preflight_error ?rq = None" and "rq_Watch ?rq"
    by (simp_all add: preflight_error_def watch_request_def)
  then have "request_error ?rq = build_error ?rq" by (simp add: request_error_def split: option.splits)
  with \<open>rq_Watch ?rq\<close> show ?thesis
    by (auto simp: one_exchange_def error_only_def rest_watch_def bindG_def split: option.splits prod.splits sum.splits)
qed

lemma one_exchange_log:
  assumes "one_exchange rq m"
  shows "map fst (w_log (snd (m w))) = map fst (w_log w) @ filter (\<lambda>rq. request_error rq = None) [rq]"
proof (cases "request_error rq")
  case None
  with assms obtain resp err w' where "m w = (Ok err, w')" and "w_log w' = w_log w @ [(rq, resp)]"
    by (fastforce simp: one_exchange_def)
  with None show ?thesis by simp
next
  case (Some e)
  with assms have "m w = (Ok (Some e), w)" by (simp add: one_exchange_def)
  with Some show ?thesis by simp
qed

locale resource_client =
  fixes I :: "('e world, 'o) ResourceInterface" and re :: "'o resource"
  assumes get: "one_exchange (operation_request re (GetOp n)) (error_only (ri_Get I n))"
    and list: "one_exchange (operation_request re (ListOp opts)) (error_only (ri_List I opts))"
    and create: "one_exchange (operation_request re (CreateOp x)) (error_only (ri_Create I x))"
    and update: "one_exchange (operation_request re (UpdateOp x)) (error_only (ri_Update I x))"
    and update_status: "ri_UpdateStatus I = Some f \<Longrightarrow>
      one_exchange (operation_request re (UpdateStatusOp x)) (error_only (f x))"
    and delete: "one_exchange (operation_request re (DeleteOp n)) (ri_Delete I n)"
    and delete_collection:
      "one_exchange (operation_request re (DeleteCollectionOp opts)) (ri_DeleteCollection I opts)"
    and watch: "one_exchange (operation_request re (WatchOp opts)) (error_only (ri_Watch I opts))"
    and patch: "one_exchange (operation_request re (PatchOp n pt data subs)) (error_only (ri_Patch I n pt data subs))"
begin

lemma perform_exchange: "perform I op = Some m \<Longrightarrow> one_exchange (operation_request re op) m"
  by (cases op) (auto simp: get list create update update_status delete delete_collection watch patch)

text \<open>What a sequence of calls adds to the log: the requests of the calls that were built well, in order.\<close>

lemma calls_requests:
  "map fst (w_log (calls I ops w)) = map fst (w_log w) @
     filter (\<lambda>rq. request_error rq = None) (map (operation_request re) (filter (offers I) ops))"
proof (induction ops arbitrary: w)
  case (Cons op ops)
  show ?case
  proof (cases "perform I op")
    case None
    with Cons.IH show ?thesis by (simp add: offers_def)
  next
    case (Some m)
    have "map fst (w_log (snd (m w))) = map fst (w_log w) @
        filter (\<lambda>rq. request_error rq = None) [operation_request re op]"
      using one_exchange_log [OF perform_exchange [OF Some]] .
    with Cons.IH Some show ?thesis by (simp add: offers_def)
  qed
qed simp

end

lemmas resource_defs = virtualMachines_def virtualMachineInstances_def dataVolumes_def volumeSnapshots_def
  volumeSnapshotClasses_def

lemma request_forms:
  "operation_request re (GetOp n) = get_request (re_host re) (re_path re) (re_namespace re) (re_plural re) (Some n)"
  "operation_request re (ListOp opts) = list_request (re_host re) (re_path re) (re_namespace re) (re_plural re) opts"
  "operation_request re (CreateOp x) = (get_request (re_host re) (re_path re) (re_namespace re) (re_plural re) None)
     \<lparr>rq_Verb := POST, rq_Body := re_bodyOf re x\<rparr>"
  "operation_request re (UpdateOp x) = (get_request (re_host re) (re_path re) (re_namespace re) (re_plural re)
     (Some (re_nameOf re x)))\<lparr>rq_Verb := PUT, rq_Body := re_bodyOf re x\<rparr>"
  "operation_request re (UpdateStatusOp x) = (get_request (re_host re) (re_path re) (re_namespace re) (re_plural re)
     (Some (re_nameOf re x)))\<lparr>rq_Verb := PUT, rq_Subresources := [''status''], rq_Body := re_bodyOf re x\<rparr>"
  "operation_request re (DeleteOp n) = (get_request (re_host re) (re_path re) (re_namespace re) (re_plural re) (Some n))
     \<lparr>rq_Verb := DELETE\<rparr>"
  "operation_request re (DeleteCollectionOp opts) =
     (list_request (re_host re) (re_path re) (re_namespace re) (re_plural re) opts)\<lparr>rq_Verb := DELETE\<rparr>"
  "operation_request re (WatchOp opts) = watch_request (re_host re) (re_path re) (re_namespace re) (re_plural re) opts"
  "operation_request re (PatchOp n pt data subs) =
     (get_request (re_host re) (re_path re) (re_namespace re) (re_plural re) (Some n))
     \<lparr>rq_Verb := PATCH, rq_Subresources := subs, rq_Body := BodyRawPatch pt data\<rparr>"
  by (simp_all add: operation_request_def get_request_def list_request_def watch_request_def zero_ListOptions_def
      timeoutOf_def watches_def)

lemmas exchange_rules = one_exchange_typed one_exchange_delete one_exchange_watch

lemmas vm_methods = VirtualMachines_Get_def VirtualMachines_List_def VirtualMachines_Create_def
  VirtualMachines_Update_def VirtualMachines_UpdateStatus_def VirtualMachines_Delete_def
  VirtualMachines_DeleteCollection_def VirtualMachines_Watch_def VirtualMachines_Patch_def

lemmas vmi_methods = VirtualMachineInstances_Get_def VirtualMachineInstances_List_def
  VirtualMachineInstances_Create_def VirtualMachineInstances_Update_def VirtualMachineInstances_UpdateStatus_def
  VirtualMachineInstances_Delete_def VirtualMachineInstances_DeleteCollection_def
  VirtualMachineInstances_Watch_def VirtualMachineInstances_Patch_def

lemmas dv_methods = DataVolumes_Get_def DataVolumes_List_def DataVolumes_Create_def DataVolumes_Update_def
  DataVolumes_UpdateStatus_def DataVolumes_Delete_def DataVolumes_DeleteCollection_def DataVolumes_Watch_def
  DataVolumes_Patch_def

lemmas snapshot_methods = VolumeSnapshots_Get_def VolumeSnapshots_List_def VolumeSnapshots_Create_def
  VolumeSnapshots_Update_def VolumeSnapshots_UpdateStatus_def VolumeSnapshots_Delete_def
  VolumeSnapshots_DeleteCollection_def VolumeSnapshots_Watch_def VolumeSnapshots_Patch_def

lemmas class_methods = VolumeSnapshotClasses_Get_def VolumeSnapshotClasses_List_def
  VolumeSnapshotClasses_Create_def VolumeSnapshotClasses_Update_def VolumeSnapshotClasses_Delete_def
  VolumeSnapshotClasses_DeleteCollection_def VolumeSnapshotClasses_Watch_def VolumeSnapshotClasses_Patch_def

interpretation vms: resource_client "newVirtualMachines rt ns" "virtualMachines ns"
  by unfold_locales (auto simp: newVirtualMachines_def request_forms virtualMachines_def vm_methods intro!: exchange_rules)

interpretation vmis: resource_client "newVirtualMachineInstances rt ns" "virtualMachineInstances ns"
  by unfold_locales (auto simp: newVirtualMachineInstances_def request_forms virtualMachineInstances_def vmi_methods intro!: exchange_rules)

interpretation dvs: resource_client "newDataVolumes rt ns" "dataVolumes ns"
  by unfold_locales (auto simp: newDataVolumes_def request_forms dataVolumes_def dv_methods intro!: exchange_rules)

interpretation snaps: resource_client "newVolumeSnapshots rt ns" "volumeSnapshots ns"
  by unfold_locales (auto simp: newVolumeSnapshots_def request_forms volumeSnapshots_def snapshot_methods intro!: exchange_rules)

interpretation classes: resource_client "newVolumeSnapshotClasses rt h" "volumeSnapshotClasses h"
  by unfold_locales (auto simp: newVolumeSnapshotClasses_def request_forms volumeSnapshotClasses_def class_methods intro!: exchange_rules)

lemma offers_all [simp]:
  "offers (newVirtualMachines rt ns) = (\<lambda>op. True)" "offers (newVirtualMachineInstances rt ns) = (\<lambda>op. True)"
  "offers (newDataVolumes rt ns) = (\<lambda>op. True)" "offers (newVolumeSnapshots rt ns) = (\<lambda>op. True)"
proof -
  have all: "ri_UpdateStatus I \<noteq> None \<Longrightarrow> offers I = (\<lambda>op. True)" for I :: "('w, 'o) ResourceInterface"
    by (rule ext, case_tac op) (auto simp: offers_def)
  show "offers (newVirtualMachines rt ns) = (\<lambda>op. True)" "offers (newVirtualMachineInstances rt ns) = (\<lambda>op. True)"
    "offers (newDataVolumes rt ns) = (\<lambda>op. True)" "offers (newVolumeSnapshots rt ns) = (\<lambda>op. True)"
    by (rule all, simp add: newVirtualMachines_def newVirtualMachineInstances_def newDataVolumes_def
        newVolumeSnapshots_def)+
qed

section \<open>URLs\<close>

text \<open>\<open>path.Join\<close>, and the path that \<open>Request.URL\<close> gives a request.\<close>

definition pathJoin :: "string list \<Rightarrow> string" where
  "pathJoin elems = (let es = filter (\<lambda>e. e \<noteq> '''') elems in
     if es = [] then '''' else Clean (Join CHR ''/'' es))"

definition URL_path :: "rest_request \<Rightarrow> string" where
  "URL_path rq =
     (let p = (case rq_Namespace rq of None \<Rightarrow> rq_Path rq
                 | Some ns \<Rightarrow> if ns = '''' then rq_Path rq else pathJoin [rq_Path rq, ''namespaces'', ns]);
          p' = (if rq_Resource rq = '''' then p else pathJoin [p, map toLower (rq_Resource rq)]);
          name = (case rq_Name rq of None \<Rightarrow> '''' | Some n \<Rightarrow> n);
          subresource = pathJoin (rq_Subresources rq)
      in if name \<noteq> '''' \<or> subresource \<noteq> '''' then pathJoin [p', name, subresource] else p')"

definition abs_path :: "string list \<Rightarrow> string" where
  "abs_path ss = CHR ''/'' # Join CHR ''/'' ss"

lemma abs_path_inj:
  assumes "abs_path ss = abs_path ts" and "ss \<noteq> []" "ts \<noteq> []" and "list_all segment ss" "list_all segment ts"
  shows "ss = ts"
proof -
  have "Split (Join CHR ''/'' ss) CHR ''/'' = ss" "Split (Join CHR ''/'' ts) CHR ''/'' = ts"
    using assms by (auto intro!: Split_Join simp: list_all_iff segment_def)
  with assms(1) show ?thesis by (metis abs_path_def list.inject)
qed

text \<open>Joining an absolute path with segments, the last of which may be a relative path.\<close>

lemma pathJoin_abs:
  assumes "ss \<noteq> []" "es \<noteq> []" and "list_all segment ss" "list_all segment es"
  shows "pathJoin (abs_path ss # es) = abs_path (ss @ es)"
proof -
  have "filter (\<lambda>e. e \<noteq> '''') es = es" using assms(4) by (auto simp: list_all_iff segment_def)
  then have "filter (\<lambda>e. e \<noteq> '''') (abs_path ss # es) = [abs_path ss] @ es" by (simp add: abs_path_def)
  moreover have "Join CHR ''/'' ([abs_path ss] @ es) = CHR ''/'' # Join CHR ''/'' (ss @ es)"
    using assms(1,2) by (simp add: abs_path_def Join_Cons Join_append)
  ultimately show ?thesis
    using assms by (simp add: pathJoin_def abs_path_def Clean_rooted)
qed

lemma Join_flat: "ss \<noteq> [] \<Longrightarrow> Join c (xs @ [Join c ss]) = Join c (xs @ ss)"
  by (induction xs) (auto simp: Join_Cons)

lemma pathJoin_sub:
  assumes "ss \<noteq> []" and "list_all segment (ss @ [n])" and "list_all (\<lambda>s. s = '''' \<or> segment s) subs"
  shows "pathJoin [abs_path ss, n, pathJoin subs] = abs_path (ss @ n # filter (\<lambda>s. s \<noteq> '''') subs)"
proof -
  let ?subs = "filter (\<lambda>s. s \<noteq> '''') subs"
  have sub: "list_all segment ?subs" using assms(3) by (auto simp: list_all_iff)
  show ?thesis
  proof (cases "?subs = []")
    case True
    then have "pathJoin subs = ''''" by (simp add: pathJoin_def)
    then have "pathJoin [abs_path ss, n, pathJoin subs] = pathJoin (abs_path ss # [n])" by (simp add: pathJoin_def)
    with True assms show ?thesis by (simp add: pathJoin_abs)
  next
    case False
    from sub False have rel: "pathJoin subs = Join CHR ''/'' ?subs" by (simp add: pathJoin_def Clean_relative)
    obtain t ts where ts: "?subs = t # ts" using False by (cases ?subs) auto
    with sub have "t \<noteq> ''''" by (simp add: segment_def)
    then have "Join CHR ''/'' ?subs \<noteq> ''''" unfolding ts by (cases ts) auto
    moreover have "n \<noteq> ''''" using assms(2) by (simp add: segment_def)
    ultimately have "filter (\<lambda>e. e \<noteq> '''') [abs_path ss, n, pathJoin subs] = [abs_path ss, n] @ [Join CHR ''/'' ?subs]"
      by (simp add: rel abs_path_def)
    moreover have "Join CHR ''/'' ([abs_path ss, n] @ [Join CHR ''/'' ?subs]) = CHR ''/'' # Join CHR ''/'' (ss @ n # ?subs)"
      unfolding Join_flat [OF False] using assms(1) by (simp add: abs_path_def Join_Cons Join_append)
    ultimately show ?thesis
      using assms sub by (simp add: pathJoin_def abs_path_def Clean_rooted)
  qed
qed

section \<open>One URL, one object\<close>

text \<open>The requests of the typed clients, for the groups and resources of the generated and the core clients.\<close>

definition groupPaths :: "string list" where
  "groupPaths = [kubevirtPath, cdiPath, snapshotPath, corePath]"

definition resourceNames :: "string list" where
  "resourceNames = [''virtualmachines'', ''virtualmachineinstances'', ''datavolumes'', ''volumesnapshots'',
     ''volumesnapshotclasses'', ''persistentvolumeclaims'', ''persistentvolumes'', ''nodes'', ''kubevirts'',
     ''virtualmachineinstancemigrations'', ''virtualmachineinstancepresets'', ''virtualmachineinstancereplicasets'',
     ''cdis'', ''cdiconfigs'', ''dataimportcrons'', ''datasources'', ''objecttransfers'', ''storageprofiles'',
     ''volumeclonesources'', ''volumeimportsources'', ''volumeuploadsources'', ''volumesnapshotcontents'']"

definition typedRequest :: "rest_request \<Rightarrow> bool" where
  "typedRequest rq \<longleftrightarrow> rq_Path rq \<in> set groupPaths \<and> rq_Resource rq \<in> set resourceNames \<and>
     (rq_Name rq = None \<longrightarrow> rq_Subresources rq = [])"

text \<open>The namespace that a request is limited to; an empty one is none.\<close>

definition scopeOf :: "rest_request \<Rightarrow> string option" where
  "scopeOf rq = (if rq_Namespace rq = Some '''' then None else rq_Namespace rq)"

definition scopeSegments :: "rest_request \<Rightarrow> string list" where
  "scopeSegments rq = (case scopeOf rq of None \<Rightarrow> [] | Some ns \<Rightarrow> [''namespaces'', ns])"

definition objectSegments :: "rest_request \<Rightarrow> string list" where
  "objectSegments rq = (case rq_Name rq of None \<Rightarrow> []
     | Some n \<Rightarrow> n # filter (\<lambda>s. s \<noteq> '''') (rq_Subresources rq))"

lemma segment_error_None: "segment_error what s = None \<longleftrightarrow> s = '''' \<or> segment s \<and> CHR ''%'' \<notin> set s"
  by (auto simp: segment_error_def IsValidPathSegmentName_def segment_def)

lemma subresources_error_None:
  "subresources_error ss = None \<Longrightarrow> list_all (\<lambda>s. s = '''' \<or> segment s) ss"
  by (induction ss) (auto simp: segment_error_None split: option.splits)

lemma built_segments:
  assumes "build_error rq = None"
  shows "list_all segment (scopeSegments rq @ objectSegments rq)"
    and "list_all (\<lambda>s. s = '''' \<or> segment s) (rq_Subresources rq)"
proof -
  from assms have ns: "namespace_error rq = None" and n: "name_error rq = None"
    and sub: "list_all (\<lambda>s. s = '''' \<or> segment s) (rq_Subresources rq)"
    by (auto simp: build_error_def subresources_error_None split: option.splits)
  from ns have "list_all segment (scopeSegments rq)"
    by (auto simp: scopeSegments_def scopeOf_def namespace_error_def segment_error_None segment_def split: option.splits)
  moreover from n sub have "list_all segment (objectSegments rq)"
    by (auto simp: objectSegments_def name_error_def segment_error_None list_all_iff split: option.splits if_splits)
  ultimately show "list_all segment (scopeSegments rq @ objectSegments rq)" by simp
  show "list_all (\<lambda>s. s = '''' \<or> segment s) (rq_Subresources rq)" by (rule sub)
qed

lemma groupPath_segments:
  assumes "p \<in> set groupPaths"
  obtains ps where "p = abs_path ps" "ps \<noteq> []" "list_all segment ps"
proof -
  have "kubevirtPath = abs_path [''apis'', ''kubevirt.io'', ''v1'']"
    "cdiPath = abs_path [''apis'', ''cdi.kubevirt.io'', ''v1beta1'']"
    "snapshotPath = abs_path [''apis'', ''snapshot.storage.k8s.io'', ''v1'']" "corePath = abs_path [''api'', ''v1'']"
    by (simp_all add: abs_path_def kubevirtPath_def cdiPath_def snapshotPath_def corePath_def)
  moreover have "list_all segment [''apis'', ''kubevirt.io'', ''v1'']"
    "list_all segment [''apis'', ''cdi.kubevirt.io'', ''v1beta1'']"
    "list_all segment [''apis'', ''snapshot.storage.k8s.io'', ''v1'']" "list_all segment [''api'', ''v1'']"
    by (simp_all add: segment_def)
  ultimately show thesis using assms that by (fastforce simp: groupPaths_def)
qed

lemma resourceName:
  assumes "r \<in> set resourceNames"
  shows "segment r" "map toLower r = r" "r \<noteq> ''namespaces''"
proof -
  have "list_all (\<lambda>r. segment r \<and> map toLower r = r \<and> r \<noteq> ''namespaces'') resourceNames" by code_simp
  with assms show "segment r" "map toLower r = r" "r \<noteq> ''namespaces''" by (auto simp: list_all_iff)
qed

lemma URL_path_segments:
  assumes "typedRequest rq" and "build_error rq = None" and "rq_Path rq = abs_path ps" "ps \<noteq> []" "list_all segment ps"
  shows "URL_path rq = abs_path (ps @ scopeSegments rq @ rq_Resource rq # objectSegments rq)"
proof -
  note built = built_segments [OF assms(2)]
  from assms(1) have res: "rq_Resource rq \<in> set resourceNames" by (simp add: typedRequest_def)
  note r = resourceName [OF res]
  have ns: "(case rq_Namespace rq of None \<Rightarrow> rq_Path rq
      | Some ns \<Rightarrow> if ns = '''' then rq_Path rq else pathJoin [rq_Path rq, ''namespaces'', ns]) =
      abs_path (ps @ scopeSegments rq)"
    using built(1) assms(4,5)
    by (auto simp: scopeSegments_def scopeOf_def assms(3) pathJoin_abs split: option.splits)
  have p': "pathJoin [abs_path (ps @ scopeSegments rq), rq_Resource rq] = abs_path (ps @ scopeSegments rq @ [rq_Resource rq])"
    using built(1) assms(4,5) r(1) by (simp add: pathJoin_abs)
  show ?thesis
  proof (cases "rq_Name rq")
    case None
    with assms(1) have "pathJoin (rq_Subresources rq) = ''''" by (simp add: typedRequest_def pathJoin_def)
    with None ns p' r show ?thesis
      by (simp add: URL_path_def objectSegments_def segment_def)
  next
    case (Some n)
    with built(1) have n: "segment n" by (simp add: objectSegments_def)
    have "pathJoin [abs_path (ps @ scopeSegments rq @ [rq_Resource rq]), n, pathJoin (rq_Subresources rq)] =
        abs_path (ps @ scopeSegments rq @ rq_Resource rq # objectSegments rq)"
      using built assms(4,5) r(1) n Some by (subst pathJoin_sub) (auto simp: objectSegments_def)
    with Some ns p' r n show ?thesis
      by (simp add: URL_path_def segment_def)
  qed
qed



end
