(* ===== verification/Generated_Clients.thy ===== *)
theory Generated_Clients
  imports Typed_Clients
begin

text \<open>
  All the generated clients: \<open>client-gen\<close> writes one file per resource from one template, in four forms (with
  and without a namespace, with and without \<open>UpdateStatus\<close>).  \<open>template_client\<close> is that template; the five
  clients of \<open>Typed_Clients\<close>, translated from their own files, are instances of it, and the clients of the
  fourteen resources that the driver does not use are given as instances.  The template keeps the contract
  of \<open>resource_client\<close> once for all.
\<close>

section \<open>The template\<close>

record 'o template =
  te_resource :: "'o resource"
  te_zero :: 'o
  te_decode :: "api_object \<Rightarrow> 'o option"
  te_decodeList :: "api_object \<Rightarrow> 'o list option"
  te_status :: bool

definition on :: "'o template \<Rightarrow> string option \<Rightarrow> rest_request" where
  "on t name = get_request (re_host (te_resource t)) (re_path (te_resource t)) (re_namespace (te_resource t))
     (re_plural (te_resource t)) name"

definition on_all :: "'o template \<Rightarrow> ListOptions \<Rightarrow> rest_request" where
  "on_all t opts = list_request (re_host (te_resource t)) (re_path (te_resource t)) (re_namespace (te_resource t))
     (re_plural (te_resource t)) opts"

definition template_Get :: "'e runtime \<Rightarrow> 'o template \<Rightarrow> string \<Rightarrow> ('e world, 'o option \<times> gerr option) go" where
  "template_Get rt t name = typed_get rt (on t (Some name)) (te_zero t) (te_decode t)"

definition template_List ::
  "'e runtime \<Rightarrow> 'o template \<Rightarrow> ListOptions \<Rightarrow> ('e world, 'o list option \<times> gerr option) go" where
  "template_List rt t opts = typed_get rt (on_all t opts) [] (te_decodeList t)"

definition template_Watch ::
  "'e runtime \<Rightarrow> 'o template \<Rightarrow> ListOptions \<Rightarrow> ('e world, watch_interface option \<times> gerr option) go" where
  "template_Watch rt t opts = rest_watch rt ((on_all t opts)\<lparr>rq_Watch := True\<rparr>)"

definition template_Create :: "'e runtime \<Rightarrow> 'o template \<Rightarrow> 'o \<Rightarrow> ('e world, 'o option \<times> gerr option) go" where
  "template_Create rt t obj = typed_get rt
     ((on t None)\<lparr>rq_Verb := POST, rq_Body := re_bodyOf (te_resource t) obj\<rparr>) (te_zero t) (te_decode t)"

definition template_Update :: "'e runtime \<Rightarrow> 'o template \<Rightarrow> 'o \<Rightarrow> ('e world, 'o option \<times> gerr option) go" where
  "template_Update rt t obj = typed_get rt
     ((on t (Some (re_nameOf (te_resource t) obj)))\<lparr>rq_Verb := PUT, rq_Body := re_bodyOf (te_resource t) obj\<rparr>)
     (te_zero t) (te_decode t)"

definition template_UpdateStatus :: "'e runtime \<Rightarrow> 'o template \<Rightarrow> 'o \<Rightarrow> ('e world, 'o option \<times> gerr option) go" where
  "template_UpdateStatus rt t obj = typed_get rt
     ((on t (Some (re_nameOf (te_resource t) obj)))
       \<lparr>rq_Verb := PUT, rq_Subresources := [''status''], rq_Body := re_bodyOf (te_resource t) obj\<rparr>)
     (te_zero t) (te_decode t)"

definition template_Delete :: "'e runtime \<Rightarrow> 'o template \<Rightarrow> string \<Rightarrow> ('e world, gerr option) go" where
  "template_Delete rt t name =
     bindG (rest_do rt ((on t (Some name))\<lparr>rq_Verb := DELETE\<rparr>)) (\<lambda>resp. ret (Error_of resp))"

definition template_DeleteCollection :: "'e runtime \<Rightarrow> 'o template \<Rightarrow> ListOptions \<Rightarrow> ('e world, gerr option) go" where
  "template_DeleteCollection rt t listOpts =
     bindG (rest_do rt ((on_all t listOpts)\<lparr>rq_Verb := DELETE\<rparr>)) (\<lambda>resp. ret (Error_of resp))"

definition template_Patch :: "'e runtime \<Rightarrow> 'o template \<Rightarrow> string \<Rightarrow> string \<Rightarrow> string \<Rightarrow> string list
    \<Rightarrow> ('e world, 'o option \<times> gerr option) go" where
  "template_Patch rt t name pt data subresources = typed_get rt
     ((on t (Some name))\<lparr>rq_Verb := PATCH, rq_Subresources := subresources, rq_Body := BodyRawPatch pt data\<rparr>)
     (te_zero t) (te_decode t)"

definition template_client :: "'e runtime \<Rightarrow> 'o template \<Rightarrow> ('e world, 'o) ResourceInterface" where
  "template_client rt t = \<lparr>ri_Get = template_Get rt t, ri_List = template_List rt t,
     ri_Create = template_Create rt t, ri_Update = template_Update rt t,
     ri_UpdateStatus = (if te_status t then Some (template_UpdateStatus rt t) else None),
     ri_Delete = template_Delete rt t, ri_DeleteCollection = template_DeleteCollection rt t,
     ri_Watch = template_Watch rt t, ri_Patch = template_Patch rt t\<rparr>"

lemmas template_methods = on_def on_all_def template_Get_def template_List_def template_Watch_def template_Create_def
  template_Update_def template_UpdateStatus_def template_Delete_def template_DeleteCollection_def template_Patch_def

text \<open>The methods as exchanges of the requests that the conventions of the API give.\<close>

lemma template_requests:
  "template_Get rt t n = typed_get rt (operation_request (te_resource t) (GetOp n)) (te_zero t) (te_decode t)"
  "template_List rt t opts = typed_get rt (operation_request (te_resource t) (ListOp opts)) [] (te_decodeList t)"
  "template_Watch rt t opts = rest_watch rt (operation_request (te_resource t) (WatchOp opts))"
  "template_Create rt t x = typed_get rt (operation_request (te_resource t) (CreateOp x)) (te_zero t) (te_decode t)"
  "template_Update rt t x = typed_get rt (operation_request (te_resource t) (UpdateOp x)) (te_zero t) (te_decode t)"
  "template_UpdateStatus rt t x =
     typed_get rt (operation_request (te_resource t) (UpdateStatusOp x)) (te_zero t) (te_decode t)"
  "template_Delete rt t n =
     bindG (rest_do rt (operation_request (te_resource t) (DeleteOp n))) (\<lambda>resp. ret (Error_of resp))"
  "template_DeleteCollection rt t opts =
     bindG (rest_do rt (operation_request (te_resource t) (DeleteCollectionOp opts))) (\<lambda>resp. ret (Error_of resp))"
  "template_Patch rt t n pt data subs =
     typed_get rt (operation_request (te_resource t) (PatchOp n pt data subs)) (te_zero t) (te_decode t)"
  by (simp_all add: template_methods request_forms watch_request_def)

interpretation template: resource_client "template_client rt t" "te_resource t"
  by unfold_locales (auto simp: template_client_def template_requests request_forms split: if_splits
      intro!: exchange_rules)

section \<open>The resources that the driver uses\<close>

definition virtualMachine_template :: "string \<Rightarrow> VirtualMachine template" where
  "virtualMachine_template ns = \<lparr>te_resource = virtualMachines ns, te_zero = zero_VirtualMachine,
     te_decode = dec_VM, te_decodeList = dec_VMList, te_status = True\<rparr>"

definition virtualMachineInstance_template :: "string \<Rightarrow> VirtualMachineInstance template" where
  "virtualMachineInstance_template ns = \<lparr>te_resource = virtualMachineInstances ns,
     te_zero = zero_VirtualMachineInstance, te_decode = dec_VMI, te_decodeList = dec_VMIList, te_status = True\<rparr>"

definition dataVolume_template :: "string \<Rightarrow> DataVolume template" where
  "dataVolume_template ns = \<lparr>te_resource = dataVolumes ns, te_zero = zero_DataVolume, te_decode = dec_DV,
     te_decodeList = dec_DVList, te_status = True\<rparr>"

definition volumeSnapshot_template :: "string \<Rightarrow> VolumeSnapshot template" where
  "volumeSnapshot_template ns = \<lparr>te_resource = volumeSnapshots ns, te_zero = zero_VolumeSnapshot,
     te_decode = dec_Snapshot, te_decodeList = dec_SnapshotList, te_status = True\<rparr>"

definition volumeSnapshotClass_template :: "host \<Rightarrow> VolumeSnapshotClass template" where
  "volumeSnapshotClass_template h = \<lparr>te_resource = volumeSnapshotClasses h, te_zero = zero_VolumeSnapshotClass,
     te_decode = dec_SnapshotClass, te_decodeList = dec_SnapshotClassList, te_status = False\<rparr>"

lemmas used_templates = virtualMachine_template_def virtualMachineInstance_template_def dataVolume_template_def
  volumeSnapshot_template_def volumeSnapshotClass_template_def

text \<open>The five clients, each written out from its own file, do what the template says.\<close>

lemma used_clients_from_template:
  "newVirtualMachines rt ns = template_client rt (virtualMachine_template ns)"
  "newVirtualMachineInstances rt ns = template_client rt (virtualMachineInstance_template ns)"
  "newDataVolumes rt ns = template_client rt (dataVolume_template ns)"
  "newVolumeSnapshots rt ns = template_client rt (volumeSnapshot_template ns)"
  "newVolumeSnapshotClasses rt h = template_client rt (volumeSnapshotClass_template h)"
  by (simp_all add: template_client_def template_methods used_templates resource_defs fun_eq_iff
      newVirtualMachines_def newVirtualMachineInstances_def newDataVolumes_def newVolumeSnapshots_def
      newVolumeSnapshotClasses_def vm_methods vmi_methods dv_methods snapshot_methods class_methods watch_request_def)

section \<open>The other resources\<close>

text \<open>
  Their objects are opaque; an answer decodes when it is of the Go type.  Resources without a namespace
  (\<open>nonNamespaced\<close>) leave it out of the path.
\<close>

definition dec_Other :: "string \<Rightarrow> api_object \<Rightarrow> OtherObject option" where
  "dec_Other kind x = (case x of OOther obj \<Rightarrow> if ot_Kind obj = kind then Some obj else None | _ \<Rightarrow> None)"

definition dec_OtherList :: "string \<Rightarrow> api_object \<Rightarrow> OtherObject list option" where
  "dec_OtherList kind x = (case x of OOtherList k objs \<Rightarrow> if k = kind then Some objs else None | _ \<Rightarrow> None)"

definition other_template ::
  "host \<Rightarrow> string \<Rightarrow> string option \<Rightarrow> string \<Rightarrow> string \<Rightarrow> bool \<Rightarrow> OtherObject template" where
  "other_template h path ns plural kind status = \<lparr>te_resource = \<lparr>re_host = h, re_path = path, re_namespace = ns,
       re_plural = plural, re_nameOf = (\<lambda>x. om_Name (ot_Meta x)), re_bodyOf = BodyOther\<rparr>,
     te_zero = zero_OtherObject kind, te_decode = dec_Other kind, te_decodeList = dec_OtherList kind,
     te_status = status\<rparr>"

definition kubeVirts :: "host \<Rightarrow> string \<Rightarrow> OtherObject template" where
  "kubeVirts h ns = other_template h kubevirtPath (Some ns) ''kubevirts'' ''KubeVirt'' True"

definition newKubeVirts :: "'e runtime \<Rightarrow> host \<Rightarrow> string \<Rightarrow> ('e world, OtherObject) ResourceInterface" where
  "newKubeVirts rt h ns = template_client rt (kubeVirts h ns)"

definition virtualMachineInstanceMigrations :: "host \<Rightarrow> string \<Rightarrow> OtherObject template" where
  "virtualMachineInstanceMigrations h ns = other_template h kubevirtPath (Some ns) ''virtualmachineinstancemigrations'' ''VirtualMachineInstanceMigration'' True"

definition newVirtualMachineInstanceMigrations :: "'e runtime \<Rightarrow> host \<Rightarrow> string \<Rightarrow> ('e world, OtherObject) ResourceInterface" where
  "newVirtualMachineInstanceMigrations rt h ns = template_client rt (virtualMachineInstanceMigrations h ns)"

definition virtualMachineInstancePresets :: "host \<Rightarrow> string \<Rightarrow> OtherObject template" where
  "virtualMachineInstancePresets h ns = other_template h kubevirtPath (Some ns) ''virtualmachineinstancepresets'' ''VirtualMachineInstancePreset'' False"

definition newVirtualMachineInstancePresets :: "'e runtime \<Rightarrow> host \<Rightarrow> string \<Rightarrow> ('e world, OtherObject) ResourceInterface" where
  "newVirtualMachineInstancePresets rt h ns = template_client rt (virtualMachineInstancePresets h ns)"

definition virtualMachineInstanceReplicaSets :: "host \<Rightarrow> string \<Rightarrow> OtherObject template" where
  "virtualMachineInstanceReplicaSets h ns = other_template h kubevirtPath (Some ns) ''virtualmachineinstancereplicasets'' ''VirtualMachineInstanceReplicaSet'' True"

definition newVirtualMachineInstanceReplicaSets :: "'e runtime \<Rightarrow> host \<Rightarrow> string \<Rightarrow> ('e world, OtherObject) ResourceInterface" where
  "newVirtualMachineInstanceReplicaSets rt h ns = template_client rt (virtualMachineInstanceReplicaSets h ns)"

definition cDIs :: "host \<Rightarrow> OtherObject template" where
  "cDIs h = other_template h cdiPath None ''cdis'' ''CDI'' True"

definition newCDIs :: "'e runtime \<Rightarrow> host \<Rightarrow> ('e world, OtherObject) ResourceInterface" where
  "newCDIs rt h = template_client rt (cDIs h)"

definition cDIConfigs :: "host \<Rightarrow> OtherObject template" where
  "cDIConfigs h = other_template h cdiPath None ''cdiconfigs'' ''CDIConfig'' True"

definition newCDIConfigs :: "'e runtime \<Rightarrow> host \<Rightarrow> ('e world, OtherObject) ResourceInterface" where
  "newCDIConfigs rt h = template_client rt (cDIConfigs h)"

definition dataImportCrons :: "host \<Rightarrow> string \<Rightarrow> OtherObject template" where
  "dataImportCrons h ns = other_template h cdiPath (Some ns) ''dataimportcrons'' ''DataImportCron'' True"

definition newDataImportCrons :: "'e runtime \<Rightarrow> host \<Rightarrow> string \<Rightarrow> ('e world, OtherObject) ResourceInterface" where
  "newDataImportCrons rt h ns = template_client rt (dataImportCrons h ns)"

definition dataSources :: "host \<Rightarrow> string \<Rightarrow> OtherObject template" where
  "dataSources h ns = other_template h cdiPath (Some ns) ''datasources'' ''DataSource'' True"

definition newDataSources :: "'e runtime \<Rightarrow> host \<Rightarrow> string \<Rightarrow> ('e world, OtherObject) ResourceInterface" where
  "newDataSources rt h ns = template_client rt (dataSources h ns)"

definition objectTransfers :: "host \<Rightarrow> OtherObject template" where
  "objectTransfers h = other_template h cdiPath None ''objecttransfers'' ''ObjectTransfer'' True"

definition newObjectTransfers :: "'e runtime \<Rightarrow> host \<Rightarrow> ('e world, OtherObject) ResourceInterface" where
  "newObjectTransfers rt h = template_client rt (objectTransfers h)"

definition storageProfiles :: "host \<Rightarrow> OtherObject template" where
  "storageProfiles h = other_template h cdiPath None ''storageprofiles'' ''StorageProfile'' True"

definition newStorageProfiles :: "'e runtime \<Rightarrow> host \<Rightarrow> ('e world, OtherObject) ResourceInterface" where
  "newStorageProfiles rt h = template_client rt (storageProfiles h)"

definition volumeCloneSources :: "host \<Rightarrow> string \<Rightarrow> OtherObject template" where
  "volumeCloneSources h ns = other_template h cdiPath (Some ns) ''volumeclonesources'' ''VolumeCloneSource'' False"

definition newVolumeCloneSources :: "'e runtime \<Rightarrow> host \<Rightarrow> string \<Rightarrow> ('e world, OtherObject) ResourceInterface" where
  "newVolumeCloneSources rt h ns = template_client rt (volumeCloneSources h ns)"

definition volumeImportSources :: "host \<Rightarrow> string \<Rightarrow> OtherObject template" where
  "volumeImportSources h ns = other_template h cdiPath (Some ns) ''volumeimportsources'' ''VolumeImportSource'' True"

definition newVolumeImportSources :: "'e runtime \<Rightarrow> host \<Rightarrow> string \<Rightarrow> ('e world, OtherObject) ResourceInterface" where
  "newVolumeImportSources rt h ns = template_client rt (volumeImportSources h ns)"

definition volumeUploadSources :: "host \<Rightarrow> string \<Rightarrow> OtherObject template" where
  "volumeUploadSources h ns = other_template h cdiPath (Some ns) ''volumeuploadsources'' ''VolumeUploadSource'' True"

definition newVolumeUploadSources :: "'e runtime \<Rightarrow> host \<Rightarrow> string \<Rightarrow> ('e world, OtherObject) ResourceInterface" where
  "newVolumeUploadSources rt h ns = template_client rt (volumeUploadSources h ns)"

definition volumeSnapshotContents :: "host \<Rightarrow> OtherObject template" where
  "volumeSnapshotContents h = other_template h snapshotPath None ''volumesnapshotcontents'' ''VolumeSnapshotContent'' True"

definition newVolumeSnapshotContents :: "'e runtime \<Rightarrow> host \<Rightarrow> ('e world, OtherObject) ResourceInterface" where
  "newVolumeSnapshotContents rt h = template_client rt (volumeSnapshotContents h)"

text \<open>The clients of these resources on one server, each with its resource.\<close>

definition otherClients :: "'e runtime \<Rightarrow> host \<Rightarrow> string
    \<Rightarrow> (OtherObject template \<times> ('e world, OtherObject) ResourceInterface) list" where
  "otherClients rt h ns = [(kubeVirts h ns, newKubeVirts rt h ns),
     (virtualMachineInstanceMigrations h ns, newVirtualMachineInstanceMigrations rt h ns),
     (virtualMachineInstancePresets h ns, newVirtualMachineInstancePresets rt h ns),
     (virtualMachineInstanceReplicaSets h ns, newVirtualMachineInstanceReplicaSets rt h ns),
     (cDIs h, newCDIs rt h),
     (cDIConfigs h, newCDIConfigs rt h),
     (dataImportCrons h ns, newDataImportCrons rt h ns),
     (dataSources h ns, newDataSources rt h ns),
     (objectTransfers h, newObjectTransfers rt h),
     (storageProfiles h, newStorageProfiles rt h),
     (volumeCloneSources h ns, newVolumeCloneSources rt h ns),
     (volumeImportSources h ns, newVolumeImportSources rt h ns),
     (volumeUploadSources h ns, newVolumeUploadSources rt h ns),
     (volumeSnapshotContents h, newVolumeSnapshotContents rt h)]"

lemmas other_clients = newKubeVirts_def newVirtualMachineInstanceMigrations_def newVirtualMachineInstancePresets_def newVirtualMachineInstanceReplicaSets_def newCDIs_def newCDIConfigs_def newDataImportCrons_def newDataSources_def newObjectTransfers_def newStorageProfiles_def newVolumeCloneSources_def newVolumeImportSources_def newVolumeUploadSources_def newVolumeSnapshotContents_def

lemma otherClients_from_template: "list_all (\<lambda>(t, I). I = template_client rt t) (otherClients rt h ns)"
  by (simp add: otherClients_def other_clients)

section \<open>Conformance\<close>

text \<open>The requests that a list of operations stands for: those that the request builder accepts.\<close>

definition requests_for :: "'o resource \<Rightarrow> 'o operation list \<Rightarrow> rest_request list" where
  "requests_for re ops = filter (\<lambda>rq. request_error rq = None) (map (operation_request re) ops)"



end
