(* ===== verification/Object_Tracker.thy ===== *)
theory Object_Tracker
  imports Generated_Clients "HOL-Library.Product_Lexorder"
begin

text \<open>
  The object tracker of client-go (\<open>client-go/testing/fixture.go\<close>) and the \<open>Fake\<close> that records actions and
  runs reactors (\<open>fake.go\<close>), on which the generated fake clients of the driver's unit tests rest: a store of
  objects by resource, namespace and name that tells its watchers what changes.

  JSON and strategic patches are third-party code and come in as the record \<open>PatchLib\<close>.  The lemmas give the
  effect of every operation on the stored objects, and the invariant that an object is stored under its own
  namespace and name.
\<close>

section \<open>Objects and their kinds\<close>

type_synonym gvr = "string \<times> string \<times> string"
type_synonym gvk = "string \<times> string \<times> string"

text \<open>\<open>meta.Accessor\<close>: the metadata of an object; lists and answers without an object have none.\<close>

fun Accessor :: "api_object \<Rightarrow> ObjectMeta option" where
  "Accessor (OVM x) = Some (vm_Meta x)"
| "Accessor (OVMI x) = Some (vmi_Meta x)"
| "Accessor (ODV x) = Some (dv_Meta x)"
| "Accessor (OPVC x) = Some (pvc_Meta x)"
| "Accessor (OPV x) = Some (pv_Meta x)"
| "Accessor (OSnapshot x) = Some (snap_Meta x)"
| "Accessor (OSnapshotClass x) = Some (vsc_Meta x)"
| "Accessor (ONode x) = Some (node_Meta x)"
| "Accessor (OOther x) = Some (ot_Meta x)"
| "Accessor _ = None"

fun SetMeta :: "ObjectMeta \<Rightarrow> api_object \<Rightarrow> api_object" where
  "SetMeta m (OVM x) = OVM (x\<lparr>vm_Meta := m\<rparr>)"
| "SetMeta m (OVMI x) = OVMI (x\<lparr>vmi_Meta := m\<rparr>)"
| "SetMeta m (ODV x) = ODV (x\<lparr>dv_Meta := m\<rparr>)"
| "SetMeta m (OPVC x) = OPVC (x\<lparr>pvc_Meta := m\<rparr>)"
| "SetMeta m (OPV x) = OPV (x\<lparr>pv_Meta := m\<rparr>)"
| "SetMeta m (OSnapshot x) = OSnapshot (x\<lparr>snap_Meta := m\<rparr>)"
| "SetMeta m (OSnapshotClass x) = OSnapshotClass (x\<lparr>vsc_Meta := m\<rparr>)"
| "SetMeta m (ONode x) = ONode (x\<lparr>node_Meta := m\<rparr>)"
| "SetMeta m (OOther x) = OOther (x\<lparr>ot_Meta := m\<rparr>)"
| "SetMeta m x = x"

text \<open>The name of the Go type of an object, which is its kind.\<close>

fun kindOf :: "api_object \<Rightarrow> string" where
  "kindOf (OVM x) = ''VirtualMachine''"
| "kindOf (OVMI x) = ''VirtualMachineInstance''"
| "kindOf (ODV x) = ''DataVolume''"
| "kindOf (OPVC x) = ''PersistentVolumeClaim''"
| "kindOf (OPV x) = ''PersistentVolume''"
| "kindOf (OSnapshot x) = ''VolumeSnapshot''"
| "kindOf (OSnapshotClass x) = ''VolumeSnapshotClass''"
| "kindOf (ONode x) = ''Node''"
| "kindOf (OOther x) = ot_Kind x"
| "kindOf (OVMList xs) = ''VirtualMachineList''"
| "kindOf (OVMIList xs) = ''VirtualMachineInstanceList''"
| "kindOf (ODVList xs) = ''DataVolumeList''"
| "kindOf (OSnapshotList xs) = ''VolumeSnapshotList''"
| "kindOf (OSnapshotClassList xs) = ''VolumeSnapshotClassList''"
| "kindOf (OOtherList k xs) = k @ ''List''"
| "kindOf x = ''Status''"

text \<open>\<open>meta.IsListType\<close> and \<open>meta.ExtractList\<close>: the items of a list object.\<close>

fun ExtractList :: "api_object \<Rightarrow> api_object list option" where
  "ExtractList (OVMList xs) = Some (map OVM xs)"
| "ExtractList (OVMIList xs) = Some (map OVMI xs)"
| "ExtractList (ODVList xs) = Some (map ODV xs)"
| "ExtractList (OSnapshotList xs) = Some (map OSnapshot xs)"
| "ExtractList (OSnapshotClassList xs) = Some (map OSnapshotClass xs)"
| "ExtractList (OOtherList k xs) = Some (map OOther xs)"
| "ExtractList x = None"

text \<open>\<open>UnsafeGuessKindToResource\<close> of \<open>apimachinery/pkg/api/meta/restmapper.go\<close>: the plural of a kind.\<close>

definition UnsafeGuessKindToResource :: "gvk \<Rightarrow> gvr" where
  "UnsafeGuessKindToResource gvk = (case gvk of (g, v, kind) \<Rightarrow>
     if kind = '''' then ('''', '''', '''')
     else let singularName = map toLower kind in
       if drop (length singularName - length ''endpoints'') singularName = ''endpoints'' then (g, v, singularName)
       else if last singularName = CHR ''s'' then (g, v, singularName @ ''es'')
       else if last singularName = CHR ''y'' then (g, v, butlast singularName @ ''ies'')
       else (g, v, singularName @ ''s''))"

section \<open>Errors of the API\<close>

definition GroupResource_string :: "gvr \<Rightarrow> string" where
  "GroupResource_string gvr = (case gvr of (g, v, r) \<Rightarrow> if g = '''' then r else r @ ''.'' @ g)"

definition NewNotFound :: "gvr \<Rightarrow> string \<Rightarrow> gerr" where
  "NewNotFound gvr name = ApiStatus ''NotFound'' 404 (GroupResource_string gvr @ '' '' @ quoted name @ '' not found'')"

definition NewAlreadyExists :: "gvr \<Rightarrow> string \<Rightarrow> gerr" where
  "NewAlreadyExists gvr name =
     ApiStatus ''AlreadyExists'' 409 (GroupResource_string gvr @ '' '' @ quoted name @ '' already exists'')"

definition NewBadRequest :: "string \<Rightarrow> gerr" where
  "NewBadRequest reason = ApiStatus ''BadRequest'' 400 reason"

definition errNotObject :: gerr where
  "errNotObject = PlainErr ''object does not implement the Object interfaces''"

definition notRegistered :: "string \<Rightarrow> gerr" where
  "notRegistered kind = PlainErr (''no kind '' @ quoted kind @ '' is registered in the scheme'')"

section \<open>The tracker\<close>

datatype event_type = Added | Modified | Deleted

text \<open>\<open>watch.RaceFreeFakeWatcher\<close>: a channel of 100 events and whether it was stopped.\<close>

record FakeWatcher =
  fw_Resource :: gvr
  fw_Namespace :: string
  fw_Events :: "(event_type \<times> api_object) list"
  fw_Stopped :: bool

definition DefaultChanSize :: nat where "DefaultChanSize = 100"

record tracker =
  tr_scheme :: "gvk list"
  tr_objects :: "((gvr \<times> string \<times> string) \<times> api_object) list"
  tr_watchers :: "FakeWatcher list"

definition NewObjectTracker :: "gvk list \<Rightarrow> tracker" where
  "NewObjectTracker scheme = \<lparr>tr_scheme = scheme, tr_objects = [], tr_watchers = []\<rparr>"

text \<open>The watchers of a namespace, then those of all namespaces; watchers are named by their index.\<close>

definition watchersOf :: "tracker \<Rightarrow> gvr \<Rightarrow> string \<Rightarrow> nat list" where
  "watchersOf t gvr ns = filter (\<lambda>i. fw_Resource (tr_watchers t ! i) = gvr \<and> fw_Namespace (tr_watchers t ! i) = ns)
     [0..<length (tr_watchers t)]"

definition getWatches :: "tracker \<Rightarrow> gvr \<Rightarrow> string \<Rightarrow> nat list" where
  "getWatches t gvr ns = watchersOf t gvr ns @ (if ns \<noteq> '''' then watchersOf t gvr '''' else [])"

text \<open>\<open>Add\<close>, \<open>Modify\<close> and \<open>Delete\<close> of a watcher, for each of the watchers: a full channel panics.\<close>

fun notify :: "event_type \<times> api_object \<Rightarrow> nat list \<Rightarrow> (tracker, unit) go" where
  "notify ev [] = ret ()"
| "notify ev (i # is) = (\<lambda>t. let w = tr_watchers t ! i in
     if fw_Stopped w then notify ev is t
     else if length (fw_Events w) < DefaultChanSize
       then notify ev is (t\<lparr>tr_watchers := (tr_watchers t)[i := w\<lparr>fw_Events := fw_Events w @ [ev]\<rparr>]\<rparr>)
     else (Panic ''channel full'', t))"

definition namespaceMismatch :: "string \<Rightarrow> string \<Rightarrow> gerr" where
  "namespaceMismatch ns ns' = NewBadRequest (''request namespace does not match object namespace, request: '' @
     quoted ns @ '' object: '' @ quoted ns')"

text \<open>\<open>add\<close>: the namespace of the request is given to an object without one, and must be that of the object.\<close>

definition inNamespace :: "string \<Rightarrow> ObjectMeta \<Rightarrow> ObjectMeta" where
  "inNamespace ns m = (if om_Namespace m = '''' then m\<lparr>om_Namespace := ns\<rparr> else m)"

definition tracker_add :: "gvr \<Rightarrow> api_object \<Rightarrow> string \<Rightarrow> bool \<Rightarrow> (tracker, gerr option) go" where
  "tracker_add gvr obj ns replaceExisting t = (case Accessor obj of
       None \<Rightarrow> (Ok (Some errNotObject), t)
     | Some m \<Rightarrow>
         let newMeta = inNamespace ns m; obj' = SetMeta newMeta obj; key = (gvr, om_Namespace newMeta, om_Name newMeta)
         in if ns \<noteq> om_Namespace newMeta then (Ok (Some (namespaceMismatch ns (om_Namespace newMeta))), t)
            else case map_of (tr_objects t) key of
                Some old \<Rightarrow>
                  if replaceExisting
                  then bindG (notify (Modified, obj') (getWatches t gvr ns))
                    (\<lambda>_ t. (Ok None, t\<lparr>tr_objects := AList.update key obj' (tr_objects t)\<rparr>)) t
                  else (Ok (Some (NewAlreadyExists gvr (om_Name newMeta))), t)
              | None \<Rightarrow>
                  if replaceExisting then (Ok (Some (NewNotFound gvr (om_Name newMeta))), t)
                  else bindG (notify (Added, obj') (getWatches t gvr ns)) (\<lambda>_. ret None)
                    (t\<lparr>tr_objects := AList.update key obj' (tr_objects t)\<rparr>))"

text \<open>An object of type \<open>Status\<close>, which \<open>Get\<close> would turn into an error, has no metadata and is never stored.\<close>

definition tracker_Get :: "gvr \<Rightarrow> string \<Rightarrow> string \<Rightarrow> (tracker, api_object option \<times> gerr option) go" where
  "tracker_Get gvr ns name t = (case map_of (tr_objects t) (gvr, ns, name) of
       None \<Rightarrow> (Ok (None, Some (NewNotFound gvr name)), t)
     | Some obj \<Rightarrow> (Ok (Some obj, None), t))"

definition tracker_Delete :: "gvr \<Rightarrow> string \<Rightarrow> string \<Rightarrow> (tracker, gerr option) go" where
  "tracker_Delete gvr ns name t = (case map_of (tr_objects t) (gvr, ns, name) of
       None \<Rightarrow> (Ok (Some (NewNotFound gvr name)), t)
     | Some obj \<Rightarrow> bindG (notify (Deleted, obj) (getWatches t gvr ns)) (\<lambda>_. ret None)
         (t\<lparr>tr_objects := AList.delete (gvr, ns, name) (tr_objects t)\<rparr>))"

text \<open>\<open>filterByNamespace\<close>: the objects of a resource in a namespace, or in all, by namespace and name.\<close>

definition nsName :: "api_object \<Rightarrow> string \<times> string" where
  "nsName obj = (case Accessor obj of None \<Rightarrow> ('''', '''') | Some m \<Rightarrow> (om_Namespace m, om_Name m))"

definition filterByNamespace :: "tracker \<Rightarrow> gvr \<Rightarrow> string \<Rightarrow> api_object list" where
  "filterByNamespace t gvr ns = sort_key nsName
     (map snd (filter (\<lambda>((g, k), obj). g = gvr \<and> (ns = '''' \<or> fst (nsName obj) = ns)) (tr_objects t)))"

definition tracker_List ::
  "gvr \<Rightarrow> gvk \<Rightarrow> string \<Rightarrow> (tracker, api_object list option \<times> gerr option) go" where
  "tracker_List gvr gvk ns t = (case gvk of (g, v, kind) \<Rightarrow>
     if (g, v, kind @ ''List'') \<notin> set (tr_scheme t) then (Ok (None, Some (notRegistered (kind @ ''List''))), t)
     else let matching = filterByNamespace t gvr ns in
       if list_all (\<lambda>obj. kindOf obj = kind) matching then (Ok (Some matching, None), t)
       else (Ok (None, Some (PlainErr ''item: can not assign or convert'')), t))"

definition tracker_Watch :: "gvr \<Rightarrow> string \<Rightarrow> (tracker, nat) go" where
  "tracker_Watch gvr ns t = (Ok (length (tr_watchers t)), t\<lparr>tr_watchers := tr_watchers t @
     [\<lparr>fw_Resource = gvr, fw_Namespace = ns, fw_Events = [], fw_Stopped = False\<rparr>]\<rparr>)"

text \<open>\<open>Add\<close>: an object goes under the resource guessed from each kind that the scheme knows it by; a list
  gives its items one by one, up to the first error.\<close>

fun add_all :: "gvk list \<Rightarrow> api_object \<Rightarrow> string \<Rightarrow> (tracker, gerr option) go" where
  "add_all [] obj ns = ret None"
| "add_all (gvk # gvks) obj ns = bindG (tracker_add (UnsafeGuessKindToResource gvk) obj ns False)
     (\<lambda>err. case err of Some e \<Rightarrow> ret (Some e) | None \<Rightarrow> add_all gvks obj ns)"

definition ObjectKinds :: "tracker \<Rightarrow> api_object \<Rightarrow> gvk list" where
  "ObjectKinds t obj = filter (\<lambda>(g, v, kind). kind = kindOf obj) (tr_scheme t)"

definition addObject :: "api_object \<Rightarrow> (tracker, gerr option) go" where
  "addObject obj t = (case Accessor obj of
       None \<Rightarrow> (Ok (Some errNotObject), t)
     | Some m \<Rightarrow> (case ObjectKinds t obj of
           [] \<Rightarrow> (Ok (Some (notRegistered (kindOf obj))), t)
         | gvks \<Rightarrow> add_all gvks obj (om_Namespace m) t))"

fun addItems :: "api_object list \<Rightarrow> (tracker, gerr option) go" where
  "addItems [] = ret None"
| "addItems (obj # objs) = bindG (addObject obj)
     (\<lambda>err. case err of Some e \<Rightarrow> ret (Some e) | None \<Rightarrow> addItems objs)"

definition tracker_Add :: "api_object \<Rightarrow> (tracker, gerr option) go" where
  "tracker_Add obj = (case ExtractList obj of Some items \<Rightarrow> addItems items | None \<Rightarrow> addObject obj)"

section \<open>Actions and reactions\<close>

text \<open>The action types of \<open>actions.go\<close>, with the fields that the reactions read.\<close>

datatype action_impl = GetActionImpl string | ListActionImpl gvk "string gomap" | CreateActionImpl api_object
  | UpdateActionImpl api_object | DeleteActionImpl string | DeleteCollectionActionImpl "string gomap"
  | WatchActionImpl "string gomap" | PatchActionImpl string string string

record action =
  ac_Resource :: gvr
  ac_Subresource :: string
  ac_Namespace :: string
  ac_Impl :: action_impl

fun verbOf :: "action_impl \<Rightarrow> string" where
  "verbOf (GetActionImpl n) = ''get''"
| "verbOf (ListActionImpl k sel) = ''list''"
| "verbOf (CreateActionImpl obj) = ''create''"
| "verbOf (UpdateActionImpl obj) = ''update''"
| "verbOf (DeleteActionImpl n) = ''delete''"
| "verbOf (DeleteCollectionActionImpl sel) = ''delete-collection''"
| "verbOf (WatchActionImpl sel) = ''watch''"
| "verbOf (PatchActionImpl n pt data) = ''patch''"

text \<open>A value of type \<open>runtime.Object\<close>: an object, or a list with its item kind.\<close>

datatype runtime_object = Obj api_object | ObjList string "api_object list"

text \<open>
  The patch libraries: \<open>pl_Patch\<close> applies a patch of a type to an object, \<open>pl_ApplyName\<close> reads the name of an
  apply configuration, \<open>pl_Apply\<close> merges it into an object.
\<close>

record PatchLib =
  pl_Patch :: "string \<Rightarrow> string \<Rightarrow> api_object \<Rightarrow> gerr + api_object"
  pl_ApplyName :: "string \<Rightarrow> gerr + string"
  pl_Apply :: "string \<Rightarrow> api_object \<Rightarrow> gerr + api_object"

definition ApplyPatchType :: string where "ApplyPatchType = ''application/apply-patch+yaml''"

definition patchTypes :: "string list" where
  "patchTypes = [''application/json-patch+json'', ''application/merge-patch+json'',
     ''application/strategic-merge-patch+json'']"

type_synonym reaction = "(tracker, api_object option \<times> gerr option) go"

text \<open>A step that may fail: go on with its value, or return nil and the error.\<close>

definition unless_error :: "(tracker, gerr option) go \<Rightarrow> reaction \<Rightarrow> reaction" where
  "unless_error m k = bindG m (\<lambda>err. case err of Some e \<Rightarrow> ret (None, Some e) | None \<Rightarrow> k)"

definition with_object :: "reaction \<Rightarrow> (api_object \<Rightarrow> reaction) \<Rightarrow> reaction" where
  "with_object m k = bindG m (\<lambda>(obj, err). case err of Some e \<Rightarrow> ret (None, Some e)
     | None \<Rightarrow> (case obj of None \<Rightarrow> panic nilDeref | Some x \<Rightarrow> k x))"

text \<open>\<open>objectTrackerReact\<close>.  Creating a subresource is an update of the object.\<close>

definition react_Create :: "gvr \<Rightarrow> string \<Rightarrow> string \<Rightarrow> api_object \<Rightarrow> reaction" where
  "react_Create gvr sub ns obj = (case Accessor obj of
       None \<Rightarrow> ret (None, Some errNotObject)
     | Some m \<Rightarrow>
         if sub = '''' then unless_error (tracker_add gvr obj ns False) (tracker_Get gvr ns (om_Name m))
         else with_object (tracker_Get gvr ns (om_Name m)) (\<lambda>oldObj.
           if kindOf oldObj = kindOf obj
           then unless_error (tracker_add gvr obj ns True) (tracker_Get gvr ns (om_Name m))
           else ret (Some obj, None)))"

definition react_Update :: "gvr \<Rightarrow> string \<Rightarrow> api_object \<Rightarrow> reaction" where
  "react_Update gvr ns obj = (case Accessor obj of
       None \<Rightarrow> ret (None, Some errNotObject)
     | Some m \<Rightarrow> unless_error (tracker_add gvr obj ns True) (tracker_Get gvr ns (om_Name m)))"

definition react_Delete :: "gvr \<Rightarrow> string \<Rightarrow> string \<Rightarrow> reaction" where
  "react_Delete gvr ns name = bindG (tracker_Delete gvr ns name) (\<lambda>err. ret (None, err))"

definition react_Patch :: "PatchLib \<Rightarrow> gvr \<Rightarrow> string \<Rightarrow> string \<Rightarrow> string \<Rightarrow> string \<Rightarrow> reaction" where
  "react_Patch lib gvr ns name pt data = with_object (tracker_Get gvr ns name) (\<lambda>old.
     if pt \<notin> set patchTypes then ret (None, Some (PlainErr (''PatchType '' @ pt @ '' is not supported'')))
     else case pl_Patch lib pt data old of
         Inl e \<Rightarrow> ret (None, Some e)
       | Inr obj \<Rightarrow> unless_error (tracker_add gvr obj ns True) (ret (Some obj, None)))"

definition tracker_Apply :: "PatchLib \<Rightarrow> gvr \<Rightarrow> string \<Rightarrow> string \<Rightarrow> string \<Rightarrow> (tracker, gerr option) go" where
  "tracker_Apply lib gvr ns cfgName data = bindG (tracker_Get gvr ns cfgName) (\<lambda>(old, err). case err of
       Some e \<Rightarrow> ret (Some e)
     | None \<Rightarrow> deref old (\<lambda>x. case pl_Apply lib data x of
           Inl e \<Rightarrow> ret (Some e)
         | Inr obj \<Rightarrow> tracker_add gvr obj ns True))"

definition react_Apply :: "PatchLib \<Rightarrow> gvr \<Rightarrow> string \<Rightarrow> string \<Rightarrow> string \<Rightarrow> reaction" where
  "react_Apply lib gvr ns name data = (case pl_ApplyName lib data of
       Inl e \<Rightarrow> ret (None, Some e)
     | Inr cfgName \<Rightarrow> unless_error (tracker_Apply lib gvr ns cfgName data) (tracker_Get gvr ns name))"

text \<open>\<open>ObjectReaction\<close>: whether the action was handled, and what it gave.\<close>

definition handled :: "reaction \<Rightarrow> (tracker, bool \<times> runtime_object option \<times> gerr option) go" where
  "handled m = bindG m (\<lambda>(obj, err). ret (True, map_option Obj obj, err))"

definition ObjectReaction :: "PatchLib \<Rightarrow> action \<Rightarrow> (tracker, bool \<times> runtime_object option \<times> gerr option) go" where
  "ObjectReaction lib a = (let gvr = ac_Resource a; ns = ac_Namespace a in case ac_Impl a of
       ListActionImpl kind sel \<Rightarrow> bindG (tracker_List gvr kind ns)
         (\<lambda>(items, err). ret (True, map_option (ObjList (snd (snd kind))) items, err))
     | GetActionImpl name \<Rightarrow> handled (tracker_Get gvr ns name)
     | CreateActionImpl obj \<Rightarrow> handled (react_Create gvr (ac_Subresource a) ns obj)
     | UpdateActionImpl obj \<Rightarrow> handled (react_Update gvr ns obj)
     | DeleteActionImpl name \<Rightarrow> handled (react_Delete gvr ns name)
     | PatchActionImpl name pt data \<Rightarrow>
         handled (if pt = ApplyPatchType then react_Apply lib gvr ns name data else react_Patch lib gvr ns name pt data)
     | _ \<Rightarrow> ret (False, None, Some (PlainErr (''no reaction implemented for '' @ verbOf (ac_Impl a)))))"

section \<open>The Fake\<close>

record SimpleReactor =
  sr_Verb :: string
  sr_Resource :: string
  sr_Reaction :: "action \<Rightarrow> (tracker, bool \<times> runtime_object option \<times> gerr option) go"

record SimpleWatchReactor =
  sw_Resource :: string
  sw_Reaction :: "action \<Rightarrow> (tracker, bool \<times> watch_interface option \<times> gerr option) go"

record Fake =
  fk_actions :: "action list"
  fk_ReactionChain :: "SimpleReactor list"
  fk_WatchReactionChain :: "SimpleWatchReactor list"
  fk_tracker :: tracker

definition resourceCovers :: "string \<Rightarrow> action \<Rightarrow> bool" where
  "resourceCovers resource a = (let r = snd (snd (ac_Resource a)) in
     resource = ''*'' \<or> resource = r \<or>
     CHR ''/'' \<in> set resource \<and> takeWhile (\<lambda>c. c \<noteq> CHR ''/'') resource = r \<and>
       tl (dropWhile (\<lambda>c. c \<noteq> CHR ''/'') resource) = ac_Subresource a)"

definition Handles :: "SimpleReactor \<Rightarrow> action \<Rightarrow> bool" where
  "Handles r a = ((sr_Verb r = ''*'' \<or> sr_Verb r = verbOf (ac_Impl a)) \<and> resourceCovers (sr_Resource r) a)"

fun runChain :: "SimpleReactor list \<Rightarrow> action \<Rightarrow> (tracker, (runtime_object option \<times> gerr option) option) go" where
  "runChain [] a = ret None"
| "runChain (r # rs) a = (if \<not> Handles r a then runChain rs a
     else bindG (sr_Reaction r a) (\<lambda>(h, obj, err). if h then ret (Some (obj, err)) else runChain rs a))"

fun runWatchChain :: "SimpleWatchReactor list \<Rightarrow> action \<Rightarrow> (tracker, (watch_interface option \<times> gerr option) option) go" where
  "runWatchChain [] a = ret None"
| "runWatchChain (r # rs) a = (if \<not> resourceCovers (sw_Resource r) a then runWatchChain rs a
     else bindG (sw_Reaction r a) (\<lambda>(h, w, err). if h then ret (Some (w, err)) else runWatchChain rs a))"

text \<open>Work on the tracker of a fake.\<close>

definition on_tracker :: "(tracker, 'a) go \<Rightarrow> (Fake, 'a) go" where
  "on_tracker m f = (case m (fk_tracker f) of (r, t) \<Rightarrow> (r, f\<lparr>fk_tracker := t\<rparr>))"

definition record_action :: "action \<Rightarrow> Fake \<Rightarrow> Fake" where
  "record_action a f = f\<lparr>fk_actions := fk_actions f @ [a]\<rparr>"

definition Invokes :: "action \<Rightarrow> runtime_object option \<Rightarrow> (Fake, runtime_object option \<times> gerr option) go" where
  "Invokes a defaultReturnObj f = bindG (on_tracker (runChain (fk_ReactionChain f) a))
     (\<lambda>r. ret (case r of Some (obj, err) \<Rightarrow> (obj, err) | None \<Rightarrow> (defaultReturnObj, None))) (record_action a f)"

definition InvokesWatch :: "action \<Rightarrow> (Fake, watch_interface option \<times> gerr option) go" where
  "InvokesWatch a f = bindG (on_tracker (runWatchChain (fk_WatchReactionChain f) a))
     (\<lambda>r. ret (case r of Some (w, err) \<Rightarrow> (w, err) | None \<Rightarrow> (None, Some (PlainErr ''unhandled watch''))))
     (record_action a f)"

definition AddReactor :: "string \<Rightarrow> string \<Rightarrow> (action \<Rightarrow> (tracker, bool \<times> runtime_object option \<times> gerr option) go)
    \<Rightarrow> Fake \<Rightarrow> Fake" where
  "AddReactor verb resource reaction f = f\<lparr>fk_ReactionChain := fk_ReactionChain f @
     [\<lparr>sr_Verb = verb, sr_Resource = resource, sr_Reaction = reaction\<rparr>]\<rparr>"

definition AddWatchReactor :: "string \<Rightarrow> (action \<Rightarrow> (tracker, bool \<times> watch_interface option \<times> gerr option) go)
    \<Rightarrow> Fake \<Rightarrow> Fake" where
  "AddWatchReactor resource reaction f = f\<lparr>fk_WatchReactionChain := fk_WatchReactionChain f @
     [\<lparr>sw_Resource = resource, sw_Reaction = reaction\<rparr>]\<rparr>"

section \<open>Lemmas\<close>

lemma SetMeta_Accessor [simp]: "Accessor x = Some m \<Longrightarrow> Accessor (SetMeta m' x) = Some m'"
  by (cases x) auto

lemma SetMeta_kind [simp]: "kindOf (SetMeta m x) = kindOf x"
  by (cases x) auto

lemma SetMeta_same [simp]: "Accessor x = Some m \<Longrightarrow> SetMeta m x = x"
  by (cases x) auto

lemma inNamespace_Name [simp]: "om_Name (inNamespace ns m) = om_Name m"
  by (simp add: inNamespace_def)

lemma inNamespace_own [simp]: "inNamespace (om_Namespace m) m = m"
  by (simp add: inNamespace_def)

text \<open>Telling the watchers changes their channels alone, and never past their capacity.\<close>

lemma notify_same:
  "notify ev is t = (r, t') \<Longrightarrow> tr_objects t' = tr_objects t \<and> tr_scheme t' = tr_scheme t \<and>
     length (tr_watchers t') = length (tr_watchers t)"
  by (induction ev "is" arbitrary: t rule: notify.induct) (auto simp: Let_def split: if_splits)

definition capacity :: "tracker \<Rightarrow> bool" where
  "capacity t \<longleftrightarrow> list_all (\<lambda>w. length (fw_Events w) \<le> DefaultChanSize) (tr_watchers t)"

lemma capacity_objects [simp]: "capacity (t\<lparr>tr_objects := x\<rparr>) = capacity t"
  by (simp add: capacity_def)

lemma list_all_update: "list_all P xs \<Longrightarrow> P x \<Longrightarrow> list_all P (xs[i := x])"
  by (auto simp: list_all_iff dest: set_update_subset_insert [THEN subsetD])

lemma notify_capacity: "notify ev is t = (r, t') \<Longrightarrow> capacity t \<Longrightarrow> capacity t'"
proof (induction ev "is" arbitrary: t rule: notify.induct)
  case (2 ev i "is")
  let ?w = "tr_watchers t ! i"
  show ?case
  proof (cases "fw_Stopped ?w \<or> \<not> length (fw_Events ?w) < DefaultChanSize")
    case True
    with 2 show ?thesis by (auto simp: Let_def split: if_splits)
  next
    case False
    then have "capacity (t\<lparr>tr_watchers := (tr_watchers t)[i := ?w\<lparr>fw_Events := fw_Events ?w @ [ev]\<rparr>]\<rparr>)"
      using 2(4) by (simp add: capacity_def list_all_update)
    with False 2(3) 2(2) [OF refl] show ?thesis by (auto simp: Let_def)
  qed
qed simp

lemma no_watches [simp]: "tr_watchers t = [] \<Longrightarrow> getWatches t gvr ns = []"
  by (simp add: getWatches_def watchersOf_def)

text \<open>
  The invariant: every object is stored once, under its own namespace and name, and no channel holds more
  than its capacity.
\<close>

definition consistent :: "tracker \<Rightarrow> bool" where
  "consistent t \<longleftrightarrow> distinct (map fst (tr_objects t)) \<and>
     list_all (\<lambda>((gvr, k), obj). Accessor obj \<noteq> None \<and> nsName obj = k) (tr_objects t) \<and> capacity t"

definition preserves :: "(tracker \<Rightarrow> bool) \<Rightarrow> (tracker, 'a) go \<Rightarrow> bool" where
  "preserves I m = keeps (\<lambda>t t'. I t \<longrightarrow> I t') m"

lemma preserves_bind: "preserves I m \<Longrightarrow> (\<And>x. preserves I (f x)) \<Longrightarrow> preserves I (bindG m f)"
  unfolding preserves_def by (rule keeps_bind) (auto intro: transpI)

lemma preserves_ret: "preserves I (ret x)" and preserves_panic: "preserves I (panic s)"
  unfolding preserves_def by (auto intro: keeps_ret keeps_panic reflpI)

lemma preserves_Pair: "preserves I (Pair r)"
  unfolding preserves_def by (simp add: keeps_def)

lemma preservesI: "(\<And>t r t'. m t = (r, t') \<Longrightarrow> I t \<Longrightarrow> I t') \<Longrightarrow> preserves I m"
  unfolding preserves_def by (rule keepsI) blast

lemma preserves_deref: "(\<And>x. preserves I (f x)) \<Longrightarrow> preserves I (deref p f)"
  by (cases p) (simp_all add: preserves_panic)

lemma preserves_cases:
  "(\<And>a b. preserves I (f a b)) \<Longrightarrow> preserves I (case x of (a, b) \<Rightarrow> f a b)"
  "preserves I m \<Longrightarrow> (\<And>a. preserves I (g a)) \<Longrightarrow> preserves I (case y of None \<Rightarrow> m | Some a \<Rightarrow> g a)"
  "(\<And>a. preserves I (p a)) \<Longrightarrow> (\<And>b. preserves I (q b)) \<Longrightarrow> preserves I (case z of Inl a \<Rightarrow> p a | Inr b \<Rightarrow> q b)"
  "preserves I n \<Longrightarrow> preserves I n' \<Longrightarrow> preserves I (if c then n else n')"
  by (auto split: prod.splits option.splits sum.splits)

lemmas preserves_rules = preserves_bind preserves_ret preserves_Pair preserves_panic preserves_deref preserves_cases

text \<open>What an operation may do to the store: put an object under its own key, or delete one.\<close>

lemma set_AList_update: "set (AList.update k v xs) \<subseteq> insert (k, v) (set xs)"
  by (induction xs) auto

lemma set_AList_delete: "set (AList.delete k xs) \<subseteq> set xs"
  by (auto simp: AList.delete_eq)

lemma list_all_subset: "set xs \<subseteq> set ys \<Longrightarrow> list_all P ys \<Longrightarrow> list_all P xs"
  by (auto simp: list_all_iff)

lemma consistent_update:
  assumes "consistent t" and "Accessor obj = Some m"
  shows "consistent (t\<lparr>tr_objects := AList.update (gvr, om_Namespace m, om_Name m) obj (tr_objects t)\<rparr>)"
proof -
  let ?k = "(gvr, om_Namespace m, om_Name m)"
  have "list_all (\<lambda>((gvr, k), obj). Accessor obj \<noteq> None \<and> nsName obj = k) ((?k, obj) # tr_objects t)"
    using assms by (simp add: consistent_def nsName_def)
  then have "list_all (\<lambda>((gvr, k), obj). Accessor obj \<noteq> None \<and> nsName obj = k) (AList.update ?k obj (tr_objects t))"
    by (rule list_all_subset [rotated]) (simp add: set_AList_update)
  with assms show ?thesis by (simp add: consistent_def distinct_update)
qed

lemma consistent_delete:
  "consistent t \<Longrightarrow> consistent (t\<lparr>tr_objects := AList.delete k (tr_objects t)\<rparr>)"
  unfolding consistent_def by (auto simp: distinct_delete intro: list_all_subset [OF set_AList_delete])

lemma notify_consistent: "notify ev is t = (r, t') \<Longrightarrow> consistent t \<Longrightarrow> consistent t'"
  using notify_same [of ev "is" t r t'] notify_capacity [of ev "is" t r t'] by (auto simp: consistent_def)

lemma bind_notify:
  assumes "bindG (notify ev is) f t = (r, t')"
  obtains r' t'' where "notify ev is t = (r', t'')" and "t' = t'' \<or> f () t'' = (r, t')"
  using assms by (cases rule: bindG_cases [of "notify ev is" t f]) auto

lemma add_consistent [intro]: "preserves consistent (tracker_add gvr obj ns b)"
proof (rule preservesI)
  fix t r t'
  assume run: "tracker_add gvr obj ns b t = (r, t')" and t: "consistent t"
  show "consistent t'"
  proof (cases "Accessor obj")
    case (Some m)
    let ?m = "inNamespace ns m"
    have acc: "Accessor (SetMeta ?m obj) = Some ?m" using Some by simp
    have upd: "consistent (u\<lparr>tr_objects := AList.update (gvr, ns, om_Name m) (SetMeta ?m obj) (tr_objects u)\<rparr>)"
      if "consistent u" and "ns = om_Namespace ?m" for u
      using consistent_update [OF that(1) acc, of gvr] that(2) by (metis inNamespace_Name)
    show ?thesis using run t
      by (auto simp: tracker_add_def Some Let_def dest: notify_consistent upd [OF notify_consistent]
          notify_consistent [OF _ upd] split: if_splits option.splits elim!: bind_notify)
  qed (use run t in \<open>simp add: tracker_add_def\<close>)
qed

text \<open>Without watchers, adding an object is a test and an update.\<close>

lemma add_quiet:
  assumes acc: "Accessor obj = Some m" and quiet: "tr_watchers t = []" and m': "inNamespace ns m = m'"
  shows "tracker_add gvr obj ns b t =
    (let key = (gvr, om_Namespace m', om_Name m') in
     if ns \<noteq> om_Namespace m' then (Ok (Some (namespaceMismatch ns (om_Namespace m'))), t)
     else if b \<and> map_of (tr_objects t) key = None then (Ok (Some (NewNotFound gvr (om_Name m'))), t)
     else if \<not> b \<and> map_of (tr_objects t) key \<noteq> None then (Ok (Some (NewAlreadyExists gvr (om_Name m'))), t)
     else (Ok None, t\<lparr>tr_objects := AList.update key (SetMeta m' obj) (tr_objects t)\<rparr>))"
proof -
  have "getWatches t gvr k = []" for k using quiet by simp
  then show ?thesis
    unfolding tracker_add_def acc option.case Let_def m'
    by (cases "map_of (tr_objects t) (gvr, om_Namespace m', om_Name m')") (simp_all add: bindG_def)
qed

lemma Get_consistent [intro]: "preserves I (tracker_Get gvr ns name)"
  by (rule preservesI) (auto simp: tracker_Get_def split: option.splits)

lemma List_consistent [intro]: "preserves I (tracker_List gvr gvk ns)"
  by (rule preservesI) (auto simp: tracker_List_def Let_def split: prod.splits if_splits)

lemma Delete_consistent [intro]: "preserves consistent (tracker_Delete gvr ns name)"
  by (rule preservesI) (auto simp: tracker_Delete_def elim!: bind_notify dest: notify_consistent consistent_delete
      split: option.splits)

lemma Watch_consistent [intro]: "preserves consistent (tracker_Watch gvr ns)"
  by (rule preservesI) (auto simp: tracker_Watch_def consistent_def capacity_def)

lemma reaction_steps_consistent:
  "preserves I m \<Longrightarrow> preserves I k \<Longrightarrow> preserves I (unless_error m k)"
  "preserves I k \<Longrightarrow> (\<And>x. preserves I (h x)) \<Longrightarrow> preserves I (with_object k h)"
  "preserves I k \<Longrightarrow> preserves I (handled k)"
  by (auto simp: unless_error_def with_object_def handled_def intro!: preserves_rules)

lemmas consistent_rules = reaction_steps_consistent preserves_rules add_consistent Get_consistent
  List_consistent Delete_consistent Watch_consistent

lemma ObjectReaction_consistent: "preserves consistent (ObjectReaction lib a)"
  unfolding ObjectReaction_def Let_def react_Create_def react_Update_def react_Delete_def react_Patch_def
    react_Apply_def tracker_Apply_def
  by (cases "ac_Impl a") (simp_all, (intro conjI impI consistent_rules)+)

lemma Add_consistent: "preserves consistent (tracker_Add obj)"
proof -
  have all: "preserves consistent (add_all gvks obj ns)" for gvks obj ns
    by (induction gvks) (auto intro!: consistent_rules)
  have one: "preserves consistent (addObject obj)" for obj
    by (rule preservesI) (auto simp: addObject_def simp del: add_all.simps split: option.splits list.splits
        dest: all [unfolded preserves_def, THEN keepsD])
  have "preserves consistent (addItems objs)" for objs
    by (induction objs) (auto intro!: consistent_rules one)
  with one show ?thesis unfolding tracker_Add_def by (auto split: option.splits)
qed

end
