(* ===== verification/Fake_Clients.thy ===== *)
theory Fake_Clients
  imports Object_Tracker
begin

text \<open>
  The generated fake clients (\<open>fake_*.go\<close> under \<open>src/pkg/generated\<close>) and fake clientsets, with which the unit
  tests of the driver replace the clusters.  As with the real clients, \<open>client-gen\<close> writes the files from one
  template in four forms; \<open>fake_client\<close> is that template, over the \<open>Fake\<close> of client-go.
  The interfaces \<open>KubevirtV1Interface\<close>, \<open>CdiV1beta1Interface\<close> and \<open>SnapshotV1Interface\<close> have a real and a fake
  implementation.
\<close>

section \<open>The template\<close>

record 'o fake_template = "'o template" +
  te_gv :: "string \<times> string"
  te_kind :: string
  te_encode :: "'o \<Rightarrow> api_object"
  te_meta :: "'o \<Rightarrow> ObjectMeta"

definition fake_of :: "'o template \<Rightarrow> string \<times> string \<Rightarrow> string \<Rightarrow> ('o \<Rightarrow> api_object) \<Rightarrow> ('o \<Rightarrow> ObjectMeta)
    \<Rightarrow> 'o fake_template" where
  "fake_of t gv kind enc meta = \<lparr>te_resource = te_resource t, te_zero = te_zero t, te_decode = te_decode t,
     te_decodeList = te_decodeList t, te_status = te_status t, te_gv = gv, te_kind = kind, te_encode = enc,
     te_meta = meta\<rparr>"

definition gvrOf :: "'o fake_template \<Rightarrow> gvr" where
  "gvrOf t = (fst (te_gv t), snd (te_gv t), re_plural (te_resource t))"

definition gvkOf :: "'o fake_template \<Rightarrow> gvk" where
  "gvkOf t = (fst (te_gv t), snd (te_gv t), te_kind t)"

text \<open>The constructors of actions: those of a resource without a namespace (\<open>NewRoot...\<close>) leave it empty.\<close>

definition newAction :: "'o fake_template \<Rightarrow> string \<Rightarrow> action_impl \<Rightarrow> action" where
  "newAction t sub impl = \<lparr>ac_Resource = gvrOf t, ac_Subresource = sub,
     ac_Namespace = (case re_namespace (te_resource t) of None \<Rightarrow> '''' | Some ns \<Rightarrow> ns), ac_Impl = impl\<rparr>"

text \<open>\<open>if obj == nil { return nil, err }; return obj.(*T), err\<close>: an object of another type panics.\<close>

definition badConversion :: string where "badConversion = ''interface conversion''"

definition as_object :: "'o fake_template \<Rightarrow> runtime_object option \<times> gerr option \<Rightarrow> (Fake, 'o option \<times> gerr option) go" where
  "as_object t r = (case r of (None, err) \<Rightarrow> ret (None, err)
     | (Some (Obj x), err) \<Rightarrow> (case te_decode t x of Some y \<Rightarrow> ret (Some y, err) | None \<Rightarrow> panic badConversion)
     | (Some (ObjList k xs), err) \<Rightarrow> panic badConversion)"

definition zeroObject :: "'o fake_template \<Rightarrow> runtime_object option" where
  "zeroObject t = Some (Obj (te_encode t (te_zero t)))"

definition fake_Get :: "'o fake_template \<Rightarrow> string \<Rightarrow> (Fake, 'o option \<times> gerr option) go" where
  "fake_Get t name = bindG (Invokes (newAction t '''' (GetActionImpl name)) (zeroObject t)) (as_object t)"

text \<open>\<open>label.Matches(labels.Set(item.Labels))\<close> for a selector of equalities.\<close>

definition Matches :: "string gomap \<Rightarrow> ObjectMeta \<Rightarrow> bool" where
  "Matches label m = list_all (\<lambda>(k, v). map_of (om_Labels m) k = Some v) label"

definition fake_List :: "'o fake_template \<Rightarrow> ListOptions \<Rightarrow> (Fake, 'o list option \<times> gerr option) go" where
  "fake_List t opts = bindG
     (Invokes (newAction t '''' (ListActionImpl (gvkOf t) (lo_LabelSelector opts))) (Some (ObjList (te_kind t) [])))
     (\<lambda>r. case r of (None, err) \<Rightarrow> ret (None, err)
        | (Some (Obj x), err) \<Rightarrow> panic badConversion
        | (Some (ObjList k items), err) \<Rightarrow> (case those (map (te_decode t) items) of
             None \<Rightarrow> panic badConversion
           | Some xs \<Rightarrow> if k \<noteq> te_kind t then panic badConversion
               else ret (Some (filter (\<lambda>x. Matches (lo_LabelSelector opts) (te_meta t x)) xs), err)))"

definition fake_Watch :: "'o fake_template \<Rightarrow> ListOptions \<Rightarrow> (Fake, watch_interface option \<times> gerr option) go" where
  "fake_Watch t opts = InvokesWatch (newAction t '''' (WatchActionImpl (lo_LabelSelector opts)))"

definition fake_Create :: "'o fake_template \<Rightarrow> 'o \<Rightarrow> (Fake, 'o option \<times> gerr option) go" where
  "fake_Create t obj =
     bindG (Invokes (newAction t '''' (CreateActionImpl (te_encode t obj))) (zeroObject t)) (as_object t)"

definition fake_Update :: "'o fake_template \<Rightarrow> 'o \<Rightarrow> (Fake, 'o option \<times> gerr option) go" where
  "fake_Update t obj =
     bindG (Invokes (newAction t '''' (UpdateActionImpl (te_encode t obj))) (zeroObject t)) (as_object t)"

definition fake_UpdateStatus :: "'o fake_template \<Rightarrow> 'o \<Rightarrow> (Fake, 'o option \<times> gerr option) go" where
  "fake_UpdateStatus t obj =
     bindG (Invokes (newAction t ''status'' (UpdateActionImpl (te_encode t obj))) (zeroObject t)) (as_object t)"

definition fake_Delete :: "'o fake_template \<Rightarrow> string \<Rightarrow> (Fake, gerr option) go" where
  "fake_Delete t name =
     bindG (Invokes (newAction t '''' (DeleteActionImpl name)) (zeroObject t)) (\<lambda>(obj, err). ret err)"

definition fake_DeleteCollection :: "'o fake_template \<Rightarrow> ListOptions \<Rightarrow> (Fake, gerr option) go" where
  "fake_DeleteCollection t listOpts =
     bindG (Invokes (newAction t '''' (DeleteCollectionActionImpl (lo_LabelSelector listOpts)))
       (Some (ObjList (te_kind t) []))) (\<lambda>(obj, err). ret err)"

definition fake_Patch ::
  "'o fake_template \<Rightarrow> string \<Rightarrow> string \<Rightarrow> string \<Rightarrow> string list \<Rightarrow> (Fake, 'o option \<times> gerr option) go" where
  "fake_Patch t name pt data subresources =
     bindG (Invokes (newAction t (pathJoin subresources) (PatchActionImpl name pt data)) (zeroObject t)) (as_object t)"

definition fake_client :: "'o fake_template \<Rightarrow> (Fake, 'o) ResourceInterface" where
  "fake_client t = \<lparr>ri_Get = fake_Get t, ri_List = fake_List t, ri_Create = fake_Create t,
     ri_Update = fake_Update t, ri_UpdateStatus = (if te_status t then Some (fake_UpdateStatus t) else None),
     ri_Delete = fake_Delete t, ri_DeleteCollection = fake_DeleteCollection t, ri_Watch = fake_Watch t,
     ri_Patch = fake_Patch t\<rparr>"

section \<open>The fake clients\<close>

definition kubevirtGV :: "string \<times> string" where "kubevirtGV = (''kubevirt.io'', ''v1'')"
definition cdiGV :: "string \<times> string" where "cdiGV = (''cdi.kubevirt.io'', ''v1beta1'')"
definition snapshotGV :: "string \<times> string" where "snapshotGV = (''snapshot.storage.k8s.io'', ''v1'')"

definition fakeVirtualMachine :: "string \<Rightarrow> VirtualMachine fake_template" where
  "fakeVirtualMachine ns = fake_of (virtualMachine_template ns) kubevirtGV ''VirtualMachine'' OVM vm_Meta"

definition FakeVirtualMachines :: "string \<Rightarrow> (Fake, VirtualMachine) ResourceInterface" where
  "FakeVirtualMachines ns = fake_client (fakeVirtualMachine ns)"

definition fakeVirtualMachineInstance :: "string \<Rightarrow> VirtualMachineInstance fake_template" where
  "fakeVirtualMachineInstance ns = fake_of (virtualMachineInstance_template ns) kubevirtGV ''VirtualMachineInstance'' OVMI vmi_Meta"

definition FakeVirtualMachineInstances :: "string \<Rightarrow> (Fake, VirtualMachineInstance) ResourceInterface" where
  "FakeVirtualMachineInstances ns = fake_client (fakeVirtualMachineInstance ns)"

definition fakeDataVolume :: "string \<Rightarrow> DataVolume fake_template" where
  "fakeDataVolume ns = fake_of (dataVolume_template ns) cdiGV ''DataVolume'' ODV dv_Meta"

definition FakeDataVolumes :: "string \<Rightarrow> (Fake, DataVolume) ResourceInterface" where
  "FakeDataVolumes ns = fake_client (fakeDataVolume ns)"

definition fakeVolumeSnapshot :: "string \<Rightarrow> VolumeSnapshot fake_template" where
  "fakeVolumeSnapshot ns = fake_of (volumeSnapshot_template ns) snapshotGV ''VolumeSnapshot'' OSnapshot snap_Meta"

definition FakeVolumeSnapshots :: "string \<Rightarrow> (Fake, VolumeSnapshot) ResourceInterface" where
  "FakeVolumeSnapshots ns = fake_client (fakeVolumeSnapshot ns)"

definition fakeVolumeSnapshotClass :: "VolumeSnapshotClass fake_template" where
  "fakeVolumeSnapshotClass = fake_of (volumeSnapshotClass_template Infra) snapshotGV ''VolumeSnapshotClass'' OSnapshotClass vsc_Meta"

definition FakeVolumeSnapshotClasses :: "(Fake, VolumeSnapshotClass) ResourceInterface" where
  "FakeVolumeSnapshotClasses = fake_client fakeVolumeSnapshotClass"

text \<open>The fakes of the other resources.\<close>

definition fakeKubeVirt :: "string \<Rightarrow> OtherObject fake_template" where
  "fakeKubeVirt ns = fake_of (kubeVirts Infra ns) kubevirtGV ''KubeVirt'' OOther ot_Meta"

definition FakeKubeVirts :: "string \<Rightarrow> (Fake, OtherObject) ResourceInterface" where
  "FakeKubeVirts ns = fake_client (fakeKubeVirt ns)"

definition fakeVirtualMachineInstanceMigration :: "string \<Rightarrow> OtherObject fake_template" where
  "fakeVirtualMachineInstanceMigration ns = fake_of (virtualMachineInstanceMigrations Infra ns) kubevirtGV ''VirtualMachineInstanceMigration'' OOther ot_Meta"

definition FakeVirtualMachineInstanceMigrations :: "string \<Rightarrow> (Fake, OtherObject) ResourceInterface" where
  "FakeVirtualMachineInstanceMigrations ns = fake_client (fakeVirtualMachineInstanceMigration ns)"

definition fakeVirtualMachineInstancePreset :: "string \<Rightarrow> OtherObject fake_template" where
  "fakeVirtualMachineInstancePreset ns = fake_of (virtualMachineInstancePresets Infra ns) kubevirtGV ''VirtualMachineInstancePreset'' OOther ot_Meta"

definition FakeVirtualMachineInstancePresets :: "string \<Rightarrow> (Fake, OtherObject) ResourceInterface" where
  "FakeVirtualMachineInstancePresets ns = fake_client (fakeVirtualMachineInstancePreset ns)"

definition fakeVirtualMachineInstanceReplicaSet :: "string \<Rightarrow> OtherObject fake_template" where
  "fakeVirtualMachineInstanceReplicaSet ns = fake_of (virtualMachineInstanceReplicaSets Infra ns) kubevirtGV ''VirtualMachineInstanceReplicaSet'' OOther ot_Meta"

definition FakeVirtualMachineInstanceReplicaSets :: "string \<Rightarrow> (Fake, OtherObject) ResourceInterface" where
  "FakeVirtualMachineInstanceReplicaSets ns = fake_client (fakeVirtualMachineInstanceReplicaSet ns)"

definition fakeCDI :: "OtherObject fake_template" where
  "fakeCDI = fake_of (cDIs Infra) cdiGV ''CDI'' OOther ot_Meta"

definition FakeCDIs :: "(Fake, OtherObject) ResourceInterface" where
  "FakeCDIs = fake_client fakeCDI"

definition fakeCDIConfig :: "OtherObject fake_template" where
  "fakeCDIConfig = fake_of (cDIConfigs Infra) cdiGV ''CDIConfig'' OOther ot_Meta"

definition FakeCDIConfigs :: "(Fake, OtherObject) ResourceInterface" where
  "FakeCDIConfigs = fake_client fakeCDIConfig"

definition fakeDataImportCron :: "string \<Rightarrow> OtherObject fake_template" where
  "fakeDataImportCron ns = fake_of (dataImportCrons Infra ns) cdiGV ''DataImportCron'' OOther ot_Meta"

definition FakeDataImportCrons :: "string \<Rightarrow> (Fake, OtherObject) ResourceInterface" where
  "FakeDataImportCrons ns = fake_client (fakeDataImportCron ns)"

definition fakeDataSource :: "string \<Rightarrow> OtherObject fake_template" where
  "fakeDataSource ns = fake_of (dataSources Infra ns) cdiGV ''DataSource'' OOther ot_Meta"

definition FakeDataSources :: "string \<Rightarrow> (Fake, OtherObject) ResourceInterface" where
  "FakeDataSources ns = fake_client (fakeDataSource ns)"

definition fakeObjectTransfer :: "OtherObject fake_template" where
  "fakeObjectTransfer = fake_of (objectTransfers Infra) cdiGV ''ObjectTransfer'' OOther ot_Meta"

definition FakeObjectTransfers :: "(Fake, OtherObject) ResourceInterface" where
  "FakeObjectTransfers = fake_client fakeObjectTransfer"

definition fakeStorageProfile :: "OtherObject fake_template" where
  "fakeStorageProfile = fake_of (storageProfiles Infra) cdiGV ''StorageProfile'' OOther ot_Meta"

definition FakeStorageProfiles :: "(Fake, OtherObject) ResourceInterface" where
  "FakeStorageProfiles = fake_client fakeStorageProfile"

definition fakeVolumeCloneSource :: "string \<Rightarrow> OtherObject fake_template" where
  "fakeVolumeCloneSource ns = fake_of (volumeCloneSources Infra ns) cdiGV ''VolumeCloneSource'' OOther ot_Meta"

definition FakeVolumeCloneSources :: "string \<Rightarrow> (Fake, OtherObject) ResourceInterface" where
  "FakeVolumeCloneSources ns = fake_client (fakeVolumeCloneSource ns)"

definition fakeVolumeImportSource :: "string \<Rightarrow> OtherObject fake_template" where
  "fakeVolumeImportSource ns = fake_of (volumeImportSources Infra ns) cdiGV ''VolumeImportSource'' OOther ot_Meta"

definition FakeVolumeImportSources :: "string \<Rightarrow> (Fake, OtherObject) ResourceInterface" where
  "FakeVolumeImportSources ns = fake_client (fakeVolumeImportSource ns)"

definition fakeVolumeUploadSource :: "string \<Rightarrow> OtherObject fake_template" where
  "fakeVolumeUploadSource ns = fake_of (volumeUploadSources Infra ns) cdiGV ''VolumeUploadSource'' OOther ot_Meta"

definition FakeVolumeUploadSources :: "string \<Rightarrow> (Fake, OtherObject) ResourceInterface" where
  "FakeVolumeUploadSources ns = fake_client (fakeVolumeUploadSource ns)"

definition fakeVolumeSnapshotContent :: "OtherObject fake_template" where
  "fakeVolumeSnapshotContent = fake_of (volumeSnapshotContents Infra) snapshotGV ''VolumeSnapshotContent'' OOther ot_Meta"

definition FakeVolumeSnapshotContents :: "(Fake, OtherObject) ResourceInterface" where
  "FakeVolumeSnapshotContents = fake_client fakeVolumeSnapshotContent"

section \<open>The group clients\<close>

text \<open>The getters of a group client, real and fake; the real one is bound to a server.\<close>

record 'w KubevirtV1Interface =
  kv_KubeVirts :: "string \<Rightarrow> ('w, OtherObject) ResourceInterface"
  kv_VirtualMachines :: "string \<Rightarrow> ('w, VirtualMachine) ResourceInterface"
  kv_VirtualMachineInstances :: "string \<Rightarrow> ('w, VirtualMachineInstance) ResourceInterface"
  kv_VirtualMachineInstanceMigrations :: "string \<Rightarrow> ('w, OtherObject) ResourceInterface"
  kv_VirtualMachineInstancePresets :: "string \<Rightarrow> ('w, OtherObject) ResourceInterface"
  kv_VirtualMachineInstanceReplicaSets :: "string \<Rightarrow> ('w, OtherObject) ResourceInterface"

definition KubevirtV1Client :: "'e runtime \<Rightarrow> host \<Rightarrow> 'e world KubevirtV1Interface" where
  "KubevirtV1Client rt h = \<lparr>kv_KubeVirts = newKubeVirts rt h,
     kv_VirtualMachines = newVirtualMachines rt,
     kv_VirtualMachineInstances = newVirtualMachineInstances rt,
     kv_VirtualMachineInstanceMigrations = newVirtualMachineInstanceMigrations rt h,
     kv_VirtualMachineInstancePresets = newVirtualMachineInstancePresets rt h,
     kv_VirtualMachineInstanceReplicaSets = newVirtualMachineInstanceReplicaSets rt h\<rparr>"

definition FakeKubevirtV1 :: "Fake KubevirtV1Interface" where
  "FakeKubevirtV1 = \<lparr>kv_KubeVirts = FakeKubeVirts,
     kv_VirtualMachines = FakeVirtualMachines,
     kv_VirtualMachineInstances = FakeVirtualMachineInstances,
     kv_VirtualMachineInstanceMigrations = FakeVirtualMachineInstanceMigrations,
     kv_VirtualMachineInstancePresets = FakeVirtualMachineInstancePresets,
     kv_VirtualMachineInstanceReplicaSets = FakeVirtualMachineInstanceReplicaSets\<rparr>"

record 'w CdiV1beta1Interface =
  cd_CDIs :: "('w, OtherObject) ResourceInterface"
  cd_CDIConfigs :: "('w, OtherObject) ResourceInterface"
  cd_DataImportCrons :: "string \<Rightarrow> ('w, OtherObject) ResourceInterface"
  cd_DataSources :: "string \<Rightarrow> ('w, OtherObject) ResourceInterface"
  cd_DataVolumes :: "string \<Rightarrow> ('w, DataVolume) ResourceInterface"
  cd_ObjectTransfers :: "('w, OtherObject) ResourceInterface"
  cd_StorageProfiles :: "('w, OtherObject) ResourceInterface"
  cd_VolumeCloneSources :: "string \<Rightarrow> ('w, OtherObject) ResourceInterface"
  cd_VolumeImportSources :: "string \<Rightarrow> ('w, OtherObject) ResourceInterface"
  cd_VolumeUploadSources :: "string \<Rightarrow> ('w, OtherObject) ResourceInterface"

definition CdiV1beta1Client :: "'e runtime \<Rightarrow> host \<Rightarrow> 'e world CdiV1beta1Interface" where
  "CdiV1beta1Client rt h = \<lparr>cd_CDIs = newCDIs rt h,
     cd_CDIConfigs = newCDIConfigs rt h,
     cd_DataImportCrons = newDataImportCrons rt h,
     cd_DataSources = newDataSources rt h,
     cd_DataVolumes = newDataVolumes rt,
     cd_ObjectTransfers = newObjectTransfers rt h,
     cd_StorageProfiles = newStorageProfiles rt h,
     cd_VolumeCloneSources = newVolumeCloneSources rt h,
     cd_VolumeImportSources = newVolumeImportSources rt h,
     cd_VolumeUploadSources = newVolumeUploadSources rt h\<rparr>"

definition FakeCdiV1beta1 :: "Fake CdiV1beta1Interface" where
  "FakeCdiV1beta1 = \<lparr>cd_CDIs = FakeCDIs,
     cd_CDIConfigs = FakeCDIConfigs,
     cd_DataImportCrons = FakeDataImportCrons,
     cd_DataSources = FakeDataSources,
     cd_DataVolumes = FakeDataVolumes,
     cd_ObjectTransfers = FakeObjectTransfers,
     cd_StorageProfiles = FakeStorageProfiles,
     cd_VolumeCloneSources = FakeVolumeCloneSources,
     cd_VolumeImportSources = FakeVolumeImportSources,
     cd_VolumeUploadSources = FakeVolumeUploadSources\<rparr>"

record 'w SnapshotV1Interface =
  sn_VolumeSnapshots :: "string \<Rightarrow> ('w, VolumeSnapshot) ResourceInterface"
  sn_VolumeSnapshotClasses :: "('w, VolumeSnapshotClass) ResourceInterface"
  sn_VolumeSnapshotContents :: "('w, OtherObject) ResourceInterface"

definition SnapshotV1Client :: "'e runtime \<Rightarrow> host \<Rightarrow> 'e world SnapshotV1Interface" where
  "SnapshotV1Client rt h = \<lparr>sn_VolumeSnapshots = newVolumeSnapshots rt,
     sn_VolumeSnapshotClasses = newVolumeSnapshotClasses rt h,
     sn_VolumeSnapshotContents = newVolumeSnapshotContents rt h\<rparr>"

definition FakeSnapshotV1 :: "Fake SnapshotV1Interface" where
  "FakeSnapshotV1 = \<lparr>sn_VolumeSnapshots = FakeVolumeSnapshots,
     sn_VolumeSnapshotClasses = FakeVolumeSnapshotClasses,
     sn_VolumeSnapshotContents = FakeVolumeSnapshotContents\<rparr>"

section \<open>The fake clientsets\<close>

text \<open>
  The types that \<open>AddToScheme\<close> registers for each clientset (\<open>scheme/register.go\<close> and \<open>fake/register.go\<close>, with
  the \<open>addKnownTypes\<close> of the API packages): each type with its list.
\<close>

definition AddKnownTypes :: "string \<times> string \<Rightarrow> string list \<Rightarrow> gvk list" where
  "AddKnownTypes gv kinds = concat (map (\<lambda>kind. [(fst gv, snd gv, kind), (fst gv, snd gv, kind @ ''List'')]) kinds)"

definition kubevirt_AddToScheme :: "gvk list" where
  "kubevirt_AddToScheme = AddKnownTypes kubevirtGV [''VirtualMachineInstance'', ''VirtualMachineInstanceReplicaSet'',
     ''VirtualMachineInstancePreset'', ''VirtualMachineInstanceMigration'', ''VirtualMachine'', ''KubeVirt'']"

definition cdi_AddToScheme :: "gvk list" where
  "cdi_AddToScheme = AddKnownTypes cdiGV [''DataVolume'', ''CDIConfig'', ''CDI'', ''StorageProfile'', ''DataSource'',
     ''DataImportCron'', ''ObjectTransfer'', ''VolumeImportSource'', ''VolumeUploadSource'', ''VolumeCloneSource'']"

definition snapshot_AddToScheme :: "gvk list" where
  "snapshot_AddToScheme =
     AddKnownTypes snapshotGV [''VolumeSnapshotClass'', ''VolumeSnapshot'', ''VolumeSnapshotContent'']"

text \<open>\<open>NewSimpleClientset\<close>, which the three clientsets have alike but for the scheme.\<close>

fun addObjects :: "api_object list \<Rightarrow> (tracker, unit) go" where
  "addObjects [] = ret ()"
| "addObjects (obj # objects) = bindG (tracker_Add obj)
     (\<lambda>err. case err of Some e \<Rightarrow> panic (Error_string e) | None \<Rightarrow> addObjects objects)"

definition watchReaction :: "action \<Rightarrow> (tracker, bool \<times> watch_interface option \<times> gerr option) go" where
  "watchReaction a = bindG (tracker_Watch (ac_Resource a) (ac_Namespace a)) (\<lambda>w. ret (True, Some (FakeWatch w), None))"

definition newSimpleClientset :: "PatchLib \<Rightarrow> gvk list \<Rightarrow> api_object list \<Rightarrow> Fake outcome" where
  "newSimpleClientset lib scheme objects = (case addObjects objects (NewObjectTracker scheme) of
       (Panic m, t) \<Rightarrow> Panic m
     | (Ok _, t) \<Rightarrow> Ok (AddWatchReactor ''*'' watchReaction (AddReactor ''*'' ''*'' (ObjectReaction lib)
         \<lparr>fk_actions = [], fk_ReactionChain = [], fk_WatchReactionChain = [], fk_tracker = t\<rparr>)))"

definition kubecli_NewSimpleClientset :: "PatchLib \<Rightarrow> api_object list \<Rightarrow> Fake outcome" where
  "kubecli_NewSimpleClientset lib = newSimpleClientset lib kubevirt_AddToScheme"

definition cdicli_NewSimpleClientset :: "PatchLib \<Rightarrow> api_object list \<Rightarrow> Fake outcome" where
  "cdicli_NewSimpleClientset lib = newSimpleClientset lib cdi_AddToScheme"

definition snapcli_NewSimpleClientset :: "PatchLib \<Rightarrow> api_object list \<Rightarrow> Fake outcome" where
  "snapcli_NewSimpleClientset lib = newSimpleClientset lib snapshot_AddToScheme"

end
