(* ===== verification/Fake_Behaviour.thy ===== *)
theory Fake_Behaviour
  imports Fake_Clients
begin

text \<open>
  How far the fake clients stand for the real ones.  A server that keeps its objects in a tracker is one
  instance of the parameter \<open>runtime\<close>; on it the real clients and the fake clients give the same results for
  the same calls, but for two differences: beside an error the real client returns a zero object where the
  fake returns nil, and the fake neither checks names nor carries out \<open>DeleteCollection\<close>.
  The fakes keep the store consistent in every state that they can reach, and objects that a fake clientset
  is made from are the objects that its clients return.
\<close>

section \<open>A server over a tracker\<close>

definition gv_of_path :: "string \<Rightarrow> (string \<times> string) option" where
  "gv_of_path p = (case Split p CHR ''/'' of [a, b, g, v] \<Rightarrow> if a = '''' \<and> b = ''apis'' then Some (g, v) else None
     | _ \<Rightarrow> None)"

fun bodyObject :: "rest_body \<Rightarrow> api_object option" where
  "bodyObject (BodyDV x) = Some (ODV x)"
| "bodyObject (BodySnapshot x) = Some (OSnapshot x)"
| "bodyObject (BodyVM x) = Some (OVM x)"
| "bodyObject (BodyVMI x) = Some (OVMI x)"
| "bodyObject (BodySnapshotClass x) = Some (OSnapshotClass x)"
| "bodyObject (BodyOther x) = Some (OOther x)"
| "bodyObject b = None"

definition listOf :: "string \<Rightarrow> api_object list \<Rightarrow> api_object" where
  "listOf kind items =
     (if kind = ''VirtualMachine'' then OVMList (List.map_filter dec_VM items)
      else if kind = ''VirtualMachineInstance'' then OVMIList (List.map_filter dec_VMI items)
      else if kind = ''DataVolume'' then ODVList (List.map_filter dec_DV items)
      else if kind = ''VolumeSnapshot'' then OSnapshotList (List.map_filter dec_Snapshot items)
      else if kind = ''VolumeSnapshotClass'' then OSnapshotClassList (List.map_filter dec_SnapshotClass items)
      else OOtherList kind (List.map_filter (dec_Other kind) items))"

definition kindFor :: "gvk list \<Rightarrow> gvr \<Rightarrow> gvk option" where
  "kindFor scheme gvr = find (\<lambda>gvk. UnsafeGuessKindToResource gvk = gvr) scheme"

definition request_impl :: "gvk list \<Rightarrow> gvr \<Rightarrow> rest_request \<Rightarrow> action_impl option" where
  "request_impl scheme gvr rq = (case (rq_Verb rq, rq_Name rq) of
       (GET, Some n) \<Rightarrow> Some (GetActionImpl n)
     | (GET, None) \<Rightarrow> map_option (\<lambda>k. ListActionImpl k (rq_Selector rq)) (kindFor scheme gvr)
     | (POST, _) \<Rightarrow> map_option CreateActionImpl (bodyObject (rq_Body rq))
     | (PUT, _) \<Rightarrow> map_option UpdateActionImpl (bodyObject (rq_Body rq))
     | (DELETE, Some n) \<Rightarrow> Some (DeleteActionImpl n)
     | (DELETE, None) \<Rightarrow> Some (DeleteCollectionActionImpl (rq_Selector rq))
     | (PATCH, Some n) \<Rightarrow> (case rq_Body rq of BodyRawPatch pt data \<Rightarrow> Some (PatchActionImpl n pt data) | _ \<Rightarrow> None)
     | (PATCH, None) \<Rightarrow> None)"

definition request_action :: "gvk list \<Rightarrow> rest_request \<Rightarrow> action option" where
  "request_action scheme rq = (case gv_of_path (rq_Path rq) of None \<Rightarrow> None
     | Some (g, v) \<Rightarrow> map_option (\<lambda>impl. \<lparr>ac_Resource = (g, v, rq_Resource rq),
         ac_Subresource = pathJoin (rq_Subresources rq),
         ac_Namespace = (case rq_Namespace rq of None \<Rightarrow> '''' | Some ns \<Rightarrow> ns), ac_Impl = impl\<rparr>)
         (request_impl scheme (g, v, rq_Resource rq) rq))"

definition metaMatches :: "string gomap \<Rightarrow> api_object \<Rightarrow> bool" where
  "metaMatches label obj = (case Accessor obj of None \<Rightarrow> False | Some m \<Rightarrow> Matches label m)"

definition body_of :: "string gomap \<Rightarrow> runtime_object option \<Rightarrow> api_object" where
  "body_of label r = (case r of None \<Rightarrow> OSuccess | Some (Obj x) \<Rightarrow> x
     | Some (ObjList k items) \<Rightarrow> listOf k (filter (metaMatches label) items))"

definition tracker_serve :: "PatchLib \<Rightarrow> rest_request \<Rightarrow> tracker \<Rightarrow> answer \<times> tracker" where
  "tracker_serve lib rq s = (case request_action (tr_scheme s) rq of
       None \<Rightarrow> (Inl (NewBadRequest ''the request is not understood''), s)
     | Some a \<Rightarrow> (case ObjectReaction lib a s of
           (Panic m, s') \<Rightarrow> (Inl (PlainErr m), s')
         | (Ok (h, obj, err), s') \<Rightarrow> (case err of Some e \<Rightarrow> Inl e | None \<Rightarrow> Inr (body_of (rq_Selector rq) obj), s')))"

section \<open>What a caller sees\<close>

datatype 'o result = ObjectResult "'o option" "gerr option" | ListResult "'o list option" "gerr option"
  | ErrorResult "gerr option" | WatchResult "watch_interface option" "gerr option"

definition seen :: "('a option \<Rightarrow> gerr option \<Rightarrow> 'o result) \<Rightarrow> ('w, 'a option \<times> gerr option) go \<Rightarrow> ('w, 'o result) go" where
  "seen c m = bindG m (\<lambda>(x, err). ret (c x err))"

fun observe :: "('w, 'o) ResourceInterface \<Rightarrow> 'o operation \<Rightarrow> ('w, 'o result) go option" where
  "observe I (GetOp n) = Some (seen ObjectResult (ri_Get I n))"
| "observe I (ListOp opts) = Some (seen ListResult (ri_List I opts))"
| "observe I (CreateOp x) = Some (seen ObjectResult (ri_Create I x))"
| "observe I (UpdateOp x) = Some (seen ObjectResult (ri_Update I x))"
| "observe I (UpdateStatusOp x) = map_option (\<lambda>f. seen ObjectResult (f x)) (ri_UpdateStatus I)"
| "observe I (DeleteOp n) = Some (bindG (ri_Delete I n) (\<lambda>err. ret (ErrorResult err)))"
| "observe I (DeleteCollectionOp opts) = Some (bindG (ri_DeleteCollection I opts) (\<lambda>err. ret (ErrorResult err)))"
| "observe I (WatchOp opts) = Some (seen WatchResult (ri_Watch I opts))"
| "observe I (PatchOp n pt data subs) = Some (seen ObjectResult (ri_Patch I n pt data subs))"

text \<open>Calls one after the other and what they gave, up to a panic.\<close>

fun run :: "('w, 'o) ResourceInterface \<Rightarrow> 'o operation list \<Rightarrow> 'w \<Rightarrow> 'o result outcome list \<times> 'w" where
  "run I [] w = ([], w)"
| "run I (op # ops) w = (case observe I op of
       None \<Rightarrow> run I ops w
     | Some m \<Rightarrow> (case m w of
           (Panic msg, w') \<Rightarrow> ([Panic msg], w')
         | (Ok r, w') \<Rightarrow> (case run I ops w' of (rs, w'') \<Rightarrow> (Ok r # rs, w''))))"

text \<open>What the fake gives where the real client gives a result: nil beside an error.\<close>

fun fake_view :: "'o result \<Rightarrow> 'o result" where
  "fake_view (ObjectResult x err) = ObjectResult (if err = None then x else None) err"
| "fake_view (ListResult x err) = ListResult (if err = None then x else None) err"
| "fake_view (ErrorResult err) = ErrorResult err"
| "fake_view (WatchResult x err) = WatchResult (if err = None then x else None) err"

section \<open>Stores that a client understands\<close>

definition typed :: "'o fake_template \<Rightarrow> api_object \<Rightarrow> bool" where
  "typed t y \<longleftrightarrow> te_decode t y \<noteq> None"

definition store_ok :: "'o fake_template \<Rightarrow> tracker \<Rightarrow> bool" where
  "store_ok t s \<longleftrightarrow> tr_watchers s = [] \<and> kindFor (tr_scheme s) (gvrOf t) = Some (gvkOf t) \<and>
     (fst (te_gv t), snd (te_gv t), te_kind t @ ''List'') \<in> set (tr_scheme s) \<and>
     list_all (\<lambda>((gvr, k), y). gvr = gvrOf t \<longrightarrow> typed t y) (tr_objects s)"

definition ready :: "PatchLib \<Rightarrow> 'o fake_template \<Rightarrow> Fake \<Rightarrow> bool" where
  "ready lib t f \<longleftrightarrow> store_ok t (fk_tracker f) \<and>
     fk_ReactionChain f = [\<lparr>sr_Verb = ''*'', sr_Resource = ''*'', sr_Reaction = ObjectReaction lib\<rparr>]"

text \<open>The calls that are compared: well-formed, with objects of the client's type, and neither of the two
  methods that the fake does not carry out as a server does.\<close>

fun comparable :: "'o fake_template \<Rightarrow> 'o operation \<Rightarrow> bool" where
  "comparable t (WatchOp opts) = False"
| "comparable t (DeleteCollectionOp opts) = False"
| "comparable t (CreateOp x) \<longleftrightarrow> te_decode t (te_encode t x) = Some x \<and>
     request_error (operation_request (te_resource t) (CreateOp x)) = None"
| "comparable t (UpdateOp x) \<longleftrightarrow> te_decode t (te_encode t x) = Some x \<and>
     request_error (operation_request (te_resource t) (UpdateOp x)) = None"
| "comparable t (UpdateStatusOp x) \<longleftrightarrow> te_decode t (te_encode t x) = Some x \<and>
     request_error (operation_request (te_resource t) (UpdateStatusOp x)) = None"
| "comparable t op \<longleftrightarrow> request_error (operation_request (te_resource t) op) = None"

definition behaves_like ::
  "PatchLib \<Rightarrow> 'o fake_template \<Rightarrow> (tracker world, 'o) ResourceInterface \<Rightarrow> (Fake, 'o) ResourceInterface \<Rightarrow> bool" where
  "behaves_like lib t I J \<longleftrightarrow> (\<forall>ops w f. list_all (comparable t) ops \<and> ready lib t f \<and> w_env w = fk_tracker f \<longrightarrow>
     fst (run J ops f) = map (map_outcome fake_view) (fst (run I ops w)) \<and>
     fk_tracker (snd (run J ops f)) = w_env (snd (run I ops w)))"

text \<open>What is relied on of the patch libraries: a patched object is of the Go type of the object.\<close>

fun sameType :: "api_object \<Rightarrow> api_object \<Rightarrow> bool" where
  "sameType (OVM x) y = (dec_VM y \<noteq> None)"
| "sameType (OVMI x) y = (dec_VMI y \<noteq> None)"
| "sameType (ODV x) y = (dec_DV y \<noteq> None)"
| "sameType (OSnapshot x) y = (dec_Snapshot y \<noteq> None)"
| "sameType (OSnapshotClass x) y = (dec_SnapshotClass y \<noteq> None)"
| "sameType (OOther x) y = (dec_Other (ot_Kind x) y \<noteq> None)"
| "sameType x y = True"

definition patches_keep_types :: "PatchLib \<Rightarrow> bool" where
  "patches_keep_types lib \<longleftrightarrow> (\<forall>pt data y y'.
     pl_Patch lib pt data y = Inr y' \<or> pl_Apply lib data y = Inr y' \<longrightarrow> sameType y y')"

section \<open>Reactions on such a store\<close>

definition steps :: "'o fake_template \<Rightarrow> (tracker, gerr option) go \<Rightarrow> bool" where
  "steps t m \<longleftrightarrow> (\<forall>s. store_ok t s \<longrightarrow> (\<exists>err s'. m s = (Ok err, s') \<and> store_ok t s'))"

definition yields :: "'o fake_template \<Rightarrow> reaction \<Rightarrow> bool" where
  "yields t m \<longleftrightarrow> (\<forall>s. store_ok t s \<longrightarrow> (\<exists>s'. store_ok t s' \<and>
     ((\<exists>e. m s = (Ok (None, Some e), s')) \<or> (\<exists>y. m s = (Ok (Some y, None), s') \<and> typed t y))))"

lemma yields_ret: "yields t (ret (None, Some e))" "typed t y \<Longrightarrow> yields t (ret (Some y, None))"
  by (auto simp: yields_def)

lemma yields_unless_error: "steps t m \<Longrightarrow> yields t k \<Longrightarrow> yields t (unless_error m k)"
  unfolding yields_def steps_def unless_error_def
  by (intro allI impI) (fastforce simp: bindG_def split: option.splits)

lemma yields_with_object: "yields t m \<Longrightarrow> (\<And>y. typed t y \<Longrightarrow> yields t (k y)) \<Longrightarrow> yields t (with_object m k)"
  unfolding yields_def with_object_def
  by (intro allI impI) (fastforce simp: bindG_def)

lemma yields_Get: "yields t (tracker_Get (gvrOf t) ns n)"
  unfolding yields_def tracker_Get_def
  by (auto simp: store_ok_def list_all_iff split: option.splits dest!: map_of_SomeD)

section \<open>Agreement\<close>

locale fake_resource =
  fixes t :: "'o fake_template"
  assumes encoded: "te_decode t y = Some x \<Longrightarrow> y = te_encode t x"
    and kind: "typed t y \<Longrightarrow> kindOf y = te_kind t"
    and accessor: "Accessor (te_encode t x) = Some (te_meta t x)"
    and set_meta: "typed t y \<Longrightarrow> typed t (SetMeta m y)"
    and same_type: "typed t y \<Longrightarrow> sameType y y' \<Longrightarrow> typed t y'"
    and name: "re_nameOf (te_resource t) x = om_Name (te_meta t x)"
    and path: "gv_of_path (re_path (te_resource t)) = Some (te_gv t)"
    and body: "bodyObject (re_bodyOf (te_resource t) x) = Some (te_encode t x)"
    and guess: "UnsafeGuessKindToResource (gvkOf t) = gvrOf t"
    and listed: "those (map (te_decode t) ys) = Some xs \<Longrightarrow> te_decodeList t (listOf (te_kind t) ys) = Some xs"
begin

lemma patches_keepD:
  assumes "patches_keep_types lib"
  shows "typed t y \<Longrightarrow> pl_Patch lib pt data y = Inr y' \<Longrightarrow> typed t y'"
    and "typed t y \<Longrightarrow> pl_Apply lib data y = Inr y' \<Longrightarrow> typed t y'"
  using assms same_type unfolding patches_keep_types_def by blast+

lemma store_ok_update:
  assumes "store_ok t s" and "typed t y"
  shows "store_ok t (s\<lparr>tr_objects := AList.update (gvr, k) y (tr_objects s)\<rparr>)"
proof -
  have "list_all (\<lambda>((gvr, k), y). gvr = gvrOf t \<longrightarrow> typed t y) (((gvr, k), y) # tr_objects s)"
    using assms by (simp add: store_ok_def)
  then have "list_all (\<lambda>((gvr, k), y). gvr = gvrOf t \<longrightarrow> typed t y) (AList.update (gvr, k) y (tr_objects s))"
    by (rule list_all_subset [rotated]) (simp add: set_AList_update)
  with assms show ?thesis by (simp add: store_ok_def)
qed

lemma steps_add: "typed t y \<Longrightarrow> steps t (tracker_add gvr y ns b)"
  unfolding steps_def
proof (intro allI impI)
  fix s
  assume y: "typed t y" and s: "store_ok t s"
  then have w: "tr_watchers s = []" by (simp add: store_ok_def)
  from y obtain x where "y = te_encode t x" using encoded unfolding typed_def by blast
  then have m: "Accessor y = Some (te_meta t x)" by (simp add: accessor)
  obtain m' where m': "inNamespace ns (te_meta t x) = m'" by blast
  have "store_ok t (s\<lparr>tr_objects := AList.update (gvr, k) (SetMeta m' y) (tr_objects s)\<rparr>)" for k
    by (rule store_ok_update [OF s set_meta [OF y]])
  with s show "\<exists>err s'. tracker_add gvr y ns b s = (Ok err, s') \<and> store_ok t s'"
    unfolding add_quiet [OF m w m'] by (simp add: Let_def)
qed

lemma steps_Delete: "steps t (tracker_Delete gvr ns n)"
  unfolding steps_def
proof (intro allI impI)
  fix s
  assume s: "store_ok t s"
  then have "store_ok t (s\<lparr>tr_objects := AList.delete k (tr_objects s)\<rparr>)" and "tr_watchers s = []" for k
    by (auto simp: store_ok_def intro: list_all_subset [OF set_AList_delete])
  with s show "\<exists>err s'. tracker_Delete gvr ns n s = (Ok err, s') \<and> store_ok t s'"
    by (auto simp: tracker_Delete_def bindG_def split: option.splits)
qed

lemmas reaction_rules = yields_ret yields_unless_error yields_with_object yields_Get steps_add

lemma yields_Create: "typed t y \<Longrightarrow> yields t (react_Create (gvrOf t) sub ns y)"
  unfolding react_Create_def by (auto intro!: reaction_rules split: option.splits)

lemma yields_Update: "typed t y \<Longrightarrow> yields t (react_Update (gvrOf t) ns y)"
  unfolding react_Update_def by (auto intro!: reaction_rules split: option.splits)

lemma yields_Patch:
  assumes "patches_keep_types lib"
  shows "yields t (react_Patch lib (gvrOf t) ns n pt data)"
  unfolding react_Patch_def
  by (auto intro!: reaction_rules dest: patches_keepD(1) [OF assms] split: sum.splits)

lemma steps_Apply:
  assumes "patches_keep_types lib"
  shows "steps t (tracker_Apply lib (gvrOf t) ns n data)"
  unfolding steps_def
proof (intro allI impI)
  fix s
  assume s: "store_ok t s"
  with yields_Get [of t ns n] obtain s' where s': "store_ok t s'" and
    get: "(\<exists>e. tracker_Get (gvrOf t) ns n s = (Ok (None, Some e), s')) \<or>
      (\<exists>y. tracker_Get (gvrOf t) ns n s = (Ok (Some y, None), s') \<and> typed t y)"
    unfolding yields_def by blast
  from get show "\<exists>err s'. tracker_Apply lib (gvrOf t) ns n data s = (Ok err, s') \<and> store_ok t s'"
  proof (elim disjE exE conjE)
    fix y assume run: "tracker_Get (gvrOf t) ns n s = (Ok (Some y, None), s')" and y: "typed t y"
    show ?thesis
    proof (cases "pl_Apply lib data y")
      case (Inr y')
      from y Inr have "typed t y'" by (rule patches_keepD(2) [OF assms])
      from steps_add [OF this, of "gvrOf t" ns True] s' Inr run show ?thesis
        by (simp add: tracker_Apply_def bindG_def steps_def)
    qed (use run s' in \<open>simp add: tracker_Apply_def bindG_def\<close>)
  qed (use s' in \<open>simp add: tracker_Apply_def bindG_def\<close>)
qed

lemma yields_Apply: "patches_keep_types lib \<Longrightarrow> yields t (react_Apply lib (gvrOf t) ns n data)"
  unfolding react_Apply_def by (auto intro!: reaction_rules steps_Apply split: sum.splits)

text \<open>The fake runs the reaction to the action; the real client asks the server, which runs the same.\<close>

lemma Invokes_ready:
  assumes "ready lib t f" and "ObjectReaction lib a (fk_tracker f) = (Ok (True, obj, err), s')" and "store_ok t s'"
  shows "\<exists>f'. Invokes a d f = (Ok (obj, err), f') \<and> fk_tracker f' = s' \<and> ready lib t f'"
  using assms by (auto simp: Invokes_def ready_def on_tracker_def record_action_def Handles_def resourceCovers_def
      bindG_def Let_def)

definition agree :: "PatchLib \<Rightarrow> (tracker world, 'o result) go \<Rightarrow> (Fake, 'o result) go \<Rightarrow> bool" where
  "agree lib m m' \<longleftrightarrow> (\<forall>w f. ready lib t f \<and> w_env w = fk_tracker f \<longrightarrow> (\<exists>r w' f'. m w = (Ok r, w') \<and>
     m' f = (Ok (fake_view r), f') \<and> w_env w' = fk_tracker f' \<and> ready lib t f'))"

lemma agree_object:
  assumes rt: "rt_serve rt = tracker_serve lib" and rq: "request_error rq = None"
    and a: "\<And>s. store_ok t s \<Longrightarrow> request_action (tr_scheme s) rq = Some a"
    and re: "ObjectReaction lib a = handled m" and m: "yields t m"
  shows "agree lib (seen ObjectResult (typed_get rt rq (te_zero t) (te_decode t)))
    (seen ObjectResult (bindG (Invokes a d) (as_object t)))"
  unfolding agree_def
proof (intro allI impI, elim conjE)
  fix w :: "tracker world" and f
  assume f: "ready lib t f" and w: "w_env w = fk_tracker f"
  then have s: "store_ok t (fk_tracker f)" by (simp add: ready_def)
  let ?C = "\<exists>r w' f'. seen ObjectResult (typed_get rt rq (te_zero t) (te_decode t)) w = (Ok r, w') \<and>
    seen ObjectResult (bindG (Invokes a d) (as_object t)) f = (Ok (fake_view r), f') \<and>
    w_env w' = fk_tracker f' \<and> ready lib t f'"
  from m s obtain s' where s': "store_ok t s'" and
    out: "(\<exists>e. m (fk_tracker f) = (Ok (None, Some e), s')) \<or>
      (\<exists>y. m (fk_tracker f) = (Ok (Some y, None), s') \<and> typed t y)"
    unfolding yields_def by blast
  from out show ?C
  proof (elim disjE exE conjE)
    fix e assume run: "m (fk_tracker f) = (Ok (None, Some e), s')"
    then have "ObjectReaction lib a (fk_tracker f) = (Ok (True, None, Some e), s')" by (simp add: re handled_def)
    with Invokes_ready [OF f this s', of d] a [OF s] rt rq w show ?C
      by (auto simp: seen_def typed_get_def rest_do_def tracker_serve_def Into_def bindG_def as_object_def)
  next
    fix y assume run: "m (fk_tracker f) = (Ok (Some y, None), s')" and y: "typed t y"
    then have "ObjectReaction lib a (fk_tracker f) = (Ok (True, Some (Obj y), None), s')" by (simp add: re handled_def)
    with Invokes_ready [OF f this s', of d] a [OF s] rt rq w y show ?C
      by (auto simp: seen_def typed_get_def rest_do_def tracker_serve_def Into_def bindG_def as_object_def
          body_of_def typed_def)
  qed
qed

text \<open>Listing: the fake selects by label in the client, the server before it answers.\<close>

lemma those_typed: "list_all (typed t) ys \<Longrightarrow> \<exists>xs. those (map (te_decode t) ys) = Some xs"
  by (induction ys) (auto simp: typed_def)

lemma those_filter:
  "those (map (te_decode t) ys) = Some xs \<Longrightarrow>
   those (map (te_decode t) (filter (metaMatches label) ys)) = Some (filter (\<lambda>x. Matches label (te_meta t x)) xs)"
proof (induction ys arbitrary: xs)
  case (Cons y ys)
  then obtain x xs' where x: "te_decode t y = Some x" and xs: "xs = x # xs'"
    and xs': "those (map (te_decode t) ys) = Some xs'"
    by (auto split: option.splits)
  from encoded [OF x] have "metaMatches label y = Matches label (te_meta t x)"
    by (simp add: metaMatches_def accessor)
  with Cons.IH [OF xs'] x xs show ?case by simp
qed simp

lemma List_reaction:
  assumes "store_ok t s"
  obtains ys xs where "ObjectReaction lib (newAction t sub (ListActionImpl (gvkOf t) label)) s =
      (Ok (True, Some (ObjList (te_kind t) ys), None), s)" and "those (map (te_decode t) ys) = Some xs"
proof -
  let ?a = "newAction t sub (ListActionImpl (gvkOf t) label)"
  let ?ys = "filterByNamespace s (gvrOf t) (ac_Namespace ?a)"
  have ys: "list_all (typed t) ?ys"
    using assms by (auto simp: store_ok_def filterByNamespace_def list_all_iff)
  then have "list_all (\<lambda>y. kindOf y = te_kind t) ?ys" by (auto simp: list_all_iff kind)
  then have "ObjectReaction lib ?a s = (Ok (True, Some (ObjList (te_kind t) ?ys), None), s)"
    using assms by (simp add: ObjectReaction_def newAction_def tracker_List_def gvkOf_def store_ok_def bindG_def)
  with those_typed [OF ys] that show thesis by blast
qed

lemma agree_list:
  assumes rt: "rt_serve rt = tracker_serve lib" and rq: "request_error rq = None" and sel: "rq_Selector rq = label"
    and a: "\<And>s. store_ok t s \<Longrightarrow> request_action (tr_scheme s) rq = Some (newAction t '''' (ListActionImpl (gvkOf t) label))"
    and opts: "lo_LabelSelector opts = label"
  shows "agree lib (seen ListResult (typed_get rt rq [] (te_decodeList t))) (seen ListResult (fake_List t opts))"
  unfolding agree_def
proof (intro allI impI, elim conjE)
  fix w :: "tracker world" and f
  assume f: "ready lib t f" and w: "w_env w = fk_tracker f"
  then have s: "store_ok t (fk_tracker f)" by (simp add: ready_def)
  let ?a = "newAction t '''' (ListActionImpl (gvkOf t) label)"
  obtain ys xs where run: "ObjectReaction lib ?a (fk_tracker f) =
      (Ok (True, Some (ObjList (te_kind t) ys), None), fk_tracker f)"
    and xs: "those (map (te_decode t) ys) = Some xs"
    by (rule List_reaction [OF s])
  have dec: "te_decodeList t (listOf (te_kind t) (filter (metaMatches label) ys)) =
      Some (filter (\<lambda>x. Matches label (te_meta t x)) xs)"
    by (rule listed [OF those_filter [OF xs]])
  from Invokes_ready [OF f run s, of "Some (ObjList (te_kind t) [])"] a [OF s] rt rq sel opts w xs dec run
  show "\<exists>r w' f'. seen ListResult (typed_get rt rq [] (te_decodeList t)) w = (Ok r, w') \<and>
      seen ListResult (fake_List t opts) f = (Ok (fake_view r), f') \<and> w_env w' = fk_tracker f' \<and> ready lib t f'"
    by (auto simp: seen_def typed_get_def rest_do_def tracker_serve_def Into_def fake_List_def body_of_def bindG_def)
qed

lemma agree_delete:
  assumes rt: "rt_serve rt = tracker_serve lib" and rq: "request_error rq = None"
    and a: "\<And>s. store_ok t s \<Longrightarrow> request_action (tr_scheme s) rq = Some (newAction t '''' (DeleteActionImpl n))"
  shows "agree lib (bindG (bindG (rest_do rt rq) (\<lambda>resp. ret (Error_of resp))) (\<lambda>err. ret (ErrorResult err)))
    (bindG (fake_Delete t n) (\<lambda>err. ret (ErrorResult err)))"
  unfolding agree_def
proof (intro allI impI, elim conjE)
  fix w :: "tracker world" and f
  assume f: "ready lib t f" and w: "w_env w = fk_tracker f"
  then have s: "store_ok t (fk_tracker f)" by (simp add: ready_def)
  let ?a = "newAction t '''' (DeleteActionImpl n)"
  obtain err s' where run: "tracker_Delete (gvrOf t) (ac_Namespace ?a) n (fk_tracker f) = (Ok err, s')" and s': "store_ok t s'"
    using steps_Delete [of "gvrOf t" "ac_Namespace ?a" n] s unfolding steps_def by blast
  then have re: "ObjectReaction lib ?a (fk_tracker f) = (Ok (True, None, err), s')"
    by (simp add: ObjectReaction_def newAction_def react_Delete_def handled_def bindG_def)
  from Invokes_ready [OF f re s', of "zeroObject t"] a [OF s] rt rq w re
  show "\<exists>r w' f'. bindG (bindG (rest_do rt rq) (\<lambda>resp. ret (Error_of resp))) (\<lambda>err. ret (ErrorResult err)) w = (Ok r, w') \<and>
      bindG (fake_Delete t n) (\<lambda>err. ret (ErrorResult err)) f = (Ok (fake_view r), f') \<and>
      w_env w' = fk_tracker f' \<and> ready lib t f'"
    by (cases err) (auto simp: rest_do_def tracker_serve_def Error_of_def fake_Delete_def bindG_def)
qed

text \<open>Each call of a real client asks the server for the action of the fake client's call.\<close>

abbreviation real :: "tracker runtime \<Rightarrow> (tracker world, 'o) ResourceInterface" where
  "real rt \<equiv> template_client rt (template.truncate t)"

lemma truncated:
  "te_resource (template.truncate t) = te_resource t" "te_zero (template.truncate t) = te_zero t"
  "te_decode (template.truncate t) = te_decode t" "te_decodeList (template.truncate t) = te_decodeList t"
  "te_status (template.truncate t) = te_status t"
  by (simp_all add: template.truncate_def)

lemma request_actions:
  assumes "store_ok t s"
  shows "request_action (tr_scheme s) (operation_request (te_resource t) (GetOp n)) =
      Some (newAction t '''' (GetActionImpl n))"
    and "request_action (tr_scheme s) (operation_request (te_resource t) (ListOp opts)) =
      Some (newAction t '''' (ListActionImpl (gvkOf t) (lo_LabelSelector opts)))"
    and "request_action (tr_scheme s) (operation_request (te_resource t) (CreateOp x)) =
      Some (newAction t '''' (CreateActionImpl (te_encode t x)))"
    and "request_action (tr_scheme s) (operation_request (te_resource t) (UpdateOp x)) =
      Some (newAction t '''' (UpdateActionImpl (te_encode t x)))"
    and "request_action (tr_scheme s) (operation_request (te_resource t) (UpdateStatusOp x)) =
      Some (newAction t ''status'' (UpdateActionImpl (te_encode t x)))"
    and "request_action (tr_scheme s) (operation_request (te_resource t) (DeleteOp n)) =
      Some (newAction t '''' (DeleteActionImpl n))"
    and "request_action (tr_scheme s) (operation_request (te_resource t) (PatchOp n pt data subs)) =
      Some (newAction t (pathJoin subs) (PatchActionImpl n pt data))"
proof -
  have "pathJoin [''status''] = ''status''" "pathJoin [] = ''''" by code_simp+
  then show "request_action (tr_scheme s) (operation_request (te_resource t) (GetOp n)) =
      Some (newAction t '''' (GetActionImpl n))"
    "request_action (tr_scheme s) (operation_request (te_resource t) (ListOp opts)) =
      Some (newAction t '''' (ListActionImpl (gvkOf t) (lo_LabelSelector opts)))"
    "request_action (tr_scheme s) (operation_request (te_resource t) (CreateOp x)) =
      Some (newAction t '''' (CreateActionImpl (te_encode t x)))"
    "request_action (tr_scheme s) (operation_request (te_resource t) (UpdateOp x)) =
      Some (newAction t '''' (UpdateActionImpl (te_encode t x)))"
    "request_action (tr_scheme s) (operation_request (te_resource t) (UpdateStatusOp x)) =
      Some (newAction t ''status'' (UpdateActionImpl (te_encode t x)))"
    "request_action (tr_scheme s) (operation_request (te_resource t) (DeleteOp n)) =
      Some (newAction t '''' (DeleteActionImpl n))"
    "request_action (tr_scheme s) (operation_request (te_resource t) (PatchOp n pt data subs)) =
      Some (newAction t (pathJoin subs) (PatchActionImpl n pt data))"
    using assms
    by (simp_all add: request_action_def request_impl_def operation_request_def path body newAction_def gvrOf_def
        store_ok_def case_prod_unfold zero_ListOptions_def)
qed

lemma reactions:
  "ObjectReaction lib (newAction t sub (GetActionImpl n)) =
     handled (tracker_Get (gvrOf t) (ac_Namespace (newAction t sub (GetActionImpl n))) n)"
  "ObjectReaction lib (newAction t sub (CreateActionImpl y)) =
     handled (react_Create (gvrOf t) sub (ac_Namespace (newAction t sub (CreateActionImpl y))) y)"
  "ObjectReaction lib (newAction t sub (UpdateActionImpl y)) =
     handled (react_Update (gvrOf t) (ac_Namespace (newAction t sub (UpdateActionImpl y))) y)"
  "ObjectReaction lib (newAction t sub (PatchActionImpl n pt data)) =
     handled (if pt = ApplyPatchType then react_Apply lib (gvrOf t) (ac_Namespace (newAction t sub (PatchActionImpl n pt data))) n data
       else react_Patch lib (gvrOf t) (ac_Namespace (newAction t sub (PatchActionImpl n pt data))) n pt data)"
  by (simp_all add: ObjectReaction_def newAction_def)

lemma observe_agree:
  assumes rt: "rt_serve rt = tracker_serve lib" and lib: "patches_keep_types lib" and op: "comparable t op"
    and m: "observe (real rt) op = Some m"
  shows "\<exists>m'. observe (fake_client t) op = Some m' \<and> agree lib m m'"
proof -
  note obj = agree_object [OF rt]
  note forms = template_client_def fake_client_def template_requests truncated
  have enc: "typed t (te_encode t x)" if "te_decode t (te_encode t x) = Some x" for x
    using that by (simp add: typed_def)
  have sel: "rq_Selector (operation_request (te_resource t) (ListOp opts)) = lo_LabelSelector opts" for opts
    by (simp add: operation_request_def)
  show ?thesis
  proof (cases op)
    case (GetOp n)
    with op m show ?thesis
      by (auto simp: forms fake_Get_def intro!: obj [OF _ request_actions(1) reactions(1)] yields_Get)
  next
    case (ListOp opts)
    with op m show ?thesis
      by (auto simp: forms intro!: agree_list [OF rt _ sel request_actions(2)])
  next
    case (CreateOp x)
    with op m show ?thesis
      by (auto simp: forms fake_Create_def intro!: obj [OF _ request_actions(3) reactions(2)] yields_Create enc)
  next
    case (UpdateOp x)
    with op m show ?thesis
      by (auto simp: forms fake_Update_def intro!: obj [OF _ request_actions(4) reactions(3)] yields_Update enc)
  next
    case (UpdateStatusOp x)
    with op m show ?thesis
      by (auto simp: forms fake_UpdateStatus_def intro!: obj [OF _ request_actions(5) reactions(3)] yields_Update enc
          split: if_splits)
  next
    case (DeleteOp n)
    with op m show ?thesis
      by (auto simp: forms intro!: agree_delete [OF rt _ request_actions(6)])
  next
    case (PatchOp n pt data subs)
    with op m lib show ?thesis
      by (auto simp: forms fake_Patch_def intro!: obj [OF _ request_actions(7) reactions(4)] yields_Patch yields_Apply)
  qed (use op in auto)
qed

lemma observe_same: "observe (real rt) op = None \<Longrightarrow> observe (fake_client t) op = None"
  by (cases op) (auto simp: template_client_def fake_client_def truncated split: if_splits)

lemma run_agree:
  assumes rt: "rt_serve rt = tracker_serve lib" and lib: "patches_keep_types lib"
  shows "behaves_like lib t (real rt) (fake_client t)"
proof -
  have "fst (run (fake_client t) ops f) = map (map_outcome fake_view) (fst (run (real rt) ops w)) \<and>
      fk_tracker (snd (run (fake_client t) ops f)) = w_env (snd (run (real rt) ops w))"
    if "list_all (comparable t) ops" and "ready lib t f" and "w_env w = fk_tracker f" for ops w f
    using that
  proof (induction ops arbitrary: w f)
    case (Cons op ops)
    show ?case
    proof (cases "observe (real rt) op")
      case None
      with Cons observe_same [OF None] show ?thesis by simp
    next
      case (Some m)
      with observe_agree [OF rt lib] Cons.prems(1) obtain m' where m': "observe (fake_client t) op = Some m'"
        and "agree lib m m'" by auto
      with Cons.prems(2,3) obtain r w' f' where "m w = (Ok r, w')" "m' f = (Ok (fake_view r), f')"
        "w_env w' = fk_tracker f'" "ready lib t f'"
        unfolding agree_def by blast
      with Some m' Cons.IH [of f' w'] Cons.prems(1) show ?thesis
        by (auto split: prod.splits)
    qed
  qed simp
  then show ?thesis unfolding behaves_like_def by blast
qed

end

section \<open>The nineteen fakes\<close>

lemma those_map_filter: "those (map f ys) = Some xs \<Longrightarrow> List.map_filter f ys = xs"
  by (induction ys arbitrary: xs) (auto simp: List.map_filter_simps split: option.splits)

lemma group_paths:
  "gv_of_path kubevirtPath = Some kubevirtGV" "gv_of_path cdiPath = Some cdiGV" "gv_of_path snapshotPath = Some snapshotGV"
  by code_simp+

lemmas decoders = dec_VM_def dec_VMI_def dec_DV_def dec_Snapshot_def dec_SnapshotClass_def dec_Other_def

lemmas list_decoders = dec_VMList_def dec_VMIList_def dec_DVList_def dec_SnapshotList_def dec_SnapshotClassList_def
  dec_OtherList_def

lemma guess_group:
  "kind \<noteq> '''' \<Longrightarrow> UnsafeGuessKindToResource ('''', '''', kind) = ('''', '''', plural) \<Longrightarrow>
     UnsafeGuessKindToResource (g, v, kind) = (g, v, plural)"
  by (auto simp: UnsafeGuessKindToResource_def Let_def split: if_splits)

lemma guesses:
  "UnsafeGuessKindToResource (g, v, ''VirtualMachine'') = (g, v, ''virtualmachines'')"
  "UnsafeGuessKindToResource (g, v, ''VirtualMachineInstance'') = (g, v, ''virtualmachineinstances'')"
  "UnsafeGuessKindToResource (g, v, ''DataVolume'') = (g, v, ''datavolumes'')"
  "UnsafeGuessKindToResource (g, v, ''VolumeSnapshot'') = (g, v, ''volumesnapshots'')"
  "UnsafeGuessKindToResource (g, v, ''VolumeSnapshotClass'') = (g, v, ''volumesnapshotclasses'')"
  by (rule guess_group, simp, code_simp)+

lemmas fake_laws = gvkOf_def gvrOf_def guesses fake_of_def used_templates resource_defs typed_def decoders list_decoders listOf_def group_paths

interpretation fake_vms: fake_resource "fakeVirtualMachine ns"
  by unfold_locales (auto simp: fakeVirtualMachine_def fake_laws those_map_filter split: api_object.splits)

interpretation fake_vmis: fake_resource "fakeVirtualMachineInstance ns"
  by unfold_locales (auto simp: fakeVirtualMachineInstance_def fake_laws those_map_filter split: api_object.splits)

interpretation fake_dvs: fake_resource "fakeDataVolume ns"
  by unfold_locales (auto simp: fakeDataVolume_def fake_laws those_map_filter split: api_object.splits)

interpretation fake_snaps: fake_resource "fakeVolumeSnapshot ns"
  by unfold_locales (auto simp: fakeVolumeSnapshot_def fake_laws those_map_filter split: api_object.splits)

interpretation fake_classes: fake_resource fakeVolumeSnapshotClass
  by unfold_locales (auto simp: fakeVolumeSnapshotClass_def fake_laws those_map_filter split: api_object.splits)

text \<open>The fakes of the other resources, beside the real clients.\<close>

definition usedKinds :: "string list" where
  "usedKinds = [''VirtualMachine'', ''VirtualMachineInstance'', ''DataVolume'', ''VolumeSnapshot'', ''VolumeSnapshotClass'']"

lemma fake_other:
  assumes "gv_of_path path = Some gv" and "kind \<notin> set usedKinds"
    and "UnsafeGuessKindToResource ('''', '''', kind) = ('''', '''', plural)" and "kind \<noteq> ''''"
  shows "fake_resource (fake_of (other_template h path ns plural kind status) gv kind OOther ot_Meta)"
  using assms(1,2) by unfold_locales (auto simp: fake_laws guess_group [OF assms(4,3)] other_template_def usedKinds_def
      those_map_filter split: api_object.splits if_splits)

definition otherFakes :: "'e runtime \<Rightarrow> string \<Rightarrow> (OtherObject fake_template \<times>
    ('e world, OtherObject) ResourceInterface \<times> (Fake, OtherObject) ResourceInterface) list" where
  "otherFakes rt ns = [(fakeKubeVirt ns, newKubeVirts rt Infra ns, FakeKubeVirts ns),
     (fakeVirtualMachineInstanceMigration ns, newVirtualMachineInstanceMigrations rt Infra ns, FakeVirtualMachineInstanceMigrations ns),
     (fakeVirtualMachineInstancePreset ns, newVirtualMachineInstancePresets rt Infra ns, FakeVirtualMachineInstancePresets ns),
     (fakeVirtualMachineInstanceReplicaSet ns, newVirtualMachineInstanceReplicaSets rt Infra ns, FakeVirtualMachineInstanceReplicaSets ns),
     (fakeCDI, newCDIs rt Infra, FakeCDIs),
     (fakeCDIConfig, newCDIConfigs rt Infra, FakeCDIConfigs),
     (fakeDataImportCron ns, newDataImportCrons rt Infra ns, FakeDataImportCrons ns),
     (fakeDataSource ns, newDataSources rt Infra ns, FakeDataSources ns),
     (fakeObjectTransfer, newObjectTransfers rt Infra, FakeObjectTransfers),
     (fakeStorageProfile, newStorageProfiles rt Infra, FakeStorageProfiles),
     (fakeVolumeCloneSource ns, newVolumeCloneSources rt Infra ns, FakeVolumeCloneSources ns),
     (fakeVolumeImportSource ns, newVolumeImportSources rt Infra ns, FakeVolumeImportSources ns),
     (fakeVolumeUploadSource ns, newVolumeUploadSources rt Infra ns, FakeVolumeUploadSources ns),
     (fakeVolumeSnapshotContent, newVolumeSnapshotContents rt Infra, FakeVolumeSnapshotContents)]"

lemmas other_fakes = fakeKubeVirt_def fakeVirtualMachineInstanceMigration_def
  fakeVirtualMachineInstancePreset_def fakeVirtualMachineInstanceReplicaSet_def fakeCDI_def fakeCDIConfig_def
  fakeDataImportCron_def fakeDataSource_def fakeObjectTransfer_def fakeStorageProfile_def
  fakeVolumeCloneSource_def fakeVolumeImportSource_def fakeVolumeUploadSource_def fakeVolumeSnapshotContent_def

lemmas other_fake_clients = FakeKubeVirts_def FakeVirtualMachineInstanceMigrations_def
  FakeVirtualMachineInstancePresets_def FakeVirtualMachineInstanceReplicaSets_def FakeCDIs_def FakeCDIConfigs_def
  FakeDataImportCrons_def FakeDataSources_def FakeObjectTransfers_def FakeStorageProfiles_def
  FakeVolumeCloneSources_def FakeVolumeImportSources_def FakeVolumeUploadSources_def
  FakeVolumeSnapshotContents_def

lemmas other_templates = kubeVirts_def virtualMachineInstanceMigrations_def virtualMachineInstancePresets_def
  virtualMachineInstanceReplicaSets_def cDIs_def cDIConfigs_def dataImportCrons_def dataSources_def
  objectTransfers_def storageProfiles_def volumeCloneSources_def volumeImportSources_def volumeUploadSources_def
  volumeSnapshotContents_def

lemma truncate_fake_of [simp]: "template.truncate (fake_of t gv kind enc meta) = t"
  by (simp add: fake_of_def template.truncate_def)

lemma otherFakes_ok: "list_all (\<lambda>(t, I, J). fake_resource t \<and> I = template_client rt (template.truncate t) \<and>
    J = fake_client t) (otherFakes rt ns)"
  unfolding otherFakes_def list.pred_inject prod.case other_fakes other_clients other_fake_clients other_templates
    truncate_fake_of
  by (intro conjI refl fake_other group_paths; (simp add: usedKinds_def; fail | code_simp))

lemma used_fakes:
  "newVirtualMachines rt ns = template_client rt (template.truncate (fakeVirtualMachine ns))"
  "newVirtualMachineInstances rt ns = template_client rt (template.truncate (fakeVirtualMachineInstance ns))"
  "newDataVolumes rt ns = template_client rt (template.truncate (fakeDataVolume ns))"
  "newVolumeSnapshots rt ns = template_client rt (template.truncate (fakeVolumeSnapshot ns))"
  "newVolumeSnapshotClasses rt Infra = template_client rt (template.truncate fakeVolumeSnapshotClass)"
  by (simp_all add: used_clients_from_template fakeVirtualMachine_def fakeVirtualMachineInstance_def fakeDataVolume_def
      fakeVolumeSnapshot_def fakeVolumeSnapshotClass_def)

end
