(* ===== verification/Fake_Guarantees.thy ===== *)
theory Fake_Guarantees
  imports Fake_Behaviour
begin

text \<open>
  Guarantees of the fake clientsets in every state that a test can bring them to: the store stays
  consistent and is listed in order, the objects that a clientset is made from are returned by its clients,
  and \<open>DeleteCollection\<close> deletes nothing.
\<close>

section \<open>States of a fake clientset\<close>

text \<open>What the reader of a watch does: take an event from the channel, or stop the watcher.\<close>

definition receive :: "nat \<Rightarrow> tracker \<Rightarrow> tracker" where
  "receive i t = t\<lparr>tr_watchers := (tr_watchers t)[i := (tr_watchers t ! i)
     \<lparr>fw_Events := tl (fw_Events (tr_watchers t ! i))\<rparr>]\<rparr>"

definition StopWatcher :: "nat \<Rightarrow> tracker \<Rightarrow> tracker" where
  "StopWatcher i t = t\<lparr>tr_watchers := (tr_watchers t)[i := (tr_watchers t ! i)\<lparr>fw_Stopped := True\<rparr>]\<rparr>"

inductive reachable :: "PatchLib \<Rightarrow> gvk list \<Rightarrow> Fake \<Rightarrow> bool" for lib scheme where
  created: "newSimpleClientset lib scheme objects = Ok f \<Longrightarrow> reachable lib scheme f"
| invoked: "reachable lib scheme f \<Longrightarrow> reachable lib scheme (snd (Invokes a d f))"
| watched: "reachable lib scheme f \<Longrightarrow> reachable lib scheme (snd (InvokesWatch a f))"
| received: "reachable lib scheme f \<Longrightarrow> i < length (tr_watchers (fk_tracker f)) \<Longrightarrow>
    reachable lib scheme (f\<lparr>fk_tracker := receive i (fk_tracker f)\<rparr>)"
| stopped: "reachable lib scheme f \<Longrightarrow> i < length (tr_watchers (fk_tracker f)) \<Longrightarrow>
    reachable lib scheme (f\<lparr>fk_tracker := StopWatcher i (fk_tracker f)\<rparr>)"

definition chained :: "PatchLib \<Rightarrow> Fake \<Rightarrow> bool" where
  "chained lib f \<longleftrightarrow>
     fk_ReactionChain f = [\<lparr>sr_Verb = ''*'', sr_Resource = ''*'', sr_Reaction = ObjectReaction lib\<rparr>] \<and>
     fk_WatchReactionChain f = [\<lparr>sw_Resource = ''*'', sw_Reaction = watchReaction\<rparr>]"

lemma covers_all [simp]: "resourceCovers ''*'' a"
  by (simp add: resourceCovers_def Let_def)

lemma addObjects_consistent: "preserves consistent (addObjects objs)"
  by (induction objs) (auto intro!: consistent_rules Add_consistent)

lemma created_consistent:
  assumes "newSimpleClientset lib scheme objs = Ok f"
  shows "consistent (fk_tracker f) \<and> chained lib f"
proof -
  have "consistent (NewObjectTracker scheme)"
    by (simp add: consistent_def capacity_def NewObjectTracker_def)
  with addObjects_consistent [of objs] have "consistent (snd (addObjects objs (NewObjectTracker scheme)))"
    by (simp add: preserves_def keeps_def)
  with assms show ?thesis
    by (auto simp: newSimpleClientset_def AddReactor_def AddWatchReactor_def chained_def split: prod.splits outcome.splits)
qed

lemma on_tracker_keeps:
  "fk_ReactionChain (snd (on_tracker m f)) = fk_ReactionChain f"
  "fk_WatchReactionChain (snd (on_tracker m f)) = fk_WatchReactionChain f"
  "fk_actions (snd (on_tracker m f)) = fk_actions f"
  "preserves consistent m \<Longrightarrow> consistent (fk_tracker f) \<Longrightarrow> consistent (fk_tracker (snd (on_tracker m f)))"
  by (auto simp: on_tracker_def preserves_def keeps_def split: prod.splits)

lemma Invokes_snd: "snd (Invokes a d f) = snd (on_tracker (runChain (fk_ReactionChain f) a) (record_action a f))"
  "snd (InvokesWatch a f) = snd (on_tracker (runWatchChain (fk_WatchReactionChain f) a) (record_action a f))"
  by (auto simp: Invokes_def InvokesWatch_def bindG_def split: prod.splits outcome.splits)

lemma record_action_sel [simp]:
  "fk_tracker (record_action a f) = fk_tracker f" "fk_ReactionChain (record_action a f) = fk_ReactionChain f"
  "fk_WatchReactionChain (record_action a f) = fk_WatchReactionChain f"
  by (simp_all add: record_action_def)

lemma chains_consistent:
  assumes "chained lib f"
  shows "preserves consistent (runChain (fk_ReactionChain f) a)"
    and "preserves consistent (runWatchChain (fk_WatchReactionChain f) a)"
  using assms by (auto simp: chained_def Handles_def watchReaction_def
      intro!: consistent_rules ObjectReaction_consistent)

lemma reachable_chained: "reachable lib scheme f \<Longrightarrow> consistent (fk_tracker f) \<and> chained lib f"
proof (induction rule: reachable.induct)
  case (created objects f)
  then show ?case by (rule created_consistent)
next
  case (invoked f a d)
  then show ?case using on_tracker_keeps(4) [OF chains_consistent(1), of lib f "record_action a f" a]
    by (simp add: Invokes_snd chained_def on_tracker_keeps(1,2))
next
  case (watched f a)
  then show ?case using on_tracker_keeps(4) [OF chains_consistent(2), of lib f "record_action a f" a]
    by (simp add: Invokes_snd chained_def on_tracker_keeps(1,2))
next
  case (received f i)
  then have "capacity (receive i (fk_tracker f))"
    by (auto simp: consistent_def capacity_def receive_def list_all_length nth_list_update
        intro: order_trans [OF diff_le_self])
  with received show ?case by (simp add: consistent_def receive_def chained_def)
next
  case (stopped f i)
  then have "capacity (StopWatcher i (fk_tracker f))"
    by (auto simp: consistent_def capacity_def StopWatcher_def list_all_length nth_list_update)
  with stopped show ?case by (simp add: consistent_def StopWatcher_def chained_def)
qed

section \<open>Consistency\<close>

lemma consistent_lookup:
  "consistent t \<Longrightarrow> map_of (tr_objects t) (gvr, ns, name) = Some obj \<Longrightarrow> nsName obj = (ns, name)"
  by (auto simp: consistent_def list_all_iff dest!: map_of_SomeD)

lemma consistent_listed:
  assumes "consistent t"
  shows "sorted (map nsName (filterByNamespace t gvr ns))" and "distinct (map nsName (filterByNamespace t gvr ns))"
proof -
  let ?P = "\<lambda>((g, k), obj). g = gvr \<and> (ns = '''' \<or> fst (nsName obj) = ns)"
  let ?es = "filter ?P (tr_objects t)"
  have key: "fst e = (gvr, nsName (snd e))" if "e \<in> set ?es" for e
    using that assms by (auto simp: consistent_def list_all_iff)
  have dist: "distinct (map fst ?es)" using assms by (simp add: consistent_def distinct_map_filter)
  then have inj: "inj_on fst (set ?es)" and es: "distinct ?es" by (simp_all add: distinct_map)
  have "inj_on (\<lambda>e. nsName (snd e)) (set ?es)"
  proof (rule inj_onI)
    fix e e' assume e: "e \<in> set ?es" "e' \<in> set ?es" and "nsName (snd e) = nsName (snd e')"
    then have "fst e = fst e'" using key by simp
    with inj e show "e = e'" by (meson inj_onD)
  qed
  with es have "distinct (map nsName (map snd ?es))" by (simp add: distinct_map comp_def)
  from distinct_map [THEN iffD1, OF this] show "distinct (map nsName (filterByNamespace t gvr ns))"
    unfolding filterByNamespace_def by (subst distinct_map) (simp only: distinct_sort set_sort simp_thms)
  show "sorted (map nsName (filterByNamespace t gvr ns))"
    unfolding filterByNamespace_def by simp
qed

text \<open>C31 Whatever calls are made through the clients of a fake clientset, and whatever its watchers' readers do:
  each object is stored under its own namespace and name, so that a lookup gives an object that bears the name
  asked for; what is listed is in the order of namespace and name, each once; and no channel of a watcher holds
  more than its 100 events.\<close>

theorem fake_store_consistent:
  assumes "reachable lib scheme f"
  shows "(\<forall>gvr ns name obj. map_of (tr_objects (fk_tracker f)) (gvr, ns, name) = Some obj \<longrightarrow>
      nsName obj = (ns, name)) \<and>
    (\<forall>gvr ns. sorted (map nsName (filterByNamespace (fk_tracker f) gvr ns)) \<and>
      distinct (map nsName (filterByNamespace (fk_tracker f) gvr ns))) \<and>
    list_all (\<lambda>w. length (fw_Events w) \<le> DefaultChanSize) (tr_watchers (fk_tracker f))"
  using reachable_chained [OF assms] consistent_lookup consistent_listed
  by (auto simp: consistent_def capacity_def)

section \<open>DeleteCollection\<close>

text \<open>The fake \<open>DeleteCollection\<close> reports success and deletes nothing, in every state of a fake clientset and
  for every resource and selector: the tracker has no reaction for it.\<close>

theorem fake_delete_collection_noop:
  assumes "reachable lib scheme f"
  shows "fake_DeleteCollection t opts f = (Ok None, record_action
    (newAction t '''' (DeleteCollectionActionImpl (lo_LabelSelector opts))) f)"
proof -
  have same: "g\<lparr>fk_tracker := fk_tracker g\<rparr> = g" for g :: Fake by simp
  from reachable_chained [OF assms] have "chained lib f" by blast
  then show ?thesis
    by (simp add: fake_DeleteCollection_def Invokes_def chained_def ObjectReaction_def on_tracker_def
        Handles_def bindG_def Let_def newAction_def same [of "record_action a f" for a, simplified])
qed

section \<open>The objects that a clientset is made from\<close>

text \<open>Adding objects only adds: what was stored stays.\<close>

definition extends :: "tracker \<Rightarrow> tracker \<Rightarrow> bool" where
  "extends t t' \<longleftrightarrow> map_of (tr_objects t) \<subseteq>\<^sub>m map_of (tr_objects t') \<and> tr_scheme t' = tr_scheme t"

lemma extends_reflp: "reflp extends" and extends_transp: "transp extends"
  by (auto simp: extends_def reflp_def transp_def intro: map_le_trans)

lemma extends_Pair: "keeps extends (Pair r)"
  using extends_reflp by (simp add: keeps_def reflpD)

lemma extendsD: "extends t t' \<Longrightarrow> map_of (tr_objects t) k = Some x \<Longrightarrow> map_of (tr_objects t') k = Some x"
  by (metis extends_def map_le_def domI)

lemmas extends_rules = extends_Pair keeps_ret [OF extends_reflp] keeps_panic [OF extends_reflp] keeps_bind [OF extends_transp]
  keeps_case_option

lemma add_extends: "keeps extends (tracker_add gvr obj ns False)"
proof (rule keepsI)
  fix t r t' assume run: "tracker_add gvr obj ns False t = (r, t')"
  have new: "extends t (t\<lparr>tr_objects := AList.update k obj' (tr_objects t)\<rparr>)" if "map_of (tr_objects t) k = None" for k obj'
    using that by (auto simp: extends_def update_conv' map_le_def dom_def)
  have step: "extends t t'" if "map_of (tr_objects t) k = None"
    and "notify ev ws (t\<lparr>tr_objects := AList.update k obj' (tr_objects t)\<rparr>) = (r', t')" for k obj' ev ws r'
    using new [OF that(1)] notify_same [OF that(2)] by (simp add: extends_def)
  from run show "extends t t'"
    by (auto simp: tracker_add_def Let_def reflpD [OF extends_reflp] intro: step split: option.splits if_splits
        elim!: bind_notify)
qed

lemma add_stores:
  assumes "tracker_add gvr obj (om_Namespace m) False t = (Ok None, t')" and acc: "Accessor obj = Some m"
  shows "map_of (tr_objects t') (gvr, om_Namespace m, om_Name m) = Some obj"
proof -
  let ?t = "t\<lparr>tr_objects := AList.update (gvr, om_Namespace m, om_Name m) obj (tr_objects t)\<rparr>"
  from assms obtain ev ws r' where "notify ev ws ?t = (r', t')"
    by (auto simp: tracker_add_def Let_def split: option.splits elim!: bind_notify)
  from notify_same [OF this] show ?thesis by (simp add: update_conv')
qed

lemma add_all_extends: "keeps extends (add_all gvks obj ns)"
  by (induction gvks) (auto intro!: extends_rules add_extends)

lemma addObject_extends: "keeps extends (addObject obj)"
  by (rule keepsI) (auto simp: addObject_def reflpD [OF extends_reflp] simp del: add_all.simps
      split: option.splits list.splits dest: keepsD [OF add_all_extends])

lemma Add_extends: "keeps extends (tracker_Add obj)"
proof -
  have "keeps extends (addItems objs)" for objs
    by (induction objs) (auto intro!: extends_rules addObject_extends)
  then show ?thesis unfolding tracker_Add_def by (auto intro: addObject_extends split: option.splits)
qed

lemma addObjects_extends: "keeps extends (addObjects objs)"
  by (induction objs) (auto intro!: extends_rules Add_extends)

lemma add_all_stores:
  assumes "add_all gvks obj (om_Namespace m) t = (Ok None, t')" and "gvk \<in> set gvks" and acc: "Accessor obj = Some m"
  shows "map_of (tr_objects t') (UnsafeGuessKindToResource gvk, om_Namespace m, om_Name m) = Some obj"
  using assms(1,2)
proof (induction gvks arbitrary: t)
  case (Cons k gvks)
  from Cons.prems(1) obtain u where one: "tracker_add (UnsafeGuessKindToResource k) obj (om_Namespace m) False t = (Ok None, u)"
    and rest: "add_all gvks obj (om_Namespace m) u = (Ok None, t')"
    by (auto elim!: bindG_OkE split: option.splits)
  from keepsD [OF add_all_extends rest] add_stores [OF one acc] Cons.IH [OF rest] Cons.prems(2) show ?case
    by (auto dest: extendsD)
qed simp

lemma Add_stores:
  assumes "tracker_Add obj t = (Ok None, t')" and acc: "Accessor obj = Some m" and "(g, v, kindOf obj) \<in> set (tr_scheme t)"
  shows "map_of (tr_objects t') (UnsafeGuessKindToResource (g, v, kindOf obj), om_Namespace m, om_Name m) = Some obj"
proof -
  have "ExtractList obj = None" using acc by (cases obj) auto
  moreover have "(g, v, kindOf obj) \<in> set (ObjectKinds t obj)" using assms(3) by (simp add: ObjectKinds_def)
  moreover from this obtain k ks where "ObjectKinds t obj = k # ks" by (cases "ObjectKinds t obj") auto
  ultimately show ?thesis
    using assms(1) acc by (auto simp: tracker_Add_def addObject_def simp del: add_all.simps intro!: add_all_stores)
qed

lemma addObjects_stores:
  assumes "addObjects objs t = (Ok u, t')" and "obj \<in> set objs" and "Accessor obj = Some m"
    and "(g, v, kindOf obj) \<in> set (tr_scheme t)"
  shows "map_of (tr_objects t') (UnsafeGuessKindToResource (g, v, kindOf obj), om_Namespace m, om_Name m) = Some obj"
  using assms(1,2,4)
proof (induction objs arbitrary: t)
  case (Cons x objs)
  from Cons.prems(1) obtain s where one: "tracker_Add x t = (Ok None, s)" and rest: "addObjects objs s = (Ok u, t')"
    by (auto elim!: bindG_OkE split: option.splits)
  from keepsD [OF Add_extends one] have scheme: "tr_scheme s = tr_scheme t" by (simp add: extends_def)
  show ?case
  proof (cases "obj = x")
    case True
    with Add_stores [OF one, of m g v] assms(3) Cons.prems(3) keepsD [OF addObjects_extends rest] show ?thesis
      by (auto dest: extendsD)
  next
    case False
    with Cons.IH [OF rest] Cons.prems(2,3) scheme show ?thesis by simp
  qed
qed simp

context fake_resource
begin

lemma seeded_Get:
  assumes made: "newSimpleClientset lib scheme objs = Ok f" and mem: "te_encode t x \<in> set objs"
    and x: "te_decode t (te_encode t x) = Some x" and known: "gvkOf t \<in> set scheme"
    and ns: "(case re_namespace (te_resource t) of None \<Rightarrow> '''' | Some ns \<Rightarrow> ns) = om_Namespace (te_meta t x)"
  shows "fst (fake_Get t (om_Name (te_meta t x)) f) = Ok (Some x, None)"
proof -
  from made obtain u where add: "addObjects objs (NewObjectTracker scheme) = (Ok u, fk_tracker f)"
    by (auto simp: newSimpleClientset_def AddReactor_def AddWatchReactor_def split: prod.splits outcome.splits)
  have kind: "kindOf (te_encode t x) = te_kind t" using x kind by (simp add: typed_def)
  have "(fst (te_gv t), snd (te_gv t), kindOf (te_encode t x)) \<in> set (tr_scheme (NewObjectTracker scheme))"
    using known kind by (simp add: gvkOf_def NewObjectTracker_def)
  from addObjects_stores [OF add mem accessor this] kind guess
  have "map_of (tr_objects (fk_tracker f)) (gvrOf t, om_Namespace (te_meta t x), om_Name (te_meta t x)) = Some (te_encode t x)"
    by (simp add: gvkOf_def)
  moreover have "chained lib f" using created_consistent [OF made] by blast
  ultimately show ?thesis
    by (simp add: fake_Get_def Invokes_def chained_def ObjectReaction_def Let_def handled_def tracker_Get_def on_tracker_def Handles_def
        bindG_def newAction_def ns as_object_def x)
qed

end

lemma registered:
  "gvkOf (fakeVirtualMachine ns) \<in> set kubevirt_AddToScheme" "gvkOf (fakeVirtualMachineInstance ns) \<in> set kubevirt_AddToScheme"
  "gvkOf (fakeDataVolume ns) \<in> set cdi_AddToScheme" "gvkOf (fakeVolumeSnapshot ns) \<in> set snapshot_AddToScheme"
  "gvkOf fakeVolumeSnapshotClass \<in> set snapshot_AddToScheme"
  by (simp_all add: gvkOf_def fakeVirtualMachine_def fakeVirtualMachineInstance_def fakeDataVolume_def
      fakeVolumeSnapshot_def fakeVolumeSnapshotClass_def fake_of_def kubevirt_AddToScheme_def cdi_AddToScheme_def
      snapshot_AddToScheme_def AddKnownTypes_def)

lemmas fake_defs = fakeVirtualMachine_def fakeVirtualMachineInstance_def fakeDataVolume_def fakeVolumeSnapshot_def
  fakeVolumeSnapshotClass_def

text \<open>C30 The objects that a fake clientset is made from are found again: whatever other objects are given with it,
  each virtual machine, instance, data volume, snapshot and snapshot class is returned unchanged by the \<open>Get\<close> of
  the fake client of its resource, under its namespace and name.\<close>

theorem seeded_objects_found:
  "(kubecli_NewSimpleClientset lib objs = Ok f \<and> OVM vm \<in> set objs \<longrightarrow>
     fst (ri_Get (FakeVirtualMachines (om_Namespace (vm_Meta vm))) (om_Name (vm_Meta vm)) f) = Ok (Some vm, None)) \<and>
   (kubecli_NewSimpleClientset lib objs = Ok f \<and> OVMI vmi \<in> set objs \<longrightarrow>
     fst (ri_Get (FakeVirtualMachineInstances (om_Namespace (vmi_Meta vmi))) (om_Name (vmi_Meta vmi)) f) =
       Ok (Some vmi, None)) \<and>
   (cdicli_NewSimpleClientset lib objs = Ok f \<and> ODV dv \<in> set objs \<longrightarrow>
     fst (ri_Get (FakeDataVolumes (om_Namespace (dv_Meta dv))) (om_Name (dv_Meta dv)) f) = Ok (Some dv, None)) \<and>
   (snapcli_NewSimpleClientset lib objs = Ok f \<and> OSnapshot snap \<in> set objs \<longrightarrow>
     fst (ri_Get (FakeVolumeSnapshots (om_Namespace (snap_Meta snap))) (om_Name (snap_Meta snap)) f) =
       Ok (Some snap, None)) \<and>
   (snapcli_NewSimpleClientset lib objs = Ok f \<and> OSnapshotClass sclass \<in> set objs \<and> om_Namespace (vsc_Meta sclass) = '''' \<longrightarrow>
     fst (ri_Get FakeVolumeSnapshotClasses (om_Name (vsc_Meta sclass)) f) = Ok (Some sclass, None))"
proof -
  let ?ns = "om_Namespace (vm_Meta vm)" and ?ns' = "om_Namespace (vmi_Meta vmi)"
  have vm: "fst (fake_Get (fakeVirtualMachine ?ns) (om_Name (vm_Meta vm)) f) = Ok (Some vm, None)"
    if "newSimpleClientset lib kubevirt_AddToScheme objs = Ok f" "OVM vm \<in> set objs"
    using fake_vms.seeded_Get [OF that(1), of ?ns vm] that(2) registered by (simp add: fake_defs fake_laws)
  have vmi: "fst (fake_Get (fakeVirtualMachineInstance ?ns') (om_Name (vmi_Meta vmi)) f) = Ok (Some vmi, None)"
    if "newSimpleClientset lib kubevirt_AddToScheme objs = Ok f" "OVMI vmi \<in> set objs"
    using fake_vmis.seeded_Get [OF that(1), of ?ns' vmi] that(2) registered by (simp add: fake_defs fake_laws)
  have dv: "fst (fake_Get (fakeDataVolume (om_Namespace (dv_Meta dv))) (om_Name (dv_Meta dv)) f) = Ok (Some dv, None)"
    if "newSimpleClientset lib cdi_AddToScheme objs = Ok f" "ODV dv \<in> set objs"
    using fake_dvs.seeded_Get [OF that(1), of "om_Namespace (dv_Meta dv)" dv] that(2) registered
    by (simp add: fake_defs fake_laws)
  have snap: "fst (fake_Get (fakeVolumeSnapshot (om_Namespace (snap_Meta snap))) (om_Name (snap_Meta snap)) f) = Ok (Some snap, None)"
    if "newSimpleClientset lib snapshot_AddToScheme objs = Ok f" "OSnapshot snap \<in> set objs"
    using fake_snaps.seeded_Get [OF that(1), of "om_Namespace (snap_Meta snap)" snap] that(2) registered
    by (simp add: fake_defs fake_laws)
  have sclass: "fst (fake_Get fakeVolumeSnapshotClass (om_Name (vsc_Meta sclass)) f) = Ok (Some sclass, None)"
    if "newSimpleClientset lib snapshot_AddToScheme objs = Ok f" "OSnapshotClass sclass \<in> set objs"
      "om_Namespace (vsc_Meta sclass) = ''''"
    using fake_classes.seeded_Get [OF that(1), of sclass] that(2,3) registered by (simp add: fake_defs fake_laws)
  from vm vmi dv snap sclass show ?thesis
    by (auto simp: kubecli_NewSimpleClientset_def cdicli_NewSimpleClientset_def snapcli_NewSimpleClientset_def
        FakeVirtualMachines_def FakeVirtualMachineInstances_def FakeDataVolumes_def FakeVolumeSnapshots_def
        FakeVolumeSnapshotClasses_def fake_client_def)
qed

section \<open>Agreement with the real clients\<close>


section \<open>A sample\<close>

definition seedLib :: PatchLib where
  "seedLib = \<lparr>pl_Patch = (\<lambda>pt data y. Inr y), pl_ApplyName = (\<lambda>data. Inr data), pl_Apply = (\<lambda>data y. Inr y)\<rparr>"

definition seedDV :: DataVolume where
  "seedDV = zero_DataVolume\<lparr>dv_Meta := zero_ObjectMeta\<lparr>om_Name := ''pvc-a'', om_Namespace := ''ns''\<rparr>\<rparr>"

definition seedTracker :: tracker where
  "seedTracker = snd (addObjects [ODV seedDV] (NewObjectTracker cdi_AddToScheme))"

definition seedFake :: Fake where
  "seedFake = \<lparr>fk_actions = [],
     fk_ReactionChain = [\<lparr>sr_Verb = ''*'', sr_Resource = ''*'', sr_Reaction = ObjectReaction seedLib\<rparr>],
     fk_WatchReactionChain = [\<lparr>sw_Resource = ''*'', sw_Reaction = watchReaction\<rparr>], fk_tracker = seedTracker\<rparr>"

definition seedWorld :: "tracker world" where
  "seedWorld = \<lparr>w_env = seedTracker, w_log = [], w_mapping = [], w_populated = False\<rparr>"

definition trackerRuntime :: "tracker runtime" where
  "trackerRuntime = \<lparr>rt_serve = tracker_serve seedLib, rt_sleep = (\<lambda>d s. s), rt_tick = (\<lambda>s. ((0, None), s)),
     rt_checkLabel = (\<lambda>k v. None)\<rparr>"

definition seedOps :: "DataVolume operation list" where
  "seedOps = [CreateOp seedDV, GetOp ''pvc-a'', DeleteOp ''pvc-a'', GetOp ''pvc-a'']"

lemma seedFake_made: "cdicli_NewSimpleClientset seedLib [ODV seedDV] = Ok seedFake"
proof -
  have "fst (addObjects [ODV seedDV] (NewObjectTracker cdi_AddToScheme)) = Ok ()" by code_simp
  then have "addObjects [ODV seedDV] (NewObjectTracker cdi_AddToScheme) = (Ok (), seedTracker)"
    by (simp add: seedTracker_def prod_eq_iff)
  then show ?thesis
    by (simp add: cdicli_NewSimpleClientset_def newSimpleClientset_def AddReactor_def AddWatchReactor_def seedFake_def)
qed

lemma seedFake_reachable: "reachable seedLib cdi_AddToScheme seedFake"
  using seedFake_made unfolding cdicli_NewSimpleClientset_def by (rule reachable.created)

theorem seeded_objects_found_witness:
  "fst (ri_Get (FakeDataVolumes ''ns'') ''pvc-a'' seedFake) = Ok (Some seedDV, None)"
  using seeded_objects_found [of seedLib "[ODV seedDV]" seedFake _ _ seedDV] seedFake_made
  by (simp add: seedDV_def)

theorem fake_store_consistent_witness:
  "map_of (tr_objects (fk_tracker seedFake)) ((''cdi.kubevirt.io'', ''v1beta1'', ''datavolumes''), ''ns'', ''pvc-a'') =
     Some (ODV seedDV) \<and> nsName (ODV seedDV) = (''ns'', ''pvc-a'')"
proof -
  have "map_of (tr_objects (fk_tracker seedFake)) ((''cdi.kubevirt.io'', ''v1beta1'', ''datavolumes''), ''ns'', ''pvc-a'') =
      Some (ODV seedDV)" unfolding seedFake_def by code_simp
  with fake_store_consistent [OF seedFake_reachable] show ?thesis by blast
qed

theorem fake_delete_collection_noop_witness:
  "fst (fake_DeleteCollection (fakeDataVolume ''ns'') zero_ListOptions seedFake) = Ok None \<and>
   tr_objects (fk_tracker (snd (fake_DeleteCollection (fakeDataVolume ''ns'') zero_ListOptions seedFake))) \<noteq> []"
proof -
  have "tr_objects seedTracker \<noteq> []" by code_simp
  with fake_delete_collection_noop [OF seedFake_reachable, of "fakeDataVolume ''ns''" zero_ListOptions] show ?thesis
    by (simp add: seedFake_def)
qed


end
