(* ===== verification/Permissions.thy ===== *)
theory Permissions
  imports Sample_Cluster Typed_Clients
begin

text \<open>
  The permissions the controller needs in the infra cluster.  An API server authorises a request by the
  API group, the resource (with its subresource) and the verb that it reads off the URL and the method;
  \<open>needs\<close> writes down that documented rule.  Every request of the controller needs one of the permissions
  of \<open>driver_permissions\<close>; the role that the repository ships for the driver's account grants all of them
  but two.
\<close>

section \<open>What a request needs\<close>

datatype permission = Resource string string string | NonResource string

text \<open>
  The verb of a request; it depends on whether the request names an object.  A third part after the
  resource and the name is the subresource.
\<close>

primrec verb_name :: "verb \<Rightarrow> bool \<Rightarrow> string" where
  "verb_name GET named = (if named then ''get'' else ''list'')"
| "verb_name POST named = ''create''"
| "verb_name PUT named = ''update''"
| "verb_name PATCH named = ''patch''"
| "verb_name DELETE named = (if named then ''delete'' else ''deletecollection'')"

fun resolve :: "string \<Rightarrow> verb \<Rightarrow> string \<Rightarrow> string list \<Rightarrow> permission" where
  "resolve g v r [] = Resource g r (verb_name v False)"
| "resolve g v r [n] = Resource g r (verb_name v True)"
| "resolve g v r (n # s # _) = Resource g (r @ ''/'' @ s) (verb_name v True)"

definition request_info :: "string \<Rightarrow> verb \<Rightarrow> string list \<Rightarrow> permission" where
  "request_info g v parts =
     (let qs = (if hd parts = ''namespaces'' \<and> 2 < length parts then drop 2 parts else parts)
      in resolve g v (hd qs) (tl qs))"

definition needs :: "rest_request \<Rightarrow> permission" where
  "needs rq = (let ps = tl (Split (URL_path rq) CHR ''/'') in
     if ps \<noteq> [] \<and> hd ps = ''api'' \<and> 2 < length ps then request_info '''' (rq_Verb rq) (drop 2 ps)
     else if ps \<noteq> [] \<and> hd ps = ''apis'' \<and> 3 < length ps then request_info (ps ! 1) (rq_Verb rq) (drop 3 ps)
     else NonResource (URL_path rq))"

section \<open>The permissions of the driver, and those of its account\<close>

definition driver_permissions :: "permission list" where
  "driver_permissions =
     [Resource ''kubevirt.io'' ''virtualmachines'' ''get'',
      Resource ''kubevirt.io'' ''virtualmachineinstances'' ''get'',
      Resource ''kubevirt.io'' ''virtualmachineinstances'' ''list'',
      Resource ''cdi.kubevirt.io'' ''datavolumes'' ''get'',
      Resource ''cdi.kubevirt.io'' ''datavolumes'' ''create'',
      Resource ''cdi.kubevirt.io'' ''datavolumes'' ''delete'',
      Resource ''snapshot.storage.k8s.io'' ''volumesnapshots'' ''get'',
      Resource ''snapshot.storage.k8s.io'' ''volumesnapshots'' ''list'',
      Resource ''snapshot.storage.k8s.io'' ''volumesnapshots'' ''create'',
      Resource ''snapshot.storage.k8s.io'' ''volumesnapshots'' ''delete'',
      Resource '''' ''persistentvolumeclaims'' ''get'',
      Resource '''' ''persistentvolumeclaims'' ''patch'',
      Resource '''' ''persistentvolumes'' ''get'',
      Resource ''subresources.kubevirt.io'' ''virtualmachines/addvolume'' ''update'',
      Resource ''subresources.kubevirt.io'' ''virtualmachines/removevolume'' ''update'',
      Resource ''subresources.kubevirt.io'' ''virtualmachineinstances/removevolume'' ''update'']"

text \<open>A rule of a role: API groups, resources and verbs; the rules of the role and of the cluster role.\<close>

type_synonym rule = "string list \<times> string list \<times> string list"

definition serviceAccountRules :: "rule list" where
  "serviceAccountRules =
     [([''cdi.kubevirt.io''], [''datavolumes''], [''get'', ''create'', ''delete'']),
      ([''kubevirt.io''], [''virtualmachineinstances'', ''virtualmachines''], [''list'', ''get'']),
      ([''subresources.kubevirt.io''], [''virtualmachines/addvolume'', ''virtualmachines/removevolume''], [''update'']),
      ([''snapshot.storage.k8s.io''], [''volumesnapshots''], [''get'', ''create'', ''delete'']),
      ([''''], [''persistentvolumeclaims''], [''get'', ''patch'']),
      ([''''], [''persistentvolumes''], [''get''])]"

primrec granted :: "rule list \<Rightarrow> permission \<Rightarrow> bool" where
  "granted rules (Resource g r v) =
     list_ex (\<lambda>(gs, rs, vs). g \<in> set gs \<and> r \<in> set rs \<and> v \<in> set vs) rules"
| "granted rules (NonResource p) = False"

section \<open>Lemmas\<close>

lemma needs_segments:
  assumes "URL_path rq = abs_path ps" and "ps \<noteq> []" and "list_all segment ps"
  shows "tl (Split (URL_path rq) CHR ''/'') = ps"
  using assms by (auto simp: abs_path_def list_all_iff segment_def intro: Split_Join)

lemma request_info_scoped:
  assumes "r \<in> set resourceNames"
  shows "request_info g v (scopeSegments rq @ r # os) = resolve g v r os"
  using resourceName(3) [OF assms]
  by (auto simp: request_info_def scopeSegments_def split: option.splits)

lemma needs_typed:
  assumes "typedRequest rq" and "build_error rq = None" and "rq_Path rq = abs_path ps" "ps \<noteq> []" "list_all segment ps"
  shows "tl (Split (URL_path rq) CHR ''/'') = ps @ scopeSegments rq @ rq_Resource rq # objectSegments rq"
proof (rule needs_segments)
  from assms(1) have "rq_Resource rq \<in> set resourceNames" by (simp add: typedRequest_def)
  then show "list_all segment (ps @ scopeSegments rq @ rq_Resource rq # objectSegments rq)"
    using built_segments(1) [OF assms(2)] assms(5) resourceName(1) by auto
qed (use URL_path_segments [OF assms] in simp_all)

text \<open>The groups of the typed requests.\<close>

lemma needs_group:
  assumes "typedRequest rq" and "build_error rq = None"
  shows "rq_Path rq = kubevirtPath \<Longrightarrow> needs rq = resolve ''kubevirt.io'' (rq_Verb rq) (rq_Resource rq) (objectSegments rq)"
    and "rq_Path rq = cdiPath \<Longrightarrow> needs rq = resolve ''cdi.kubevirt.io'' (rq_Verb rq) (rq_Resource rq) (objectSegments rq)"
    and "rq_Path rq = snapshotPath \<Longrightarrow>
      needs rq = resolve ''snapshot.storage.k8s.io'' (rq_Verb rq) (rq_Resource rq) (objectSegments rq)"
    and "rq_Path rq = corePath \<Longrightarrow> needs rq = resolve '''' (rq_Verb rq) (rq_Resource rq) (objectSegments rq)"
proof -
  from assms(1) have res: "rq_Resource rq \<in> set resourceNames" by (simp add: typedRequest_def)
  note parts = needs_typed [OF assms]
  show "rq_Path rq = kubevirtPath \<Longrightarrow> needs rq = resolve ''kubevirt.io'' (rq_Verb rq) (rq_Resource rq) (objectSegments rq)"
    using parts [of "[''apis'', ''kubevirt.io'', ''v1'']"]
    by (simp add: needs_def kubevirtPath_def abs_path_def segment_def request_info_scoped [OF res])
  show "rq_Path rq = cdiPath \<Longrightarrow> needs rq = resolve ''cdi.kubevirt.io'' (rq_Verb rq) (rq_Resource rq) (objectSegments rq)"
    using parts [of "[''apis'', ''cdi.kubevirt.io'', ''v1beta1'']"]
    by (simp add: needs_def cdiPath_def abs_path_def segment_def request_info_scoped [OF res])
  show "rq_Path rq = snapshotPath \<Longrightarrow>
      needs rq = resolve ''snapshot.storage.k8s.io'' (rq_Verb rq) (rq_Resource rq) (objectSegments rq)"
    using parts [of "[''apis'', ''snapshot.storage.k8s.io'', ''v1'']"]
    by (simp add: needs_def snapshotPath_def abs_path_def segment_def request_info_scoped [OF res])
  show "rq_Path rq = corePath \<Longrightarrow> needs rq = resolve '''' (rq_Verb rq) (rq_Resource rq) (objectSegments rq)"
    using parts [of "[''api'', ''v1'']"]
    by (simp add: needs_def corePath_def abs_path_def segment_def request_info_scoped [OF res])
qed

text \<open>The URLs that the client builds itself for the hot-plug subresources.\<close>

lemma needs_subresource:
  assumes "segment ns" "segment vm" "segment sub"
  shows "needs (put_request (vmSubresourceURL ns vm sub) body) =
      Resource ''subresources.kubevirt.io'' (''virtualmachines/'' @ sub) ''update''"
    and "needs (put_request (vmiSubresourceURL ns vm sub) body) =
      Resource ''subresources.kubevirt.io'' (''virtualmachineinstances/'' @ sub) ''update''"
proof -
  have url: "URL_path (put_request uri body) = uri" for uri
    by (simp add: put_request_def get_request_def URL_path_def pathJoin_def)
  let ?ps = "\<lambda>r. [''apis'', ''subresources.kubevirt.io'', ''v1'', ''namespaces'', ns, r, vm, sub]"
  have seg: "list_all segment (?ps ''virtualmachines'')" "list_all segment (?ps ''virtualmachineinstances'')"
    using assms by (simp_all add: segment_def)
  have "vmSubresourceURL ns vm sub = abs_path (?ps ''virtualmachines'')"
    "vmiSubresourceURL ns vm sub = abs_path (?ps ''virtualmachineinstances'')"
    by (simp_all add: vmSubresourceURL_def vmiSubresourceURL_def abs_path_def)
  then have ps: "tl (Split (URL_path (put_request (vmSubresourceURL ns vm sub) body)) CHR ''/'') = ?ps ''virtualmachines''"
    "tl (Split (URL_path (put_request (vmiSubresourceURL ns vm sub) body)) CHR ''/'') = ?ps ''virtualmachineinstances''"
    using seg by (intro needs_segments; simp add: url)+
  show "needs (put_request (vmSubresourceURL ns vm sub) body) =
      Resource ''subresources.kubevirt.io'' (''virtualmachines/'' @ sub) ''update''"
    unfolding needs_def ps by (simp add: request_info_def put_request_def)
  show "needs (put_request (vmiSubresourceURL ns vm sub) body) =
      Resource ''subresources.kubevirt.io'' (''virtualmachineinstances/'' @ sub) ''update''"
    unfolding needs_def ps by (simp add: request_info_def put_request_def)
qed

text \<open>A VM or VMI that the log shows has a name that is a segment of a path.\<close>

definition sent :: "exchange list \<Rightarrow> bool" where
  "sent h \<longleftrightarrow> (\<forall>x \<in> set h. request_error (fst x) = None)"

lemma built: "request_error rq = None \<Longrightarrow> build_error rq = None"
  by (simp add: request_error_def split: option.splits)

lemma named_segment:
  assumes "request_error (get_request h p ns r (Some n)) = None"
  shows "segment n"
  using built_segments(1) [OF built [OF assms]] by (simp add: objectSegments_def)

lemma sent_vm:
  assumes "sent h" and "(get_vm po vm, a) \<in> set h \<or> (get_vmi po vm, a) \<in> set h"
  shows "segment vm"
proof -
  from assms have "request_error (get_vm po vm) = None \<or> request_error (get_vmi po vm) = None"
    by (auto simp: sent_def)
  then show ?thesis by (auto simp: get_vm_def get_vmi_def intro: named_segment)
qed

lemma subresource_permission:
  assumes "segment ns" "segment vm"
  shows "needs (put_request (vmSubresourceURL ns vm ''addvolume'') body) \<in> set driver_permissions"
    and "needs (put_request (vmSubresourceURL ns vm ''removevolume'') body) \<in> set driver_permissions"
    and "needs (put_request (vmiSubresourceURL ns vm ''removevolume'') body) \<in> set driver_permissions"
proof -
  have "segment ''addvolume''" "segment ''removevolume''" by (simp_all add: segment_def)
  note needs = needs_subresource [OF assms this(1)] needs_subresource [OF assms this(2)]
  show "needs (put_request (vmSubresourceURL ns vm ''addvolume'') body) \<in> set driver_permissions"
    and "needs (put_request (vmSubresourceURL ns vm ''removevolume'') body) \<in> set driver_permissions"
    and "needs (put_request (vmiSubresourceURL ns vm ''removevolume'') body) \<in> set driver_permissions"
    unfolding needs by (simp_all add: driver_permissions_def)
qed

lemma typed_resources:
  "typedRequest rq \<longleftrightarrow> rq_Path rq \<in> set groupPaths \<and> rq_Resource rq \<in> set resourceNames"
  if "rq_Subresources rq = []"
  using that by (simp add: typedRequest_def)

lemma allowed_needs:
  assumes "allowed po h rq" and "request_error rq = None" and "rq_Host rq = Infra"
    and "segment (po_Namespace po)" and "sent h"
  shows "needs rq \<in> set driver_permissions"
  using assms(1)
proof cases
  case get_namespaced
  have "rq_Path rq \<in> set groupPaths \<and> rq_Resource rq \<in> set resourceNames"
    using get_namespaced(4) by (auto simp: readable_def groupPaths_def resourceNames_def)
  then have "typedRequest rq" using get_namespaced(5) by (simp add: typed_resources)
  note group = needs_group [OF this built [OF assms(2)]]
  from get_namespaced(1,4,5) show ?thesis
    by (cases "rq_Name rq") (auto simp: readable_def group objectSegments_def driver_permissions_def)
next
  case get_pv
  then have "typedRequest rq" by (simp add: typed_resources groupPaths_def resourceNames_def)
  from needs_group(4) [OF this built [OF assms(2)]] get_pv show ?thesis
    by (auto simp: objectSegments_def driver_permissions_def)
next
  case get_classes
  with assms(3) show ?thesis by simp
next
  case (create_dv dv)
  then have "typedRequest rq" by (simp add: typed_resources groupPaths_def resourceNames_def)
  from needs_group(2) [OF this built [OF assms(2)]] create_dv show ?thesis
    by (simp add: objectSegments_def driver_permissions_def)
next
  case (delete_dv asked dv)
  then have "typedRequest rq" by (simp add: get_dv_def typed_resources groupPaths_def resourceNames_def)
  from needs_group(2) [OF this built [OF assms(2)]] delete_dv show ?thesis
    by (simp add: get_dv_def objectSegments_def driver_permissions_def)
next
  case (create_snapshot s claim)
  then have "typedRequest rq" by (simp add: typed_resources groupPaths_def resourceNames_def)
  from needs_group(3) [OF this built [OF assms(2)]] create_snapshot show ?thesis
    by (simp add: objectSegments_def driver_permissions_def)
next
  case (delete_snapshot asked s)
  then have "typedRequest rq" by (simp add: typed_resources groupPaths_def resourceNames_def)
  from needs_group(3) [OF this built [OF assms(2)]] delete_snapshot show ?thesis
    by (simp add: objectSegments_def driver_permissions_def)
next
  case (expand_pvc claim pvc desired)
  then have "typedRequest rq" by (simp add: get_pvc_def typed_resources groupPaths_def resourceNames_def)
  from needs_group(4) [OF this built [OF assms(2)]] expand_pvc show ?thesis
    by (simp add: get_pvc_def objectSegments_def driver_permissions_def)
next
  case (add_volume opts vm)
  then have "segment vm" using assms(5) by (auto simp: seen_vm_def intro: sent_vm)
  with add_volume assms(4) show ?thesis by (simp add: subresource_permission)
next
  case (remove_volume_vm vm v name)
  then have "segment vm" using assms(5) last_in_set by (fastforce intro: sent_vm)
  with remove_volume_vm assms(4) show ?thesis by (simp add: subresource_permission)
next
  case (remove_volume_vmi vm vmi name)
  then have "segment vm" using assms(5) last_in_set by (fastforce intro: sent_vm)
  with remove_volume_vmi assms(4) show ?thesis by (simp add: subresource_permission)
qed

lemma guarded_needs:
  assumes "guarded po h l" and "segment (po_Namespace po)" and "sent h"
    and "x \<in> set l" and "rq_Host (fst x) = Infra"
  shows "needs (fst x) \<in> set driver_permissions"
  using assms
proof (induction l arbitrary: h)
  case (Cons y l)
  then have "sent (h @ [y])" by (simp add: sent_def)
  with Cons show ?case by (auto intro: allowed_needs)
qed simp

section \<open>The controller needs these permissions and no others\<close>

text \<open>C11 Whatever RPCs the controller serves from its start, in any order and number, and whatever the
  servers answer: each request that reaches the infra cluster needs one of sixteen permissions
  (\<open>driver_permissions\<close>), read off its URL and method the way the API server does.  In particular no name
  that comes from a request, a node ID or an object can change the resource that a URL refers to.\<close>

theorem permissions_needed:
  assumes "segment ns" and "w_log w = []"
    and "(rq, a) \<in> set (w_log (snd (serve (controllerOver c ns) rpcs w)))" and "rq_Host rq = Infra"
  shows "needs rq \<in> set driver_permissions"
proof -
  have "confined (client_policy c ns) w (snd (serve (controllerOver c ns) rpcs w))"
    using ctl.serve_conf [of c ns rpcs] by (simp add: keeps_def)
  then have "guarded (client_policy c ns) [] (w_log (snd (serve (controllerOver c ns) rpcs w)))"
    using assms(2) by (auto simp: confined_def)
  from guarded_needs [OF this _ _ assms(3)] assms(1,4) show ?thesis by (simp add: sent_def)
qed

definition sampleSent :: "exchange list" where
  "sampleSent = w_log (snd (serve (controllerOver sampleClient ''ns'')
     [RpcPublishVolume (Some samplePublish)] (sampleWorld sampleCluster)))"

theorem permissions_needed_witness:
  "needs (fst (sampleSent ! 5)) = Resource ''subresources.kubevirt.io'' ''virtualmachines/addvolume'' ''update'' \<and>
   needs (fst (sampleSent ! 5)) \<in> set driver_permissions"
proof -
  have seg: "segment ''ns''" and start: "w_log (sampleWorld sampleCluster) = []"
    by (simp_all add: segment_def sampleWorld_def)
  have "map (\<lambda>x. (needs (fst x), rq_Host (fst x))) (take 1 (drop 5 sampleSent)) =
      [(Resource ''subresources.kubevirt.io'' ''virtualmachines/addvolume'' ''update'', Infra)]"
    by code_simp
  then have len: "5 < length sampleSent" and host: "rq_Host (fst (sampleSent ! 5)) = Infra"
    and shown: "needs (fst (sampleSent ! 5)) = Resource ''subresources.kubevirt.io'' ''virtualmachines/addvolume'' ''update''"
    by (cases "drop 5 sampleSent"; fastforce simp: nth_via_drop dest: arg_cong [of _ _ length])+
  have "(fst (sampleSent ! 5), snd (sampleSent ! 5)) \<in> set sampleSent" using len by simp
  from permissions_needed [OF seg start this [unfolded sampleSent_def], folded sampleSent_def, OF host] shown
  show ?thesis by blast
qed

section \<open>The role shipped for the driver's account\<close>

text \<open>A server that refuses the requests for which the account has no permission.\<close>

definition enforces :: "rule list \<Rightarrow> 'e runtime \<Rightarrow> bool" where
  "enforces rules rt \<longleftrightarrow> (\<forall>rq e. rq_Host rq = Infra \<longrightarrow> \<not> granted rules (needs rq) \<longrightarrow>
     (\<exists>err. fst (rt_serve rt rq e) = Inl err))"

lemma rest_do_refused:
  assumes "enforces rules rt" and "rq_Host rq = Infra"
    and "request_error rq = None \<Longrightarrow> \<not> granted rules (needs rq)"
  shows "\<exists>err. fst (rest_do rt rq w) = Ok (Inl err)"
proof (cases "request_error rq")
  case None
  with assms(3) obtain err where "fst (rt_serve rt rq (w_env w)) = Inl err"
    using assms(1,2) by (auto simp: enforces_def)
  with None show ?thesis by (auto simp: rest_do_def split: prod.splits)
qed (simp add: rest_do_def)

lemma list_snapshots_refused:
  assumes "enforces serviceAccountRules rt"
  shows "\<exists>p e. fst (VolumeSnapshots_List rt ns opts w) = Ok (p, Some e)"
proof -
  let ?rq = "list_request Infra snapshotPath (Some ns) ''volumesnapshots'' opts"
  have "\<not> granted serviceAccountRules (needs ?rq)" if "request_error ?rq = None"
  proof -
    have "typedRequest ?rq" by (simp add: list_request_def typed_resources groupPaths_def resourceNames_def)
    from needs_group(3) [OF this built [OF that]] show ?thesis
      by (simp add: list_request_def objectSegments_def serviceAccountRules_def)
  qed
  then obtain err where "fst (rest_do rt ?rq w) = Ok (Inl err)"
    using rest_do_refused [OF assms, of ?rq] by (auto simp: list_request_def)
  then show ?thesis
    by (auto simp: VolumeSnapshots_List_def typed_get_def bindG_def Into_def split: prod.splits)
qed

text \<open>C12 The role that the repository ships for the driver's account in the infra cluster grants all that
  the controller needs, except two permissions: to list snapshots, and to unplug a volume from an instance
  (VMI).  On a server that enforces the role, listing snapshots without a snapshot ID fails for every
  request, and so does every unplugging from an instance, which is how a volume that is no longer in the
  specification of the VM is detached.\<close>

theorem role_refuses:
  assumes "enforces serviceAccountRules (cl_rt c)" and "segment ns" and "segment vm"
    and "lsr_SnapshotId req = ''''"
  shows "filter (\<lambda>p. \<not> granted serviceAccountRules p) driver_permissions =
      [Resource ''snapshot.storage.k8s.io'' ''volumesnapshots'' ''list'',
       Resource ''subresources.kubevirt.io'' ''virtualmachineinstances/removevolume'' ''update''] \<and>
    (\<exists>e. fst (ListSnapshots (controllerOver c ns) (Some req) w) = Ok (None, Some e)) \<and>
    (\<exists>e. fst (RemoveVolumeFromVMI c ns vm opts w) = Ok (Some e))"
proof (intro conjI)
  show "filter (\<lambda>p. \<not> granted serviceAccountRules p) driver_permissions =
      [Resource ''snapshot.storage.k8s.io'' ''volumesnapshots'' ''list'',
       Resource ''subresources.kubevirt.io'' ''virtualmachineinstances/removevolume'' ''update'']"
    by code_simp
  have "\<exists>p e. fst (ListVolumeSnapshots c ns w) = Ok (p, Some e)"
    using list_snapshots_refused [OF assms(1)] by (auto simp: ListVolumeSnapshots_def split: option.splits)
  then show "\<exists>e. fst (ListSnapshots (controllerOver c ns) (Some req) w) = Ok (None, Some e)"
    using assms(4) by (auto simp: ListSnapshots_def bindG_def split: prod.splits)
  let ?rq = "put_request (vmiSubresourceURL ns vm ''removevolume'') (BodyRemoveVolume opts)"
  have "segment ''removevolume''" by (simp add: segment_def)
  from needs_subresource(2) [OF assms(2,3) this] have "\<not> granted serviceAccountRules (needs ?rq)"
    by (simp add: serviceAccountRules_def)
  then obtain err where "fst (rest_do (cl_rt c) ?rq w) = Ok (Inl err)"
    using rest_do_refused [OF assms(1), of ?rq] by (auto simp: put_request_def)
  then show "\<exists>e. fst (RemoveVolumeFromVMI c ns vm opts w) = Ok (Some e)"
    by (auto simp: RemoveVolumeFromVMI_def bindG_def Error_of_def split: prod.splits)
qed

definition apiForbidden :: gerr where
  "apiForbidden = ApiStatus ''Forbidden'' 403 ''forbidden''"

definition roleClient :: "cluster client" where
  "roleClient = sampleClient\<lparr>cl_rt := (sampleRuntime ''ns'')\<lparr>rt_serve := \<lambda>rq e.
     if rq_Host rq = Infra \<and> \<not> granted serviceAccountRules (needs rq) then (Inl apiForbidden, e)
     else rt_serve (sampleRuntime ''ns'') rq e\<rparr>\<rparr>"

theorem role_refuses_witness:
  "fst (ListSnapshots (controllerOver roleClient ''ns'') (Some (sampleList 0)) (sampleWorld sampleCluster)) =
     Ok (None, Some apiForbidden) \<and>
   (\<exists>e. fst (ListSnapshots (controllerOver roleClient ''ns'') (Some (sampleList 0)) (sampleWorld sampleCluster)) =
     Ok (None, Some e)) \<and>
   (\<exists>e. fst (RemoveVolumeFromVMI roleClient ''ns'' ''vm1'' \<lparr>rvo_Name = ''pvc-a''\<rparr> (sampleWorld sampleCluster)) = Ok (Some e))"
proof -
  have enf: "enforces serviceAccountRules (cl_rt roleClient)" by (auto simp: enforces_def roleClient_def)
  have seg: "segment ''ns''" "segment ''vm1''" by (simp_all add: segment_def)
  have id: "lsr_SnapshotId (sampleList 0) = ''''" by (simp add: sampleList_def)
  have "fst (ListSnapshots (controllerOver roleClient ''ns'') (Some (sampleList 0)) (sampleWorld sampleCluster)) =
     Ok (None, Some apiForbidden)" by code_simp
  with role_refuses [OF enf seg id, of "sampleWorld sampleCluster" "\<lparr>rvo_Name = ''pvc-a''\<rparr>"] show ?thesis
    by blast
qed

end
