(* ===== verification/Embedded_Manifests.thy ===== *)
theory Embedded_Manifests
  imports Go_Strings
begin

text \<open>
  The files that \<open>pkg/generated/bindata.go\<close> embeds in the program: each variable \<open>_deploy...\<close> of type
  \<open>[]byte\<close>, line by line.  Quotes, backslashes and back-quotes, and the bytes of characters beyond ASCII, are
  written as \<open>CHR\<close> codes.
\<close>

definition unlines :: "string list \<Rightarrow> string" where
  "unlines ls = concat (map (\<lambda>l. l @ [CHR 0x0A]) ls)"

definition bytes_deployControllerInfraBaseDeployYaml :: string where
  "bytes_deployControllerInfraBaseDeployYaml = unlines
    [''kind: Deployment'',
     ''apiVersion: apps/v1'',
     ''metadata:'',
     ''  name: kubevirt-csi-controller'',
     ''  namespace: kubevirt-csi-driver'',
     ''  labels:'',
     ''    app: kubevirt-csi-driver'',
     ''spec:'',
     ''  replicas: 1'',
     ''  selector:'',
     ''    matchLabels:'',
     ''      app: kubevirt-csi-driver'',
     ''  template:'',
     ''    metadata:'',
     ''      labels:'',
     ''        app: kubevirt-csi-driver'',
     ''    spec:'',
     ''      serviceAccount: kubevirt-csi'',
     ''      priorityClassName: system-cluster-critical'',
     ''      nodeSelector:'',
     ''        node-role.kubernetes.io/control-plane: '' @ [CHR 0x22, CHR 0x22],
     ''      tolerations:'',
     ''        - key: CriticalAddonsOnly'',
     ''          operator: Exists'',
     ''        - key: node-role.kubernetes.io/master'',
     ''          operator: Exists'',
     ''          effect: '' @ [CHR 0x22] @ ''NoSchedule'' @ [CHR 0x22],
     ''      containers:'',
     ''        - name: csi-driver'',
     ''          imagePullPolicy: Always'',
     ''          image: quay.io/kubevirt/kubevirt-csi-driver:latest'',
     ''          args:'',
     ''            - '' @ [CHR 0x22] @ ''--endpoint=$(CSI_ENDPOINT)'' @ [CHR 0x22],
     ''            - '' @ [CHR 0x22] @ ''--infra-cluster-namespace=$(INFRACLUSTER_NAMESPACE)'' @ [CHR 0x22],
     ''            - '' @ [CHR 0x22] @ ''--infra-cluster-labels=$(INFRACLUSTER_LABELS)'' @ [CHR 0x22],
     ''            - '' @ [CHR 0x22] @ ''--tenant-cluster-kubeconfig=/var/run/secrets/tenantcluster/value'' @ [CHR 0x22],
     ''            - '' @ [CHR 0x22] @ ''--run-node-service=false'' @ [CHR 0x22],
     ''            - '' @ [CHR 0x22] @ ''--run-controller-service=true'' @ [CHR 0x22],
     ''            - '' @ [CHR 0x22] @ ''--v=5'' @ [CHR 0x22],
     ''          ports:'',
     ''            - name: healthz'',
     ''              containerPort: 10301'',
     ''              protocol: TCP'',
     ''          env:'',
     ''            - name: CSI_ENDPOINT'',
     ''              value: unix:///var/lib/csi/sockets/pluginproxy/csi.sock'',
     ''            - name: KUBE_NODE_NAME'',
     ''              valueFrom:'',
     ''                fieldRef:'',
     ''                  fieldPath: spec.nodeName'',
     ''            - name: INFRACLUSTER_NAMESPACE'',
     ''              valueFrom:'',
     ''                configMapKeyRef:'',
     ''                  name: driver-config'',
     ''                  key: infraClusterNamespace'',
     ''            - name: INFRACLUSTER_LABELS'',
     ''              valueFrom:'',
     ''                configMapKeyRef:'',
     ''                  name: driver-config'',
     ''                  key: infraClusterLabels'',
     ''            - name: INFRA_STORAGE_CLASS_ENFORCEMENT'',
     ''              valueFrom:'',
     ''                configMapKeyRef:'',
     ''                  name: driver-config'',
     ''                  key: infraStorageClassEnforcement'',
     ''                  optional: true'',
     ''          volumeMounts:'',
     ''            - name: socket-dir'',
     ''              mountPath: /var/lib/csi/sockets/pluginproxy/'',
     ''            - name: tenantcluster'',
     ''              mountPath: '' @ [CHR 0x22] @ ''/var/run/secrets/tenantcluster'' @ [CHR 0x22],
     ''          resources:'',
     ''            requests:'',
     ''              memory: 50Mi'',
     ''              cpu: 10m'',
     ''        - name: csi-provisioner'',
     ''          image: quay.io/openshift/origin-csi-external-provisioner:latest'',
     ''          args:'',
     ''            - '' @ [CHR 0x22] @ ''--csi-address=$(ADDRESS)'' @ [CHR 0x22],
     ''            - '' @ [CHR 0x22] @ ''--default-fstype=ext4'' @ [CHR 0x22],
     ''            - '' @ [CHR 0x22] @ ''--kubeconfig=/var/run/secrets/tenantcluster/value'' @ [CHR 0x22],
     ''            - '' @ [CHR 0x22] @ ''--v=5'' @ [CHR 0x22],
     ''            - '' @ [CHR 0x22] @ ''--timeout=3m'' @ [CHR 0x22],
     ''            - '' @ [CHR 0x22] @ ''--retry-interval-max=1m'' @ [CHR 0x22],
     ''          env:'',
     ''            - name: ADDRESS'',
     ''              value: /var/lib/csi/sockets/pluginproxy/csi.sock'',
     ''          volumeMounts:'',
     ''            - name: socket-dir'',
     ''              mountPath: /var/lib/csi/sockets/pluginproxy/'',
     ''            - name: tenantcluster'',
     ''              mountPath: '' @ [CHR 0x22] @ ''/var/run/secrets/tenantcluster'' @ [CHR 0x22],
     ''        - name: csi-attacher'',
     ''          image: quay.io/openshift/origin-csi-external-attacher:latest'',
     ''          args:'',
     ''            - '' @ [CHR 0x22] @ ''--csi-address=$(ADDRESS)'' @ [CHR 0x22],
     ''            - '' @ [CHR 0x22] @ ''--kubeconfig=/var/run/secrets/tenantcluster/value'' @ [CHR 0x22],
     ''            - '' @ [CHR 0x22] @ ''--v=5'' @ [CHR 0x22],
     ''            - '' @ [CHR 0x22] @ ''--timeout=3m'' @ [CHR 0x22],
     ''            - '' @ [CHR 0x22] @ ''--retry-interval-max=1m'' @ [CHR 0x22],
     ''          env:'',
     ''            - name: ADDRESS'',
     ''              value: /var/lib/csi/sockets/pluginproxy/csi.sock'',
     ''          volumeMounts:'',
     ''            - name: socket-dir'',
     ''              mountPath: /var/lib/csi/sockets/pluginproxy/'',
     ''            - name: tenantcluster'',
     ''              mountPath: '' @ [CHR 0x22] @ ''/var/run/secrets/tenantcluster'' @ [CHR 0x22],
     ''          resources:'',
     ''            requests:'',
     ''              memory: 50Mi'',
     ''              cpu: 10m'',
     ''        - name: csi-liveness-probe'',
     ''          image: quay.io/openshift/origin-csi-livenessprobe:latest'',
     ''          args:'',
     ''            - '' @ [CHR 0x22] @ ''--csi-address=/csi/csi.sock'' @ [CHR 0x22],
     ''            - '' @ [CHR 0x22] @ ''--probe-timeout=3s'' @ [CHR 0x22],
     ''            - '' @ [CHR 0x22] @ ''--health-port=10301'' @ [CHR 0x22],
     ''          volumeMounts:'',
     ''            - name: socket-dir'',
     ''              mountPath: /csi'',
     ''            - name: tenantcluster'',
     ''              mountPath: '' @ [CHR 0x22] @ ''/var/run/secrets/tenantcluster'' @ [CHR 0x22],
     ''          resources:'',
     ''            requests:'',
     ''              memory: 50Mi'',
     ''              cpu: 10m'',
     ''        - name: csi-snapshotter'',
     ''          args:'',
     ''          - '' @ [CHR 0x22] @ ''--v=5'' @ [CHR 0x22],
     ''          - '' @ [CHR 0x22] @ ''--csi-address=/csi/csi.sock'' @ [CHR 0x22],
     ''          - '' @ [CHR 0x22] @ ''--kubeconfig=/var/run/secrets/tenantcluster/value'' @ [CHR 0x22],
     ''          image: k8s.gcr.io/sig-storage/csi-snapshotter:v4.2.1'',
     ''          imagePullPolicy: IfNotPresent'',
     ''          terminationMessagePath: /dev/termination-log'',
     ''          terminationMessagePolicy: File'',
     ''          volumeMounts:'',
     ''          - mountPath: /csi'',
     ''            name: socket-dir'',
     ''          - name: tenantcluster'',
     ''            mountPath: '' @ [CHR 0x22] @ ''/var/run/secrets/tenantcluster'' @ [CHR 0x22],
     ''          resources:'',
     ''            requests:'',
     ''              memory: 20Mi'',
     ''              cpu: 10m'',
     ''      volumes:'',
     ''        - name: socket-dir'',
     ''          emptyDir: {}'',
     ''        - name: tenantcluster'',
     ''          secret:'',
     ''            secretName: kvcluster-kubeconfig'']"

definition bytes_deployControllerInfraBaseKustomizationYaml :: string where
  "bytes_deployControllerInfraBaseKustomizationYaml = unlines
    [''commonLabels:'',
     ''  app: kubevirt-csi-driver'',
     ''resources:'',
     ''- deploy.yaml'']"

definition bytes_deployControllerInfraDevOverlayControllerYaml :: string where
  "bytes_deployControllerInfraDevOverlayControllerYaml = unlines
    [''kind: Deployment'',
     ''apiVersion: apps/v1'',
     ''metadata:'',
     ''  name: kubevirt-csi-controller'',
     ''  namespace: kubevirt-csi-driver'',
     ''  labels:'',
     ''    app: kubevirt-csi-driver'',
     ''spec:'',
     ''  template:'',
     ''    spec:'',
     ''      containers:'',
     ''        - name: csi-driver'',
     ''          image: registry:5000/kubevirt-csi-driver:latest'']"

definition bytes_deployControllerInfraDevOverlayInfraNamespaceConfigmapYaml :: string where
  "bytes_deployControllerInfraDevOverlayInfraNamespaceConfigmapYaml = unlines
    [''apiVersion: v1'',
     ''kind: ConfigMap'',
     ''metadata:'',
     ''  name: driver-config'',
     ''  namespace: kubevirt-csi-driver'',
     ''data:'',
     ''  infraClusterNamespace: kvcluster'',
     ''  infraClusterLabels: csi-driver/cluster=tenant'']"

definition bytes_deployControllerInfraDevOverlayKustomizationYaml :: string where
  "bytes_deployControllerInfraDevOverlayKustomizationYaml = unlines
    [''resources:'',
     ''- ../base'',
     ''- infra-namespace-configmap.yaml'',
     ''namespace: kvcluster'',
     ''patches:'',
     ''- path: controller.yaml'']"

definition bytes_deployControllerTenantBaseDeployYaml :: string where
  "bytes_deployControllerTenantBaseDeployYaml = unlines
    [''---'',
     ''kind: Deployment'',
     ''apiVersion: apps/v1'',
     ''metadata:'',
     ''  name: kubevirt-csi-controller'',
     ''  namespace: kubevirt-csi-driver'',
     ''spec:'',
     ''  replicas: 1'',
     ''  selector:'',
     ''    matchLabels:'',
     ''      app: kubevirt-csi-driver'',
     ''  template:'',
     ''    metadata:'',
     ''      labels:'',
     ''        app: kubevirt-csi-driver'',
     ''    spec:'',
     ''      serviceAccount: kubevirt-csi-controller-sa'',
     ''      priorityClassName: system-cluster-critical'',
     ''      nodeSelector:'',
     ''        node-role.kubernetes.io/control-plane: '' @ [CHR 0x22, CHR 0x22],
     ''      tolerations:'',
     ''        - key: CriticalAddonsOnly'',
     ''          operator: Exists'',
     ''        - key: node-role.kubernetes.io/master'',
     ''          operator: Exists'',
     ''          effect: '' @ [CHR 0x22] @ ''NoSchedule'' @ [CHR 0x22],
     ''        - key: node-role.kubernetes.io/control-plane'',
     ''          operator: Exists'',
     ''          effect: '' @ [CHR 0x22] @ ''NoSchedule'' @ [CHR 0x22],
     ''      containers:'',
     ''        - name: csi-driver'',
     ''          imagePullPolicy: Always'',
     ''          image: quay.io/kubevirt/kubevirt-csi-driver:latest'',
     ''          args:'',
     ''            - '' @ [CHR 0x22] @ ''--endpoint=$(CSI_ENDPOINT)'' @ [CHR 0x22],
     ''            - '' @ [CHR 0x22] @ ''--infra-cluster-namespace=$(INFRACLUSTER_NAMESPACE)'' @ [CHR 0x22],
     ''            - '' @ [CHR 0x22] @ ''--infra-cluster-kubeconfig=/var/run/secrets/infracluster/kubeconfig'' @ [CHR 0x22],
     ''            - '' @ [CHR 0x22] @ ''--infra-cluster-labels=$(INFRACLUSTER_LABELS)'' @ [CHR 0x22],
     ''            - --v=5'',
     ''          ports:'',
     ''            - name: healthz'',
     ''              containerPort: 10301'',
     ''              protocol: TCP'',
     ''          env:'',
     ''            - name: CSI_ENDPOINT'',
     ''              value: unix:///var/lib/csi/sockets/pluginproxy/csi.sock'',
     ''            - name: KUBE_NODE_NAME'',
     ''              valueFrom:'',
     ''                fieldRef:'',
     ''                  fieldPath: spec.nodeName'',
     ''            - name: INFRACLUSTER_NAMESPACE'',
     ''              valueFrom:'',
     ''                configMapKeyRef:'',
     ''                  name: driver-config'',
     ''                  key: infraClusterNamespace'',
     ''            - name: INFRACLUSTER_LABELS'',
     ''              valueFrom:'',
     ''                configMapKeyRef:'',
     ''                  name: driver-config'',
     ''                  key: infraClusterLabels'',
     ''            - name: INFRA_STORAGE_CLASS_ENFORCEMENT'',
     ''              valueFrom:'',
     ''                configMapKeyRef:'',
     ''                  name: driver-config'',
     ''                  key: infraStorageClassEnforcement'',
     ''                  optional: true'',
     ''          volumeMounts:'',
     ''            - name: socket-dir'',
     ''              mountPath: /var/lib/csi/sockets/pluginproxy/'',
     ''            - name: infracluster'',
     ''              mountPath: '' @ [CHR 0x22] @ ''/var/run/secrets/infracluster'' @ [CHR 0x22],
     ''          resources:'',
     ''            requests:'',
     ''              memory: 50Mi'',
     ''              cpu: 10m'',
     ''            limits:'',
     ''              memory: 500Mi'',
     ''              cpu: 250m'',
     ''        - name: csi-provisioner'',
     ''          image: quay.io/openshift/origin-csi-external-provisioner:latest'',
     ''          args:'',
     ''            - --csi-address=$(ADDRESS)'',
     ''            - --default-fstype=ext4'',
     ''            - --v=5'',
     ''          env:'',
     ''            - name: ADDRESS'',
     ''              value: /var/lib/csi/sockets/pluginproxy/csi.sock'',
     ''          volumeMounts:'',
     ''            - name: socket-dir'',
     ''              mountPath: /var/lib/csi/sockets/pluginproxy/'',
     ''          resources:'',
     ''            requests:'',
     ''              memory: 50Mi'',
     ''              cpu: 10m'',
     ''            limits:'',
     ''              memory: 500Mi'',
     ''              cpu: 250m'',
     ''        - name: csi-attacher'',
     ''          image: quay.io/openshift/origin-csi-external-attacher:latest'',
     ''          args:'',
     ''            - --csi-address=$(ADDRESS)'',
     ''            - --v=5'',
     ''          env:'',
     ''            - name: ADDRESS'',
     ''              value: /var/lib/csi/sockets/pluginproxy/csi.sock'',
     ''          volumeMounts:'',
     ''            - name: socket-dir'',
     ''              mountPath: /var/lib/csi/sockets/pluginproxy/'',
     ''          resources:'',
     ''            requests:'',
     ''              memory: 50Mi'',
     ''              cpu: 10m'',
     ''            limits:'',
     ''              memory: 500Mi'',
     ''              cpu: 250m'',
     ''        - name: csi-liveness-probe'',
     ''          image: quay.io/openshift/origin-csi-livenessprobe:latest'',
     ''          args:'',
     ''            - --csi-address=/csi/csi.sock'',
     ''            - --probe-timeout=3s'',
     ''            - --health-port=10301'',
     ''          volumeMounts:'',
     ''            - name: socket-dir'',
     ''              mountPath: /csi'',
     ''          resources:'',
     ''            requests:'',
     ''              memory: 50Mi'',
     ''              cpu: 10m'',
     ''            limits:'',
     ''              memory: 500Mi'',
     ''              cpu: 250m'',
     ''        - name: csi-snapshotter'',
     ''          args:'',
     ''          - --v=3'',
     ''          - --csi-address=/csi/csi.sock'',
     ''          image: k8s.gcr.io/sig-storage/csi-snapshotter:v4.2.1'',
     ''          imagePullPolicy: IfNotPresent'',
     ''          securityContext:'',
     ''            privileged: true'',
     ''          terminationMessagePath: /dev/termination-log'',
     ''          terminationMessagePolicy: File'',
     ''          volumeMounts:'',
     ''          - mountPath: /csi'',
     ''            name: socket-dir'',
     ''          resources:'',
     ''            requests:'',
     ''              memory: 20Mi'',
     ''              cpu: 10m'',
     ''            limits:'',
     ''              memory: 500Mi'',
     ''              cpu: 250m'',
     ''      volumes:'',
     ''        - name: socket-dir'',
     ''          emptyDir: {}'',
     ''        - name: infracluster'',
     ''          secret:'',
     ''            secretName: infra-cluster-credentials'',
     ''---'',
     ''kind: ClusterRoleBinding'',
     ''apiVersion: rbac.authorization.k8s.io/v1'',
     ''metadata:'',
     ''  name: csi-snapshotter-role'',
     ''subjects:'',
     ''  - kind: ServiceAccount'',
     ''    name: kubevirt-csi-controller-sa'',
     ''    namespace: kubevirt-csi-driver'',
     ''roleRef:'',
     ''  kind: ClusterRole'',
     ''  name: external-snapshotter-runner'',
     ''  apiGroup: rbac.authorization.k8s.io'']"

definition bytes_deployControllerTenantBaseKustomizationYaml :: string where
  "bytes_deployControllerTenantBaseKustomizationYaml = unlines
    [''commonLabels:'',
     ''  app: kubevirt-csi-driver'',
     ''resources:'',
     ''- deploy.yaml'']"

definition bytes_deployControllerTenantDevOverlayControllerYaml :: string where
  "bytes_deployControllerTenantDevOverlayControllerYaml = unlines
    [''kind: Deployment'',
     ''apiVersion: apps/v1'',
     ''metadata:'',
     ''  name: kubevirt-csi-controller'',
     ''  namespace: kubevirt-csi-driver'',
     ''  labels:'',
     ''    app: kubevirt-csi-driver'',
     ''spec:'',
     ''  template:'',
     ''    spec:'',
     ''      containers:'',
     ''        - name: csi-driver'',
     ''          image: 192.168.66.2:5000/kubevirt-csi-driver:latest'']"

definition bytes_deployControllerTenantDevOverlayKustomizationYaml :: string where
  "bytes_deployControllerTenantDevOverlayKustomizationYaml = unlines
    [''resources:'',
     ''- ../base'',
     ''namespace: kubevirt-csi-driver'',
     ''patches:'',
     ''- path: controller.yaml'']"

definition bytes_deployExampleInfraclusterKubeconfigYaml :: string where
  "bytes_deployExampleInfraclusterKubeconfigYaml = unlines
    [''apiVersion: v1'',
     ''clusters:'',
     ''- cluster:'',
     ''    certificate-authority-data: <Base64 of CA. Take value from the kubeconfig used to create the ServiceAccount kubevirt-csi>'',
     ''    server: <URL of cluster. E.g.https://api.crc.testing:6443. Take value from the kubeconfig used to create the ServiceAccount kubevirt-csi>'',
     ''  name: infra-cluster'',
     ''contexts:'',
     ''- context:'',
     ''    cluster: infra-cluster'',
     ''    namespace: <optional, not used>'',
     ''    user: kubevirt-csi'',
     ''  name: only-context'',
     ''current-context: only-context'',
     ''kind: Config'',
     ''preferences: {}'',
     ''users:'',
     ''- name: kubevirt-csi'',
     ''  user:'',
     ''    token: <use token from secret in ServiceAccount kubevirt-csi. Decode it from base64 (base64 -d)>'']"

definition bytes_deployExampleKubevirtConfigYaml :: string where
  "bytes_deployExampleKubevirtConfigYaml = unlines
    [''apiVersion: v1'',
     ''kind: ConfigMap'',
     ''metadata:'',
     ''  name: kubevirt-config'',
     ''  namespace: kubevirt'',
     ''data:'',
     ''  default-network-interface: masquerade'',
     ''  feature-gates: DataVolumes,SRIOV,LiveMigration,CPUManager,CPUNodeDiscovery,Sidecar,Snapshot,HotplugVolumes'',
     ''  selinuxLauncherType: virt_launcher.process'',
     ''  smbios: |-'',
     ''    Family: KubeVirt'',
     ''    Manufacturer: KubeVirt'',
     ''    Product: None'']"

definition bytes_deployExampleKubevirtYaml :: string where
  "bytes_deployExampleKubevirtYaml = unlines
    [''apiVersion: kubevirt.io/v1alpha3'',
     ''kind: KubeVirt'',
     ''metadata:'',
     ''  name: kubevirt'',
     ''  namespace: kubevirt'',
     ''spec:'',
     ''  certificateRotateStrategy: {}'',
     ''  configuration:'',
     ''    developerConfiguration:'',
     ''      featureGates:'',
     ''      - DataVolumes'',
     ''      - SRIOV'',
     ''      - LiveMigration'',
     ''      - CPUManager'',
     ''      - CPUNodeDiscovery'',
     ''      - Sidecar'',
     ''      - Snapshot'',
     ''      - HotplugVolumes'',
     ''    network:'',
     ''      defaultNetworkInterface: masquerade'',
     ''    smbios:'',
     ''      family: KubeVirt'',
     ''      manufacturer: KubeVirt'',
     ''      product: None'',
     ''      selinuxLauncherType: virt_launcher.process'',
     ''  customizeComponents: {}'',
     ''  uninstallStrategy: BlockUninstallIfWorkloadsExist'']"

definition bytes_deployExampleStorageClaimYaml :: string where
  "bytes_deployExampleStorageClaimYaml = unlines
    [''kind: PersistentVolumeClaim'',
     ''apiVersion: v1'',
     ''metadata:'',
     ''  name: 1g-kubevirt-disk'',
     ''spec:'',
     ''  storageClassName: kubevirt'',
     ''  accessModes:'',
     ''    - ReadWriteOnce'',
     ''  resources:'',
     ''    requests:'',
     ''      storage: 1Gi'']"

definition bytes_deployExampleStorageclassYaml :: string where
  "bytes_deployExampleStorageclassYaml = unlines
    [''apiVersion: storage.k8s.io/v1'',
     ''kind: StorageClass'',
     ''metadata:'',
     ''  name: kubevirt'',
     ''  annotations:'',
     ''    storageclass.kubernetes.io/is-default-class: '' @ [CHR 0x22] @ ''true'' @ [CHR 0x22],
     ''provisioner: csi.kubevirt.io'',
     ''parameters:'',
     ''  infraStorageClassName: standard'',
     ''  bus: scsi'']"

definition bytes_deployExampleTestPodYaml :: string where
  "bytes_deployExampleTestPodYaml = unlines
    [''apiVersion: v1 '',
     ''kind: Pod '',
     ''metadata:'',
     ''  name: testpodwithcsi'',
     ''spec:'',
     ''  containers:'',
     ''  - image: busybox'',
     ''    name: testpodwithcsi'',
     ''    command: ['' @ [CHR 0x22] @ ''sh'' @ [CHR 0x22] @ '', '' @ [CHR 0x22] @ ''-c'' @ [CHR 0x22] @ '', '' @ [CHR 0x22] @ ''while true; do ls -la /opt; echo this file system was made availble using kubevirt-csi-driver; mktmp /opt/test-XXXXXX; sleep 1m; done'' @ [CHR 0x22] @ '']'',
     ''    imagePullPolicy: Always'',
     ''    volumeMounts:'',
     ''    - name: pv0002'',
     ''      mountPath: '' @ [CHR 0x22] @ ''/opt'' @ [CHR 0x22],
     ''  volumes:'',
     ''  - name: pv0002'',
     ''    persistentVolumeClaim:'',
     ''      claimName: 1g-kubevirt-disk'']"

definition bytes_deployInfraClusterServiceAccountYaml :: string where
  "bytes_deployInfraClusterServiceAccountYaml = unlines
    [''apiVersion: v1'',
     ''kind: ServiceAccount'',
     ''metadata:'',
     ''  name: kubevirt-csi'',
     ''---'',
     ''apiVersion: rbac.authorization.k8s.io/v1'',
     ''kind: Role'',
     ''metadata:'',
     ''  name: kubevirt-csi'',
     ''rules:'',
     ''- apiGroups: ['' @ [CHR 0x22] @ ''cdi.kubevirt.io'' @ [CHR 0x22] @ '']'',
     ''  resources: ['' @ [CHR 0x22] @ ''datavolumes'' @ [CHR 0x22] @ '']'',
     ''  verbs: ['' @ [CHR 0x22] @ ''get'' @ [CHR 0x22] @ '', '' @ [CHR 0x22] @ ''create'' @ [CHR 0x22] @ '', '' @ [CHR 0x22] @ ''delete'' @ [CHR 0x22] @ '']'',
     ''- apiGroups: ['' @ [CHR 0x22] @ ''kubevirt.io'' @ [CHR 0x22] @ '']'',
     ''  resources: ['' @ [CHR 0x22] @ ''virtualmachineinstances'' @ [CHR 0x22] @ '']'',
     ''  verbs: ['' @ [CHR 0x22] @ ''list'' @ [CHR 0x22] @ '', '' @ [CHR 0x22] @ ''get'' @ [CHR 0x22] @ '']'',
     ''- apiGroups: ['' @ [CHR 0x22] @ ''subresources.kubevirt.io'' @ [CHR 0x22] @ '']'',
     ''  resources: ['' @ [CHR 0x22] @ ''virtualmachineinstances/addvolume'' @ [CHR 0x22] @ '', '' @ [CHR 0x22] @ ''virtualmachineinstances/removevolume'' @ [CHR 0x22] @ '']'',
     ''  verbs: ['' @ [CHR 0x22] @ ''update'' @ [CHR 0x22] @ '']'',
     ''- apiGroups: ['' @ [CHR 0x22] @ ''snapshot.storage.k8s.io'' @ [CHR 0x22] @ '']'',
     ''  resources: ['' @ [CHR 0x22] @ ''volumesnapshots'' @ [CHR 0x22] @ '']'',
     ''  verbs: ['' @ [CHR 0x22] @ ''get'' @ [CHR 0x22] @ '', '' @ [CHR 0x22] @ ''create'' @ [CHR 0x22] @ '', '' @ [CHR 0x22] @ ''delete'' @ [CHR 0x22] @ '']'',
     ''- apiGroups: ['' @ [CHR 0x22, CHR 0x22] @ '']'',
     ''  resources: ['' @ [CHR 0x22] @ ''persistentvolumeclaims'' @ [CHR 0x22] @ '']'',
     ''  verbs: ['' @ [CHR 0x22] @ ''get'' @ [CHR 0x22] @ '']'',
     ''---'',
     ''apiVersion: rbac.authorization.k8s.io/v1'',
     ''kind: RoleBinding'',
     ''metadata:'',
     ''  name: kubevirt-csi'',
     ''roleRef:'',
     ''  apiGroup: rbac.authorization.k8s.io'',
     ''  kind: Role'',
     ''  name: kubevirt-csi'',
     ''subjects:'',
     ''- kind: ServiceAccount'',
     ''  name: kubevirt-csi'',
     '''',
     '''']"

definition bytes_deployTenantBaseDeployYaml :: string where
  "bytes_deployTenantBaseDeployYaml = unlines
    [''apiVersion: storage.k8s.io/v1'',
     ''kind: CSIDriver'',
     ''metadata:'',
     ''  name: csi.kubevirt.io'',
     ''spec:'',
     ''  attachRequired: true'',
     ''  podInfoOnMount: true'',
     ''  fsGroupPolicy: ReadWriteOnceWithFSType'',
     ''---'',
     ''apiVersion: v1'',
     ''kind: ServiceAccount'',
     ''metadata:'',
     ''  name: kubevirt-csi-controller-sa'',
     ''  namespace: kubevirt-csi-driver'',
     ''---'',
     ''apiVersion: rbac.authorization.k8s.io/v1'',
     ''kind: ClusterRole'',
     ''metadata:'',
     ''  name: kubevirt-csi-controller-cr'',
     ''rules:'',
     ''  - apiGroups: ['' @ [CHR 0x27, CHR 0x27] @ '']'',
     ''    resources: ['' @ [CHR 0x27] @ ''persistentvolumes'' @ [CHR 0x27] @ '']'',
     ''    verbs: ['' @ [CHR 0x27] @ ''create'' @ [CHR 0x27] @ '', '' @ [CHR 0x27] @ ''delete'' @ [CHR 0x27] @ '', '' @ [CHR 0x27] @ ''get'' @ [CHR 0x27] @ '', '' @ [CHR 0x27] @ ''list'' @ [CHR 0x27] @ '', '' @ [CHR 0x27] @ ''watch'' @ [CHR 0x27] @ '', '' @ [CHR 0x27] @ ''update'' @ [CHR 0x27] @ '', '' @ [CHR 0x27] @ ''patch'' @ [CHR 0x27] @ '']'',
     ''  - apiGroups: ['' @ [CHR 0x27, CHR 0x27] @ '']'',
     ''    resources: ['' @ [CHR 0x27] @ ''secrets'' @ [CHR 0x27] @ '']'',
     ''    verbs: ['' @ [CHR 0x27] @ ''get'' @ [CHR 0x27] @ '', '' @ [CHR 0x27] @ ''list'' @ [CHR 0x27] @ '']'',
     ''  - apiGroups: ['' @ [CHR 0x27, CHR 0x27] @ '']'',
     ''    resources: ['' @ [CHR 0x27] @ ''persistentvolumeclaims'' @ [CHR 0x27] @ '']'',
     ''    verbs: ['' @ [CHR 0x27] @ ''get'' @ [CHR 0x27] @ '', '' @ [CHR 0x27] @ ''list'' @ [CHR 0x27] @ '', '' @ [CHR 0x27] @ ''watch'' @ [CHR 0x27] @ '', '' @ [CHR 0x27] @ ''update'' @ [CHR 0x27] @ '']'',
     ''  - apiGroups: ['' @ [CHR 0x22, CHR 0x22] @ '']'',
     ''    resources: ['' @ [CHR 0x22] @ ''persistentvolumeclaims/status'' @ [CHR 0x22] @ '']'',
     ''    verbs: ['' @ [CHR 0x22] @ ''update'' @ [CHR 0x22] @ '', '' @ [CHR 0x22] @ ''patch'' @ [CHR 0x22] @ '']'',
     ''  - apiGroups: ['' @ [CHR 0x27, CHR 0x27] @ '']'',
     ''    resources: ['' @ [CHR 0x27] @ ''nodes'' @ [CHR 0x27] @ '']'',
     ''    verbs: ['' @ [CHR 0x27] @ ''get'' @ [CHR 0x27] @ '', '' @ [CHR 0x27] @ ''list'' @ [CHR 0x27] @ '', '' @ [CHR 0x27] @ ''watch'' @ [CHR 0x27] @ '']'',
     ''  - apiGroups: ['' @ [CHR 0x27] @ ''storage.k8s.io'' @ [CHR 0x27] @ '']'',
     ''    resources: ['' @ [CHR 0x27] @ ''volumeattachments'' @ [CHR 0x27] @ '']'',
     ''    verbs: ['' @ [CHR 0x27] @ ''get'' @ [CHR 0x27] @ '', '' @ [CHR 0x27] @ ''list'' @ [CHR 0x27] @ '', '' @ [CHR 0x27] @ ''watch'' @ [CHR 0x27] @ '', '' @ [CHR 0x27] @ ''update'' @ [CHR 0x27] @ '', '' @ [CHR 0x27] @ ''patch'' @ [CHR 0x27] @ '']'',
     ''  - apiGroups: ['' @ [CHR 0x27] @ ''storage.k8s.io'' @ [CHR 0x27] @ '']'',
     ''    resources: ['' @ [CHR 0x27] @ ''storageclasses'' @ [CHR 0x27] @ '']'',
     ''    verbs: ['' @ [CHR 0x27] @ ''get'' @ [CHR 0x27] @ '', '' @ [CHR 0x27] @ ''list'' @ [CHR 0x27] @ '', '' @ [CHR 0x27] @ ''watch'' @ [CHR 0x27] @ '']'',
     ''  - apiGroups: ['' @ [CHR 0x27] @ ''csi.storage.k8s.io'' @ [CHR 0x27] @ '']'',
     ''    resources: ['' @ [CHR 0x27] @ ''csidrivers'' @ [CHR 0x27] @ '']'',
     ''    verbs: ['' @ [CHR 0x27] @ ''get'' @ [CHR 0x27] @ '', '' @ [CHR 0x27] @ ''list'' @ [CHR 0x27] @ '', '' @ [CHR 0x27] @ ''watch'' @ [CHR 0x27] @ '', '' @ [CHR 0x27] @ ''update'' @ [CHR 0x27] @ '', '' @ [CHR 0x27] @ ''create'' @ [CHR 0x27] @ '']'',
     ''  - apiGroups: ['' @ [CHR 0x27, CHR 0x27] @ '']'',
     ''    resources: ['' @ [CHR 0x27] @ ''events'' @ [CHR 0x27] @ '']'',
     ''    verbs: ['' @ [CHR 0x27] @ ''list'' @ [CHR 0x27] @ '', '' @ [CHR 0x27] @ ''watch'' @ [CHR 0x27] @ '', '' @ [CHR 0x27] @ ''create'' @ [CHR 0x27] @ '', '' @ [CHR 0x27] @ ''update'' @ [CHR 0x27] @ '', '' @ [CHR 0x27] @ ''patch'' @ [CHR 0x27] @ '']'',
     ''  - apiGroups: ['' @ [CHR 0x22] @ ''snapshot.storage.k8s.io'' @ [CHR 0x22] @ '']'',
     ''    resources: ['' @ [CHR 0x22] @ ''volumesnapshotclasses'' @ [CHR 0x22] @ '']'',
     ''    verbs: ['' @ [CHR 0x22] @ ''get'' @ [CHR 0x22] @ '', '' @ [CHR 0x22] @ ''list'' @ [CHR 0x22] @ '', '' @ [CHR 0x22] @ ''watch'' @ [CHR 0x22] @ '']'',
     ''  - apiGroups: ['' @ [CHR 0x22] @ ''snapshot.storage.k8s.io'' @ [CHR 0x22] @ '']'',
     ''    resources: ['' @ [CHR 0x22] @ ''volumesnapshotcontents'' @ [CHR 0x22] @ '']'',
     ''    verbs: ['' @ [CHR 0x22] @ ''create'' @ [CHR 0x22] @ '', '' @ [CHR 0x22] @ ''get'' @ [CHR 0x22] @ '', '' @ [CHR 0x22] @ ''list'' @ [CHR 0x22] @ '', '' @ [CHR 0x22] @ ''watch'' @ [CHR 0x22] @ '', '' @ [CHR 0x22] @ ''update'' @ [CHR 0x22] @ '', '' @ [CHR 0x22] @ ''delete'' @ [CHR 0x22] @ '']'',
     ''  - apiGroups: ['' @ [CHR 0x22] @ ''snapshot.storage.k8s.io'' @ [CHR 0x22] @ '']'',
     ''    resources: ['' @ [CHR 0x22] @ ''volumesnapshots'' @ [CHR 0x22] @ '']'',
     ''    verbs: ['' @ [CHR 0x22] @ ''get'' @ [CHR 0x22] @ '', '' @ [CHR 0x22] @ ''list'' @ [CHR 0x22] @ '', '' @ [CHR 0x22] @ ''watch'' @ [CHR 0x22] @ '', '' @ [CHR 0x22] @ ''update'' @ [CHR 0x22] @ '']'',
     ''  - apiGroups: ['' @ [CHR 0x22] @ ''snapshot.storage.k8s.io'' @ [CHR 0x22] @ '']'',
     ''    resources: ['' @ [CHR 0x22] @ ''volumesnapshots/status'' @ [CHR 0x22] @ '']'',
     ''    verbs: ['' @ [CHR 0x22] @ ''update'' @ [CHR 0x22] @ '']'',
     ''  - apiGroups: [ '' @ [CHR 0x22] @ ''storage.k8s.io'' @ [CHR 0x22] @ '' ]'',
     ''    resources: [ '' @ [CHR 0x22] @ ''volumeattachments/status'' @ [CHR 0x22] @ '' ]'',
     ''    verbs: [ '' @ [CHR 0x22] @ ''get'' @ [CHR 0x22] @ '', '' @ [CHR 0x22] @ ''list'' @ [CHR 0x22] @ '', '' @ [CHR 0x22] @ ''watch'' @ [CHR 0x22] @ '', '' @ [CHR 0x22] @ ''update'' @ [CHR 0x22] @ '', '' @ [CHR 0x22] @ ''patch'' @ [CHR 0x22] @ '' ]'',
     ''  - apiGroups: ['' @ [CHR 0x22] @ ''storage.k8s.io'' @ [CHR 0x22] @ '']'',
     ''    resources: ['' @ [CHR 0x22] @ ''csinodes'' @ [CHR 0x22] @ '']'',
     ''    verbs: ['' @ [CHR 0x22] @ ''get'' @ [CHR 0x22] @ '', '' @ [CHR 0x22] @ ''list'' @ [CHR 0x22] @ '', '' @ [CHR 0x22] @ ''watch'' @ [CHR 0x22] @ '']'',
     ''  - apiGroups: ['' @ [CHR 0x22] @ ''security.openshift.io'' @ [CHR 0x22] @ '']'',
     ''    resources: ['' @ [CHR 0x22] @ ''securitycontextconstraints'' @ [CHR 0x22] @ '']'',
     ''    verbs: ['' @ [CHR 0x22] @ ''use'' @ [CHR 0x22] @ '']'',
     ''    resourceNames: ['' @ [CHR 0x22] @ ''privileged'' @ [CHR 0x22] @ '']'',
     ''---'',
     ''kind: ClusterRoleBinding'',
     ''apiVersion: rbac.authorization.k8s.io/v1'',
     ''metadata:'',
     ''  name: kubevirt-csi-controller-binding'',
     ''subjects:'',
     ''  - kind: ServiceAccount'',
     ''    name: kubevirt-csi-controller-sa'',
     ''    namespace: kubevirt-csi-driver'',
     ''roleRef:'',
     ''  kind: ClusterRole'',
     ''  name: kubevirt-csi-controller-cr'',
     ''  apiGroup: rbac.authorization.k8s.io'',
     ''---'',
     ''apiVersion: v1'',
     ''kind: ServiceAccount'',
     ''metadata:'',
     ''  name: kubevirt-csi-node-sa'',
     ''  namespace: kubevirt-csi-driver'',
     ''---'',
     ''apiVersion: v1'',
     ''kind: ServiceAccount'',
     ''metadata:'',
     ''  name: kubevirt-csi-snapshot-sa'',
     ''  namespace: kubevirt-csi-driver'',
     ''---'',
     ''apiVersion: rbac.authorization.k8s.io/v1'',
     ''kind: ClusterRole'',
     ''metadata:'',
     ''  name: kubevirt-csi-node-cr'',
     ''rules:'',
     ''  - apiGroups: ['' @ [CHR 0x22, CHR 0x22] @ '']'',
     ''    resources: ['' @ [CHR 0x22] @ ''persistentvolumes'' @ [CHR 0x22] @ '']'',
     ''    verbs: ['' @ [CHR 0x22] @ ''get'' @ [CHR 0x22] @ '', '' @ [CHR 0x22] @ ''list'' @ [CHR 0x22] @ '', '' @ [CHR 0x22] @ ''watch'' @ [CHR 0x22] @ '', '' @ [CHR 0x22] @ ''update'' @ [CHR 0x22] @ '', '' @ [CHR 0x22] @ ''create'' @ [CHR 0x22] @ '', '' @ [CHR 0x22] @ ''delete'' @ [CHR 0x22] @ '']'',
     ''  - apiGroups: ['' @ [CHR 0x22, CHR 0x22] @ '']'',
     ''    resources: ['' @ [CHR 0x22] @ ''persistentvolumeclaims'' @ [CHR 0x22] @ '']'',
     ''    verbs: ['' @ [CHR 0x22] @ ''get'' @ [CHR 0x22] @ '', '' @ [CHR 0x22] @ ''list'' @ [CHR 0x22] @ '', '' @ [CHR 0x22] @ ''watch'' @ [CHR 0x22] @ '', '' @ [CHR 0x22] @ ''update'' @ [CHR 0x22] @ '']'',
     ''  - apiGroups: ['' @ [CHR 0x22] @ ''storage.k8s.io'' @ [CHR 0x22] @ '']'',
     ''    resources: ['' @ [CHR 0x22] @ ''storageclasses'' @ [CHR 0x22] @ '']'',
     ''    verbs: ['' @ [CHR 0x22] @ ''get'' @ [CHR 0x22] @ '', '' @ [CHR 0x22] @ ''list'' @ [CHR 0x22] @ '', '' @ [CHR 0x22] @ ''watch'' @ [CHR 0x22] @ '']'',
     ''  - apiGroups: ['' @ [CHR 0x22, CHR 0x22] @ '']'',
     ''    resources: ['' @ [CHR 0x22] @ ''nodes'' @ [CHR 0x22] @ '']'',
     ''    verbs: ['' @ [CHR 0x22] @ ''get'' @ [CHR 0x22] @ '', '' @ [CHR 0x22] @ ''list'' @ [CHR 0x22] @ '', '' @ [CHR 0x22] @ ''watch'' @ [CHR 0x22] @ '', '' @ [CHR 0x22] @ ''update'' @ [CHR 0x22] @ '', '' @ [CHR 0x22] @ ''patch'' @ [CHR 0x22] @ '']'',
     ''  - apiGroups: ['' @ [CHR 0x22] @ ''csi.storage.k8s.io'' @ [CHR 0x22] @ '']'',
     ''    resources: ['' @ [CHR 0x22] @ ''csinodeinfos'' @ [CHR 0x22] @ '']'',
     ''    verbs: ['' @ [CHR 0x22] @ ''get'' @ [CHR 0x22] @ '', '' @ [CHR 0x22] @ ''list'' @ [CHR 0x22] @ '', '' @ [CHR 0x22] @ ''watch'' @ [CHR 0x22] @ '']'',
     ''  - apiGroups: ['' @ [CHR 0x22] @ ''storage.k8s.io'' @ [CHR 0x22] @ '']'',
     ''    resources: ['' @ [CHR 0x22] @ ''csinodes'' @ [CHR 0x22] @ '']'',
     ''    verbs: ['' @ [CHR 0x22] @ ''get'' @ [CHR 0x22] @ '', '' @ [CHR 0x22] @ ''list'' @ [CHR 0x22] @ '', '' @ [CHR 0x22] @ ''watch'' @ [CHR 0x22] @ '']'',
     ''  - apiGroups: ['' @ [CHR 0x22] @ ''storage.k8s.io'' @ [CHR 0x22] @ '']'',
     ''    resources: ['' @ [CHR 0x22] @ ''volumeattachments'' @ [CHR 0x22] @ '']'',
     ''    verbs: ['' @ [CHR 0x22] @ ''get'' @ [CHR 0x22] @ '', '' @ [CHR 0x22] @ ''list'' @ [CHR 0x22] @ '', '' @ [CHR 0x22] @ ''watch'' @ [CHR 0x22] @ '', '' @ [CHR 0x22] @ ''update'' @ [CHR 0x22] @ '']'',
     ''  - apiGroups: ['' @ [CHR 0x22] @ ''storage.k8s.io'' @ [CHR 0x22] @ '']'',
     ''    resources: ['' @ [CHR 0x22] @ ''volumeattachments/status'' @ [CHR 0x22] @ '']'',
     ''    verbs: ['' @ [CHR 0x22] @ ''get'' @ [CHR 0x22] @ '', '' @ [CHR 0x22] @ ''list'' @ [CHR 0x22] @ '', '' @ [CHR 0x22] @ ''watch'' @ [CHR 0x22] @ '', '' @ [CHR 0x22] @ ''update'' @ [CHR 0x22] @ '', '' @ [CHR 0x22] @ ''patch'' @ [CHR 0x22] @ '']'',
     ''  - apiGroups: ['' @ [CHR 0x22, CHR 0x22] @ '']'',
     ''    resources: ['' @ [CHR 0x22] @ ''events'' @ [CHR 0x22] @ '']'',
     ''    verbs: ['' @ [CHR 0x22] @ ''list'' @ [CHR 0x22] @ '', '' @ [CHR 0x22] @ ''watch'' @ [CHR 0x22] @ '', '' @ [CHR 0x22] @ ''create'' @ [CHR 0x22] @ '', '' @ [CHR 0x22] @ ''update'' @ [CHR 0x22] @ '', '' @ [CHR 0x22] @ ''patch'' @ [CHR 0x22] @ '']'',
     ''  - apiGroups: ['' @ [CHR 0x22] @ ''security.openshift.io'' @ [CHR 0x22] @ '']'',
     ''    resources: ['' @ [CHR 0x22] @ ''securitycontextconstraints'' @ [CHR 0x22] @ '']'',
     ''    verbs: ['' @ [CHR 0x22] @ ''use'' @ [CHR 0x22] @ '']'',
     ''    resourceNames: ['' @ [CHR 0x22] @ ''privileged'' @ [CHR 0x22] @ '']'',
     ''---'',
     ''kind: ClusterRole'',
     ''apiVersion: rbac.authorization.k8s.io/v1'',
     ''metadata:'',
     ''  name: external-snapshotter-runner'',
     ''rules:'',
     ''  - apiGroups: ['' @ [CHR 0x22, CHR 0x22] @ '']'',
     ''    resources: ['' @ [CHR 0x22] @ ''events'' @ [CHR 0x22] @ '']'',
     ''    verbs: ['' @ [CHR 0x22] @ ''list'' @ [CHR 0x22] @ '', '' @ [CHR 0x22] @ ''watch'' @ [CHR 0x22] @ '', '' @ [CHR 0x22] @ ''create'' @ [CHR 0x22] @ '', '' @ [CHR 0x22] @ ''update'' @ [CHR 0x22] @ '', '' @ [CHR 0x22] @ ''patch'' @ [CHR 0x22] @ '']'',
     ''  - apiGroups: ['' @ [CHR 0x22] @ ''snapshot.storage.k8s.io'' @ [CHR 0x22] @ '']'',
     ''    resources: ['' @ [CHR 0x22] @ ''volumesnapshotclasses'' @ [CHR 0x22] @ '']'',
     ''    verbs: ['' @ [CHR 0x22] @ ''get'' @ [CHR 0x22] @ '', '' @ [CHR 0x22] @ ''list'' @ [CHR 0x22] @ '', '' @ [CHR 0x22] @ ''watch'' @ [CHR 0x22] @ '']'',
     ''  - apiGroups: ['' @ [CHR 0x22] @ ''snapshot.storage.k8s.io'' @ [CHR 0x22] @ '']'',
     ''    resources: ['' @ [CHR 0x22] @ ''volumesnapshotcontents'' @ [CHR 0x22] @ '']'',
     ''    verbs: ['' @ [CHR 0x22] @ ''create'' @ [CHR 0x22] @ '', '' @ [CHR 0x22] @ ''get'' @ [CHR 0x22] @ '', '' @ [CHR 0x22] @ ''list'' @ [CHR 0x22] @ '', '' @ [CHR 0x22] @ ''watch'' @ [CHR 0x22] @ '', '' @ [CHR 0x22] @ ''update'' @ [CHR 0x22] @ '', '' @ [CHR 0x22] @ ''delete'' @ [CHR 0x22] @ '', '' @ [CHR 0x22] @ ''patch'' @ [CHR 0x22] @ '']'',
     ''  - apiGroups: ['' @ [CHR 0x22] @ ''snapshot.storage.k8s.io'' @ [CHR 0x22] @ '']'',
     ''    resources: ['' @ [CHR 0x22] @ ''volumesnapshotcontents/status'' @ [CHR 0x22] @ '']'',
     ''    verbs: ['' @ [CHR 0x22] @ ''update'' @ [CHR 0x22] @ '', '' @ [CHR 0x22] @ ''patch'' @ [CHR 0x22] @ '']'',
     ''---'',
     ''kind: ClusterRoleBinding'',
     ''apiVersion: rbac.authorization.k8s.io/v1'',
     ''metadata:'',
     ''  name: kubevirt-csi-node-binding'',
     ''subjects:'',
     ''  - kind: ServiceAccount'',
     ''    name: kubevirt-csi-node-sa'',
     ''    namespace: kubevirt-csi-driver'',
     ''roleRef:'',
     ''  kind: ClusterRole'',
     ''  name: kubevirt-csi-node-cr'',
     ''  apiGroup: rbac.authorization.k8s.io'',
     ''---'',
     ''kind: ClusterRoleBinding'',
     ''apiVersion: rbac.authorization.k8s.io/v1'',
     ''metadata:'',
     ''  name: csi-snapshotter-role'',
     ''subjects:'',
     ''  - kind: ServiceAccount'',
     ''    name: kubevirt-csi-snapshot-sa'',
     ''    namespace: kubevirt-csi-driver'',
     ''roleRef:'',
     ''  kind: ClusterRole'',
     ''  # change the name also here if the ClusterRole gets renamed'',
     ''  name: external-snapshotter-runner'',
     ''  apiGroup: rbac.authorization.k8s.io'',
     ''---'',
     ''kind: DaemonSet'',
     ''apiVersion: apps/v1'',
     ''metadata:'',
     ''  name: kubevirt-csi-node'',
     ''  namespace: kubevirt-csi-driver'',
     ''spec:'',
     ''  selector:'',
     ''    matchLabels:'',
     ''      app: kubevirt-csi-driver'',
     ''  updateStrategy:'',
     ''    type: RollingUpdate'',
     ''  template:'',
     ''    metadata:'',
     ''      labels:'',
     ''        app: kubevirt-csi-driver'',
     ''    spec:'',
     ''      serviceAccount: kubevirt-csi-node-sa'',
     ''      priorityClassName: system-node-critical'',
     ''      tolerations:'',
     ''        - operator: Exists'',
     ''      containers:'',
     ''        - name: csi-driver'',
     ''          securityContext:'',
     ''            privileged: true'',
     ''            allowPrivilegeEscalation: true'',
     ''          imagePullPolicy: Always'',
     ''          image: quay.io/kubevirt/kubevirt-csi-driver:latest'',
     ''          args:'',
     ''            - '' @ [CHR 0x22] @ ''--endpoint=unix:/csi/csi.sock'' @ [CHR 0x22],
     ''            - '' @ [CHR 0x22] @ ''--node-name=$(KUBE_NODE_NAME)'' @ [CHR 0x22],
     ''            - '' @ [CHR 0x22] @ ''--run-node-service=true'' @ [CHR 0x22],
     ''            - '' @ [CHR 0x22] @ ''--run-controller-service=false'' @ [CHR 0x22],
     ''            - '' @ [CHR 0x22] @ ''--v=5'' @ [CHR 0x22],
     ''          env:'',
     ''            - name: KUBE_NODE_NAME'',
     ''              valueFrom:'',
     ''                fieldRef:'',
     ''                  fieldPath: spec.nodeName'',
     ''          volumeMounts:'',
     ''            - name: kubelet-dir'',
     ''              mountPath: /var/lib/kubelet'',
     ''              mountPropagation: '' @ [CHR 0x22] @ ''Bidirectional'' @ [CHR 0x22],
     ''            - name: plugin-dir'',
     ''              mountPath: /csi'',
     ''            - name: device-dir'',
     ''              mountPath: /dev'',
     ''            - name: udev'',
     ''              mountPath: /run/udev'',
     ''          ports:'',
     ''            - name: healthz'',
     ''              containerPort: 10300'',
     ''              protocol: TCP'',
     ''          livenessProbe:'',
     ''            httpGet:'',
     ''              path: /healthz'',
     ''              port: healthz'',
     ''            initialDelaySeconds: 10'',
     ''            timeoutSeconds: 3'',
     ''            periodSeconds: 10'',
     ''            failureThreshold: 5'',
     ''          resources:'',
     ''            requests:'',
     ''              memory: 50Mi'',
     ''              cpu: 10m'',
     ''        - name: csi-node-driver-registrar'',
     ''          image: quay.io/openshift/origin-csi-node-driver-registrar:latest'',
     ''          args:'',
     ''            - '' @ [CHR 0x22] @ ''--csi-address=$(ADDRESS)'' @ [CHR 0x22],
     ''            - '' @ [CHR 0x22] @ ''--kubelet-registration-path=$(DRIVER_REG_SOCK_PATH)'' @ [CHR 0x22],
     ''            - '' @ [CHR 0x22] @ ''--v=5'' @ [CHR 0x22],
     ''          lifecycle:'',
     ''            preStop:'',
     ''              exec:'',
     ''                command: ['' @ [CHR 0x22] @ ''/bin/sh'' @ [CHR 0x22] @ '', '' @ [CHR 0x22] @ ''-c'' @ [CHR 0x22] @ '', '' @ [CHR 0x22] @ ''rm -rf /registration/csi.kubevirt.io-reg.sock /csi/csi.sock'' @ [CHR 0x22] @ '']'',
     ''          env:'',
     ''            - name: ADDRESS'',
     ''              value: /csi/csi.sock'',
     ''            - name: DRIVER_REG_SOCK_PATH'',
     ''              value: /var/lib/kubelet/plugins/csi.kubevirt.io/csi.sock'',
     ''          volumeMounts:'',
     ''            - name: plugin-dir'',
     ''              mountPath: /csi'',
     ''            - name: registration-dir'',
     ''              mountPath: /registration'',
     ''          resources:'',
     ''            requests:'',
     ''              memory: 20Mi'',
     ''              cpu: 5m'',
     ''        - name: csi-liveness-probe'',
     ''          image: quay.io/openshift/origin-csi-livenessprobe:latest'',
     ''          args:'',
     ''            - '' @ [CHR 0x22] @ ''--csi-address=/csi/csi.sock'' @ [CHR 0x22],
     ''            - '' @ [CHR 0x22] @ ''--probe-timeout=3s'' @ [CHR 0x22],
     ''            - '' @ [CHR 0x22] @ ''--health-port=10300'' @ [CHR 0x22],
     ''          volumeMounts:'',
     ''            - name: plugin-dir'',
     ''              mountPath: /csi'',
     ''          resources:'',
     ''            requests:'',
     ''              memory: 20Mi'',
     ''              cpu: 5m'',
     ''      volumes:'',
     ''        - name: kubelet-dir'',
     ''          hostPath:'',
     ''            path: /var/lib/kubelet'',
     ''            type: Directory'',
     ''        - name: plugin-dir'',
     ''          hostPath:'',
     ''            path: /var/lib/kubelet/plugins/csi.kubevirt.io/'',
     ''            type: DirectoryOrCreate'',
     ''        - name: registration-dir'',
     ''          hostPath:'',
     ''            path: /var/lib/kubelet/plugins_registry/'',
     ''            type: Directory'',
     ''        - name: device-dir'',
     ''          hostPath:'',
     ''            path: /dev'',
     ''            type: Directory'',
     ''        - name: udev'',
     ''          hostPath:'',
     ''            path: /run/udev'',
     ''---'',
     ''apiVersion: v1'',
     ''kind: ConfigMap'',
     ''metadata:'',
     ''  name: driver-config'',
     ''  namespace: kubevirt-csi-driver'',
     ''data:'',
     ''  infraClusterNamespace: '',
     ''  infraClusterLabels: csi-driver/cluster=tenant'',
     ''---'',
     ''apiVersion: storage.k8s.io/v1'',
     ''kind: StorageClass'',
     ''metadata:'',
     ''  name: kubevirt'',
     ''  annotations:'',
     ''    storageclass.kubernetes.io/is-default-class: '' @ [CHR 0x22] @ ''true'' @ [CHR 0x22],
     ''provisioner: csi.kubevirt.io'',
     ''parameters:'',
     ''  infraStorageClassName: standard'',
     ''  bus: scsi'',
     ''---'',
     ''apiVersion: snapshot.storage.k8s.io/v1'',
     ''kind: VolumeSnapshotClass'',
     ''metadata:'',
     ''  name: kubevirt-csi-snapclass'',
     ''driver: csi.kubevirt.io'',
     ''deletionPolicy: Delete'']"

definition bytes_deployTenantBaseKustomizationYaml :: string where
  "bytes_deployTenantBaseKustomizationYaml = unlines
    [''commonLabels:'',
     ''  app: kubevirt-csi-driver'',
     ''resources:'',
     ''- rbac-snapshot-controller.yaml'',
     ''- setup-snapshot-controller.yaml'',
     ''- snapshot.storage.k8s.io_volumesnapshotclasses.yaml'',
     ''- snapshot.storage.k8s.io_volumesnapshotcontents.yaml'',
     ''- snapshot.storage.k8s.io_volumesnapshots.yaml'',
     ''- deploy.yaml'']"

definition bytes_deployTenantBaseRbacSnapshotControllerYaml :: string where
  "bytes_deployTenantBaseRbacSnapshotControllerYaml = unlines
    [''# RBAC file for the snapshot controller.'',
     ''#'',
     ''# The snapshot controller implements the control loop for CSI snapshot functionality.'',
     ''# It should be installed as part of the base Kubernetes distribution in an appropriate'',
     ''# namespace for components implementing base system functionality. For installing with'',
     ''# Vanilla Kubernetes, kube-system makes sense for the namespace.'',
     '''',
     ''---'',
     ''apiVersion: v1'',
     ''kind: ServiceAccount'',
     ''metadata:'',
     ''  name: snapshot-controller'',
     ''  namespace: kube-system'',
     '''',
     ''---'',
     ''kind: ClusterRole'',
     ''apiVersion: rbac.authorization.k8s.io/v1'',
     ''metadata:'',
     ''  name: snapshot-controller-runner'',
     ''rules:'',
     ''  - apiGroups: ['' @ [CHR 0x22, CHR 0x22] @ '']'',
     ''    resources: ['' @ [CHR 0x22] @ ''persistentvolumes'' @ [CHR 0x22] @ '']'',
     ''    verbs: ['' @ [CHR 0x22] @ ''get'' @ [CHR 0x22] @ '', '' @ [CHR 0x22] @ ''list'' @ [CHR 0x22] @ '', '' @ [CHR 0x22] @ ''watch'' @ [CHR 0x22] @ '']'',
     ''  - apiGroups: ['' @ [CHR 0x22, CHR 0x22] @ '']'',
     ''    resources: ['' @ [CHR 0x22] @ ''persistentvolumeclaims'' @ [CHR 0x22] @ '']'',
     ''    verbs: ['' @ [CHR 0x22] @ ''get'' @ [CHR 0x22] @ '', '' @ [CHR 0x22] @ ''list'' @ [CHR 0x22] @ '', '' @ [CHR 0x22] @ ''watch'' @ [CHR 0x22] @ '', '' @ [CHR 0x22] @ ''update'' @ [CHR 0x22] @ '']'',
     ''  - apiGroups: ['' @ [CHR 0x22, CHR 0x22] @ '']'',
     ''    resources: ['' @ [CHR 0x22] @ ''events'' @ [CHR 0x22] @ '']'',
     ''    verbs: ['' @ [CHR 0x22] @ ''list'' @ [CHR 0x22] @ '', '' @ [CHR 0x22] @ ''watch'' @ [CHR 0x22] @ '', '' @ [CHR 0x22] @ ''create'' @ [CHR 0x22] @ '', '' @ [CHR 0x22] @ ''update'' @ [CHR 0x22] @ '', '' @ [CHR 0x22] @ ''patch'' @ [CHR 0x22] @ '']'',
     ''  - apiGroups: ['' @ [CHR 0x22] @ ''snapshot.storage.k8s.io'' @ [CHR 0x22] @ '']'',
     ''    resources: ['' @ [CHR 0x22] @ ''volumesnapshotclasses'' @ [CHR 0x22] @ '']'',
     ''    verbs: ['' @ [CHR 0x22] @ ''get'' @ [CHR 0x22] @ '', '' @ [CHR 0x22] @ ''list'' @ [CHR 0x22] @ '', '' @ [CHR 0x22] @ ''watch'' @ [CHR 0x22] @ '']'',
     ''  - apiGroups: ['' @ [CHR 0x22] @ ''snapshot.storage.k8s.io'' @ [CHR 0x22] @ '']'',
     ''    resources: ['' @ [CHR 0x22] @ ''volumesnapshotcontents'' @ [CHR 0x22] @ '']'',
     ''    verbs: ['' @ [CHR 0x22] @ ''create'' @ [CHR 0x22] @ '', '' @ [CHR 0x22] @ ''get'' @ [CHR 0x22] @ '', '' @ [CHR 0x22] @ ''list'' @ [CHR 0x22] @ '', '' @ [CHR 0x22] @ ''watch'' @ [CHR 0x22] @ '', '' @ [CHR 0x22] @ ''update'' @ [CHR 0x22] @ '', '' @ [CHR 0x22] @ ''delete'' @ [CHR 0x22] @ '', '' @ [CHR 0x22] @ ''patch'' @ [CHR 0x22] @ '']'',
     ''  - apiGroups: ['' @ [CHR 0x22] @ ''snapshot.storage.k8s.io'' @ [CHR 0x22] @ '']'',
     ''    resources: ['' @ [CHR 0x22] @ ''volumesnapshotcontents/status'' @ [CHR 0x22] @ '']'',
     ''    verbs: ['' @ [CHR 0x22] @ ''patch'' @ [CHR 0x22] @ '']'',
     ''  - apiGroups: ['' @ [CHR 0x22] @ ''snapshot.storage.k8s.io'' @ [CHR 0x22] @ '']'',
     ''    resources: ['' @ [CHR 0x22] @ ''volumesnapshots'' @ [CHR 0x22] @ '']'',
     ''    verbs: ['' @ [CHR 0x22] @ ''get'' @ [CHR 0x22] @ '', '' @ [CHR 0x22] @ ''list'' @ [CHR 0x22] @ '', '' @ [CHR 0x22] @ ''watch'' @ [CHR 0x22] @ '', '' @ [CHR 0x22] @ ''update'' @ [CHR 0x22] @ '', '' @ [CHR 0x22] @ ''patch'' @ [CHR 0x22] @ '', '' @ [CHR 0x22] @ ''delete'' @ [CHR 0x22] @ '']'',
     ''  - apiGroups: ['' @ [CHR 0x22] @ ''snapshot.storage.k8s.io'' @ [CHR 0x22] @ '']'',
     ''    resources: ['' @ [CHR 0x22] @ ''volumesnapshots/status'' @ [CHR 0x22] @ '']'',
     ''    verbs: ['' @ [CHR 0x22] @ ''update'' @ [CHR 0x22] @ '', '' @ [CHR 0x22] @ ''patch'' @ [CHR 0x22] @ '']'',
     '''',
     ''  - apiGroups: ['' @ [CHR 0x22] @ ''groupsnapshot.storage.k8s.io'' @ [CHR 0x22] @ '']'',
     ''    resources: ['' @ [CHR 0x22] @ ''volumegroupsnapshotclasses'' @ [CHR 0x22] @ '']'',
     ''    verbs: ['' @ [CHR 0x22] @ ''get'' @ [CHR 0x22] @ '', '' @ [CHR 0x22] @ ''list'' @ [CHR 0x22] @ '', '' @ [CHR 0x22] @ ''watch'' @ [CHR 0x22] @ '']'',
     ''  - apiGroups: ['' @ [CHR 0x22] @ ''groupsnapshot.storage.k8s.io'' @ [CHR 0x22] @ '']'',
     ''    resources: ['' @ [CHR 0x22] @ ''volumegroupsnapshotcontents'' @ [CHR 0x22] @ '']'',
     ''    verbs: ['' @ [CHR 0x22] @ ''create'' @ [CHR 0x22] @ '', '' @ [CHR 0x22] @ ''get'' @ [CHR 0x22] @ '', '' @ [CHR 0x22] @ ''list'' @ [CHR 0x22] @ '', '' @ [CHR 0x22] @ ''watch'' @ [CHR 0x22] @ '', '' @ [CHR 0x22] @ ''update'' @ [CHR 0x22] @ '', '' @ [CHR 0x22] @ ''delete'' @ [CHR 0x22] @ '', '' @ [CHR 0x22] @ ''patch'' @ [CHR 0x22] @ '']'',
     ''  - apiGroups: ['' @ [CHR 0x22] @ ''groupsnapshot.storage.k8s.io'' @ [CHR 0x22] @ '']'',
     ''    resources: ['' @ [CHR 0x22] @ ''volumegroupsnapshotcontents/status'' @ [CHR 0x22] @ '']'',
     ''    verbs: ['' @ [CHR 0x22] @ ''patch'' @ [CHR 0x22] @ '']'',
     ''  - apiGroups: ['' @ [CHR 0x22] @ ''groupsnapshot.storage.k8s.io'' @ [CHR 0x22] @ '']'',
     ''    resources: ['' @ [CHR 0x22] @ ''volumegroupsnapshots'' @ [CHR 0x22] @ '']'',
     ''    verbs: ['' @ [CHR 0x22] @ ''get'' @ [CHR 0x22] @ '', '' @ [CHR 0x22] @ ''list'' @ [CHR 0x22] @ '', '' @ [CHR 0x22] @ ''watch'' @ [CHR 0x22] @ '', '' @ [CHR 0x22] @ ''update'' @ [CHR 0x22] @ '', '' @ [CHR 0x22] @ ''patch'' @ [CHR 0x22] @ '']'',
     ''  - apiGroups: ['' @ [CHR 0x22] @ ''groupsnapshot.storage.k8s.io'' @ [CHR 0x22] @ '']'',
     ''    resources: ['' @ [CHR 0x22] @ ''volumegroupsnapshots/status'' @ [CHR 0x22] @ '']'',
     ''    verbs: ['' @ [CHR 0x22] @ ''update'' @ [CHR 0x22] @ '', '' @ [CHR 0x22] @ ''patch'' @ [CHR 0x22] @ '']'',
     '''',
     ''  # Enable this RBAC rule only when using distributed snapshotting, i.e. when the enable-distributed-snapshotting flag is set to true'',
     ''  # - apiGroups: ['' @ [CHR 0x22, CHR 0x22] @ '']'',
     ''  #   resources: ['' @ [CHR 0x22] @ ''nodes'' @ [CHR 0x22] @ '']'',
     ''  #   verbs: ['' @ [CHR 0x22] @ ''get'' @ [CHR 0x22] @ '', '' @ [CHR 0x22] @ ''list'' @ [CHR 0x22] @ '', '' @ [CHR 0x22] @ ''watch'' @ [CHR 0x22] @ '']'',
     ''---'',
     ''kind: ClusterRoleBinding'',
     ''apiVersion: rbac.authorization.k8s.io/v1'',
     ''metadata:'',
     ''  name: snapshot-controller-role'',
     ''subjects:'',
     ''  - kind: ServiceAccount'',
     ''    name: snapshot-controller'',
     ''    namespace: kube-system'',
     ''roleRef:'',
     ''  kind: ClusterRole'',
     ''  name: snapshot-controller-runner'',
     ''  apiGroup: rbac.authorization.k8s.io'',
     '''',
     ''---'',
     ''kind: Role'',
     ''apiVersion: rbac.authorization.k8s.io/v1'',
     ''metadata:'',
     ''  name: snapshot-controller-leaderelection'',
     ''  namespace: kube-system'',
     ''rules:'',
     ''- apiGroups: ['' @ [CHR 0x22] @ ''coordination.k8s.io'' @ [CHR 0x22] @ '']'',
     ''  resources: ['' @ [CHR 0x22] @ ''leases'' @ [CHR 0x22] @ '']'',
     ''  verbs: ['' @ [CHR 0x22] @ ''get'' @ [CHR 0x22] @ '', '' @ [CHR 0x22] @ ''watch'' @ [CHR 0x22] @ '', '' @ [CHR 0x22] @ ''list'' @ [CHR 0x22] @ '', '' @ [CHR 0x22] @ ''delete'' @ [CHR 0x22] @ '', '' @ [CHR 0x22] @ ''update'' @ [CHR 0x22] @ '', '' @ [CHR 0x22] @ ''create'' @ [CHR 0x22] @ '']'',
     '''',
     ''---'',
     ''kind: RoleBinding'',
     ''apiVersion: rbac.authorization.k8s.io/v1'',
     ''metadata:'',
     ''  name: snapshot-controller-leaderelection'',
     ''  namespace: kube-system'',
     ''subjects:'',
     ''  - kind: ServiceAccount'',
     ''    name: snapshot-controller'',
     ''roleRef:'',
     ''  kind: Role'',
     ''  name: snapshot-controller-leaderelection'',
     ''  apiGroup: rbac.authorization.k8s.io'']"

definition bytes_deployTenantBaseSetupSnapshotControllerYaml :: string where
  "bytes_deployTenantBaseSetupSnapshotControllerYaml = unlines
    [''# This YAML file shows how to deploy the snapshot controller'',
     '''',
     ''# The snapshot controller implements the control loop for CSI snapshot functionality.'',
     ''# It should be installed as part of the base Kubernetes distribution in an appropriate'',
     ''# namespace for components implementing base system functionality. For installing with'',
     ''# Vanilla Kubernetes, kube-system makes sense for the namespace.'',
     '''',
     ''---'',
     ''kind: Deployment'',
     ''apiVersion: apps/v1'',
     ''metadata:'',
     ''  name: snapshot-controller'',
     ''  namespace: kube-system'',
     ''spec:'',
     ''  replicas: 2'',
     ''  selector:'',
     ''    matchLabels:'',
     ''      app.kubernetes.io/name: snapshot-controller'',
     ''  # The snapshot controller won'' @ [CHR 0x27] @ ''t be marked as ready if the v1 CRDs are unavailable.'',
     ''  # The flag --retry-crd-interval-max is used to determine how long the controller'',
     ''  # will wait for the CRDs to become available before exiting. The default is 30 seconds'',
     ''  # so minReadySeconds should be set slightly higher than the flag value.'',
     ''  minReadySeconds: 35'',
     ''  strategy:'',
     ''    rollingUpdate:'',
     ''      maxSurge: 0'',
     ''      maxUnavailable: 1'',
     ''    type: RollingUpdate'',
     ''  template:'',
     ''    metadata:'',
     ''      labels:'',
     ''        app.kubernetes.io/name: snapshot-controller'',
     ''    spec:'',
     ''      serviceAccountName: snapshot-controller'',
     ''      containers:'',
     ''        - name: snapshot-controller'',
     ''          image: registry.k8s.io/sig-storage/snapshot-controller:v6.3.1'',
     ''          args:'',
     ''            - '' @ [CHR 0x22] @ ''--v=5'' @ [CHR 0x22],
     ''            - '' @ [CHR 0x22] @ ''--leader-election=true'' @ [CHR 0x22],
     ''            # Add a marker to the snapshot-controller manifests. This is needed to enable feature gates in CSI prow jobs.'',
     ''            # For example, in https://github.com/kubernetes-csi/csi-release-tools/pull/209, the snapshot-controller YAML is updated to add --prevent-volume-mode-conversion=true so that the feature can be enabled for certain e2e tests.'',
     ''            # end snapshot controller args'',
     ''          imagePullPolicy: IfNotPresent'']"

definition bytes_deployTenantBaseSnapshotStorageK8sIo_volumesnapshotclassesYaml :: string where
  "bytes_deployTenantBaseSnapshotStorageK8sIo_volumesnapshotclassesYaml = unlines
    [''---'',
     ''apiVersion: apiextensions.k8s.io/v1'',
     ''kind: CustomResourceDefinition'',
     ''metadata:'',
     ''  annotations:'',
     ''    api-approved.kubernetes.io: '' @ [CHR 0x22] @ ''https://github.com/kubernetes-csi/external-snapshotter/pull/814'' @ [CHR 0x22],
     ''    controller-gen.kubebuilder.io/version: v0.12.0'',
     ''  creationTimestamp: null'',
     ''  name: volumesnapshotclasses.snapshot.storage.k8s.io'',
     ''spec:'',
     ''  group: snapshot.storage.k8s.io'',
     ''  names:'',
     ''    kind: VolumeSnapshotClass'',
     ''    listKind: VolumeSnapshotClassList'',
     ''    plural: volumesnapshotclasses'',
     ''    shortNames:'',
     ''    - vsclass'',
     ''    - vsclasses'',
     ''    singular: volumesnapshotclass'',
     ''  scope: Cluster'',
     ''  versions:'',
     ''  - additionalPrinterColumns:'',
     ''    - jsonPath: .driver'',
     ''      name: Driver'',
     ''      type: string'',
     ''    - description: Determines whether a VolumeSnapshotContent created through the'',
     ''        VolumeSnapshotClass should be deleted when its bound VolumeSnapshot is deleted.'',
     ''      jsonPath: .deletionPolicy'',
     ''      name: DeletionPolicy'',
     ''      type: string'',
     ''    - jsonPath: .metadata.creationTimestamp'',
     ''      name: Age'',
     ''      type: date'',
     ''    name: v1'',
     ''    schema:'',
     ''      openAPIV3Schema:'',
     ''        description: VolumeSnapshotClass specifies parameters that a underlying storage'',
     ''          system uses when creating a volume snapshot. A specific VolumeSnapshotClass'',
     ''          is used by specifying its name in a VolumeSnapshot object. VolumeSnapshotClasses'',
     ''          are non-namespaced'',
     ''        properties:'',
     ''          apiVersion:'',
     ''            description: '' @ [CHR 0x27] @ ''APIVersion defines the versioned schema of this representation'',
     ''              of an object. Servers should convert recognized schemas to the latest'',
     ''              internal value, and may reject unrecognized values. More info: https://git.k8s.io/community/contributors/devel/sig-architecture/api-conventions.md#resources'' @ [CHR 0x27],
     ''            type: string'',
     ''          deletionPolicy:'',
     ''            description: deletionPolicy determines whether a VolumeSnapshotContent'',
     ''              created through the VolumeSnapshotClass should be deleted when its bound'',
     ''              VolumeSnapshot is deleted. Supported values are '' @ [CHR 0x22] @ ''Retain'' @ [CHR 0x22] @ '' and '' @ [CHR 0x22] @ ''Delete'' @ [CHR 0x22] @ ''.'',
     ''              '' @ [CHR 0x22] @ ''Retain'' @ [CHR 0x22] @ '' means that the VolumeSnapshotContent and its physical snapshot'',
     ''              on underlying storage system are kept. '' @ [CHR 0x22] @ ''Delete'' @ [CHR 0x22] @ '' means that the VolumeSnapshotContent'',
     ''              and its physical snapshot on underlying storage system are deleted.'',
     ''              Required.'',
     ''            enum:'',
     ''            - Delete'',
     ''            - Retain'',
     ''            type: string'',
     ''          driver:'',
     ''            description: driver is the name of the storage driver that handles this'',
     ''              VolumeSnapshotClass. Required.'',
     ''            type: string'',
     ''          kind:'',
     ''            description: '' @ [CHR 0x27] @ ''Kind is a string value representing the REST resource this'',
     ''              object represents. Servers may infer this from the endpoint the client'',
     ''              submits requests to. Cannot be updated. In CamelCase. More info: https://git.k8s.io/community/contributors/devel/sig-architecture/api-conventions.md#types-kinds'' @ [CHR 0x27],
     ''            type: string'',
     ''          metadata:'',
     ''            type: object'',
     ''          parameters:'',
     ''            additionalProperties:'',
     ''              type: string'',
     ''            description: parameters is a key-value map with storage driver specific'',
     ''              parameters for creating snapshots. These values are opaque to Kubernetes.'',
     ''            type: object'',
     ''        required:'',
     ''        - deletionPolicy'',
     ''        - driver'',
     ''        type: object'',
     ''    served: true'',
     ''    storage: true'',
     ''    subresources: {}'',
     ''  - additionalPrinterColumns:'',
     ''    - jsonPath: .driver'',
     ''      name: Driver'',
     ''      type: string'',
     ''    - description: Determines whether a VolumeSnapshotContent created through the VolumeSnapshotClass should be deleted when its bound VolumeSnapshot is deleted.'',
     ''      jsonPath: .deletionPolicy'',
     ''      name: DeletionPolicy'',
     ''      type: string'',
     ''    - jsonPath: .metadata.creationTimestamp'',
     ''      name: Age'',
     ''      type: date'',
     ''    name: v1beta1'',
     ''    # This indicates the v1beta1 version of the custom resource is deprecated.'',
     ''    # API requests to this version receive a warning in the server response.'',
     ''    deprecated: true'',
     ''    # This overrides the default warning returned to clients making v1beta1 API requests.'',
     ''    deprecationWarning: '' @ [CHR 0x22] @ ''snapshot.storage.k8s.io/v1beta1 VolumeSnapshotClass is deprecated; use snapshot.storage.k8s.io/v1 VolumeSnapshotClass'' @ [CHR 0x22],
     ''    schema:'',
     ''      openAPIV3Schema:'',
     ''        description: VolumeSnapshotClass specifies parameters that a underlying storage system uses when creating a volume snapshot. A specific VolumeSnapshotClass is used by specifying its name in a VolumeSnapshot object. VolumeSnapshotClasses are non-namespaced'',
     ''        properties:'',
     ''          apiVersion:'',
     ''            description: '' @ [CHR 0x27] @ ''APIVersion defines the versioned schema of this representation of an object. Servers should convert recognized schemas to the latest internal value, and may reject unrecognized values. More info: https://git.k8s.io/community/contributors/devel/sig-architecture/api-conventions.md#resources'' @ [CHR 0x27],
     ''            type: string'',
     ''          deletionPolicy:'',
     ''            description: deletionPolicy determines whether a VolumeSnapshotContent created through the VolumeSnapshotClass should be deleted when its bound VolumeSnapshot is deleted. Supported values are '' @ [CHR 0x22] @ ''Retain'' @ [CHR 0x22] @ '' and '' @ [CHR 0x22] @ ''Delete'' @ [CHR 0x22] @ ''. '' @ [CHR 0x22] @ ''Retain'' @ [CHR 0x22] @ '' means that the VolumeSnapshotContent and its physical snapshot on underlying storage system are kept. '' @ [CHR 0x22] @ ''Delete'' @ [CHR 0x22] @ '' means that the VolumeSnapshotContent and its physical snapshot on underlying storage system are deleted. Required.'',
     ''            enum:'',
     ''            - Delete'',
     ''            - Retain'',
     ''            type: string'',
     ''          driver:'',
     ''            description: driver is the name of the storage driver that handles this VolumeSnapshotClass. Required.'',
     ''            type: string'',
     ''          kind:'',
     ''            description: '' @ [CHR 0x27] @ ''Kind is a string value representing the REST resource this object represents. Servers may infer this from the endpoint the client submits requests to. Cannot be updated. In CamelCase. More info: https://git.k8s.io/community/contributors/devel/sig-architecture/api-conventions.md#types-kinds'' @ [CHR 0x27],
     ''            type: string'',
     ''          parameters:'',
     ''            additionalProperties:'',
     ''              type: string'',
     ''            description: parameters is a key-value map with storage driver specific parameters for creating snapshots. These values are opaque to Kubernetes.'',
     ''            type: object'',
     ''        required:'',
     ''        - deletionPolicy'',
     ''        - driver'',
     ''        type: object'',
     ''    served: false'',
     ''    storage: false'',
     ''    subresources: {}'',
     ''status:'',
     ''  acceptedNames:'',
     ''    kind: '' @ [CHR 0x22, CHR 0x22],
     ''    plural: '' @ [CHR 0x22, CHR 0x22],
     ''  conditions: []'',
     ''  storedVersions: []'']"

definition bytes_deployTenantBaseSnapshotStorageK8sIo_volumesnapshotcontentsYaml :: string where
  "bytes_deployTenantBaseSnapshotStorageK8sIo_volumesnapshotcontentsYaml = unlines
    [''---'',
     ''apiVersion: apiextensions.k8s.io/v1'',
     ''kind: CustomResourceDefinition'',
     ''metadata:'',
     ''  annotations:'',
     ''    api-approved.kubernetes.io: '' @ [CHR 0x22] @ ''https://github.com/kubernetes-csi/external-snapshotter/pull/955'' @ [CHR 0x22],
     ''    controller-gen.kubebuilder.io/version: v0.12.0'',
     ''  creationTimestamp: null'',
     ''  name: volumesnapshotcontents.snapshot.storage.k8s.io'',
     ''spec:'',
     ''  group: snapshot.storage.k8s.io'',
     ''  names:'',
     ''    kind: VolumeSnapshotContent'',
     ''    listKind: VolumeSnapshotContentList'',
     ''    plural: volumesnapshotcontents'',
     ''    shortNames:'',
     ''    - vsc'',
     ''    - vscs'',
     ''    singular: volumesnapshotcontent'',
     ''  scope: Cluster'',
     ''  versions:'',
     ''  - additionalPrinterColumns:'',
     ''    - description: Indicates if the snapshot is ready to be used to restore a volume.'',
     ''      jsonPath: .status.readyToUse'',
     ''      name: ReadyToUse'',
     ''      type: boolean'',
     ''    - description: Represents the complete size of the snapshot in bytes'',
     ''      jsonPath: .status.restoreSize'',
     ''      name: RestoreSize'',
     ''      type: integer'',
     ''    - description: Determines whether this VolumeSnapshotContent and its physical'',
     ''        snapshot on the underlying storage system should be deleted when its bound'',
     ''        VolumeSnapshot is deleted.'',
     ''      jsonPath: .spec.deletionPolicy'',
     ''      name: DeletionPolicy'',
     ''      type: string'',
     ''    - description: Name of the CSI driver used to create the physical snapshot on'',
     ''        the underlying storage system.'',
     ''      jsonPath: .spec.driver'',
     ''      name: Driver'',
     ''      type: string'',
     ''    - description: Name of the VolumeSnapshotClass to which this snapshot belongs.'',
     ''      jsonPath: .spec.volumeSnapshotClassName'',
     ''      name: VolumeSnapshotClass'',
     ''      type: string'',
     ''    - description: Name of the VolumeSnapshot object to which this VolumeSnapshotContent'',
     ''        object is bound.'',
     ''      jsonPath: .spec.volumeSnapshotRef.name'',
     ''      name: VolumeSnapshot'',
     ''      type: string'',
     ''    - description: Namespace of the VolumeSnapshot object to which this VolumeSnapshotContent object is bound.'',
     ''      jsonPath: .spec.volumeSnapshotRef.namespace'',
     ''      name: VolumeSnapshotNamespace'',
     ''      type: string'',
     ''    - jsonPath: .metadata.creationTimestamp'',
     ''      name: Age'',
     ''      type: date'',
     ''    name: v1'',
     ''    schema:'',
     ''      openAPIV3Schema:'',
     ''        description: VolumeSnapshotContent represents the actual '' @ [CHR 0x22] @ ''on-disk'' @ [CHR 0x22] @ '' snapshot'',
     ''          object in the underlying storage system'',
     ''        properties:'',
     ''          apiVersion:'',
     ''            description: '' @ [CHR 0x27] @ ''APIVersion defines the versioned schema of this representation'',
     ''              of an object. Servers should convert recognized schemas to the latest'',
     ''              internal value, and may reject unrecognized values. More info: https://git.k8s.io/community/contributors/devel/sig-architecture/api-conventions.md#resources'' @ [CHR 0x27],
     ''            type: string'',
     ''          kind:'',
     ''            description: '' @ [CHR 0x27] @ ''Kind is a string value representing the REST resource this'',
     ''              object represents. Servers may infer this from the endpoint the client'',
     ''              submits requests to. Cannot be updated. In CamelCase. More info: https://git.k8s.io/community/contributors/devel/sig-architecture/api-conventions.md#types-kinds'' @ [CHR 0x27],
     ''            type: string'',
     ''          metadata:'',
     ''            type: object'',
     ''          spec:'',
     ''            description: spec defines properties of a VolumeSnapshotContent created'',
     ''              by the underlying storage system. Required.'',
     ''            properties:'',
     ''              deletionPolicy:'',
     ''                description: deletionPolicy determines whether this VolumeSnapshotContent'',
     ''                  and its physical snapshot on the underlying storage system should'',
     ''                  be deleted when its bound VolumeSnapshot is deleted. Supported values'',
     ''                  are '' @ [CHR 0x22] @ ''Retain'' @ [CHR 0x22] @ '' and '' @ [CHR 0x22] @ ''Delete'' @ [CHR 0x22] @ ''. '' @ [CHR 0x22] @ ''Retain'' @ [CHR 0x22] @ '' means that the VolumeSnapshotContent'',
     ''                  and its physical snapshot on underlying storage system are kept.'',
     ''                  '' @ [CHR 0x22] @ ''Delete'' @ [CHR 0x22] @ '' means that the VolumeSnapshotContent and its physical snapshot'',
     ''                  on underlying storage system are deleted. For dynamically provisioned'',
     ''                  snapshots, this field will automatically be filled in by the CSI'',
     ''                  snapshotter sidecar with the '' @ [CHR 0x22] @ ''DeletionPolicy'' @ [CHR 0x22] @ '' field defined in the'',
     ''                  corresponding VolumeSnapshotClass. For pre-existing snapshots, users'',
     ''                  MUST specify this field when creating the VolumeSnapshotContent'',
     ''                  object. Required.'',
     ''                enum:'',
     ''                - Delete'',
     ''                - Retain'',
     ''                type: string'',
     ''              driver:'',
     ''                description: driver is the name of the CSI driver used to create the'',
     ''                  physical snapshot on the underlying storage system. This MUST be'',
     ''                  the same as the name returned by the CSI GetPluginName() call for'',
     ''                  that driver. Required.'',
     ''                type: string'',
     ''              source:'',
     ''                description: source specifies whether the snapshot is (or should be)'',
     ''                  dynamically provisioned or already exists, and just requires a Kubernetes'',
     ''                  object representation. This field is immutable after creation. Required.'',
     ''                properties:'',
     ''                  snapshotHandle:'',
     ''                    description: snapshotHandle specifies the CSI '' @ [CHR 0x22] @ ''snapshot_id'' @ [CHR 0x22] @ '' of'',
     ''                      a pre-existing snapshot on the underlying storage system for'',
     ''                      which a Kubernetes object representation was (or should be)'',
     ''                      created. This field is immutable.'',
     ''                    type: string'',
     ''                  volumeHandle:'',
     ''                    description: volumeHandle specifies the CSI '' @ [CHR 0x22] @ ''volume_id'' @ [CHR 0x22] @ '' of the'',
     ''                      volume from which a snapshot should be dynamically taken from.'',
     ''                      This field is immutable.'',
     ''                    type: string'',
     ''                type: object'',
     ''                oneOf:'',
     ''                - required: ['' @ [CHR 0x22] @ ''snapshotHandle'' @ [CHR 0x22] @ '']'',
     ''                - required: ['' @ [CHR 0x22] @ ''volumeHandle'' @ [CHR 0x22] @ '']'',
     ''              sourceVolumeMode:'',
     ''                description: SourceVolumeMode is the mode of the volume whose snapshot'',
     ''                  is taken. Can be either '' @ [CHR 0xE2, CHR 0x80, CHR 0x9C] @ ''Filesystem'' @ [CHR 0xE2, CHR 0x80, CHR 0x9D] @ '' or '' @ [CHR 0xE2, CHR 0x80, CHR 0x9C] @ ''Block'' @ [CHR 0xE2, CHR 0x80, CHR 0x9D] @ ''. If not specified,'',
     ''                  it indicates the source volume'' @ [CHR 0x27] @ ''s mode is unknown. This field is'',
     ''                  immutable. This field is an alpha field.'',
     ''                type: string'',
     ''              volumeSnapshotClassName:'',
     ''                description: name of the VolumeSnapshotClass from which this snapshot'',
     ''                  was (or will be) created. Note that after provisioning, the VolumeSnapshotClass'',
     ''                  may be deleted or recreated with different set of values, and as'',
     ''                  such, should not be referenced post-snapshot creation.'',
     ''                type: string'',
     ''              volumeSnapshotRef:'',
     ''                description: volumeSnapshotRef specifies the VolumeSnapshot object'',
     ''                  to which this VolumeSnapshotContent object is bound. VolumeSnapshot.Spec.VolumeSnapshotContentName'',
     ''                  field must reference to this VolumeSnapshotContent'' @ [CHR 0x27] @ ''s name for the'',
     ''                  bidirectional binding to be valid. For a pre-existing VolumeSnapshotContent'',
     ''                  object, name and namespace of the VolumeSnapshot object MUST be'',
     ''                  provided for binding to happen. This field is immutable after creation.'',
     ''                  Required.'',
     ''                properties:'',
     ''                  apiVersion:'',
     ''                    description: API version of the referent.'',
     ''                    type: string'',
     ''                  fieldPath:'',
     ''                    description: '' @ [CHR 0x27] @ ''If referring to a piece of an object instead of'',
     ''                      an entire object, this string should contain a valid JSON/Go'',
     ''                      field access statement, such as desiredState.manifest.containers[2].'',
     ''                      For example, if the object reference is to a container within'',
     ''                      a pod, this would take on a value like: '' @ [CHR 0x22] @ ''spec.containers{name}'' @ [CHR 0x22],
     ''                      (where '' @ [CHR 0x22] @ ''name'' @ [CHR 0x22] @ '' refers to the name of the container that triggered'',
     ''                      the event) or if no container name is specified '' @ [CHR 0x22] @ ''spec.containers[2]'' @ [CHR 0x22],
     ''                      (container with index 2 in this pod). This syntax is chosen'',
     ''                      only to have some well-defined way of referencing a part of'',
     ''                      an object. TODO: this design is not final and this field is'',
     ''                      subject to change in the future.'' @ [CHR 0x27],
     ''                    type: string'',
     ''                  kind:'',
     ''                    description: '' @ [CHR 0x27] @ ''Kind of the referent. More info: https://git.k8s.io/community/contributors/devel/sig-architecture/api-conventions.md#types-kinds'' @ [CHR 0x27],
     ''                    type: string'',
     ''                  name:'',
     ''                    description: '' @ [CHR 0x27] @ ''Name of the referent. More info: https://kubernetes.io/docs/concepts/overview/working-with-objects/names/#names'' @ [CHR 0x27],
     ''                    type: string'',
     ''                  namespace:'',
     ''                    description: '' @ [CHR 0x27] @ ''Namespace of the referent. More info: https://kubernetes.io/docs/concepts/overview/working-with-objects/namespaces/'' @ [CHR 0x27],
     ''                    type: string'',
     ''                  resourceVersion:'',
     ''                    description: '' @ [CHR 0x27] @ ''Specific resourceVersion to which this reference'',
     ''                      is made, if any. More info: https://git.k8s.io/community/contributors/devel/sig-architecture/api-conventions.md#concurrency-control-and-consistency'' @ [CHR 0x27],
     ''                    type: string'',
     ''                  uid:'',
     ''                    description: '' @ [CHR 0x27] @ ''UID of the referent. More info: https://kubernetes.io/docs/concepts/overview/working-with-objects/names/#uids'' @ [CHR 0x27],
     ''                    type: string'',
     ''                type: object'',
     ''                x-kubernetes-map-type: atomic'',
     ''            required:'',
     ''            - deletionPolicy'',
     ''            - driver'',
     ''            - source'',
     ''            - volumeSnapshotRef'',
     ''            type: object'',
     ''          status:'',
     ''            description: status represents the current information of a snapshot.'',
     ''            properties:'',
     ''              creationTime:'',
     ''                description: creationTime is the timestamp when the point-in-time'',
     ''                  snapshot is taken by the underlying storage system. In dynamic snapshot'',
     ''                  creation case, this field will be filled in by the CSI snapshotter'',
     ''                  sidecar with the '' @ [CHR 0x22] @ ''creation_time'' @ [CHR 0x22] @ '' value returned from CSI '' @ [CHR 0x22] @ ''CreateSnapshot'' @ [CHR 0x22],
     ''                  gRPC call. For a pre-existing snapshot, this field will be filled'',
     ''                  with the '' @ [CHR 0x22] @ ''creation_time'' @ [CHR 0x22] @ '' value returned from the CSI '' @ [CHR 0x22] @ ''ListSnapshots'' @ [CHR 0x22],
     ''                  gRPC call if the driver supports it. If not specified, it indicates'',
     ''                  the creation time is unknown. The format of this field is a Unix'',
     ''                  nanoseconds time encoded as an int64. On Unix, the command '' @ [CHR 0x60] @ ''date'',
     ''                  +%s%N'' @ [CHR 0x60] @ '' returns the current time in nanoseconds since 1970-01-01'',
     ''                  00:00:00 UTC.'',
     ''                format: int64'',
     ''                type: integer'',
     ''              error:'',
     ''                description: error is the last observed error during snapshot creation,'',
     ''                  if any. Upon success after retry, this error field will be cleared.'',
     ''                properties:'',
     ''                  message:'',
     ''                    description: '' @ [CHR 0x27] @ ''message is a string detailing the encountered error'',
     ''                      during snapshot creation if specified. NOTE: message may be'',
     ''                      logged, and it should not contain sensitive information.'' @ [CHR 0x27],
     ''                    type: string'',
     ''                  time:'',
     ''                    description: time is the timestamp when the error was encountered.'',
     ''                    format: date-time'',
     ''                    type: string'',
     ''                type: object'',
     ''              readyToUse:'',
     ''                description: readyToUse indicates if a snapshot is ready to be used'',
     ''                  to restore a volume. In dynamic snapshot creation case, this field'',
     ''                  will be filled in by the CSI snapshotter sidecar with the '' @ [CHR 0x22] @ ''ready_to_use'' @ [CHR 0x22],
     ''                  value returned from CSI '' @ [CHR 0x22] @ ''CreateSnapshot'' @ [CHR 0x22] @ '' gRPC call. For a pre-existing'',
     ''                  snapshot, this field will be filled with the '' @ [CHR 0x22] @ ''ready_to_use'' @ [CHR 0x22] @ '' value'',
     ''                  returned from the CSI '' @ [CHR 0x22] @ ''ListSnapshots'' @ [CHR 0x22] @ '' gRPC call if the driver supports'',
     ''                  it, otherwise, this field will be set to '' @ [CHR 0x22] @ ''True'' @ [CHR 0x22] @ ''. If not specified,'',
     ''                  it means the readiness of a snapshot is unknown.'',
     ''                type: boolean'',
     ''              restoreSize:'',
     ''                description: restoreSize represents the complete size of the snapshot'',
     ''                  in bytes. In dynamic snapshot creation case, this field will be'',
     ''                  filled in by the CSI snapshotter sidecar with the '' @ [CHR 0x22] @ ''size_bytes'' @ [CHR 0x22] @ '' value'',
     ''                  returned from CSI '' @ [CHR 0x22] @ ''CreateSnapshot'' @ [CHR 0x22] @ '' gRPC call. For a pre-existing'',
     ''                  snapshot, this field will be filled with the '' @ [CHR 0x22] @ ''size_bytes'' @ [CHR 0x22] @ '' value'',
     ''                  returned from the CSI '' @ [CHR 0x22] @ ''ListSnapshots'' @ [CHR 0x22] @ '' gRPC call if the driver supports'',
     ''                  it. When restoring a volume from this snapshot, the size of the'',
     ''                  volume MUST NOT be smaller than the restoreSize if it is specified,'',
     ''                  otherwise the restoration will fail. If not specified, it indicates'',
     ''                  that the size is unknown.'',
     ''                format: int64'',
     ''                minimum: 0'',
     ''                type: integer'',
     ''              snapshotHandle:'',
     ''                description: snapshotHandle is the CSI '' @ [CHR 0x22] @ ''snapshot_id'' @ [CHR 0x22] @ '' of a snapshot'',
     ''                  on the underlying storage system. If not specified, it indicates'',
     ''                  that dynamic snapshot creation has either failed or it is still'',
     ''                  in progress.'',
     ''                type: string'',
     ''              volumeGroupSnapshotHandle:'',
     ''                description: VolumeGroupSnapshotHandle is the CSI '' @ [CHR 0x22] @ ''group_snapshot_id'' @ [CHR 0x22],
     ''                  of a group snapshot on the underlying storage system.'',
     ''                type: string'',
     ''            type: object'',
     ''        required:'',
     ''        - spec'',
     ''        type: object'',
     ''    served: true'',
     ''    storage: true'',
     ''    subresources:'',
     ''      status: {}'',
     ''  - additionalPrinterColumns:'',
     ''    - description: Indicates if the snapshot is ready to be used to restore a volume.'',
     ''      jsonPath: .status.readyToUse'',
     ''      name: ReadyToUse'',
     ''      type: boolean'',
     ''    - description: Represents the complete size of the snapshot in bytes'',
     ''      jsonPath: .status.restoreSize'',
     ''      name: RestoreSize'',
     ''      type: integer'',
     ''    - description: Determines whether this VolumeSnapshotContent and its physical snapshot on the underlying storage system should be deleted when its bound VolumeSnapshot is deleted.'',
     ''      jsonPath: .spec.deletionPolicy'',
     ''      name: DeletionPolicy'',
     ''      type: string'',
     ''    - description: Name of the CSI driver used to create the physical snapshot on the underlying storage system.'',
     ''      jsonPath: .spec.driver'',
     ''      name: Driver'',
     ''      type: string'',
     ''    - description: Name of the VolumeSnapshotClass to which this snapshot belongs.'',
     ''      jsonPath: .spec.volumeSnapshotClassName'',
     ''      name: VolumeSnapshotClass'',
     ''      type: string'',
     ''    - description: Name of the VolumeSnapshot object to which this VolumeSnapshotContent object is bound.'',
     ''      jsonPath: .spec.volumeSnapshotRef.name'',
     ''      name: VolumeSnapshot'',
     ''      type: string'',
     ''    - description: Namespace of the VolumeSnapshot object to which this VolumeSnapshotContent object is bound.'',
     ''      jsonPath: .spec.volumeSnapshotRef.namespace'',
     ''      name: VolumeSnapshotNamespace'',
     ''      type: string'',
     ''    - jsonPath: .metadata.creationTimestamp'',
     ''      name: Age'',
     ''      type: date'',
     ''    name: v1beta1'',
     ''    # This indicates the v1beta1 version of the custom resource is deprecated.'',
     ''    # API requests to this version receive a warning in the server response.'',
     ''    deprecated: true'',
     ''    # This overrides the default warning returned to clients making v1beta1 API requests.'',
     ''    deprecationWarning: '' @ [CHR 0x22] @ ''snapshot.storage.k8s.io/v1beta1 VolumeSnapshotContent is deprecated; use snapshot.storage.k8s.io/v1 VolumeSnapshotContent'' @ [CHR 0x22],
     ''    schema:'',
     ''      openAPIV3Schema:'',
     ''        description: VolumeSnapshotContent represents the actual '' @ [CHR 0x22] @ ''on-disk'' @ [CHR 0x22] @ '' snapshot object in the underlying storage system'',
     ''        properties:'',
     ''          apiVersion:'',
     ''            description: '' @ [CHR 0x27] @ ''APIVersion defines the versioned schema of this representation of an object. Servers should convert recognized schemas to the latest internal value, and may reject unrecognized values. More info: https://git.k8s.io/community/contributors/devel/sig-architecture/api-conventions.md#resources'' @ [CHR 0x27],
     ''            type: string'',
     ''          kind:'',
     ''            description: '' @ [CHR 0x27] @ ''Kind is a string value representing the REST resource this object represents. Servers may infer this from the endpoint the client submits requests to. Cannot be updated. In CamelCase. More info: https://git.k8s.io/community/contributors/devel/sig-architecture/api-conventions.md#types-kinds'' @ [CHR 0x27],
     ''            type: string'',
     ''          spec:'',
     ''            description: spec defines properties of a VolumeSnapshotContent created by the underlying storage system. Required.'',
     ''            properties:'',
     ''              deletionPolicy:'',
     ''                description: deletionPolicy determines whether this VolumeSnapshotContent and its physical snapshot on the underlying storage system should be deleted when its bound VolumeSnapshot is deleted. Supported values are '' @ [CHR 0x22] @ ''Retain'' @ [CHR 0x22] @ '' and '' @ [CHR 0x22] @ ''Delete'' @ [CHR 0x22] @ ''. '' @ [CHR 0x22] @ ''Retain'' @ [CHR 0x22] @ '' means that the VolumeSnapshotContent and its physical snapshot on underlying storage system are kept. '' @ [CHR 0x22] @ ''Delete'' @ [CHR 0x22] @ '' means that the VolumeSnapshotContent and its physical snapshot on underlying storage system are deleted. For dynamically provisioned snapshots, this field will automatically be filled in by the CSI snapshotter sidecar with the '' @ [CHR 0x22] @ ''DeletionPolicy'' @ [CHR 0x22] @ '' field defined in the corresponding VolumeSnapshotClass. For pre-existing snapshots, users MUST specify this field when creating the  VolumeSnapshotContent object. Required.'',
     ''                enum:'',
     ''                - Delete'',
     ''                - Retain'',
     ''                type: string'',
     ''              driver:'',
     ''                description: driver is the name of the CSI driver used to create the physical snapshot on the underlying storage system. This MUST be the same as the name returned by the CSI GetPluginName() call for that driver. Required.'',
     ''                type: string'',
     ''              source:'',
     ''                description: source specifies whether the snapshot is (or should be) dynamically provisioned or already exists, and just requires a Kubernetes object representation. This field is immutable after creation. Required.'',
     ''                properties:'',
     ''                  snapshotHandle:'',
     ''                    description: snapshotHandle specifies the CSI '' @ [CHR 0x22] @ ''snapshot_id'' @ [CHR 0x22] @ '' of a pre-existing snapshot on the underlying storage system for which a Kubernetes object representation was (or should be) created. This field is immutable.'',
     ''                    type: string'',
     ''                  volumeHandle:'',
     ''                    description: volumeHandle specifies the CSI '' @ [CHR 0x22] @ ''volume_id'' @ [CHR 0x22] @ '' of the volume from which a snapshot should be dynamically taken from. This field is immutable.'',
     ''                    type: string'',
     ''                type: object'',
     ''              volumeSnapshotClassName:'',
     ''                description: name of the VolumeSnapshotClass from which this snapshot was (or will be) created. Note that after provisioning, the VolumeSnapshotClass may be deleted or recreated with different set of values, and as such, should not be referenced post-snapshot creation.'',
     ''                type: string'',
     ''              volumeSnapshotRef:'',
     ''                description: volumeSnapshotRef specifies the VolumeSnapshot object to which this VolumeSnapshotContent object is bound. VolumeSnapshot.Spec.VolumeSnapshotContentName field must reference to this VolumeSnapshotContent'' @ [CHR 0x27] @ ''s name for the bidirectional binding to be valid. For a pre-existing VolumeSnapshotContent object, name and namespace of the VolumeSnapshot object MUST be provided for binding to happen. This field is immutable after creation. Required.'',
     ''                properties:'',
     ''                  apiVersion:'',
     ''                    description: API version of the referent.'',
     ''                    type: string'',
     ''                  fieldPath:'',
     ''                    description: '' @ [CHR 0x27] @ ''If referring to a piece of an object instead of an entire object, this string should contain a valid JSON/Go field access statement, such as desiredState.manifest.containers[2]. For example, if the object reference is to a container within a pod, this would take on a value like: '' @ [CHR 0x22] @ ''spec.containers{name}'' @ [CHR 0x22] @ '' (where '' @ [CHR 0x22] @ ''name'' @ [CHR 0x22] @ '' refers to the name of the container that triggered the event) or if no container name is specified '' @ [CHR 0x22] @ ''spec.containers[2]'' @ [CHR 0x22] @ '' (container with index 2 in this pod). This syntax is chosen only to have some well-defined way of referencing a part of an object. TODO: this design is not final and this field is subject to change in the future.'' @ [CHR 0x27],
     ''                    type: string'',
     ''                  kind:'',
     ''                    description: '' @ [CHR 0x27] @ ''Kind of the referent. More info: https://git.k8s.io/community/contributors/devel/sig-architecture/api-conventions.md#types-kinds'' @ [CHR 0x27],
     ''                    type: string'',
     ''                  name:'',
     ''                    description: '' @ [CHR 0x27] @ ''Name of the referent. More info: https://kubernetes.io/docs/concepts/overview/working-with-objects/names/#names'' @ [CHR 0x27],
     ''                    type: string'',
     ''                  namespace:'',
     ''                    description: '' @ [CHR 0x27] @ ''Namespace of the referent. More info: https://kubernetes.io/docs/concepts/overview/working-with-objects/namespaces/'' @ [CHR 0x27],
     ''                    type: string'',
     ''                  resourceVersion:'',
     ''                    description: '' @ [CHR 0x27] @ ''Specific resourceVersion to which this reference is made, if any. More info: https://git.k8s.io/community/contributors/devel/sig-architecture/api-conventions.md#concurrency-control-and-consistency'' @ [CHR 0x27],
     ''                    type: string'',
     ''                  uid:'',
     ''                    description: '' @ [CHR 0x27] @ ''UID of the referent. More info: https://kubernetes.io/docs/concepts/overview/working-with-objects/names/#uids'' @ [CHR 0x27],
     ''                    type: string'',
     ''                type: object'',
     ''            required:'',
     ''            - deletionPolicy'',
     ''            - driver'',
     ''            - source'',
     ''            - volumeSnapshotRef'',
     ''            type: object'',
     ''          status:'',
     ''            description: status represents the current information of a snapshot.'',
     ''            properties:'',
     ''              creationTime:'',
     ''                description: creationTime is the timestamp when the point-in-time snapshot is taken by the underlying storage system. In dynamic snapshot creation case, this field will be filled in by the CSI snapshotter sidecar with the '' @ [CHR 0x22] @ ''creation_time'' @ [CHR 0x22] @ '' value returned from CSI '' @ [CHR 0x22] @ ''CreateSnapshot'' @ [CHR 0x22] @ '' gRPC call. For a pre-existing snapshot, this field will be filled with the '' @ [CHR 0x22] @ ''creation_time'' @ [CHR 0x22] @ '' value returned from the CSI '' @ [CHR 0x22] @ ''ListSnapshots'' @ [CHR 0x22] @ '' gRPC call if the driver supports it. If not specified, it indicates the creation time is unknown. The format of this field is a Unix nanoseconds time encoded as an int64. On Unix, the command '' @ [CHR 0x60] @ ''date +%s%N'' @ [CHR 0x60] @ '' returns the current time in nanoseconds since 1970-01-01 00:00:00 UTC.'',
     ''                format: int64'',
     ''                type: integer'',
     ''              error:'',
     ''                description: error is the last observed error during snapshot creation, if any. Upon success after retry, this error field will be cleared.'',
     ''                properties:'',
     ''                  message:'',
     ''                    description: '' @ [CHR 0x27] @ ''message is a string detailing the encountered error during snapshot creation if specified. NOTE: message may be logged, and it should not contain sensitive information.'' @ [CHR 0x27],
     ''                    type: string'',
     ''                  time:'',
     ''                    description: time is the timestamp when the error was encountered.'',
     ''                    format: date-time'',
     ''                    type: string'',
     ''                type: object'',
     ''              readyToUse:'',
     ''                description: readyToUse indicates if a snapshot is ready to be used to restore a volume. In dynamic snapshot creation case, this field will be filled in by the CSI snapshotter sidecar with the '' @ [CHR 0x22] @ ''ready_to_use'' @ [CHR 0x22] @ '' value returned from CSI '' @ [CHR 0x22] @ ''CreateSnapshot'' @ [CHR 0x22] @ '' gRPC call. For a pre-existing snapshot, this field will be filled with the '' @ [CHR 0x22] @ ''ready_to_use'' @ [CHR 0x22] @ '' value returned from the CSI '' @ [CHR 0x22] @ ''ListSnapshots'' @ [CHR 0x22] @ '' gRPC call if the driver supports it, otherwise, this field will be set to '' @ [CHR 0x22] @ ''True'' @ [CHR 0x22] @ ''. If not specified, it means the readiness of a snapshot is unknown.'',
     ''                type: boolean'',
     ''              restoreSize:'',
     ''                description: restoreSize represents the complete size of the snapshot in bytes. In dynamic snapshot creation case, this field will be filled in by the CSI snapshotter sidecar with the '' @ [CHR 0x22] @ ''size_bytes'' @ [CHR 0x22] @ '' value returned from CSI '' @ [CHR 0x22] @ ''CreateSnapshot'' @ [CHR 0x22] @ '' gRPC call. For a pre-existing snapshot, this field will be filled with the '' @ [CHR 0x22] @ ''size_bytes'' @ [CHR 0x22] @ '' value returned from the CSI '' @ [CHR 0x22] @ ''ListSnapshots'' @ [CHR 0x22] @ '' gRPC call if the driver supports it. When restoring a volume from this snapshot, the size of the volume MUST NOT be smaller than the restoreSize if it is specified, otherwise the restoration will fail. If not specified, it indicates that the size is unknown.'',
     ''                format: int64'',
     ''                minimum: 0'',
     ''                type: integer'',
     ''              snapshotHandle:'',
     ''                description: snapshotHandle is the CSI '' @ [CHR 0x22] @ ''snapshot_id'' @ [CHR 0x22] @ '' of a snapshot on the underlying storage system. If not specified, it indicates that dynamic snapshot creation has either failed or it is still in progress.'',
     ''                type: string'',
     ''            type: object'',
     ''        required:'',
     ''        - spec'',
     ''        type: object'',
     ''    served: false'',
     ''    storage: false'',
     ''    subresources:'',
     ''      status: {}'',
     ''status:'',
     ''  acceptedNames:'',
     ''    kind: '' @ [CHR 0x22, CHR 0x22],
     ''    plural: '' @ [CHR 0x22, CHR 0x22],
     ''  conditions: []'',
     ''  storedVersions: []'']"

definition bytes_deployTenantBaseSnapshotStorageK8sIo_volumesnapshotsYaml :: string where
  "bytes_deployTenantBaseSnapshotStorageK8sIo_volumesnapshotsYaml = unlines
    [''---'',
     ''apiVersion: apiextensions.k8s.io/v1'',
     ''kind: CustomResourceDefinition'',
     ''metadata:'',
     ''  annotations:'',
     ''    api-approved.kubernetes.io: '' @ [CHR 0x22] @ ''https://github.com/kubernetes-csi/external-snapshotter/pull/814'' @ [CHR 0x22],
     ''    controller-gen.kubebuilder.io/version: v0.12.0'',
     ''  creationTimestamp: null'',
     ''  name: volumesnapshots.snapshot.storage.k8s.io'',
     ''spec:'',
     ''  group: snapshot.storage.k8s.io'',
     ''  names:'',
     ''    kind: VolumeSnapshot'',
     ''    listKind: VolumeSnapshotList'',
     ''    plural: volumesnapshots'',
     ''    shortNames:'',
     ''    - vs'',
     ''    singular: volumesnapshot'',
     ''  scope: Namespaced'',
     ''  versions:'',
     ''  - additionalPrinterColumns:'',
     ''    - description: Indicates if the snapshot is ready to be used to restore a volume.'',
     ''      jsonPath: .status.readyToUse'',
     ''      name: ReadyToUse'',
     ''      type: boolean'',
     ''    - description: If a new snapshot needs to be created, this contains the name of'',
     ''        the source PVC from which this snapshot was (or will be) created.'',
     ''      jsonPath: .spec.source.persistentVolumeClaimName'',
     ''      name: SourcePVC'',
     ''      type: string'',
     ''    - description: If a snapshot already exists, this contains the name of the existing'',
     ''        VolumeSnapshotContent object representing the existing snapshot.'',
     ''      jsonPath: .spec.source.volumeSnapshotContentName'',
     ''      name: SourceSnapshotContent'',
     ''      type: string'',
     ''    - description: Represents the minimum size of volume required to rehydrate from'',
     ''        this snapshot.'',
     ''      jsonPath: .status.restoreSize'',
     ''      name: RestoreSize'',
     ''      type: string'',
     ''    - description: The name of the VolumeSnapshotClass requested by the VolumeSnapshot.'',
     ''      jsonPath: .spec.volumeSnapshotClassName'',
     ''      name: SnapshotClass'',
     ''      type: string'',
     ''    - description: Name of the VolumeSnapshotContent object to which the VolumeSnapshot'',
     ''        object intends to bind to. Please note that verification of binding actually'',
     ''        requires checking both VolumeSnapshot and VolumeSnapshotContent to ensure'',
     ''        both are pointing at each other. Binding MUST be verified prior to usage of'',
     ''        this object.'',
     ''      jsonPath: .status.boundVolumeSnapshotContentName'',
     ''      name: SnapshotContent'',
     ''      type: string'',
     ''    - description: Timestamp when the point-in-time snapshot was taken by the underlying'',
     ''        storage system.'',
     ''      jsonPath: .status.creationTime'',
     ''      name: CreationTime'',
     ''      type: date'',
     ''    - jsonPath: .metadata.creationTimestamp'',
     ''      name: Age'',
     ''      type: date'',
     ''    name: v1'',
     ''    schema:'',
     ''      openAPIV3Schema:'',
     ''        description: VolumeSnapshot is a user'' @ [CHR 0x27] @ ''s request for either creating a point-in-time'',
     ''          snapshot of a persistent volume, or binding to a pre-existing snapshot.'',
     ''        properties:'',
     ''          apiVersion:'',
     ''            description: '' @ [CHR 0x27] @ ''APIVersion defines the versioned schema of this representation'',
     ''              of an object. Servers should convert recognized schemas to the latest'',
     ''              internal value, and may reject unrecognized values. More info: https://git.k8s.io/community/contributors/devel/sig-architecture/api-conventions.md#resources'' @ [CHR 0x27],
     ''            type: string'',
     ''          kind:'',
     ''            description: '' @ [CHR 0x27] @ ''Kind is a string value representing the REST resource this'',
     ''              object represents. Servers may infer this from the endpoint the client'',
     ''              submits requests to. Cannot be updated. In CamelCase. More info: https://git.k8s.io/community/contributors/devel/sig-architecture/api-conventions.md#types-kinds'' @ [CHR 0x27],
     ''            type: string'',
     ''          metadata:'',
     ''            type: object'',
     ''          spec:'',
     ''            description: '' @ [CHR 0x27] @ ''spec defines the desired characteristics of a snapshot requested'',
     ''              by a user. More info: https://kubernetes.io/docs/concepts/storage/volume-snapshots#volumesnapshots'',
     ''              Required.'' @ [CHR 0x27],
     ''            properties:'',
     ''              source:'',
     ''                description: source specifies where a snapshot will be created from.'',
     ''                  This field is immutable after creation. Required.'',
     ''                properties:'',
     ''                  persistentVolumeClaimName:'',
     ''                    description: persistentVolumeClaimName specifies the name of the'',
     ''                      PersistentVolumeClaim object representing the volume from which'',
     ''                      a snapshot should be created. This PVC is assumed to be in the'',
     ''                      same namespace as the VolumeSnapshot object. This field should'',
     ''                      be set if the snapshot does not exists, and needs to be created.'',
     ''                      This field is immutable.'',
     ''                    type: string'',
     ''                  volumeSnapshotContentName:'',
     ''                    description: volumeSnapshotContentName specifies the name of a'',
     ''                      pre-existing VolumeSnapshotContent object representing an existing'',
     ''                      volume snapshot. This field should be set if the snapshot already'',
     ''                      exists and only needs a representation in Kubernetes. This field'',
     ''                      is immutable.'',
     ''                    type: string'',
     ''                type: object'',
     ''                oneOf:'',
     ''                - required: ['' @ [CHR 0x22] @ ''persistentVolumeClaimName'' @ [CHR 0x22] @ '']'',
     ''                - required: ['' @ [CHR 0x22] @ ''volumeSnapshotContentName'' @ [CHR 0x22] @ '']'',
     ''              volumeSnapshotClassName:'',
     ''                description: '' @ [CHR 0x27] @ ''VolumeSnapshotClassName is the name of the VolumeSnapshotClass'',
     ''                  requested by the VolumeSnapshot. VolumeSnapshotClassName may be'',
     ''                  left nil to indicate that the default SnapshotClass should be used.'',
     ''                  A given cluster may have multiple default Volume SnapshotClasses:'',
     ''                  one default per CSI Driver. If a VolumeSnapshot does not specify'',
     ''                  a SnapshotClass, VolumeSnapshotSource will be checked to figure'',
     ''                  out what the associated CSI Driver is, and the default VolumeSnapshotClass'',
     ''                  associated with that CSI Driver will be used. If more than one VolumeSnapshotClass'',
     ''                  exist for a given CSI Driver and more than one have been marked'',
     ''                  as default, CreateSnapshot will fail and generate an event. Empty'',
     ''                  string is not allowed for this field.'' @ [CHR 0x27],
     ''                type: string'',
     ''            required:'',
     ''            - source'',
     ''            type: object'',
     ''          status:'',
     ''            description: status represents the current information of a snapshot.'',
     ''              Consumers must verify binding between VolumeSnapshot and VolumeSnapshotContent'',
     ''              objects is successful (by validating that both VolumeSnapshot and VolumeSnapshotContent'',
     ''              point at each other) before using this object.'',
     ''            properties:'',
     ''              boundVolumeSnapshotContentName:'',
     ''                description: '' @ [CHR 0x27] @ ''boundVolumeSnapshotContentName is the name of the VolumeSnapshotContent'',
     ''                  object to which this VolumeSnapshot object intends to bind to. If'',
     ''                  not specified, it indicates that the VolumeSnapshot object has not'',
     ''                  been successfully bound to a VolumeSnapshotContent object yet. NOTE:'',
     ''                  To avoid possible security issues, consumers must verify binding'',
     ''                  between VolumeSnapshot and VolumeSnapshotContent objects is successful'',
     ''                  (by validating that both VolumeSnapshot and VolumeSnapshotContent'',
     ''                  point at each other) before using this object.'' @ [CHR 0x27],
     ''                type: string'',
     ''              creationTime:'',
     ''                description: creationTime is the timestamp when the point-in-time'',
     ''                  snapshot is taken by the underlying storage system. In dynamic snapshot'',
     ''                  creation case, this field will be filled in by the snapshot controller'',
     ''                  with the '' @ [CHR 0x22] @ ''creation_time'' @ [CHR 0x22] @ '' value returned from CSI '' @ [CHR 0x22] @ ''CreateSnapshot'' @ [CHR 0x22],
     ''                  gRPC call. For a pre-existing snapshot, this field will be filled'',
     ''                  with the '' @ [CHR 0x22] @ ''creation_time'' @ [CHR 0x22] @ '' value returned from the CSI '' @ [CHR 0x22] @ ''ListSnapshots'' @ [CHR 0x22],
     ''                  gRPC call if the driver supports it. If not specified, it may indicate'',
     ''                  that the creation time of the snapshot is unknown.'',
     ''                format: date-time'',
     ''                type: string'',
     ''              error:'',
     ''                description: error is the last observed error during snapshot creation,'',
     ''                  if any. This field could be helpful to upper level controllers(i.e.,'',
     ''                  application controller) to decide whether they should continue on'',
     ''                  waiting for the snapshot to be created based on the type of error'',
     ''                  reported. The snapshot controller will keep retrying when an error'',
     ''                  occurs during the snapshot creation. Upon success, this error field'',
     ''                  will be cleared.'',
     ''                properties:'',
     ''                  message:'',
     ''                    description: '' @ [CHR 0x27] @ ''message is a string detailing the encountered error'',
     ''                      during snapshot creation if specified. NOTE: message may be'',
     ''                      logged, and it should not contain sensitive information.'' @ [CHR 0x27],
     ''                    type: string'',
     ''                  time:'',
     ''                    description: time is the timestamp when the error was encountered.'',
     ''                    format: date-time'',
     ''                    type: string'',
     ''                type: object'',
     ''              readyToUse:'',
     ''                description: readyToUse indicates if the snapshot is ready to be used'',
     ''                  to restore a volume. In dynamic snapshot creation case, this field'',
     ''                  will be filled in by the snapshot controller with the '' @ [CHR 0x22] @ ''ready_to_use'' @ [CHR 0x22],
     ''                  value returned from CSI '' @ [CHR 0x22] @ ''CreateSnapshot'' @ [CHR 0x22] @ '' gRPC call. For a pre-existing'',
     ''                  snapshot, this field will be filled with the '' @ [CHR 0x22] @ ''ready_to_use'' @ [CHR 0x22] @ '' value'',
     ''                  returned from the CSI '' @ [CHR 0x22] @ ''ListSnapshots'' @ [CHR 0x22] @ '' gRPC call if the driver supports'',
     ''                  it, otherwise, this field will be set to '' @ [CHR 0x22] @ ''True'' @ [CHR 0x22] @ ''. If not specified,'',
     ''                  it means the readiness of a snapshot is unknown.'',
     ''                type: boolean'',
     ''              restoreSize:'',
     ''                type: string'',
     ''                description: restoreSize represents the minimum size of volume required'',
     ''                  to create a volume from this snapshot. In dynamic snapshot creation'',
     ''                  case, this field will be filled in by the snapshot controller with'',
     ''                  the '' @ [CHR 0x22] @ ''size_bytes'' @ [CHR 0x22] @ '' value returned from CSI '' @ [CHR 0x22] @ ''CreateSnapshot'' @ [CHR 0x22] @ '' gRPC call.'',
     ''                  For a pre-existing snapshot, this field will be filled with the'',
     ''                  '' @ [CHR 0x22] @ ''size_bytes'' @ [CHR 0x22] @ '' value returned from the CSI '' @ [CHR 0x22] @ ''ListSnapshots'' @ [CHR 0x22] @ '' gRPC call'',
     ''                  if the driver supports it. When restoring a volume from this snapshot,'',
     ''                  the size of the volume MUST NOT be smaller than the restoreSize'',
     ''                  if it is specified, otherwise the restoration will fail. If not'',
     ''                  specified, it indicates that the size is unknown.'',
     ''                pattern: ^('' @ [CHR 0x5C] @ ''+|-)?(([0-9]+('' @ [CHR 0x5C] @ ''.[0-9]*)?)|('' @ [CHR 0x5C] @ ''.[0-9]+))(([KMGTPE]i)|[numkMGTPE]|([eE]('' @ [CHR 0x5C] @ ''+|-)?(([0-9]+('' @ [CHR 0x5C] @ ''.[0-9]*)?)|('' @ [CHR 0x5C] @ ''.[0-9]+))))?$'',
     ''                x-kubernetes-int-or-string: true'',
     ''              volumeGroupSnapshotName:'',
     ''                description: VolumeGroupSnapshotName is the name of the VolumeGroupSnapshot'',
     ''                  of which this VolumeSnapshot is a part of.'',
     ''                type: string'',
     ''            type: object'',
     ''        required:'',
     ''        - spec'',
     ''        type: object'',
     ''    served: true'',
     ''    storage: true'',
     ''    subresources:'',
     ''      status: {}'',
     ''  - additionalPrinterColumns:'',
     ''    - description: Indicates if the snapshot is ready to be used to restore a volume.'',
     ''      jsonPath: .status.readyToUse'',
     ''      name: ReadyToUse'',
     ''      type: boolean'',
     ''    - description: If a new snapshot needs to be created, this contains the name of the source PVC from which this snapshot was (or will be) created.'',
     ''      jsonPath: .spec.source.persistentVolumeClaimName'',
     ''      name: SourcePVC'',
     ''      type: string'',
     ''    - description: If a snapshot already exists, this contains the name of the existing VolumeSnapshotContent object representing the existing snapshot.'',
     ''      jsonPath: .spec.source.volumeSnapshotContentName'',
     ''      name: SourceSnapshotContent'',
     ''      type: string'',
     ''    - description: Represents the minimum size of volume required to rehydrate from this snapshot.'',
     ''      jsonPath: .status.restoreSize'',
     ''      name: RestoreSize'',
     ''      type: string'',
     ''    - description: The name of the VolumeSnapshotClass requested by the VolumeSnapshot.'',
     ''      jsonPath: .spec.volumeSnapshotClassName'',
     ''      name: SnapshotClass'',
     ''      type: string'',
     ''    - description: Name of the VolumeSnapshotContent object to which the VolumeSnapshot object intends to bind to. Please note that verification of binding actually requires checking both VolumeSnapshot and VolumeSnapshotContent to ensure both are pointing at each other. Binding MUST be verified prior to usage of this object.'',
     ''      jsonPath: .status.boundVolumeSnapshotContentName'',
     ''      name: SnapshotContent'',
     ''      type: string'',
     ''    - description: Timestamp when the point-in-time snapshot was taken by the underlying storage system.'',
     ''      jsonPath: .status.creationTime'',
     ''      name: CreationTime'',
     ''      type: date'',
     ''    - jsonPath: .metadata.creationTimestamp'',
     ''      name: Age'',
     ''      type: date'',
     ''    name: v1beta1'',
     ''    # This indicates the v1beta1 version of the custom resource is deprecated.'',
     ''    # API requests to this version receive a warning in the server response.'',
     ''    deprecated: true'',
     ''    # This overrides the default warning returned to clients making v1beta1 API requests.'',
     ''    deprecationWarning: '' @ [CHR 0x22] @ ''snapshot.storage.k8s.io/v1beta1 VolumeSnapshot is deprecated; use snapshot.storage.k8s.io/v1 VolumeSnapshot'' @ [CHR 0x22],
     ''    schema:'',
     ''      openAPIV3Schema:'',
     ''        description: VolumeSnapshot is a user'' @ [CHR 0x27] @ ''s request for either creating a point-in-time snapshot of a persistent volume, or binding to a pre-existing snapshot.'',
     ''        properties:'',
     ''          apiVersion:'',
     ''            description: '' @ [CHR 0x27] @ ''APIVersion defines the versioned schema of this representation of an object. Servers should convert recognized schemas to the latest internal value, and may reject unrecognized values. More info: https://git.k8s.io/community/contributors/devel/sig-architecture/api-conventions.md#resources'' @ [CHR 0x27],
     ''            type: string'',
     ''          kind:'',
     ''            description: '' @ [CHR 0x27] @ ''Kind is a string value representing the REST resource this object represents. Servers may infer this from the endpoint the client submits requests to. Cannot be updated. In CamelCase. More info: https://git.k8s.io/community/contributors/devel/sig-architecture/api-conventions.md#types-kinds'' @ [CHR 0x27],
     ''            type: string'',
     ''          spec:'',
     ''            description: '' @ [CHR 0x27] @ ''spec defines the desired characteristics of a snapshot requested by a user. More info: https://kubernetes.io/docs/concepts/storage/volume-snapshots#volumesnapshots Required.'' @ [CHR 0x27],
     ''            properties:'',
     ''              source:'',
     ''                description: source specifies where a snapshot will be created from. This field is immutable after creation. Required.'',
     ''                properties:'',
     ''                  persistentVolumeClaimName:'',
     ''                    description: persistentVolumeClaimName specifies the name of the PersistentVolumeClaim object representing the volume from which a snapshot should be created. This PVC is assumed to be in the same namespace as the VolumeSnapshot object. This field should be set if the snapshot does not exists, and needs to be created. This field is immutable.'',
     ''                    type: string'',
     ''                  volumeSnapshotContentName:'',
     ''                    description: volumeSnapshotContentName specifies the name of a pre-existing VolumeSnapshotContent object representing an existing volume snapshot. This field should be set if the snapshot already exists and only needs a representation in Kubernetes. This field is immutable.'',
     ''                    type: string'',
     ''                type: object'',
     ''              volumeSnapshotClassName:'',
     ''                description: '' @ [CHR 0x27] @ ''VolumeSnapshotClassName is the name of the VolumeSnapshotClass requested by the VolumeSnapshot. VolumeSnapshotClassName may be left nil to indicate that the default SnapshotClass should be used. A given cluster may have multiple default Volume SnapshotClasses: one default per CSI Driver. If a VolumeSnapshot does not specify a SnapshotClass, VolumeSnapshotSource will be checked to figure out what the associated CSI Driver is, and the default VolumeSnapshotClass associated with that CSI Driver will be used. If more than one VolumeSnapshotClass exist for a given CSI Driver and more than one have been marked as default, CreateSnapshot will fail and generate an event. Empty string is not allowed for this field.'' @ [CHR 0x27],
     ''                type: string'',
     ''            required:'',
     ''            - source'',
     ''            type: object'',
     ''          status:'',
     ''            description: status represents the current information of a snapshot. Consumers must verify binding between VolumeSnapshot and VolumeSnapshotContent objects is successful (by validating that both VolumeSnapshot and VolumeSnapshotContent point at each other) before using this object.'',
     ''            properties:'',
     ''              boundVolumeSnapshotContentName:'',
     ''                description: '' @ [CHR 0x27] @ ''boundVolumeSnapshotContentName is the name of the VolumeSnapshotContent object to which this VolumeSnapshot object intends to bind to. If not specified, it indicates that the VolumeSnapshot object has not been successfully bound to a VolumeSnapshotContent object yet. NOTE: To avoid possible security issues, consumers must verify binding between VolumeSnapshot and VolumeSnapshotContent objects is successful (by validating that both VolumeSnapshot and VolumeSnapshotContent point at each other) before using this object.'' @ [CHR 0x27],
     ''                type: string'',
     ''              creationTime:'',
     ''                description: creationTime is the timestamp when the point-in-time snapshot is taken by the underlying storage system. In dynamic snapshot creation case, this field will be filled in by the snapshot controller with the '' @ [CHR 0x22] @ ''creation_time'' @ [CHR 0x22] @ '' value returned from CSI '' @ [CHR 0x22] @ ''CreateSnapshot'' @ [CHR 0x22] @ '' gRPC call. For a pre-existing snapshot, this field will be filled with the '' @ [CHR 0x22] @ ''creation_time'' @ [CHR 0x22] @ '' value returned from the CSI '' @ [CHR 0x22] @ ''ListSnapshots'' @ [CHR 0x22] @ '' gRPC call if the driver supports it. If not specified, it may indicate that the creation time of the snapshot is unknown.'',
     ''                format: date-time'',
     ''                type: string'',
     ''              error:'',
     ''                description: error is the last observed error during snapshot creation, if any. This field could be helpful to upper level controllers(i.e., application controller) to decide whether they should continue on waiting for the snapshot to be created based on the type of error reported. The snapshot controller will keep retrying when an error occurs during the snapshot creation. Upon success, this error field will be cleared.'',
     ''                properties:'',
     ''                  message:'',
     ''                    description: '' @ [CHR 0x27] @ ''message is a string detailing the encountered error during snapshot creation if specified. NOTE: message may be logged, and it should not contain sensitive information.'' @ [CHR 0x27],
     ''                    type: string'',
     ''                  time:'',
     ''                    description: time is the timestamp when the error was encountered.'',
     ''                    format: date-time'',
     ''                    type: string'',
     ''                type: object'',
     ''              readyToUse:'',
     ''                description: readyToUse indicates if the snapshot is ready to be used to restore a volume. In dynamic snapshot creation case, this field will be filled in by the snapshot controller with the '' @ [CHR 0x22] @ ''ready_to_use'' @ [CHR 0x22] @ '' value returned from CSI '' @ [CHR 0x22] @ ''CreateSnapshot'' @ [CHR 0x22] @ '' gRPC call. For a pre-existing snapshot, this field will be filled with the '' @ [CHR 0x22] @ ''ready_to_use'' @ [CHR 0x22] @ '' value returned from the CSI '' @ [CHR 0x22] @ ''ListSnapshots'' @ [CHR 0x22] @ '' gRPC call if the driver supports it, otherwise, this field will be set to '' @ [CHR 0x22] @ ''True'' @ [CHR 0x22] @ ''. If not specified, it means the readiness of a snapshot is unknown.'',
     ''                type: boolean'',
     ''              restoreSize:'',
     ''                type: string'',
     ''                description: restoreSize represents the minimum size of volume required to create a volume from this snapshot. In dynamic snapshot creation case, this field will be filled in by the snapshot controller with the '' @ [CHR 0x22] @ ''size_bytes'' @ [CHR 0x22] @ '' value returned from CSI '' @ [CHR 0x22] @ ''CreateSnapshot'' @ [CHR 0x22] @ '' gRPC call. For a pre-existing snapshot, this field will be filled with the '' @ [CHR 0x22] @ ''size_bytes'' @ [CHR 0x22] @ '' value returned from the CSI '' @ [CHR 0x22] @ ''ListSnapshots'' @ [CHR 0x22] @ '' gRPC call if the driver supports it. When restoring a volume from this snapshot, the size of the volume MUST NOT be smaller than the restoreSize if it is specified, otherwise the restoration will fail. If not specified, it indicates that the size is unknown.'',
     ''                pattern: ^('' @ [CHR 0x5C] @ ''+|-)?(([0-9]+('' @ [CHR 0x5C] @ ''.[0-9]*)?)|('' @ [CHR 0x5C] @ ''.[0-9]+))(([KMGTPE]i)|[numkMGTPE]|([eE]('' @ [CHR 0x5C] @ ''+|-)?(([0-9]+('' @ [CHR 0x5C] @ ''.[0-9]*)?)|('' @ [CHR 0x5C] @ ''.[0-9]+))))?$'',
     ''                x-kubernetes-int-or-string: true'',
     ''            type: object'',
     ''        required:'',
     ''        - spec'',
     ''        type: object'',
     ''    served: false'',
     ''    storage: false'',
     ''    subresources:'',
     ''      status: {}'',
     ''status:'',
     ''  acceptedNames:'',
     ''    kind: '' @ [CHR 0x22, CHR 0x22],
     ''    plural: '' @ [CHR 0x22, CHR 0x22],
     ''  conditions: []'',
     ''  storedVersions: []'']"

definition bytes_deployTenantDevOverlayInfraNamespaceConfigmapYaml :: string where
  "bytes_deployTenantDevOverlayInfraNamespaceConfigmapYaml = unlines
    [''apiVersion: v1'',
     ''kind: ConfigMap'',
     ''metadata:'',
     ''  name: driver-config'',
     ''  namespace: kubevirt-csi-driver'',
     ''data:'',
     ''  infraClusterNamespace: kvcluster'',
     ''  infraClusterLabels: csi-driver/cluster=tenant'']"

definition bytes_deployTenantDevOverlayKustomizationYaml :: string where
  "bytes_deployTenantDevOverlayKustomizationYaml = unlines
    [''resources:'',
     ''- ../base'',
     ''namespace: kubevirt-csi-driver'',
     ''patches:'',
     ''- path: infra-namespace-configmap.yaml'',
     ''- path: node.yaml'',
     ''- path: storageclass.yaml'']"

definition bytes_deployTenantDevOverlayNodeYaml :: string where
  "bytes_deployTenantDevOverlayNodeYaml = unlines
    [''kind: DaemonSet'',
     ''apiVersion: apps/v1'',
     ''metadata:'',
     ''  name: kubevirt-csi-node'',
     ''  namespace: kubevirt-csi-driver'',
     ''spec:'',
     ''  template:'',
     ''    spec:'',
     ''      containers:'',
     ''        - name: csi-driver'',
     ''          image: 192.168.66.2:5000/kubevirt-csi-driver:latest'']"

definition bytes_deployTenantDevOverlayStorageclassYaml :: string where
  "bytes_deployTenantDevOverlayStorageclassYaml = unlines
    [''apiVersion: storage.k8s.io/v1'',
     ''kind: StorageClass'',
     ''metadata:'',
     ''  name: kubevirt'',
     ''  annotations:'',
     ''    storageclass.kubernetes.io/is-default-class: '' @ [CHR 0x22] @ ''true'' @ [CHR 0x22],
     ''provisioner: csi.kubevirt.io'',
     ''parameters:'',
     ''  infraStorageClassName: rook-ceph-block'',
     ''  bus: scsi'']"

end
