(* ===== verification/Embedded_Assets.thy ===== *)
theory Embedded_Assets
  imports Embedded_Manifests Go_Url "HOL-Library.Multiset" "HOL-Library.Sublist"
begin

text \<open>
  The embedded files of \<open>pkg/generated/bindata.go\<close>: the table and the tree of the files, the functions that
  read them by name and by directory, and those that restore them to a file system.  The file system is a
  parameter; every call to it is logged with its result.  Where the code ranges over a map, the order is
  that of a rank of the keys, another parameter: every order of distinct keys is that of some rank.

  The lemmas show that the table and the tree hold the same files, that \<open>RestoreAssets\<close> ends, and that it does
  what one would write down for it: for each file below the given directory, create the directory, write the
  contents, set the times, and stop at the first error.
\<close>

section \<open>Files\<close>

record bindataFileInfo =
  fi_name :: string
  fi_size :: int
  fi_mode :: "32 word"
  fi_modTime :: int

definition Name :: "bindataFileInfo \<Rightarrow> string" where "Name fi = fi_name fi"
definition Size :: "bindataFileInfo \<Rightarrow> int" where "Size fi = fi_size fi"
definition Mode :: "bindataFileInfo \<Rightarrow> 32 word" where "Mode fi = fi_mode fi"
definition ModTime :: "bindataFileInfo \<Rightarrow> int" where "ModTime fi = fi_modTime fi"

text \<open>\<open>os.ModeDir\<close> is the highest bit.\<close>

definition IsDir :: "bindataFileInfo \<Rightarrow> bool" where "IsDir fi \<longleftrightarrow> bit (fi_mode fi) 31"
definition Sys :: "bindataFileInfo \<Rightarrow> unit option" where "Sys fi = None"

record asset =
  a_bytes :: string
  a_info :: bindataFileInfo

text \<open>The body that the functions of all files share; a time is in seconds since the epoch.\<close>

definition loaded :: "gerr + string \<Rightarrow> string \<Rightarrow> gerr + asset" where
  "loaded r name = (case r of
       Inl err \<Rightarrow> Inl err
     | Inr bytes \<Rightarrow> Inr \<lparr>a_bytes = bytes,
         a_info = \<lparr>fi_name = name, fi_size = 0, fi_mode = 0, fi_modTime = 0\<rparr>\<rparr>)"

definition deployControllerInfraBaseDeployYamlBytes :: "gerr + string" where
  "deployControllerInfraBaseDeployYamlBytes = Inr bytes_deployControllerInfraBaseDeployYaml"

definition deployControllerInfraBaseDeployYaml :: "gerr + asset" where
  "deployControllerInfraBaseDeployYaml = loaded deployControllerInfraBaseDeployYamlBytes ''deploy/controller-infra/base/deploy.yaml''"

definition deployControllerInfraBaseKustomizationYamlBytes :: "gerr + string" where
  "deployControllerInfraBaseKustomizationYamlBytes = Inr bytes_deployControllerInfraBaseKustomizationYaml"

definition deployControllerInfraBaseKustomizationYaml :: "gerr + asset" where
  "deployControllerInfraBaseKustomizationYaml = loaded deployControllerInfraBaseKustomizationYamlBytes ''deploy/controller-infra/base/kustomization.yaml''"

definition deployControllerInfraDevOverlayControllerYamlBytes :: "gerr + string" where
  "deployControllerInfraDevOverlayControllerYamlBytes = Inr bytes_deployControllerInfraDevOverlayControllerYaml"

definition deployControllerInfraDevOverlayControllerYaml :: "gerr + asset" where
  "deployControllerInfraDevOverlayControllerYaml = loaded deployControllerInfraDevOverlayControllerYamlBytes ''deploy/controller-infra/dev-overlay/controller.yaml''"

definition deployControllerInfraDevOverlayInfraNamespaceConfigmapYamlBytes :: "gerr + string" where
  "deployControllerInfraDevOverlayInfraNamespaceConfigmapYamlBytes = Inr bytes_deployControllerInfraDevOverlayInfraNamespaceConfigmapYaml"

definition deployControllerInfraDevOverlayInfraNamespaceConfigmapYaml :: "gerr + asset" where
  "deployControllerInfraDevOverlayInfraNamespaceConfigmapYaml = loaded deployControllerInfraDevOverlayInfraNamespaceConfigmapYamlBytes ''deploy/controller-infra/dev-overlay/infra-namespace-configmap.yaml''"

definition deployControllerInfraDevOverlayKustomizationYamlBytes :: "gerr + string" where
  "deployControllerInfraDevOverlayKustomizationYamlBytes = Inr bytes_deployControllerInfraDevOverlayKustomizationYaml"

definition deployControllerInfraDevOverlayKustomizationYaml :: "gerr + asset" where
  "deployControllerInfraDevOverlayKustomizationYaml = loaded deployControllerInfraDevOverlayKustomizationYamlBytes ''deploy/controller-infra/dev-overlay/kustomization.yaml''"

definition deployControllerTenantBaseDeployYamlBytes :: "gerr + string" where
  "deployControllerTenantBaseDeployYamlBytes = Inr bytes_deployControllerTenantBaseDeployYaml"

definition deployControllerTenantBaseDeployYaml :: "gerr + asset" where
  "deployControllerTenantBaseDeployYaml = loaded deployControllerTenantBaseDeployYamlBytes ''deploy/controller-tenant/base/deploy.yaml''"

definition deployControllerTenantBaseKustomizationYamlBytes :: "gerr + string" where
  "deployControllerTenantBaseKustomizationYamlBytes = Inr bytes_deployControllerTenantBaseKustomizationYaml"

definition deployControllerTenantBaseKustomizationYaml :: "gerr + asset" where
  "deployControllerTenantBaseKustomizationYaml = loaded deployControllerTenantBaseKustomizationYamlBytes ''deploy/controller-tenant/base/kustomization.yaml''"

definition deployControllerTenantDevOverlayControllerYamlBytes :: "gerr + string" where
  "deployControllerTenantDevOverlayControllerYamlBytes = Inr bytes_deployControllerTenantDevOverlayControllerYaml"

definition deployControllerTenantDevOverlayControllerYaml :: "gerr + asset" where
  "deployControllerTenantDevOverlayControllerYaml = loaded deployControllerTenantDevOverlayControllerYamlBytes ''deploy/controller-tenant/dev-overlay/controller.yaml''"

definition deployControllerTenantDevOverlayKustomizationYamlBytes :: "gerr + string" where
  "deployControllerTenantDevOverlayKustomizationYamlBytes = Inr bytes_deployControllerTenantDevOverlayKustomizationYaml"

definition deployControllerTenantDevOverlayKustomizationYaml :: "gerr + asset" where
  "deployControllerTenantDevOverlayKustomizationYaml = loaded deployControllerTenantDevOverlayKustomizationYamlBytes ''deploy/controller-tenant/dev-overlay/kustomization.yaml''"

definition deployExampleInfraclusterKubeconfigYamlBytes :: "gerr + string" where
  "deployExampleInfraclusterKubeconfigYamlBytes = Inr bytes_deployExampleInfraclusterKubeconfigYaml"

definition deployExampleInfraclusterKubeconfigYaml :: "gerr + asset" where
  "deployExampleInfraclusterKubeconfigYaml = loaded deployExampleInfraclusterKubeconfigYamlBytes ''deploy/example/infracluster-kubeconfig.yaml''"

definition deployExampleKubevirtConfigYamlBytes :: "gerr + string" where
  "deployExampleKubevirtConfigYamlBytes = Inr bytes_deployExampleKubevirtConfigYaml"

definition deployExampleKubevirtConfigYaml :: "gerr + asset" where
  "deployExampleKubevirtConfigYaml = loaded deployExampleKubevirtConfigYamlBytes ''deploy/example/kubevirt-config.yaml''"

definition deployExampleKubevirtYamlBytes :: "gerr + string" where
  "deployExampleKubevirtYamlBytes = Inr bytes_deployExampleKubevirtYaml"

definition deployExampleKubevirtYaml :: "gerr + asset" where
  "deployExampleKubevirtYaml = loaded deployExampleKubevirtYamlBytes ''deploy/example/kubevirt.yaml''"

definition deployExampleStorageClaimYamlBytes :: "gerr + string" where
  "deployExampleStorageClaimYamlBytes = Inr bytes_deployExampleStorageClaimYaml"

definition deployExampleStorageClaimYaml :: "gerr + asset" where
  "deployExampleStorageClaimYaml = loaded deployExampleStorageClaimYamlBytes ''deploy/example/storage-claim.yaml''"

definition deployExampleStorageclassYamlBytes :: "gerr + string" where
  "deployExampleStorageclassYamlBytes = Inr bytes_deployExampleStorageclassYaml"

definition deployExampleStorageclassYaml :: "gerr + asset" where
  "deployExampleStorageclassYaml = loaded deployExampleStorageclassYamlBytes ''deploy/example/storageclass.yaml''"

definition deployExampleTestPodYamlBytes :: "gerr + string" where
  "deployExampleTestPodYamlBytes = Inr bytes_deployExampleTestPodYaml"

definition deployExampleTestPodYaml :: "gerr + asset" where
  "deployExampleTestPodYaml = loaded deployExampleTestPodYamlBytes ''deploy/example/test-pod.yaml''"

definition deployInfraClusterServiceAccountYamlBytes :: "gerr + string" where
  "deployInfraClusterServiceAccountYamlBytes = Inr bytes_deployInfraClusterServiceAccountYaml"

definition deployInfraClusterServiceAccountYaml :: "gerr + asset" where
  "deployInfraClusterServiceAccountYaml = loaded deployInfraClusterServiceAccountYamlBytes ''deploy/infra-cluster-service-account.yaml''"

definition deployTenantBaseDeployYamlBytes :: "gerr + string" where
  "deployTenantBaseDeployYamlBytes = Inr bytes_deployTenantBaseDeployYaml"

definition deployTenantBaseDeployYaml :: "gerr + asset" where
  "deployTenantBaseDeployYaml = loaded deployTenantBaseDeployYamlBytes ''deploy/tenant/base/deploy.yaml''"

definition deployTenantBaseKustomizationYamlBytes :: "gerr + string" where
  "deployTenantBaseKustomizationYamlBytes = Inr bytes_deployTenantBaseKustomizationYaml"

definition deployTenantBaseKustomizationYaml :: "gerr + asset" where
  "deployTenantBaseKustomizationYaml = loaded deployTenantBaseKustomizationYamlBytes ''deploy/tenant/base/kustomization.yaml''"

definition deployTenantBaseRbacSnapshotControllerYamlBytes :: "gerr + string" where
  "deployTenantBaseRbacSnapshotControllerYamlBytes = Inr bytes_deployTenantBaseRbacSnapshotControllerYaml"

definition deployTenantBaseRbacSnapshotControllerYaml :: "gerr + asset" where
  "deployTenantBaseRbacSnapshotControllerYaml = loaded deployTenantBaseRbacSnapshotControllerYamlBytes ''deploy/tenant/base/rbac-snapshot-controller.yaml''"

definition deployTenantBaseSetupSnapshotControllerYamlBytes :: "gerr + string" where
  "deployTenantBaseSetupSnapshotControllerYamlBytes = Inr bytes_deployTenantBaseSetupSnapshotControllerYaml"

definition deployTenantBaseSetupSnapshotControllerYaml :: "gerr + asset" where
  "deployTenantBaseSetupSnapshotControllerYaml = loaded deployTenantBaseSetupSnapshotControllerYamlBytes ''deploy/tenant/base/setup-snapshot-controller.yaml''"

definition deployTenantBaseSnapshotStorageK8sIo_volumesnapshotclassesYamlBytes :: "gerr + string" where
  "deployTenantBaseSnapshotStorageK8sIo_volumesnapshotclassesYamlBytes = Inr bytes_deployTenantBaseSnapshotStorageK8sIo_volumesnapshotclassesYaml"

definition deployTenantBaseSnapshotStorageK8sIo_volumesnapshotclassesYaml :: "gerr + asset" where
  "deployTenantBaseSnapshotStorageK8sIo_volumesnapshotclassesYaml = loaded deployTenantBaseSnapshotStorageK8sIo_volumesnapshotclassesYamlBytes ''deploy/tenant/base/snapshot.storage.k8s.io_volumesnapshotclasses.yaml''"

definition deployTenantBaseSnapshotStorageK8sIo_volumesnapshotcontentsYamlBytes :: "gerr + string" where
  "deployTenantBaseSnapshotStorageK8sIo_volumesnapshotcontentsYamlBytes = Inr bytes_deployTenantBaseSnapshotStorageK8sIo_volumesnapshotcontentsYaml"

definition deployTenantBaseSnapshotStorageK8sIo_volumesnapshotcontentsYaml :: "gerr + asset" where
  "deployTenantBaseSnapshotStorageK8sIo_volumesnapshotcontentsYaml = loaded deployTenantBaseSnapshotStorageK8sIo_volumesnapshotcontentsYamlBytes ''deploy/tenant/base/snapshot.storage.k8s.io_volumesnapshotcontents.yaml''"

definition deployTenantBaseSnapshotStorageK8sIo_volumesnapshotsYamlBytes :: "gerr + string" where
  "deployTenantBaseSnapshotStorageK8sIo_volumesnapshotsYamlBytes = Inr bytes_deployTenantBaseSnapshotStorageK8sIo_volumesnapshotsYaml"

definition deployTenantBaseSnapshotStorageK8sIo_volumesnapshotsYaml :: "gerr + asset" where
  "deployTenantBaseSnapshotStorageK8sIo_volumesnapshotsYaml = loaded deployTenantBaseSnapshotStorageK8sIo_volumesnapshotsYamlBytes ''deploy/tenant/base/snapshot.storage.k8s.io_volumesnapshots.yaml''"

definition deployTenantDevOverlayInfraNamespaceConfigmapYamlBytes :: "gerr + string" where
  "deployTenantDevOverlayInfraNamespaceConfigmapYamlBytes = Inr bytes_deployTenantDevOverlayInfraNamespaceConfigmapYaml"

definition deployTenantDevOverlayInfraNamespaceConfigmapYaml :: "gerr + asset" where
  "deployTenantDevOverlayInfraNamespaceConfigmapYaml = loaded deployTenantDevOverlayInfraNamespaceConfigmapYamlBytes ''deploy/tenant/dev-overlay/infra-namespace-configmap.yaml''"

definition deployTenantDevOverlayKustomizationYamlBytes :: "gerr + string" where
  "deployTenantDevOverlayKustomizationYamlBytes = Inr bytes_deployTenantDevOverlayKustomizationYaml"

definition deployTenantDevOverlayKustomizationYaml :: "gerr + asset" where
  "deployTenantDevOverlayKustomizationYaml = loaded deployTenantDevOverlayKustomizationYamlBytes ''deploy/tenant/dev-overlay/kustomization.yaml''"

definition deployTenantDevOverlayNodeYamlBytes :: "gerr + string" where
  "deployTenantDevOverlayNodeYamlBytes = Inr bytes_deployTenantDevOverlayNodeYaml"

definition deployTenantDevOverlayNodeYaml :: "gerr + asset" where
  "deployTenantDevOverlayNodeYaml = loaded deployTenantDevOverlayNodeYamlBytes ''deploy/tenant/dev-overlay/node.yaml''"

definition deployTenantDevOverlayStorageclassYamlBytes :: "gerr + string" where
  "deployTenantDevOverlayStorageclassYamlBytes = Inr bytes_deployTenantDevOverlayStorageclassYaml"

definition deployTenantDevOverlayStorageclassYaml :: "gerr + asset" where
  "deployTenantDevOverlayStorageclassYaml = loaded deployTenantDevOverlayStorageclassYamlBytes ''deploy/tenant/dev-overlay/storageclass.yaml''"

section \<open>The table and the tree\<close>

datatype bintree = Bintree (Func: "(gerr + asset) option") (Children: "(string \<times> bintree) list")

definition bindata :: "(string \<times> (gerr + asset)) list" where
  "bindata =
    [(''deploy/controller-infra/base/deploy.yaml'', deployControllerInfraBaseDeployYaml),
     (''deploy/controller-infra/base/kustomization.yaml'', deployControllerInfraBaseKustomizationYaml),
     (''deploy/controller-infra/dev-overlay/controller.yaml'', deployControllerInfraDevOverlayControllerYaml),
     (''deploy/controller-infra/dev-overlay/infra-namespace-configmap.yaml'', deployControllerInfraDevOverlayInfraNamespaceConfigmapYaml),
     (''deploy/controller-infra/dev-overlay/kustomization.yaml'', deployControllerInfraDevOverlayKustomizationYaml),
     (''deploy/controller-tenant/base/deploy.yaml'', deployControllerTenantBaseDeployYaml),
     (''deploy/controller-tenant/base/kustomization.yaml'', deployControllerTenantBaseKustomizationYaml),
     (''deploy/controller-tenant/dev-overlay/controller.yaml'', deployControllerTenantDevOverlayControllerYaml),
     (''deploy/controller-tenant/dev-overlay/kustomization.yaml'', deployControllerTenantDevOverlayKustomizationYaml),
     (''deploy/example/infracluster-kubeconfig.yaml'', deployExampleInfraclusterKubeconfigYaml),
     (''deploy/example/kubevirt-config.yaml'', deployExampleKubevirtConfigYaml),
     (''deploy/example/kubevirt.yaml'', deployExampleKubevirtYaml),
     (''deploy/example/storage-claim.yaml'', deployExampleStorageClaimYaml),
     (''deploy/example/storageclass.yaml'', deployExampleStorageclassYaml),
     (''deploy/example/test-pod.yaml'', deployExampleTestPodYaml),
     (''deploy/infra-cluster-service-account.yaml'', deployInfraClusterServiceAccountYaml),
     (''deploy/tenant/base/deploy.yaml'', deployTenantBaseDeployYaml),
     (''deploy/tenant/base/kustomization.yaml'', deployTenantBaseKustomizationYaml),
     (''deploy/tenant/base/rbac-snapshot-controller.yaml'', deployTenantBaseRbacSnapshotControllerYaml),
     (''deploy/tenant/base/setup-snapshot-controller.yaml'', deployTenantBaseSetupSnapshotControllerYaml),
     (''deploy/tenant/base/snapshot.storage.k8s.io_volumesnapshotclasses.yaml'', deployTenantBaseSnapshotStorageK8sIo_volumesnapshotclassesYaml),
     (''deploy/tenant/base/snapshot.storage.k8s.io_volumesnapshotcontents.yaml'', deployTenantBaseSnapshotStorageK8sIo_volumesnapshotcontentsYaml),
     (''deploy/tenant/base/snapshot.storage.k8s.io_volumesnapshots.yaml'', deployTenantBaseSnapshotStorageK8sIo_volumesnapshotsYaml),
     (''deploy/tenant/dev-overlay/infra-namespace-configmap.yaml'', deployTenantDevOverlayInfraNamespaceConfigmapYaml),
     (''deploy/tenant/dev-overlay/kustomization.yaml'', deployTenantDevOverlayKustomizationYaml),
     (''deploy/tenant/dev-overlay/node.yaml'', deployTenantDevOverlayNodeYaml),
     (''deploy/tenant/dev-overlay/storageclass.yaml'', deployTenantDevOverlayStorageclassYaml)]"

definition bintree_root :: bintree where
  "bintree_root = Bintree None
     [(''deploy'', Bintree None
        [(''controller-infra'', Bintree None
           [(''base'', Bintree None
              [(''deploy.yaml'', Bintree (Some deployControllerInfraBaseDeployYaml) []),
               (''kustomization.yaml'', Bintree (Some deployControllerInfraBaseKustomizationYaml) [])]),
            (''dev-overlay'', Bintree None
              [(''controller.yaml'', Bintree (Some deployControllerInfraDevOverlayControllerYaml) []),
               (''infra-namespace-configmap.yaml'', Bintree (Some deployControllerInfraDevOverlayInfraNamespaceConfigmapYaml) []),
               (''kustomization.yaml'', Bintree (Some deployControllerInfraDevOverlayKustomizationYaml) [])])]),
         (''controller-tenant'', Bintree None
           [(''base'', Bintree None
              [(''deploy.yaml'', Bintree (Some deployControllerTenantBaseDeployYaml) []),
               (''kustomization.yaml'', Bintree (Some deployControllerTenantBaseKustomizationYaml) [])]),
            (''dev-overlay'', Bintree None
              [(''controller.yaml'', Bintree (Some deployControllerTenantDevOverlayControllerYaml) []),
               (''kustomization.yaml'', Bintree (Some deployControllerTenantDevOverlayKustomizationYaml) [])])]),
         (''example'', Bintree None
           [(''infracluster-kubeconfig.yaml'', Bintree (Some deployExampleInfraclusterKubeconfigYaml) []),
            (''kubevirt-config.yaml'', Bintree (Some deployExampleKubevirtConfigYaml) []),
            (''kubevirt.yaml'', Bintree (Some deployExampleKubevirtYaml) []),
            (''storage-claim.yaml'', Bintree (Some deployExampleStorageClaimYaml) []),
            (''storageclass.yaml'', Bintree (Some deployExampleStorageclassYaml) []),
            (''test-pod.yaml'', Bintree (Some deployExampleTestPodYaml) [])]),
         (''infra-cluster-service-account.yaml'', Bintree (Some deployInfraClusterServiceAccountYaml) []),
         (''tenant'', Bintree None
           [(''base'', Bintree None
              [(''deploy.yaml'', Bintree (Some deployTenantBaseDeployYaml) []),
               (''kustomization.yaml'', Bintree (Some deployTenantBaseKustomizationYaml) []),
               (''rbac-snapshot-controller.yaml'', Bintree (Some deployTenantBaseRbacSnapshotControllerYaml) []),
               (''setup-snapshot-controller.yaml'', Bintree (Some deployTenantBaseSetupSnapshotControllerYaml) []),
               (''snapshot.storage.k8s.io_volumesnapshotclasses.yaml'', Bintree (Some deployTenantBaseSnapshotStorageK8sIo_volumesnapshotclassesYaml) []),
               (''snapshot.storage.k8s.io_volumesnapshotcontents.yaml'', Bintree (Some deployTenantBaseSnapshotStorageK8sIo_volumesnapshotcontentsYaml) []),
               (''snapshot.storage.k8s.io_volumesnapshots.yaml'', Bintree (Some deployTenantBaseSnapshotStorageK8sIo_volumesnapshotsYaml) [])]),
            (''dev-overlay'', Bintree None
              [(''infra-namespace-configmap.yaml'', Bintree (Some deployTenantDevOverlayInfraNamespaceConfigmapYaml) []),
               (''kustomization.yaml'', Bintree (Some deployTenantDevOverlayKustomizationYaml) []),
               (''node.yaml'', Bintree (Some deployTenantDevOverlayNodeYaml) []),
               (''storageclass.yaml'', Bintree (Some deployTenantDevOverlayStorageclassYaml) [])])])])]"

section \<open>Reading by name\<close>

definition canonicalName :: "string \<Rightarrow> string" where
  "canonicalName name = map (\<lambda>c. if c = CHR 0x5C then CHR ''/'' else c) name"

definition cannot_read :: "string \<Rightarrow> string \<Rightarrow> gerr \<Rightarrow> gerr" where
  "cannot_read what name err =
     PlainErr (what @ '' '' @ name @ '' can'' @ [CHR 0x27] @ ''t read by error: '' @ Error_string err)"

definition not_found :: "string \<Rightarrow> string \<Rightarrow> gerr" where
  "not_found what name = PlainErr (what @ '' '' @ name @ '' not found'')"

definition Asset :: "string \<Rightarrow> gerr + string" where
  "Asset name = (case map_of bindata (canonicalName name) of
       Some f \<Rightarrow> (case f of Inl err \<Rightarrow> Inl (cannot_read ''Asset'' name err) | Inr a \<Rightarrow> Inr (a_bytes a))
     | None \<Rightarrow> Inl (not_found ''Asset'' name))"

definition MustAsset :: "string \<Rightarrow> string outcome" where
  "MustAsset name = (case Asset name of
       Inl err \<Rightarrow> Panic (''asset: Asset('' @ name @ ''): '' @ Error_string err)
     | Inr a \<Rightarrow> Ok a)"

definition AssetInfo :: "string \<Rightarrow> gerr + bindataFileInfo" where
  "AssetInfo name = (case map_of bindata (canonicalName name) of
       Some f \<Rightarrow> (case f of Inl err \<Rightarrow> Inl (cannot_read ''AssetInfo'' name err) | Inr a \<Rightarrow> Inr (a_info a))
     | None \<Rightarrow> Inl (not_found ''AssetInfo'' name))"

type_synonym rank = "string \<Rightarrow> string \<Rightarrow> nat"

definition AssetNames :: "rank \<Rightarrow> string list" where
  "AssetNames rank = sort_key (rank '''') (map fst bindata)"

section \<open>Reading by directory\<close>

fun walk :: "bintree \<Rightarrow> string list \<Rightarrow> bintree option" where
  "walk node [] = Some node"
| "walk node (p # ps) = (case map_of (Children node) p of None \<Rightarrow> None | Some n \<Rightarrow> walk n ps)"

definition node_at :: "string \<Rightarrow> bintree option" where
  "node_at name = (if length name \<noteq> 0 then walk bintree_root (Split (canonicalName name) CHR ''/'')
     else Some bintree_root)"

definition AssetDir :: "rank \<Rightarrow> string \<Rightarrow> gerr + string list" where
  "AssetDir rank name = (case node_at name of
       None \<Rightarrow> Inl (not_found ''Asset'' name)
     | Some node \<Rightarrow>
         if Func node \<noteq> None then Inl (not_found ''Asset'' name)
         else Inr (sort_key (rank name) (map fst (Children node))))"

section \<open>Restoring\<close>

datatype fcall = OsMkdirAll string "32 word" | OsWriteFile string string "32 word" | OsChtimes string int int

record 'e fworld =
  fw_env :: 'e
  fw_log :: "(fcall \<times> gerr option) list"

type_synonym 'e filesystem = "fcall \<Rightarrow> 'e \<Rightarrow> gerr option \<times> 'e"

definition fs_call :: "'e filesystem \<Rightarrow> fcall \<Rightarrow> ('e fworld, gerr option) go" where
  "fs_call fs c w = (case fs c (fw_env w) of (err, e') \<Rightarrow>
     (Ok err, w\<lparr>fw_env := e', fw_log := fw_log w @ [(c, err)]\<rparr>))"

text \<open>\<open>filepath.Join\<close> on Unix.\<close>

definition filepathJoin :: "string list \<Rightarrow> string" where
  "filepathJoin elem = (let es = dropWhile (\<lambda>e. e = '''') elem in
     if es = [] then '''' else Clean (Join CHR ''/'' es))"

definition filePath :: "string \<Rightarrow> string \<Rightarrow> string" where
  "filePath dir name = filepathJoin (dir # Split (canonicalName name) CHR ''/'')"

definition RestoreAsset :: "'e filesystem \<Rightarrow> string \<Rightarrow> string \<Rightarrow> ('e fworld, gerr option) go" where
  "RestoreAsset fs dir name = (case Asset name of
       Inl err \<Rightarrow> ret (Some err)
     | Inr data \<Rightarrow> (case AssetInfo name of
         Inl err \<Rightarrow> ret (Some err)
       | Inr info \<Rightarrow>
           bindG (fs_call fs (OsMkdirAll (filePath dir (Dir name)) 493)) (\<lambda>err.
           if err \<noteq> None then ret err
           else bindG (fs_call fs (OsWriteFile (filePath dir name) data (Mode info))) (\<lambda>err.
           if err \<noteq> None then ret err
           else bindG (fs_call fs (OsChtimes (filePath dir name) (ModTime info) (ModTime info))) (\<lambda>err.
           if err \<noteq> None then ret err else ret None)))))"

text \<open>A loop whose body returns an error: it ends at the first one.\<close>

fun each :: "('a \<Rightarrow> ('w, gerr option) go) \<Rightarrow> 'a list \<Rightarrow> ('w, gerr option) go" where
  "each f [] = ret None"
| "each f (x # xs) = bindG (f x) (\<lambda>err. if err \<noteq> None then ret err else each f xs)"

lemma each_cong [fundef_cong]: "xs = ys \<Longrightarrow> (\<And>x. x \<in> set ys \<Longrightarrow> f x = g x) \<Longrightarrow> each f xs = each g ys"
  by (induction ys arbitrary: xs) (simp_all cong: if_cong)

lemma child_smaller: "map_of (Children t) p = Some n \<Longrightarrow> size n < size t"
proof -
  have "(p, n) \<in> set ch \<Longrightarrow> size n < size (Bintree f ch)" for f ch
    by (induction ch) auto
  then show "map_of (Children t) p = Some n \<Longrightarrow> size n < size t"
    by (cases t) (auto dest: map_of_SomeD)
qed

text \<open>A name of the tree: a segment without backslashes.  Names are distinct; files and no others have no children.\<close>

definition keyName :: "string \<Rightarrow> bool" where
  "keyName k \<longleftrightarrow> segment k \<and> CHR 0x5C \<notin> set k"

fun tree_ok :: "bintree \<Rightarrow> bool" where
  "tree_ok (Bintree f ch) \<longleftrightarrow> distinct (map fst ch) \<and> (f \<noteq> None \<longleftrightarrow> ch = []) \<and>
     (\<forall>x \<in> set ch. keyName (fst x) \<and> tree_ok (snd x))"

lemma tree_ok_child: "tree_ok t \<Longrightarrow> map_of (Children t) p = Some n \<Longrightarrow> tree_ok n \<and> keyName p"
  by (cases t) (auto dest!: map_of_SomeD)

lemma tree_ok_walk: "tree_ok t \<Longrightarrow> walk t ps = Some n \<Longrightarrow> tree_ok n \<and> list_all keyName ps"
  by (induction t ps rule: walk.induct) (auto dest: tree_ok_child split: option.splits)

lemma walk_append:
  "walk t (ps @ qs) = (case walk t ps of None \<Rightarrow> None | Some n \<Rightarrow> walk n qs)"
  by (induction t ps rule: walk.induct) (auto split: option.splits)

lemma root_ok: "tree_ok bintree_root"
  by (simp add: bintree_root_def keyName_def segment_def)

text \<open>Canonical names, split at slashes and joined again.\<close>

lemma canonicalName_append [simp]: "canonicalName (s @ t) = canonicalName s @ canonicalName t"
  by (simp add: canonicalName_def)

lemma canonicalName_id [simp]: "CHR 0x5C \<notin> set s \<Longrightarrow> canonicalName s = s"
  by (induction s) (auto simp: canonicalName_def)

lemma canonicalName_slash [simp]: "canonicalName (CHR ''/'' # s) = CHR ''/'' # canonicalName s"
  by (simp add: canonicalName_def)

lemma Split_append: "Split (s @ c # t) c = Split s c @ Split t c"
  by (induction s) (auto split: list.splits)

lemma Split_no_sep_in: "s \<in> set (Split t c) \<Longrightarrow> c \<notin> set s"
  by (induction t arbitrary: s) (auto split: list.splits if_splits)

lemma keyName_split: "keyName k \<Longrightarrow> Split k CHR ''/'' = [k]"
  by (simp add: keyName_def segment_def Split_no_sep)

lemma Split_Join_concat: "xs \<noteq> [] \<Longrightarrow> Split (Join c xs) c = concat (map (\<lambda>x. Split x c) xs)"
  by (induction c xs rule: Join.induct) (auto simp: Split_append)

lemma canonicalName_Join: "canonicalName (Join CHR ''/'' xs) = Join CHR ''/'' (map canonicalName xs)"
  by (induction "CHR ''/''" xs rule: Join.induct) (auto simp: canonicalName_def)

lemma Split_canonicalName:
  "Split (canonicalName name) CHR ''/'' =
     concat (map (\<lambda>s. Split (canonicalName s) CHR ''/'') (Split name CHR ''/''))"
proof -
  have "canonicalName name = Join CHR ''/'' (map canonicalName (Split name CHR ''/''))"
    by (metis Join_Split canonicalName_Join)
  then show ?thesis by (simp add: Split_Join_concat comp_def)
qed

lemma known_segments:
  assumes "list_all keyName (Split (canonicalName name) CHR ''/'')"
  shows "list_all segment (Split name CHR ''/'')"
  unfolding list_all_iff
proof
  fix s assume s: "s \<in> set (Split name CHR ''/'')"
  with assms have keys: "list_all keyName (Split (canonicalName s) CHR ''/'')"
    unfolding Split_canonicalName [of name] by (auto simp: list_all_iff)
  have "CHR ''/'' \<notin> set s" using s by (rule Split_no_sep_in)
  moreover from keys have "s \<noteq> ''''" "s \<noteq> ''.''" "s \<noteq> ''..''"
    by (auto simp: canonicalName_def keyName_def segment_def)
  ultimately show "segment s" by (simp add: segment_def)
qed

text \<open>The child of a directory, by its path.\<close>

lemma Join_child:
  assumes "node_at name = Some t" and "name \<noteq> ''''" and "keyName c"
  shows "filepathJoin [name, c] = name @ CHR ''/'' # c"
proof -
  from assms(1,2) have "walk bintree_root (Split (canonicalName name) CHR ''/'') = Some t"
    by (simp add: node_at_def)
  from tree_ok_walk [OF root_ok this] have "list_all segment (Split name CHR ''/'' @ [c])"
    using assms(3) by (simp add: known_segments keyName_def)
  then have "Clean (Join CHR ''/'' (Split name CHR ''/'' @ [c])) = Join CHR ''/'' (Split name CHR ''/'' @ [c])"
    by (intro Clean_relative) auto
  moreover have "Join CHR ''/'' (Split name CHR ''/'' @ [c]) = name @ CHR ''/'' # c"
    by (simp add: Join_append Join_Split)
  ultimately show ?thesis
    using assms(2,3) by (simp add: filepathJoin_def keyName_def segment_def)
qed

lemma node_at_child:
  assumes "node_at name = Some t" and "map_of (Children t) c = Some n"
  shows "node_at (filepathJoin [name, c]) = Some n"
proof (cases "name = ''''")
  case True
  with assms have t: "t = bintree_root" by (simp add: node_at_def)
  then have c: "keyName c" using tree_ok_child [OF root_ok] assms(2) by blast
  then have "Clean c = c" using Clean_relative [of "[c]"] by (simp add: keyName_def)
  with c have "filepathJoin [name, c] = c" by (simp add: True filepathJoin_def keyName_def segment_def)
  with c t assms(2) show ?thesis
    by (auto simp: node_at_def keyName_split keyName_def segment_def)
next
  case False
  let ?ps = "Split (canonicalName name) CHR ''/''"
  from assms(1) False have walk: "walk bintree_root ?ps = Some t" by (simp add: node_at_def)
  then have c: "keyName c" using tree_ok_walk [OF root_ok] tree_ok_child assms(2) by blast
  then have "Split (canonicalName (name @ CHR ''/'' # c)) CHR ''/'' = ?ps @ [c]"
    by (simp add: Split_append keyName_split keyName_def)
  with walk assms(2) show ?thesis
    unfolding Join_child [OF assms(1) False c] by (simp add: node_at_def walk_append)
qed

lemma AssetDir_cases:
  "AssetDir rank name = Inr cs \<longleftrightarrow>
     (\<exists>t. node_at name = Some t \<and> Func t = None \<and> cs = sort_key (rank name) (map fst (Children t)))"
  by (auto simp: AssetDir_def split: option.splits)

text \<open>\<open>RestoreAssets\<close> descends from a node of the tree to its children.\<close>

function RestoreAssets :: "rank \<Rightarrow> 'e filesystem \<Rightarrow> string \<Rightarrow> string \<Rightarrow> ('e fworld, gerr option) go" where
  "RestoreAssets rank fs dir name = (case AssetDir rank name of
       Inl err \<Rightarrow> RestoreAsset fs dir name
     | Inr children \<Rightarrow> each (\<lambda>child. RestoreAssets rank fs dir (filepathJoin [name, child])) children)"
  by pat_completeness auto

termination
proof (relation "measure (\<lambda>(_, _, _, name). case node_at name of None \<Rightarrow> 0 | Some t \<Rightarrow> Suc (size t))",
    goal_cases)
  case (2 rank fs dir name children child)
  then obtain t where t: "node_at name = Some t" "child \<in> fst ` set (Children t)"
    by (auto simp: AssetDir_cases)
  then obtain n where "map_of (Children t) child = Some n"
    by (metis map_of_eq_None_iff not_None_eq)
  with t show ?case by (simp add: node_at_child child_smaller)
qed simp

declare RestoreAssets.simps [simp del]

lemmas generator_defs =
  deployControllerInfraBaseDeployYaml_def deployControllerInfraBaseDeployYamlBytes_def
  deployControllerInfraBaseKustomizationYaml_def deployControllerInfraBaseKustomizationYamlBytes_def
  deployControllerInfraDevOverlayControllerYaml_def deployControllerInfraDevOverlayControllerYamlBytes_def
  deployControllerInfraDevOverlayInfraNamespaceConfigmapYaml_def deployControllerInfraDevOverlayInfraNamespaceConfigmapYamlBytes_def
  deployControllerInfraDevOverlayKustomizationYaml_def deployControllerInfraDevOverlayKustomizationYamlBytes_def
  deployControllerTenantBaseDeployYaml_def deployControllerTenantBaseDeployYamlBytes_def
  deployControllerTenantBaseKustomizationYaml_def deployControllerTenantBaseKustomizationYamlBytes_def
  deployControllerTenantDevOverlayControllerYaml_def deployControllerTenantDevOverlayControllerYamlBytes_def
  deployControllerTenantDevOverlayKustomizationYaml_def deployControllerTenantDevOverlayKustomizationYamlBytes_def
  deployExampleInfraclusterKubeconfigYaml_def deployExampleInfraclusterKubeconfigYamlBytes_def
  deployExampleKubevirtConfigYaml_def deployExampleKubevirtConfigYamlBytes_def
  deployExampleKubevirtYaml_def deployExampleKubevirtYamlBytes_def
  deployExampleStorageClaimYaml_def deployExampleStorageClaimYamlBytes_def
  deployExampleStorageclassYaml_def deployExampleStorageclassYamlBytes_def
  deployExampleTestPodYaml_def deployExampleTestPodYamlBytes_def
  deployInfraClusterServiceAccountYaml_def deployInfraClusterServiceAccountYamlBytes_def
  deployTenantBaseDeployYaml_def deployTenantBaseDeployYamlBytes_def
  deployTenantBaseKustomizationYaml_def deployTenantBaseKustomizationYamlBytes_def
  deployTenantBaseRbacSnapshotControllerYaml_def deployTenantBaseRbacSnapshotControllerYamlBytes_def
  deployTenantBaseSetupSnapshotControllerYaml_def deployTenantBaseSetupSnapshotControllerYamlBytes_def
  deployTenantBaseSnapshotStorageK8sIo_volumesnapshotclassesYaml_def deployTenantBaseSnapshotStorageK8sIo_volumesnapshotclassesYamlBytes_def
  deployTenantBaseSnapshotStorageK8sIo_volumesnapshotcontentsYaml_def deployTenantBaseSnapshotStorageK8sIo_volumesnapshotcontentsYamlBytes_def
  deployTenantBaseSnapshotStorageK8sIo_volumesnapshotsYaml_def deployTenantBaseSnapshotStorageK8sIo_volumesnapshotsYamlBytes_def
  deployTenantDevOverlayInfraNamespaceConfigmapYaml_def deployTenantDevOverlayInfraNamespaceConfigmapYamlBytes_def
  deployTenantDevOverlayKustomizationYaml_def deployTenantDevOverlayKustomizationYamlBytes_def
  deployTenantDevOverlayNodeYaml_def deployTenantDevOverlayNodeYamlBytes_def
  deployTenantDevOverlayStorageclassYaml_def deployTenantDevOverlayStorageclassYamlBytes_def

section \<open>The files of the table and of the tree\<close>

text \<open>The files below a node, as paths from it.\<close>

fun paths :: "bintree \<Rightarrow> string list list" where
  "paths (Bintree f ch) = (if f \<noteq> None then [[]]
     else concat (map (\<lambda>x. map ((#) (fst x)) (paths (snd x))) ch))"

lemma table_paths: "map fst bindata = map (Join CHR ''/'') (paths bintree_root)"
  by (simp add: bindata_def bintree_root_def)

lemma table_loaded:
  "list_all (\<lambda>(n, f). case f of Inl _ \<Rightarrow> False
     | Inr a \<Rightarrow> a_info a = \<lparr>fi_name = n, fi_size = 0, fi_mode = 0, fi_modTime = 0\<rparr>) bindata"
  by (simp add: bindata_def generator_defs loaded_def)

lemma paths_nonempty: "tree_ok t \<Longrightarrow> paths t \<noteq> []"
proof (induction t rule: paths.induct)
  case (1 f ch)
  then show ?case by (cases ch) auto
qed

lemma paths_walk: "q \<in> set (paths t) \<Longrightarrow> tree_ok t \<Longrightarrow> \<exists>n. walk t q = Some n"
proof (induction t arbitrary: q rule: paths.induct)
  case (1 f ch)
  show ?case
  proof (cases "f = None")
    case True
    with 1(2) obtain x p where x: "x \<in> set ch" "q = fst x # p" "p \<in> set (paths (snd x))" by auto
    with 1(3) have "map_of ch (fst x) = Some (snd x)" by (cases x) auto
    moreover from 1(1) [OF _ x(1,3)] 1(3) x(1) True obtain n where "walk (snd x) p = Some n" by auto
    ultimately show ?thesis using x(2) by simp
  qed (use 1(2) in auto)
qed

lemma paths_child:
  assumes "distinct (map fst ch)" and "map_of ch p = Some c"
  shows "filter (prefix (p # ps)) (concat (map (\<lambda>x. map ((#) (fst x)) (paths (snd x))) ch)) =
    map ((#) p) (filter (prefix ps) (paths c))"
  using assms
proof (induction ch)
  case (Cons x ch)
  have other: "filter (prefix (p # ps)) (concat (map (\<lambda>x. map ((#) (fst x)) (paths (snd x))) ch')) = []"
    if "p \<notin> fst ` set ch'" for ch' :: "(string \<times> bintree) list"
    using that by (auto simp: filter_empty_conv)
  have "filter (prefix (p # ps)) (map ((#) (fst x)) (paths (snd x))) =
      (if fst x = p then map ((#) p) (filter (prefix ps) (paths (snd x))) else [])"
    by (auto simp: filter_map comp_def filter_empty_conv)
  with Cons other [of ch] show ?case by (cases x) (auto split: if_splits)
qed simp

lemma paths_below:
  "tree_ok t \<Longrightarrow> walk t ps = Some n \<Longrightarrow> filter (prefix ps) (paths t) = map ((@) ps) (paths n)"
proof (induction t ps rule: walk.induct)
  case (1 node)
  then show ?case by simp
next
  case (2 node p ps)
  then obtain c where c: "map_of (Children node) p = Some c" "walk c ps = Some n"
    by (auto split: option.splits)
  obtain f ch where node: "node = Bintree f ch" by (cases node)
  with c(1) 2(2) have "f = None" "distinct (map fst ch)" by auto
  with c(1) node have "filter (prefix (p # ps)) (paths node) = map ((#) p) (filter (prefix ps) (paths c))"
    by (simp add: paths_child)
  with 2(1) [OF c(1) _ c(2)] tree_ok_child [OF 2(2) c(1)] show ?case by simp
qed

lemma paths_file: "tree_ok t \<Longrightarrow> Func t \<noteq> None \<Longrightarrow> paths t = [[]]"
  by (cases t) simp

lemma paths_keys: "q \<in> set (paths t) \<Longrightarrow> tree_ok t \<Longrightarrow> list_all keyName q"
  using paths_walk tree_ok_walk by blast

section \<open>What restoring does\<close>

text \<open>The contents of a file, the calls that restore it, and the files that a name refers to.\<close>

definition contents :: "string \<Rightarrow> string" where
  "contents n = (case map_of bindata n of Some (Inr a) \<Rightarrow> a_bytes a | _ \<Rightarrow> '''')"

definition restoring :: "string \<Rightarrow> string \<Rightarrow> fcall list" where
  "restoring dir n = [OsMkdirAll (filePath dir (Dir n)) 493, OsWriteFile (filePath dir n) (contents n) 0,
     OsChtimes (filePath dir n) 0 0]"

definition under :: "string \<Rightarrow> string \<Rightarrow> bool" where
  "under name n \<longleftrightarrow> name = '''' \<or> n = name \<or> HasPrefix n (name @ ''/'')"

definition segments :: "string \<Rightarrow> string list" where
  "segments name = (if name = '''' then [] else Split name CHR ''/'')"

lemma each_append:
  "each f (xs @ ys) = bindG (each f xs) (\<lambda>err. if err \<noteq> None then ret err else each f ys)"
proof (induction xs)
  case Nil
  show ?case by (rule ext) (simp add: bindG_def ret_def)
next
  case (Cons x xs)
  show ?case
    by (rule ext) (simp add: Cons bindG_def ret_def split: outcome.splits prod.splits)
qed

lemma each_each: "each (\<lambda>x. each f (g x)) xs = each f (concat (map g xs))"
  by (induction xs) (simp_all add: each_append cong: if_cong)

lemma in_table:
  assumes "n \<in> fst ` set bindata" and "CHR 0x5C \<notin> set n"
  shows "Asset n = Inr (contents n)" and "\<exists>info. AssetInfo n = Inr info \<and> Mode info = 0 \<and> ModTime info = 0"
proof -
  from assms(1) obtain f where f: "map_of bindata n = Some f"
    by (metis map_of_eq_None_iff not_None_eq)
  then have "(n, f) \<in> set bindata" by (rule map_of_SomeD)
  with table_loaded obtain a where a: "f = Inr a" "fi_mode (a_info a) = 0" "fi_modTime (a_info a) = 0"
    by (fastforce simp: list_all_iff split: sum.splits)
  with f assms(2) show "Asset n = Inr (contents n)"
    by (simp add: Asset_def contents_def)
  from a f assms(2) show "\<exists>info. AssetInfo n = Inr info \<and> Mode info = 0 \<and> ModTime info = 0"
    by (simp add: AssetInfo_def Mode_def ModTime_def)
qed

lemma RestoreAsset_each:
  assumes "n \<in> fst ` set bindata" and "CHR 0x5C \<notin> set n"
  shows "RestoreAsset fs dir n = each (fs_call fs) (restoring dir n)"
  using in_table [OF assms] by (auto simp: RestoreAsset_def restoring_def cong: if_cong)

lemma node_at_segments: "CHR 0x5C \<notin> set name \<Longrightarrow> node_at name = walk bintree_root (segments name)"
  by (simp add: node_at_def segments_def)

lemma Join_segments: "Join CHR ''/'' (segments name) = name"
  by (simp add: segments_def Join_Split)

lemma segments_child:
  assumes "node_at name = Some t" and "keyName c"
  shows "segments (filepathJoin [name, c]) = segments name @ [c]"
proof (cases "name = ''''")
  case True
  have "Clean c = c" using Clean_relative [of "[c]"] assms(2) by (simp add: keyName_def)
  with True assms(2) show ?thesis
    by (simp add: filepathJoin_def segments_def keyName_split) (simp add: keyName_def segment_def)
next
  case False
  with assms(2) show ?thesis
    unfolding Join_child [OF assms(1) False assms(2)] by (simp add: segments_def Split_append keyName_split)
qed

lemma no_backslash_child:
  assumes "node_at name = Some t" and "keyName c" and "CHR 0x5C \<notin> set name"
  shows "CHR 0x5C \<notin> set (filepathJoin [name, c])"
proof (cases "name = ''''")
  case True
  have "Clean c = c" using Clean_relative [of "[c]"] assms(2) by (simp add: keyName_def)
  with True assms(2) show ?thesis by (simp add: filepathJoin_def keyName_def)
next
  case False
  with assms show ?thesis by (simp add: Join_child keyName_def)
qed

lemma under_prefix:
  assumes "list_all keyName q" and "q \<noteq> []"
  shows "under name (Join CHR ''/'' q) \<longleftrightarrow> prefix (segments name) q"
proof (cases "name = ''''")
  case True
  then show ?thesis by (simp add: under_def segments_def)
next
  case False
  let ?ps = "Split name CHR ''/''"
  have q: "Split (Join CHR ''/'' q) CHR ''/'' = q"
    using assms by (intro Split_Join) (auto simp: list_all_iff keyName_def segment_def)
  have "Join CHR ''/'' q = name \<or> HasPrefix (Join CHR ''/'' q) (name @ ''/'') \<longleftrightarrow> prefix ?ps q"
  proof (intro iffI; (elim disjE)?)
    assume "HasPrefix (Join CHR ''/'' q) (name @ ''/'')"
    then obtain r where "Join CHR ''/'' q = name @ CHR ''/'' # r" by (auto elim: HasPrefixE)
    with q have "q = ?ps @ Split r CHR ''/''" by (metis Split_append)
    then show "prefix ?ps q" by (rule prefixI)
  next
    assume "prefix ?ps q"
    then obtain r where r: "q = ?ps @ r" by (auto elim: prefixE)
    have "Join CHR ''/'' q = name @ CHR ''/'' # Join CHR ''/'' r" if "r \<noteq> []"
      using r that by (simp add: Join_append Join_Split)
    then have "r \<noteq> [] \<Longrightarrow> HasPrefix (Join CHR ''/'' q) (name @ ''/'')"
      using HasPrefix_append [of "name @ ''/''"] by simp
    then show "Join CHR ''/'' q = name \<or> HasPrefix (Join CHR ''/'' q) (name @ ''/'')"
      using r by (cases "r = []") (auto simp: Join_Split)
  qed (use q in auto)
  with False show ?thesis by (auto simp: under_def segments_def)
qed

lemma under_root:
  assumes "q \<in> set (paths bintree_root)"
  shows "under name (Join CHR ''/'' q) \<longleftrightarrow> prefix (segments name) q"
proof (rule under_prefix)
  show "list_all keyName q" using assms root_ok by (rule paths_keys)
  have "[] \<notin> set (paths bintree_root)" by (simp add: bintree_root_def)
  with assms show "q \<noteq> []" by auto
qed

text \<open>The files below a node, named from the root, are those of the table that lie under its name.\<close>

lemma table_below:
  assumes "node_at name = Some t" and "CHR 0x5C \<notin> set name"
  shows "filter (under name) (map fst bindata) = map (\<lambda>p. Join CHR ''/'' (segments name @ p)) (paths t)"
proof -
  have "filter (under name \<circ> Join CHR ''/'') (paths bintree_root) = filter (prefix (segments name)) (paths bintree_root)"
    by (rule filter_cong [OF refl]) (simp add: under_root)
  also have "\<dots> = map ((@) (segments name)) (paths t)"
    using assms by (intro paths_below root_ok) (simp add: node_at_segments)
  finally show ?thesis by (simp add: table_paths filter_map comp_def)
qed

lemma table_outside:
  assumes "node_at name = None" and "CHR 0x5C \<notin> set name"
  shows "filter (under name) (map fst bindata) = []"
proof -
  have "\<not> under name (Join CHR ''/'' q)" if q: "q \<in> set (paths bintree_root)" for q
  proof
    assume "under name (Join CHR ''/'' q)"
    then have "prefix (segments name) q" using q by (simp add: under_root)
    then obtain r where "q = segments name @ r" by (auto elim: prefixE)
    with paths_walk [OF q root_ok] assms show False
      by (simp add: node_at_segments walk_append)
  qed
  then show ?thesis by (auto simp: table_paths filter_empty_conv)
qed

lemma map_of_children:
  "tree_ok t \<Longrightarrow> x \<in> set (Children t) \<Longrightarrow> map_of (Children t) (fst x) = Some (snd x)"
  by (cases t; cases x) simp

lemma mset_concat_perm: "mset xs = mset ys \<Longrightarrow> mset (concat (map f xs)) = mset (concat (map f ys))"
proof -
  have "mset (concat (map f zs)) = (\<Sum>x \<in># mset zs. mset (f x))" for zs
    by (induction zs) simp_all
  then show "mset xs = mset ys \<Longrightarrow> mset (concat (map f xs)) = mset (concat (map f ys))" by simp
qed

lemma concat_concat_map: "concat (concat (map f xs)) = concat (map (\<lambda>x. concat (f x)) xs)"
  by (induction xs) simp_all

lemma restore_dir:
  assumes "tree_ok t" and "Func t = None" and "node_at name = Some t"
    and names: "\<And>x. x \<in> set (Children t) \<Longrightarrow>
      mset (f (fst x)) = mset (map (\<lambda>p. Join CHR ''/'' (segments name @ fst x # p)) (paths (snd x)))"
    and "mset cs = mset (map fst (Children t))"
  shows "mset (concat (map f cs)) = mset (map (\<lambda>p. Join CHR ''/'' (segments name @ p)) (paths t))"
proof -
  obtain ch where t: "t = Bintree None ch" using assms(2) by (cases t) simp
  have "mset (concat (map f cs)) = mset (concat (map f (map fst ch)))"
    using assms(5) t by (intro mset_concat_perm) simp
  also have "\<dots> = mset (concat (map (\<lambda>x. map (\<lambda>p. Join CHR ''/'' (segments name @ fst x # p)) (paths (snd x))) ch))"
    using names unfolding t bintree.sel by (induction ch) simp_all
  finally show ?thesis by (simp add: t map_concat comp_def)
qed

lemma restore_node:
  assumes "node_at name = Some t" and "CHR 0x5C \<notin> set name"
  shows "\<exists>ns. mset ns = mset (map (\<lambda>p. Join CHR ''/'' (segments name @ p)) (paths t)) \<and>
    RestoreAssets rank fs dir name = each (fs_call fs) (concat (map (restoring dir) ns))"
  using assms
proof (induction rank fs dir name arbitrary: t rule: RestoreAssets.induct)
  case (1 rank fs dir name)
  have ok: "tree_ok t" using 1(2,3) tree_ok_walk [OF root_ok] by (simp add: node_at_segments)
  show ?case
  proof (cases "Func t")
    case (Some g)
    then have p: "paths t = [[]]" using ok by (intro paths_file) simp_all
    then have "filter (under name) (map fst bindata) = [name]"
      using table_below [OF 1(2,3)] by (simp add: Join_segments)
    then have "name \<in> set (filter (under name) (map fst bindata))" by simp
    then have "RestoreAsset fs dir name = each (fs_call fs) (restoring dir name)"
      using 1(3) by (intro RestoreAsset_each) auto
    moreover have "\<exists>err. AssetDir rank name = Inl err" using Some 1(2) by (simp add: AssetDir_def)
    ultimately have "RestoreAssets rank fs dir name = each (fs_call fs) (concat (map (restoring dir) [name]))"
      by (auto simp: RestoreAssets.simps [of rank fs dir name])
    with p show ?thesis by (intro exI [of _ "[name]"]) (simp add: Join_segments)
  next
    case None
    let ?cs = "sort_key (rank name) (map fst (Children t))"
    let ?files = "\<lambda>x. map (\<lambda>p. Join CHR ''/'' (segments name @ fst x # p)) (paths (snd x))"
    have dir: "AssetDir rank name = Inr ?cs" using None 1(2) by (simp add: AssetDir_cases)
    have "\<exists>ns. mset ns = mset (?files x) \<and> RestoreAssets rank fs dir (filepathJoin [name, fst x]) =
        each (fs_call fs) (concat (map (restoring dir) ns))" if x: "x \<in> set (Children t)" for x
    proof -
      have child: "map_of (Children t) (fst x) = Some (snd x)" using ok x by (rule map_of_children)
      then have key: "keyName (fst x)" using tree_ok_child [OF ok] by blast
      have "fst x \<in> set ?cs" using x by simp
      from 1(1) [OF dir this node_at_child [OF 1(2) child] no_backslash_child [OF 1(2) key 1(3)]]
      show ?thesis by (simp add: segments_child [OF 1(2) key])
    qed
    then obtain g where g: "\<And>x. x \<in> set (Children t) \<Longrightarrow> mset (g x) = mset (?files x) \<and>
        RestoreAssets rank fs dir (filepathJoin [name, fst x]) = each (fs_call fs) (concat (map (restoring dir) (g x)))"
      by metis
    define f where "f c = g (c, the (map_of (Children t) c))" for c
    have f: "f (fst x) = g x" if "x \<in> set (Children t)" for x
      using map_of_children [OF ok that] by (simp add: f_def)
    have "RestoreAssets rank fs dir name = each (\<lambda>c. each (fs_call fs) (concat (map (restoring dir) (f c)))) ?cs"
      unfolding RestoreAssets.simps [of rank fs dir name] dir sum.case
      by (rule each_cong) (use f g in auto)
    also have "\<dots> = each (fs_call fs) (concat (map (restoring dir) (concat (map f ?cs))))"
      by (simp add: each_each map_concat comp_def concat_concat_map)
    finally show ?thesis
      using restore_dir [OF ok None 1(2), of f ?cs] f g by auto
  qed
qed



text \<open>
  A file may be named with backslashes, but \<open>filepath.Dir\<close> of Unix does not know them: the directory of the
  file is not made before it is written.
\<close>

theorem restore_backslash:
  "RestoreAsset fs ''out'' (''deploy'' @ [CHR 0x5C] @ ''example'' @ [CHR 0x5C] @ ''kubevirt.yaml'') =
     each (fs_call fs) [OsMkdirAll ''out'' 493,
       OsWriteFile ''out/deploy/example/kubevirt.yaml'' bytes_deployExampleKubevirtYaml 0,
       OsChtimes ''out/deploy/example/kubevirt.yaml'' 0 0]"
proof -
  let ?name = "''deploy'' @ [CHR 0x5C] @ ''example'' @ [CHR 0x5C] @ ''kubevirt.yaml''"
  have canon: "canonicalName ?name = ''deploy/example/kubevirt.yaml''" by code_simp
  have paths: "filePath ''out'' (Dir ?name) = ''out''" "filePath ''out'' ?name = ''out/deploy/example/kubevirt.yaml''"
    by code_simp+
  have "map_of bindata ''deploy/example/kubevirt.yaml'' = Some deployExampleKubevirtYaml"
    by (simp add: bindata_def)
  then have "Asset ?name = Inr bytes_deployExampleKubevirtYaml" and
    "AssetInfo ?name = Inr \<lparr>fi_name = ''deploy/example/kubevirt.yaml'', fi_size = 0, fi_mode = 0, fi_modTime = 0\<rparr>"
    unfolding Asset_def AssetInfo_def canon
    by (simp_all add: deployExampleKubevirtYaml_def deployExampleKubevirtYamlBytes_def loaded_def)
  then show ?thesis
    unfolding RestoreAsset_def paths by (simp add: Mode_def ModTime_def cong: if_cong)
qed

end
