(* ===== verification/Embedded_Role.thy ===== *)
theory Embedded_Role
  imports Permissions Embedded_Assets
begin

text \<open>
  The copy of the role of the driver's account that \<open>bindata.go\<close> embeds.  It is older than the one under
  \<open>deploy/\<close>: it lets the account plug volumes into instances, where the driver plugs them into VMs.
\<close>

definition embeddedRules :: "rule list" where
  "embeddedRules =
     [([''cdi.kubevirt.io''], [''datavolumes''], [''get'', ''create'', ''delete'']),
      ([''kubevirt.io''], [''virtualmachineinstances''], [''list'', ''get'']),
      ([''subresources.kubevirt.io''],
       [''virtualmachineinstances/addvolume'', ''virtualmachineinstances/removevolume''], [''update'']),
      ([''snapshot.storage.k8s.io''], [''volumesnapshots''], [''get'', ''create'', ''delete'']),
      ([''''], [''persistentvolumeclaims''], [''get''])]"

text \<open>The rules as lines of the manifest.\<close>

fun commaList :: "string list \<Rightarrow> string" where
  "commaList [] = ''''"
| "commaList [x] = quoted x"
| "commaList (x # y # ys) = quoted x @ '', '' @ commaList (y # ys)"

definition ruleLines :: "rule \<Rightarrow> string list" where
  "ruleLines r = (case r of (gs, rs, vs) \<Rightarrow>
     [''- apiGroups: ['' @ commaList gs @ '']'', ''  resources: ['' @ commaList rs @ '']'',
      ''  verbs: ['' @ commaList vs @ '']''])"

definition roleStart :: "string list" where
  "roleStart = [''apiVersion: v1'', ''kind: ServiceAccount'', ''metadata:'', ''  name: kubevirt-csi'', ''---'',
     ''apiVersion: rbac.authorization.k8s.io/v1'', ''kind: Role'', ''metadata:'', ''  name: kubevirt-csi'', ''rules:'']"

definition roleEnd :: "string list" where
  "roleEnd = [''---'', ''apiVersion: rbac.authorization.k8s.io/v1'', ''kind: RoleBinding'', ''metadata:'',
     ''  name: kubevirt-csi'', ''roleRef:'', ''  apiGroup: rbac.authorization.k8s.io'', ''  kind: Role'',
     ''  name: kubevirt-csi'', ''subjects:'', ''- kind: ServiceAccount'', ''  name: kubevirt-csi'', '''', '''']"

text \<open>The embedded manifest is the role with these rules, and nothing else that grants anything.\<close>

theorem embedded_role_text:
  "bytes_deployInfraClusterServiceAccountYaml =
     unlines (roleStart @ concat (map ruleLines embeddedRules) @ roleEnd)"
  by code_simp

text \<open>
  Six of the sixteen permissions that the controller needs are missing in it, and on a server that enforces
  it no volume is ever plugged in.
\<close>

theorem embedded_role_refuses:
  assumes "enforces embeddedRules (cl_rt c)" and "segment ns" and "segment vm"
  shows "filter (\<lambda>p. \<not> granted embeddedRules p) driver_permissions =
      [Resource ''kubevirt.io'' ''virtualmachines'' ''get'',
       Resource ''snapshot.storage.k8s.io'' ''volumesnapshots'' ''list'',
       Resource '''' ''persistentvolumeclaims'' ''patch'',
       Resource '''' ''persistentvolumes'' ''get'',
       Resource ''subresources.kubevirt.io'' ''virtualmachines/addvolume'' ''update'',
       Resource ''subresources.kubevirt.io'' ''virtualmachines/removevolume'' ''update''] \<and>
    (\<exists>e. fst (AddVolumeToVM c ns vm opts w) = Ok (Some e))"
proof (intro conjI)
  show "filter (\<lambda>p. \<not> granted embeddedRules p) driver_permissions =
      [Resource ''kubevirt.io'' ''virtualmachines'' ''get'',
       Resource ''snapshot.storage.k8s.io'' ''volumesnapshots'' ''list'',
       Resource '''' ''persistentvolumeclaims'' ''patch'',
       Resource '''' ''persistentvolumes'' ''get'',
       Resource ''subresources.kubevirt.io'' ''virtualmachines/addvolume'' ''update'',
       Resource ''subresources.kubevirt.io'' ''virtualmachines/removevolume'' ''update'']"
    by code_simp
  let ?rq = "put_request (vmSubresourceURL ns vm ''addvolume'') (BodyAddVolume opts)"
  have "segment ''addvolume''" by (simp add: segment_def)
  from needs_subresource(1) [OF assms(2,3) this] have "\<not> granted embeddedRules (needs ?rq)"
    by (simp add: embeddedRules_def)
  then obtain err where "fst (rest_do (cl_rt c) ?rq w) = Ok (Inl err)"
    using rest_do_refused [OF assms(1), of ?rq] by (auto simp: put_request_def)
  then show "\<exists>e. fst (AddVolumeToVM c ns vm opts w) = Ok (Some e)"
    by (auto simp: AddVolumeToVM_def bindG_def Error_of_def split: prod.splits)
qed

end
