(* ===== verification/Mock_Client.thy ===== *)
theory Mock_Client
  imports Infra_Client
begin

text \<open>
  The mock of the client interface (\<open>pkg/kubevirt/mocked_client.go\<close>) on the controller of gomock: expected calls
  are recorded, with matchers for their arguments, and answered one by one.  The state is that of the
  controller; a \<open>*Call\<close> is its index in the list of all calls, so that pointers can be compared.  \<open>Fatalf\<close> of the
  test ends the call, as a panic does; its text is shortened.

  The property is that the mock replays: calls that were expected, each with its answer, get these answers,
  and nothing is reported as missing at the end.
\<close>

section \<open>Values, types and matchers\<close>

text \<open>
  The values of type \<open>interface{}\<close> that occur as arguments and results.  A pointer is an \<open>option\<close>, so that a nil
  pointer of a type differs from the nil interface \<open>MNil\<close>.
\<close>

datatype mvalue = MNil | MContext | MString string | MInt int | MDuration nat | MError gerr
  | MAddVolume "AddVolumeOptions option" | MRemoveVolume "RemoveVolumeOptions option"
  | MDataVolume "DataVolume option" | MSnapshot "VolumeSnapshot option"
  | MSnapshotList "VolumeSnapshot list option" | MClaim "PersistentVolumeClaim option"
  | MMachine "VirtualMachine option" | MInstance "VirtualMachineInstance option"
  | MInstances "VirtualMachineInstance list"

datatype mtype = TError | TDataVolume | TSnapshot | TSnapshotList | TClaim | TMachine | TInstance | TInstances

primrec Zero :: "mtype \<Rightarrow> mvalue" where
  "Zero TError = MNil" | "Zero TDataVolume = MDataVolume None" | "Zero TSnapshot = MSnapshot None"
| "Zero TSnapshotList = MSnapshotList None" | "Zero TClaim = MClaim None" | "Zero TMachine = MMachine None"
| "Zero TInstance = MInstance None" | "Zero TInstances = MInstances []"

text \<open>A value may be returned for a type: nil for each of them, and otherwise a value of the type.\<close>

fun AssignableTo :: "mvalue \<Rightarrow> mtype \<Rightarrow> bool" where
  "AssignableTo MNil t = True"
| "AssignableTo (MError e) t = (t = TError)"
| "AssignableTo (MDataVolume x) t = (t = TDataVolume)"
| "AssignableTo (MSnapshot x) t = (t = TSnapshot)"
| "AssignableTo (MSnapshotList x) t = (t = TSnapshotList)"
| "AssignableTo (MClaim x) t = (t = TClaim)"
| "AssignableTo (MMachine x) t = (t = TMachine)"
| "AssignableTo (MInstance x) t = (t = TInstance)"
| "AssignableTo (MInstances x) t = (t = TInstances)"
| "AssignableTo _ t = False"

text \<open>\<open>nilMatcher\<close> and \<open>eqMatcher\<close>; an argument of a recorder is a matcher or a value.\<close>

definition nilMatcher :: "mvalue \<Rightarrow> bool" where
  "nilMatcher x \<longleftrightarrow> x \<in> {MNil, MAddVolume None, MRemoveVolume None, MDataVolume None, MSnapshot None,
     MSnapshotList None, MClaim None, MMachine None, MInstance None}"

datatype marg = Matcher "mvalue \<Rightarrow> bool" | Value mvalue

primrec matcherOf :: "marg \<Rightarrow> mvalue \<Rightarrow> bool" where
  "matcherOf (Matcher m) = m"
| "matcherOf (Value v) = (if v = MNil then nilMatcher else (\<lambda>x. v = x))"

section \<open>The controller\<close>

record MockCall =
  mk_method :: string
  mk_outs :: "mtype list"
  mk_args :: "(mvalue \<Rightarrow> bool) list"
  mk_preReqs :: "nat list"
  mk_minCalls :: nat
  mk_maxCalls :: nat
  mk_numCalls :: nat
  mk_actions :: "(mvalue list \<Rightarrow> mvalue list option) list"

record Controller =
  ct_calls :: "MockCall list"
  ct_expected :: "string \<Rightarrow> nat list"
  ct_exhausted :: "string \<Rightarrow> nat list"
  ct_finished :: bool
  ct_missing :: "nat list"

definition NewController :: Controller where
  "NewController = \<lparr>ct_calls = [], ct_expected = (\<lambda>_. []), ct_exhausted = (\<lambda>_. []), ct_finished = False,
     ct_missing = []\<rparr>"

definition newCall :: "string \<Rightarrow> mtype list \<Rightarrow> marg list \<Rightarrow> MockCall" where
  "newCall method outs args = \<lparr>mk_method = method, mk_outs = outs, mk_args = map matcherOf args, mk_preReqs = [],
     mk_minCalls = 1, mk_maxCalls = 1, mk_numCalls = 0, mk_actions = [\<lambda>_. Some (map Zero outs)]\<rparr>"

definition satisfied :: "MockCall \<Rightarrow> bool" where "satisfied c \<longleftrightarrow> mk_minCalls c \<le> mk_numCalls c"

definition exhausted :: "MockCall \<Rightarrow> bool" where "exhausted c \<longleftrightarrow> mk_maxCalls c \<le> mk_numCalls c"

text \<open>A method of the set of calls, changed for one call.\<close>

definition onCall :: "nat \<Rightarrow> (MockCall \<Rightarrow> MockCall) \<Rightarrow> Controller \<Rightarrow> Controller" where
  "onCall i f ctrl = ctrl\<lparr>ct_calls := (ct_calls ctrl)[i := f (ct_calls ctrl ! i)]\<rparr>"

definition RecordCallWithMethodType :: "string \<Rightarrow> mtype list \<Rightarrow> marg list \<Rightarrow> (Controller, nat) go" where
  "RecordCallWithMethodType method outs args ctrl =
     (let call = newCall method outs args;
          i = length (ct_calls ctrl);
          ctrl' = ctrl\<lparr>ct_calls := ct_calls ctrl @ [call]\<rparr>
      in (Ok i, if exhausted call
          then ctrl'\<lparr>ct_exhausted := (ct_exhausted ctrl)(method := ct_exhausted ctrl method @ [i])\<rparr>
          else ctrl'\<lparr>ct_expected := (ct_expected ctrl)(method := ct_expected ctrl method @ [i])\<rparr>))"

definition RemoveCall :: "nat \<Rightarrow> Controller \<Rightarrow> Controller" where
  "RemoveCall i ctrl =
     (let method = mk_method (ct_calls ctrl ! i) in
      if i \<in> set (ct_expected ctrl method) then
        ctrl\<lparr>ct_expected := (ct_expected ctrl)(method := remove1 i (ct_expected ctrl method)),
             ct_exhausted := (ct_exhausted ctrl)(method := ct_exhausted ctrl method @ [i])\<rparr>
      else ctrl)"

definition matches :: "Controller \<Rightarrow> MockCall \<Rightarrow> mvalue list \<Rightarrow> bool" where
  "matches ctrl c args \<longleftrightarrow> length args = length (mk_args c) \<and> list_all (\<lambda>(m, a). m a) (zip (mk_args c) args) \<and>
     list_all (\<lambda>p. satisfied (ct_calls ctrl ! p)) (mk_preReqs c) \<and> \<not> exhausted c"

definition FindMatch :: "Controller \<Rightarrow> string \<Rightarrow> mvalue list \<Rightarrow> nat option" where
  "FindMatch ctrl method args =
     List.find (\<lambda>i. matches ctrl (ct_calls ctrl ! i) args) (ct_expected ctrl method)"

text \<open>The results of the actions, of which the last that is not nil counts.\<close>

fun runActions :: "(mvalue list \<Rightarrow> mvalue list option) list \<Rightarrow> mvalue list \<Rightarrow> mvalue list \<Rightarrow> mvalue list" where
  "runActions [] args rets = rets"
| "runActions (f # fs) args rets = runActions fs args (case f args of None \<Rightarrow> rets | Some r \<Rightarrow> r)"

definition ctrl_Call :: "string \<Rightarrow> mvalue list \<Rightarrow> (Controller, mvalue list) go" where
  "ctrl_Call method args ctrl = (case FindMatch ctrl method args of
       None \<Rightarrow> (Panic (''Unexpected call to '' @ method), ctrl)
     | Some i \<Rightarrow>
         let preReqCalls = mk_preReqs (ct_calls ctrl ! i);
             ctrl1 = onCall i (\<lambda>c. c\<lparr>mk_preReqs := []\<rparr>) ctrl;
             ctrl2 = fold RemoveCall preReqCalls ctrl1;
             ctrl3 = onCall i (\<lambda>c. c\<lparr>mk_numCalls := mk_numCalls c + 1\<rparr>) ctrl2;
             expected = ct_calls ctrl3 ! i;
             ctrl4 = (if exhausted expected then RemoveCall i ctrl3 else ctrl3)
         in (Ok (runActions (mk_actions expected) args []), ctrl4))"

text \<open>What a test may ask of an expected call.\<close>

definition Return :: "nat \<Rightarrow> mvalue list \<Rightarrow> (Controller, nat) go" where
  "Return i rets ctrl =
     (let outs = mk_outs (ct_calls ctrl ! i) in
      if length rets \<noteq> length outs then (Panic ''wrong number of arguments to Return'', ctrl)
      else if \<not> list_all (\<lambda>(v, t). AssignableTo v t) (zip rets outs)
        then (Panic ''wrong type of argument to Return'', ctrl)
      else (Ok i, onCall i (\<lambda>c. c\<lparr>mk_actions := mk_actions c @ [\<lambda>_. Some rets]\<rparr>) ctrl))"

definition Times :: "nat \<Rightarrow> nat \<Rightarrow> (Controller, nat) go" where
  "Times i n ctrl = (Ok i, onCall i (\<lambda>c. c\<lparr>mk_minCalls := n, mk_maxCalls := n\<rparr>) ctrl)"

definition AnyTimes :: "nat \<Rightarrow> (Controller, nat) go" where
  "AnyTimes i ctrl = (Ok i, onCall i (\<lambda>c. c\<lparr>mk_minCalls := 0, mk_maxCalls := 100000000\<rparr>) ctrl)"

definition MinTimes :: "nat \<Rightarrow> nat \<Rightarrow> (Controller, nat) go" where
  "MinTimes i n ctrl = (Ok i, onCall i (\<lambda>c. c\<lparr>mk_minCalls := n,
     mk_maxCalls := (if mk_maxCalls c = 1 then 100000000 else mk_maxCalls c)\<rparr>) ctrl)"

definition MaxTimes :: "nat \<Rightarrow> nat \<Rightarrow> (Controller, nat) go" where
  "MaxTimes i n ctrl = (Ok i, onCall i (\<lambda>c. c\<lparr>mk_maxCalls := n,
     mk_minCalls := (if mk_minCalls c = 1 then 0 else mk_minCalls c)\<rparr>) ctrl)"

text \<open>At the end of the test, the calls that are still expected and were not made often enough are reported.
  The test is a \<open>testing.T\<close>, which allows to finish again.\<close>

definition Failures :: "Controller \<Rightarrow> nat list" where
  "Failures ctrl = filter (\<lambda>i. let c = ct_calls ctrl ! i in i \<in> set (ct_expected ctrl (mk_method c)) \<and> \<not> satisfied c)
     [0..<length (ct_calls ctrl)]"

definition finish :: "bool \<Rightarrow> (Controller, unit) go" where
  "finish cleanup ctrl =
     (if ct_finished ctrl then (Ok (), ctrl)
      else let failures = Failures ctrl; ctrl' = ctrl\<lparr>ct_finished := True, ct_missing := failures\<rparr> in
        if failures \<noteq> [] \<and> \<not> cleanup then (Panic ''aborting test due to missing call(s)'', ctrl') else (Ok (), ctrl'))"

section \<open>The mock\<close>

text \<open>
  Type assertions of results: a value of another type, or nil, gives the zero value.  Reading a result that
  is not there panics.
\<close>

definition asError :: "mvalue \<Rightarrow> gerr option" where
  "asError v = (case v of MError e \<Rightarrow> Some e | _ \<Rightarrow> None)"
definition asDataVolume :: "mvalue \<Rightarrow> DataVolume option" where
  "asDataVolume v = (case v of MDataVolume x \<Rightarrow> x | _ \<Rightarrow> None)"
definition asSnapshot :: "mvalue \<Rightarrow> VolumeSnapshot option" where
  "asSnapshot v = (case v of MSnapshot x \<Rightarrow> x | _ \<Rightarrow> None)"
definition asSnapshotList :: "mvalue \<Rightarrow> VolumeSnapshot list option" where
  "asSnapshotList v = (case v of MSnapshotList x \<Rightarrow> x | _ \<Rightarrow> None)"
definition asClaim :: "mvalue \<Rightarrow> PersistentVolumeClaim option" where
  "asClaim v = (case v of MClaim x \<Rightarrow> x | _ \<Rightarrow> None)"
definition asMachine :: "mvalue \<Rightarrow> VirtualMachine option" where
  "asMachine v = (case v of MMachine x \<Rightarrow> x | _ \<Rightarrow> None)"
definition asInstance :: "mvalue \<Rightarrow> VirtualMachineInstance option" where
  "asInstance v = (case v of MInstance x \<Rightarrow> x | _ \<Rightarrow> None)"
definition asInstances :: "mvalue \<Rightarrow> VirtualMachineInstance list" where
  "asInstances v = (case v of MInstances x \<Rightarrow> x | _ \<Rightarrow> [])"

definition result1 :: "mvalue list \<Rightarrow> (Controller, gerr option) go" where
  "result1 rets = (case rets of v # _ \<Rightarrow> ret (asError v) | [] \<Rightarrow> panic ''index out of range'')"

definition result2 :: "(mvalue \<Rightarrow> 'a) \<Rightarrow> mvalue list \<Rightarrow> (Controller, 'a \<times> gerr option) go" where
  "result2 as rets = (case rets of v # e # _ \<Rightarrow> ret (as v, asError e) | _ \<Rightarrow> panic ''index out of range'')"

definition MockClient_AddVolumeToVM :: "string \<Rightarrow> string \<Rightarrow> AddVolumeOptions \<Rightarrow> (Controller, gerr option) go" where
  "MockClient_AddVolumeToVM namespace vmName hotPlugRequest =
     bindG (ctrl_Call ''AddVolumeToVM'' [MContext, MString namespace, MString vmName, MAddVolume (Some hotPlugRequest)]) result1"

definition Recorder_AddVolumeToVM :: "marg \<Rightarrow> marg \<Rightarrow> marg \<Rightarrow> marg \<Rightarrow> (Controller, nat) go" where
  "Recorder_AddVolumeToVM ctx namespace vmName hotPlugRequest =
     RecordCallWithMethodType ''AddVolumeToVM'' [TError] [ctx, namespace, vmName, hotPlugRequest]"

definition MockClient_CreateDataVolume :: "string \<Rightarrow> DataVolume \<Rightarrow> (Controller, DataVolume option \<times> gerr option) go" where
  "MockClient_CreateDataVolume namespace dataVolume =
     bindG (ctrl_Call ''CreateDataVolume'' [MContext, MString namespace, MDataVolume (Some dataVolume)]) (result2 asDataVolume)"

definition Recorder_CreateDataVolume :: "marg \<Rightarrow> marg \<Rightarrow> marg \<Rightarrow> (Controller, nat) go" where
  "Recorder_CreateDataVolume ctx namespace dataVolume =
     RecordCallWithMethodType ''CreateDataVolume'' [TDataVolume, TError] [ctx, namespace, dataVolume]"

definition MockClient_CreateVolumeSnapshot :: "string \<Rightarrow> string \<Rightarrow> string \<Rightarrow> string \<Rightarrow> (Controller, VolumeSnapshot option \<times> gerr option) go" where
  "MockClient_CreateVolumeSnapshot namespace name claimName snapshotClassName =
     bindG (ctrl_Call ''CreateVolumeSnapshot'' [MContext, MString namespace, MString name, MString claimName, MString snapshotClassName]) (result2 asSnapshot)"

definition Recorder_CreateVolumeSnapshot :: "marg \<Rightarrow> marg \<Rightarrow> marg \<Rightarrow> marg \<Rightarrow> marg \<Rightarrow> (Controller, nat) go" where
  "Recorder_CreateVolumeSnapshot ctx namespace name claimName snapshotClassName =
     RecordCallWithMethodType ''CreateVolumeSnapshot'' [TSnapshot, TError] [ctx, namespace, name, claimName, snapshotClassName]"

definition MockClient_DeleteDataVolume :: "string \<Rightarrow> string \<Rightarrow> (Controller, gerr option) go" where
  "MockClient_DeleteDataVolume namespace name =
     bindG (ctrl_Call ''DeleteDataVolume'' [MContext, MString namespace, MString name]) result1"

definition Recorder_DeleteDataVolume :: "marg \<Rightarrow> marg \<Rightarrow> marg \<Rightarrow> (Controller, nat) go" where
  "Recorder_DeleteDataVolume ctx namespace name =
     RecordCallWithMethodType ''DeleteDataVolume'' [TError] [ctx, namespace, name]"

definition MockClient_DeleteVolumeSnapshot :: "string \<Rightarrow> string \<Rightarrow> (Controller, gerr option) go" where
  "MockClient_DeleteVolumeSnapshot namespace name =
     bindG (ctrl_Call ''DeleteVolumeSnapshot'' [MContext, MString namespace, MString name]) result1"

definition Recorder_DeleteVolumeSnapshot :: "marg \<Rightarrow> marg \<Rightarrow> marg \<Rightarrow> (Controller, nat) go" where
  "Recorder_DeleteVolumeSnapshot ctx namespace name =
     RecordCallWithMethodType ''DeleteVolumeSnapshot'' [TError] [ctx, namespace, name]"

definition MockClient_EnsureControllerResize :: "string \<Rightarrow> string \<Rightarrow> nat \<Rightarrow> (Controller, gerr option) go" where
  "MockClient_EnsureControllerResize namespace claimName timeout =
     bindG (ctrl_Call ''EnsureControllerResize'' [MContext, MString namespace, MString claimName, MDuration timeout]) result1"

definition Recorder_EnsureControllerResize :: "marg \<Rightarrow> marg \<Rightarrow> marg \<Rightarrow> marg \<Rightarrow> (Controller, nat) go" where
  "Recorder_EnsureControllerResize ctx namespace claimName timeout =
     RecordCallWithMethodType ''EnsureControllerResize'' [TError] [ctx, namespace, claimName, timeout]"

definition MockClient_EnsureSnapshotReady :: "string \<Rightarrow> string \<Rightarrow> nat \<Rightarrow> (Controller, gerr option) go" where
  "MockClient_EnsureSnapshotReady namespace name timeout =
     bindG (ctrl_Call ''EnsureSnapshotReady'' [MContext, MString namespace, MString name, MDuration timeout]) result1"

definition Recorder_EnsureSnapshotReady :: "marg \<Rightarrow> marg \<Rightarrow> marg \<Rightarrow> marg \<Rightarrow> (Controller, nat) go" where
  "Recorder_EnsureSnapshotReady ctx namespace name timeout =
     RecordCallWithMethodType ''EnsureSnapshotReady'' [TError] [ctx, namespace, name, timeout]"

definition MockClient_EnsureVolumeAvailable :: "string \<Rightarrow> string \<Rightarrow> string \<Rightarrow> nat \<Rightarrow> (Controller, gerr option) go" where
  "MockClient_EnsureVolumeAvailable namespace vmName volumeName timeout =
     bindG (ctrl_Call ''EnsureVolumeAvailable'' [MContext, MString namespace, MString vmName, MString volumeName, MDuration timeout]) result1"

definition Recorder_EnsureVolumeAvailable :: "marg \<Rightarrow> marg \<Rightarrow> marg \<Rightarrow> marg \<Rightarrow> marg \<Rightarrow> (Controller, nat) go" where
  "Recorder_EnsureVolumeAvailable ctx namespace vmName volumeName timeout =
     RecordCallWithMethodType ''EnsureVolumeAvailable'' [TError] [ctx, namespace, vmName, volumeName, timeout]"

definition MockClient_EnsureVolumeRemoved :: "string \<Rightarrow> string \<Rightarrow> string \<Rightarrow> nat \<Rightarrow> (Controller, gerr option) go" where
  "MockClient_EnsureVolumeRemoved namespace vmName volumeName timeout =
     bindG (ctrl_Call ''EnsureVolumeRemoved'' [MContext, MString namespace, MString vmName, MString volumeName, MDuration timeout]) result1"

definition Recorder_EnsureVolumeRemoved :: "marg \<Rightarrow> marg \<Rightarrow> marg \<Rightarrow> marg \<Rightarrow> marg \<Rightarrow> (Controller, nat) go" where
  "Recorder_EnsureVolumeRemoved ctx namespace vmName volumeName timeout =
     RecordCallWithMethodType ''EnsureVolumeRemoved'' [TError] [ctx, namespace, vmName, volumeName, timeout]"

definition MockClient_ExpandPersistentVolumeClaim :: "string \<Rightarrow> string \<Rightarrow> int \<Rightarrow> (Controller, gerr option) go" where
  "MockClient_ExpandPersistentVolumeClaim namespace claimName newSize =
     bindG (ctrl_Call ''ExpandPersistentVolumeClaim'' [MContext, MString namespace, MString claimName, MInt newSize]) result1"

definition Recorder_ExpandPersistentVolumeClaim :: "marg \<Rightarrow> marg \<Rightarrow> marg \<Rightarrow> marg \<Rightarrow> (Controller, nat) go" where
  "Recorder_ExpandPersistentVolumeClaim ctx namespace claimName newSize =
     RecordCallWithMethodType ''ExpandPersistentVolumeClaim'' [TError] [ctx, namespace, claimName, newSize]"

definition MockClient_GetDataVolume :: "string \<Rightarrow> string \<Rightarrow> (Controller, DataVolume option \<times> gerr option) go" where
  "MockClient_GetDataVolume namespace name =
     bindG (ctrl_Call ''GetDataVolume'' [MContext, MString namespace, MString name]) (result2 asDataVolume)"

definition Recorder_GetDataVolume :: "marg \<Rightarrow> marg \<Rightarrow> marg \<Rightarrow> (Controller, nat) go" where
  "Recorder_GetDataVolume ctx namespace name =
     RecordCallWithMethodType ''GetDataVolume'' [TDataVolume, TError] [ctx, namespace, name]"

definition MockClient_GetPersistentVolumeClaim :: "string \<Rightarrow> string \<Rightarrow> (Controller, PersistentVolumeClaim option \<times> gerr option) go" where
  "MockClient_GetPersistentVolumeClaim namespace claimName =
     bindG (ctrl_Call ''GetPersistentVolumeClaim'' [MContext, MString namespace, MString claimName]) (result2 asClaim)"

definition Recorder_GetPersistentVolumeClaim :: "marg \<Rightarrow> marg \<Rightarrow> marg \<Rightarrow> (Controller, nat) go" where
  "Recorder_GetPersistentVolumeClaim ctx namespace claimName =
     RecordCallWithMethodType ''GetPersistentVolumeClaim'' [TClaim, TError] [ctx, namespace, claimName]"

definition MockClient_GetVirtualMachine :: "string \<Rightarrow> string \<Rightarrow> (Controller, VirtualMachineInstance option \<times> gerr option) go" where
  "MockClient_GetVirtualMachine namespace name =
     bindG (ctrl_Call ''GetVirtualMachine'' [MContext, MString namespace, MString name]) (result2 asInstance)"

definition Recorder_GetVirtualMachine :: "marg \<Rightarrow> marg \<Rightarrow> marg \<Rightarrow> (Controller, nat) go" where
  "Recorder_GetVirtualMachine ctx namespace name =
     RecordCallWithMethodType ''GetVirtualMachine'' [TInstance, TError] [ctx, namespace, name]"

definition MockClient_GetVolumeSnapshot :: "string \<Rightarrow> string \<Rightarrow> (Controller, VolumeSnapshot option \<times> gerr option) go" where
  "MockClient_GetVolumeSnapshot namespace name =
     bindG (ctrl_Call ''GetVolumeSnapshot'' [MContext, MString namespace, MString name]) (result2 asSnapshot)"

definition Recorder_GetVolumeSnapshot :: "marg \<Rightarrow> marg \<Rightarrow> marg \<Rightarrow> (Controller, nat) go" where
  "Recorder_GetVolumeSnapshot ctx namespace name =
     RecordCallWithMethodType ''GetVolumeSnapshot'' [TSnapshot, TError] [ctx, namespace, name]"

definition MockClient_GetWorkloadManagingVirtualMachine :: "string \<Rightarrow> string \<Rightarrow> (Controller, VirtualMachine option \<times> gerr option) go" where
  "MockClient_GetWorkloadManagingVirtualMachine namespace name =
     bindG (ctrl_Call ''GetWorkloadManagingVirtualMachine'' [MContext, MString namespace, MString name]) (result2 asMachine)"

definition Recorder_GetWorkloadManagingVirtualMachine :: "marg \<Rightarrow> marg \<Rightarrow> marg \<Rightarrow> (Controller, nat) go" where
  "Recorder_GetWorkloadManagingVirtualMachine ctx namespace name =
     RecordCallWithMethodType ''GetWorkloadManagingVirtualMachine'' [TMachine, TError] [ctx, namespace, name]"

definition MockClient_ListVirtualMachines :: "string \<Rightarrow> (Controller, VirtualMachineInstance list \<times> gerr option) go" where
  "MockClient_ListVirtualMachines namespace =
     bindG (ctrl_Call ''ListVirtualMachines'' [MContext, MString namespace]) (result2 asInstances)"

definition Recorder_ListVirtualMachines :: "marg \<Rightarrow> marg \<Rightarrow> (Controller, nat) go" where
  "Recorder_ListVirtualMachines ctx namespace =
     RecordCallWithMethodType ''ListVirtualMachines'' [TInstances, TError] [ctx, namespace]"

definition MockClient_ListVolumeSnapshots :: "string \<Rightarrow> (Controller, VolumeSnapshot list option \<times> gerr option) go" where
  "MockClient_ListVolumeSnapshots namespace =
     bindG (ctrl_Call ''ListVolumeSnapshots'' [MContext, MString namespace]) (result2 asSnapshotList)"

definition Recorder_ListVolumeSnapshots :: "marg \<Rightarrow> marg \<Rightarrow> (Controller, nat) go" where
  "Recorder_ListVolumeSnapshots ctx namespace =
     RecordCallWithMethodType ''ListVolumeSnapshots'' [TSnapshotList, TError] [ctx, namespace]"

definition MockClient_Ping :: " (Controller, gerr option) go" where
  "MockClient_Ping =
     bindG (ctrl_Call ''Ping'' [MContext]) result1"

definition Recorder_Ping :: "marg \<Rightarrow> (Controller, nat) go" where
  "Recorder_Ping ctx =
     RecordCallWithMethodType ''Ping'' [TError] [ctx]"

definition MockClient_RemoveVolumeFromVM :: "string \<Rightarrow> string \<Rightarrow> RemoveVolumeOptions \<Rightarrow> (Controller, gerr option) go" where
  "MockClient_RemoveVolumeFromVM namespace vmName hotPlugRequest =
     bindG (ctrl_Call ''RemoveVolumeFromVM'' [MContext, MString namespace, MString vmName, MRemoveVolume (Some hotPlugRequest)]) result1"

definition Recorder_RemoveVolumeFromVM :: "marg \<Rightarrow> marg \<Rightarrow> marg \<Rightarrow> marg \<Rightarrow> (Controller, nat) go" where
  "Recorder_RemoveVolumeFromVM ctx namespace vmName hotPlugRequest =
     RecordCallWithMethodType ''RemoveVolumeFromVM'' [TError] [ctx, namespace, vmName, hotPlugRequest]"

definition MockClient_RemoveVolumeFromVMI :: "string \<Rightarrow> string \<Rightarrow> RemoveVolumeOptions \<Rightarrow> (Controller, gerr option) go" where
  "MockClient_RemoveVolumeFromVMI namespace vmName hotPlugRequest =
     bindG (ctrl_Call ''RemoveVolumeFromVMI'' [MContext, MString namespace, MString vmName, MRemoveVolume (Some hotPlugRequest)]) result1"

definition Recorder_RemoveVolumeFromVMI :: "marg \<Rightarrow> marg \<Rightarrow> marg \<Rightarrow> marg \<Rightarrow> (Controller, nat) go" where
  "Recorder_RemoveVolumeFromVMI ctx namespace vmName hotPlugRequest =
     RecordCallWithMethodType ''RemoveVolumeFromVMI'' [TError] [ctx, namespace, vmName, hotPlugRequest]"

section \<open>Expected and made calls\<close>

text \<open>The methods of the mock as a datatype, with their answers.\<close>

datatype mock_reply = RError "gerr option" | RDataVolume "DataVolume option" "gerr option"
  | RSnapshot "VolumeSnapshot option" "gerr option" | RSnapshotList "VolumeSnapshot list option" "gerr option"
  | RClaim "PersistentVolumeClaim option" "gerr option" | RMachine "VirtualMachine option" "gerr option"
  | RInstance "VirtualMachineInstance option" "gerr option"
  | RInstances "VirtualMachineInstance list" "gerr option"

definition errorValue :: "gerr option \<Rightarrow> mvalue" where
  "errorValue e = (case e of None \<Rightarrow> MNil | Some x \<Rightarrow> MError x)"

primrec encode :: "mock_reply \<Rightarrow> mvalue list" where
  "encode (RError e) = [errorValue e]"
| "encode (RDataVolume x e) = [MDataVolume x, errorValue e]"
| "encode (RSnapshot x e) = [MSnapshot x, errorValue e]"
| "encode (RSnapshotList x e) = [MSnapshotList x, errorValue e]"
| "encode (RClaim x e) = [MClaim x, errorValue e]"
| "encode (RMachine x e) = [MMachine x, errorValue e]"
| "encode (RInstance x e) = [MInstance x, errorValue e]"
| "encode (RInstances x e) = [MInstances x, errorValue e]"

primrec typeOfReply :: "mock_reply \<Rightarrow> mtype list" where
  "typeOfReply (RError e) = [TError]"
| "typeOfReply (RDataVolume x e) = [TDataVolume, TError]"
| "typeOfReply (RSnapshot x e) = [TSnapshot, TError]"
| "typeOfReply (RSnapshotList x e) = [TSnapshotList, TError]"
| "typeOfReply (RClaim x e) = [TClaim, TError]"
| "typeOfReply (RMachine x e) = [TMachine, TError]"
| "typeOfReply (RInstance x e) = [TInstance, TError]"
| "typeOfReply (RInstances x e) = [TInstances, TError]"

datatype mock_op =
    OpAddVolumeToVM string string AddVolumeOptions
  | OpCreateDataVolume string DataVolume
  | OpCreateVolumeSnapshot string string string string
  | OpDeleteDataVolume string string
  | OpDeleteVolumeSnapshot string string
  | OpEnsureControllerResize string string nat
  | OpEnsureSnapshotReady string string nat
  | OpEnsureVolumeAvailable string string string nat
  | OpEnsureVolumeRemoved string string string nat
  | OpExpandPersistentVolumeClaim string string int
  | OpGetDataVolume string string
  | OpGetPersistentVolumeClaim string string
  | OpGetVirtualMachine string string
  | OpGetVolumeSnapshot string string
  | OpGetWorkloadManagingVirtualMachine string string
  | OpListVirtualMachines string
  | OpListVolumeSnapshots string
  | OpPing
  | OpRemoveVolumeFromVM string string RemoveVolumeOptions
  | OpRemoveVolumeFromVMI string string RemoveVolumeOptions

primrec perform_mock :: "mock_op \<Rightarrow> (Controller, mock_reply) go" where
  "perform_mock (OpAddVolumeToVM namespace vmName hotPlugRequest) = bindG (MockClient_AddVolumeToVM namespace vmName hotPlugRequest) (\<lambda>err. ret (RError err))"
| "perform_mock (OpCreateDataVolume namespace dataVolume) = bindG (MockClient_CreateDataVolume namespace dataVolume) (\<lambda>(x, err). ret (RDataVolume x err))"
| "perform_mock (OpCreateVolumeSnapshot namespace name claimName snapshotClassName) = bindG (MockClient_CreateVolumeSnapshot namespace name claimName snapshotClassName) (\<lambda>(x, err). ret (RSnapshot x err))"
| "perform_mock (OpDeleteDataVolume namespace name) = bindG (MockClient_DeleteDataVolume namespace name) (\<lambda>err. ret (RError err))"
| "perform_mock (OpDeleteVolumeSnapshot namespace name) = bindG (MockClient_DeleteVolumeSnapshot namespace name) (\<lambda>err. ret (RError err))"
| "perform_mock (OpEnsureControllerResize namespace claimName timeout) = bindG (MockClient_EnsureControllerResize namespace claimName timeout) (\<lambda>err. ret (RError err))"
| "perform_mock (OpEnsureSnapshotReady namespace name timeout) = bindG (MockClient_EnsureSnapshotReady namespace name timeout) (\<lambda>err. ret (RError err))"
| "perform_mock (OpEnsureVolumeAvailable namespace vmName volumeName timeout) = bindG (MockClient_EnsureVolumeAvailable namespace vmName volumeName timeout) (\<lambda>err. ret (RError err))"
| "perform_mock (OpEnsureVolumeRemoved namespace vmName volumeName timeout) = bindG (MockClient_EnsureVolumeRemoved namespace vmName volumeName timeout) (\<lambda>err. ret (RError err))"
| "perform_mock (OpExpandPersistentVolumeClaim namespace claimName newSize) = bindG (MockClient_ExpandPersistentVolumeClaim namespace claimName newSize) (\<lambda>err. ret (RError err))"
| "perform_mock (OpGetDataVolume namespace name) = bindG (MockClient_GetDataVolume namespace name) (\<lambda>(x, err). ret (RDataVolume x err))"
| "perform_mock (OpGetPersistentVolumeClaim namespace claimName) = bindG (MockClient_GetPersistentVolumeClaim namespace claimName) (\<lambda>(x, err). ret (RClaim x err))"
| "perform_mock (OpGetVirtualMachine namespace name) = bindG (MockClient_GetVirtualMachine namespace name) (\<lambda>(x, err). ret (RInstance x err))"
| "perform_mock (OpGetVolumeSnapshot namespace name) = bindG (MockClient_GetVolumeSnapshot namespace name) (\<lambda>(x, err). ret (RSnapshot x err))"
| "perform_mock (OpGetWorkloadManagingVirtualMachine namespace name) = bindG (MockClient_GetWorkloadManagingVirtualMachine namespace name) (\<lambda>(x, err). ret (RMachine x err))"
| "perform_mock (OpListVirtualMachines namespace) = bindG (MockClient_ListVirtualMachines namespace) (\<lambda>(x, err). ret (RInstances x err))"
| "perform_mock (OpListVolumeSnapshots namespace) = bindG (MockClient_ListVolumeSnapshots namespace) (\<lambda>(x, err). ret (RSnapshotList x err))"
| "perform_mock OpPing = bindG MockClient_Ping (\<lambda>err. ret (RError err))"
| "perform_mock (OpRemoveVolumeFromVM namespace vmName hotPlugRequest) = bindG (MockClient_RemoveVolumeFromVM namespace vmName hotPlugRequest) (\<lambda>err. ret (RError err))"
| "perform_mock (OpRemoveVolumeFromVMI namespace vmName hotPlugRequest) = bindG (MockClient_RemoveVolumeFromVMI namespace vmName hotPlugRequest) (\<lambda>err. ret (RError err))"

primrec expect_mock :: "mock_op \<Rightarrow> (Controller, nat) go" where
  "expect_mock (OpAddVolumeToVM namespace vmName hotPlugRequest) = Recorder_AddVolumeToVM (Value MContext) (Value (MString namespace)) (Value (MString vmName)) (Value (MAddVolume (Some hotPlugRequest)))"
| "expect_mock (OpCreateDataVolume namespace dataVolume) = Recorder_CreateDataVolume (Value MContext) (Value (MString namespace)) (Value (MDataVolume (Some dataVolume)))"
| "expect_mock (OpCreateVolumeSnapshot namespace name claimName snapshotClassName) = Recorder_CreateVolumeSnapshot (Value MContext) (Value (MString namespace)) (Value (MString name)) (Value (MString claimName)) (Value (MString snapshotClassName))"
| "expect_mock (OpDeleteDataVolume namespace name) = Recorder_DeleteDataVolume (Value MContext) (Value (MString namespace)) (Value (MString name))"
| "expect_mock (OpDeleteVolumeSnapshot namespace name) = Recorder_DeleteVolumeSnapshot (Value MContext) (Value (MString namespace)) (Value (MString name))"
| "expect_mock (OpEnsureControllerResize namespace claimName timeout) = Recorder_EnsureControllerResize (Value MContext) (Value (MString namespace)) (Value (MString claimName)) (Value (MDuration timeout))"
| "expect_mock (OpEnsureSnapshotReady namespace name timeout) = Recorder_EnsureSnapshotReady (Value MContext) (Value (MString namespace)) (Value (MString name)) (Value (MDuration timeout))"
| "expect_mock (OpEnsureVolumeAvailable namespace vmName volumeName timeout) = Recorder_EnsureVolumeAvailable (Value MContext) (Value (MString namespace)) (Value (MString vmName)) (Value (MString volumeName)) (Value (MDuration timeout))"
| "expect_mock (OpEnsureVolumeRemoved namespace vmName volumeName timeout) = Recorder_EnsureVolumeRemoved (Value MContext) (Value (MString namespace)) (Value (MString vmName)) (Value (MString volumeName)) (Value (MDuration timeout))"
| "expect_mock (OpExpandPersistentVolumeClaim namespace claimName newSize) = Recorder_ExpandPersistentVolumeClaim (Value MContext) (Value (MString namespace)) (Value (MString claimName)) (Value (MInt newSize))"
| "expect_mock (OpGetDataVolume namespace name) = Recorder_GetDataVolume (Value MContext) (Value (MString namespace)) (Value (MString name))"
| "expect_mock (OpGetPersistentVolumeClaim namespace claimName) = Recorder_GetPersistentVolumeClaim (Value MContext) (Value (MString namespace)) (Value (MString claimName))"
| "expect_mock (OpGetVirtualMachine namespace name) = Recorder_GetVirtualMachine (Value MContext) (Value (MString namespace)) (Value (MString name))"
| "expect_mock (OpGetVolumeSnapshot namespace name) = Recorder_GetVolumeSnapshot (Value MContext) (Value (MString namespace)) (Value (MString name))"
| "expect_mock (OpGetWorkloadManagingVirtualMachine namespace name) = Recorder_GetWorkloadManagingVirtualMachine (Value MContext) (Value (MString namespace)) (Value (MString name))"
| "expect_mock (OpListVirtualMachines namespace) = Recorder_ListVirtualMachines (Value MContext) (Value (MString namespace))"
| "expect_mock (OpListVolumeSnapshots namespace) = Recorder_ListVolumeSnapshots (Value MContext) (Value (MString namespace))"
| "expect_mock OpPing = Recorder_Ping (Value MContext)"
| "expect_mock (OpRemoveVolumeFromVM namespace vmName hotPlugRequest) = Recorder_RemoveVolumeFromVM (Value MContext) (Value (MString namespace)) (Value (MString vmName)) (Value (MRemoveVolume (Some hotPlugRequest)))"
| "expect_mock (OpRemoveVolumeFromVMI namespace vmName hotPlugRequest) = Recorder_RemoveVolumeFromVMI (Value MContext) (Value (MString namespace)) (Value (MString vmName)) (Value (MRemoveVolume (Some hotPlugRequest)))"

primrec methodOf :: "mock_op \<Rightarrow> string" where
  "methodOf (OpAddVolumeToVM namespace vmName hotPlugRequest) = ''AddVolumeToVM''"
| "methodOf (OpCreateDataVolume namespace dataVolume) = ''CreateDataVolume''"
| "methodOf (OpCreateVolumeSnapshot namespace name claimName snapshotClassName) = ''CreateVolumeSnapshot''"
| "methodOf (OpDeleteDataVolume namespace name) = ''DeleteDataVolume''"
| "methodOf (OpDeleteVolumeSnapshot namespace name) = ''DeleteVolumeSnapshot''"
| "methodOf (OpEnsureControllerResize namespace claimName timeout) = ''EnsureControllerResize''"
| "methodOf (OpEnsureSnapshotReady namespace name timeout) = ''EnsureSnapshotReady''"
| "methodOf (OpEnsureVolumeAvailable namespace vmName volumeName timeout) = ''EnsureVolumeAvailable''"
| "methodOf (OpEnsureVolumeRemoved namespace vmName volumeName timeout) = ''EnsureVolumeRemoved''"
| "methodOf (OpExpandPersistentVolumeClaim namespace claimName newSize) = ''ExpandPersistentVolumeClaim''"
| "methodOf (OpGetDataVolume namespace name) = ''GetDataVolume''"
| "methodOf (OpGetPersistentVolumeClaim namespace claimName) = ''GetPersistentVolumeClaim''"
| "methodOf (OpGetVirtualMachine namespace name) = ''GetVirtualMachine''"
| "methodOf (OpGetVolumeSnapshot namespace name) = ''GetVolumeSnapshot''"
| "methodOf (OpGetWorkloadManagingVirtualMachine namespace name) = ''GetWorkloadManagingVirtualMachine''"
| "methodOf (OpListVirtualMachines namespace) = ''ListVirtualMachines''"
| "methodOf (OpListVolumeSnapshots namespace) = ''ListVolumeSnapshots''"
| "methodOf OpPing = ''Ping''"
| "methodOf (OpRemoveVolumeFromVM namespace vmName hotPlugRequest) = ''RemoveVolumeFromVM''"
| "methodOf (OpRemoveVolumeFromVMI namespace vmName hotPlugRequest) = ''RemoveVolumeFromVMI''"

primrec argsOf :: "mock_op \<Rightarrow> mvalue list" where
  "argsOf (OpAddVolumeToVM namespace vmName hotPlugRequest) = [MContext, MString namespace, MString vmName, MAddVolume (Some hotPlugRequest)]"
| "argsOf (OpCreateDataVolume namespace dataVolume) = [MContext, MString namespace, MDataVolume (Some dataVolume)]"
| "argsOf (OpCreateVolumeSnapshot namespace name claimName snapshotClassName) = [MContext, MString namespace, MString name, MString claimName, MString snapshotClassName]"
| "argsOf (OpDeleteDataVolume namespace name) = [MContext, MString namespace, MString name]"
| "argsOf (OpDeleteVolumeSnapshot namespace name) = [MContext, MString namespace, MString name]"
| "argsOf (OpEnsureControllerResize namespace claimName timeout) = [MContext, MString namespace, MString claimName, MDuration timeout]"
| "argsOf (OpEnsureSnapshotReady namespace name timeout) = [MContext, MString namespace, MString name, MDuration timeout]"
| "argsOf (OpEnsureVolumeAvailable namespace vmName volumeName timeout) = [MContext, MString namespace, MString vmName, MString volumeName, MDuration timeout]"
| "argsOf (OpEnsureVolumeRemoved namespace vmName volumeName timeout) = [MContext, MString namespace, MString vmName, MString volumeName, MDuration timeout]"
| "argsOf (OpExpandPersistentVolumeClaim namespace claimName newSize) = [MContext, MString namespace, MString claimName, MInt newSize]"
| "argsOf (OpGetDataVolume namespace name) = [MContext, MString namespace, MString name]"
| "argsOf (OpGetPersistentVolumeClaim namespace claimName) = [MContext, MString namespace, MString claimName]"
| "argsOf (OpGetVirtualMachine namespace name) = [MContext, MString namespace, MString name]"
| "argsOf (OpGetVolumeSnapshot namespace name) = [MContext, MString namespace, MString name]"
| "argsOf (OpGetWorkloadManagingVirtualMachine namespace name) = [MContext, MString namespace, MString name]"
| "argsOf (OpListVirtualMachines namespace) = [MContext, MString namespace]"
| "argsOf (OpListVolumeSnapshots namespace) = [MContext, MString namespace]"
| "argsOf OpPing = [MContext]"
| "argsOf (OpRemoveVolumeFromVM namespace vmName hotPlugRequest) = [MContext, MString namespace, MString vmName, MRemoveVolume (Some hotPlugRequest)]"
| "argsOf (OpRemoveVolumeFromVMI namespace vmName hotPlugRequest) = [MContext, MString namespace, MString vmName, MRemoveVolume (Some hotPlugRequest)]"

primrec outsOf :: "mock_op \<Rightarrow> mtype list" where
  "outsOf (OpAddVolumeToVM namespace vmName hotPlugRequest) = [TError]"
| "outsOf (OpCreateDataVolume namespace dataVolume) = [TDataVolume, TError]"
| "outsOf (OpCreateVolumeSnapshot namespace name claimName snapshotClassName) = [TSnapshot, TError]"
| "outsOf (OpDeleteDataVolume namespace name) = [TError]"
| "outsOf (OpDeleteVolumeSnapshot namespace name) = [TError]"
| "outsOf (OpEnsureControllerResize namespace claimName timeout) = [TError]"
| "outsOf (OpEnsureSnapshotReady namespace name timeout) = [TError]"
| "outsOf (OpEnsureVolumeAvailable namespace vmName volumeName timeout) = [TError]"
| "outsOf (OpEnsureVolumeRemoved namespace vmName volumeName timeout) = [TError]"
| "outsOf (OpExpandPersistentVolumeClaim namespace claimName newSize) = [TError]"
| "outsOf (OpGetDataVolume namespace name) = [TDataVolume, TError]"
| "outsOf (OpGetPersistentVolumeClaim namespace claimName) = [TClaim, TError]"
| "outsOf (OpGetVirtualMachine namespace name) = [TInstance, TError]"
| "outsOf (OpGetVolumeSnapshot namespace name) = [TSnapshot, TError]"
| "outsOf (OpGetWorkloadManagingVirtualMachine namespace name) = [TMachine, TError]"
| "outsOf (OpListVirtualMachines namespace) = [TInstances, TError]"
| "outsOf (OpListVolumeSnapshots namespace) = [TSnapshotList, TError]"
| "outsOf OpPing = [TError]"
| "outsOf (OpRemoveVolumeFromVM namespace vmName hotPlugRequest) = [TError]"
| "outsOf (OpRemoveVolumeFromVMI namespace vmName hotPlugRequest) = [TError]"

lemmas Recorder_defs =
  Recorder_AddVolumeToVM_def Recorder_CreateDataVolume_def Recorder_CreateVolumeSnapshot_def
  Recorder_DeleteDataVolume_def Recorder_DeleteVolumeSnapshot_def Recorder_EnsureControllerResize_def
  Recorder_EnsureSnapshotReady_def Recorder_EnsureVolumeAvailable_def Recorder_EnsureVolumeRemoved_def
  Recorder_ExpandPersistentVolumeClaim_def Recorder_GetDataVolume_def Recorder_GetPersistentVolumeClaim_def
  Recorder_GetVirtualMachine_def Recorder_GetVolumeSnapshot_def
  Recorder_GetWorkloadManagingVirtualMachine_def Recorder_ListVirtualMachines_def
  Recorder_ListVolumeSnapshots_def Recorder_Ping_def Recorder_RemoveVolumeFromVM_def
  Recorder_RemoveVolumeFromVMI_def

lemmas MockClient_defs =
  MockClient_AddVolumeToVM_def MockClient_CreateDataVolume_def MockClient_CreateVolumeSnapshot_def
  MockClient_DeleteDataVolume_def MockClient_DeleteVolumeSnapshot_def MockClient_EnsureControllerResize_def
  MockClient_EnsureSnapshotReady_def MockClient_EnsureVolumeAvailable_def MockClient_EnsureVolumeRemoved_def
  MockClient_ExpandPersistentVolumeClaim_def MockClient_GetDataVolume_def
  MockClient_GetPersistentVolumeClaim_def MockClient_GetVirtualMachine_def MockClient_GetVolumeSnapshot_def
  MockClient_GetWorkloadManagingVirtualMachine_def MockClient_ListVirtualMachines_def
  MockClient_ListVolumeSnapshots_def MockClient_Ping_def MockClient_RemoveVolumeFromVM_def
  MockClient_RemoveVolumeFromVMI_def

section \<open>The mock replays what was expected\<close>

text \<open>The expectations of a test, each with its answer, and the calls that it makes.\<close>

fun expectAll :: "(mock_op \<times> mock_reply) list \<Rightarrow> (Controller, unit) go" where
  "expectAll [] = ret ()"
| "expectAll ((op, r) # es) =
     bindG (expect_mock op) (\<lambda>i. bindG (Return i (encode r)) (\<lambda>_. expectAll es))"

fun performAll :: "mock_op list \<Rightarrow> (Controller, mock_reply list) go" where
  "performAll [] = ret []"
| "performAll (op # ops) = bindG (perform_mock op) (\<lambda>r. bindG (performAll ops) (\<lambda>rs. ret (r # rs)))"

definition fits :: "mock_op \<Rightarrow> mock_reply \<Rightarrow> bool" where
  "fits op r \<longleftrightarrow> typeOfReply r = outsOf op"

lemma expect_mock_eq:
  "expect_mock op = RecordCallWithMethodType (methodOf op) (outsOf op) (map Value (argsOf op))"
  by (cases op) (simp_all add: Recorder_defs)

lemma as_encode [simp]:
  "asError (errorValue e) = e" "AssignableTo (errorValue e) TError"
  by (simp_all add: asError_def errorValue_def split: option.splits)

lemma perform_mock_eq:
  assumes "fits op r" and "ctrl_Call (methodOf op) (argsOf op) ctrl = (Ok (encode r), ctrl')"
  shows "perform_mock op ctrl = (Ok r, ctrl')"
  using assms
  by (cases op; cases r) (simp_all add: fits_def MockClient_defs result1_def result2_def asDataVolume_def asSnapshot_def
      asSnapshotList_def asClaim_def asMachine_def asInstance_def asInstances_def)

lemma encode_assignable:
  "length (encode r) = length (typeOfReply r)"
  "list_all (\<lambda>(v, t). AssignableTo v t) (zip (encode r) (typeOfReply r))"
  by (cases r; simp)+

text \<open>An expected call with its answer, and the controller when the first calls of a list were made.\<close>

definition expected_call :: "mock_op \<times> mock_reply \<Rightarrow> MockCall" where
  "expected_call e = (newCall (methodOf (fst e)) (outsOf (fst e)) (map Value (argsOf (fst e))))
     \<lparr>mk_actions := [\<lambda>_. Some (map Zero (outsOf (fst e))), \<lambda>_. Some (encode (snd e))]\<rparr>"

definition replaying :: "(mock_op \<times> mock_reply) list \<Rightarrow> nat \<Rightarrow> Controller \<Rightarrow> bool" where
  "replaying es k ctrl \<longleftrightarrow> length (ct_calls ctrl) = length es \<and>
     (\<forall>i. k \<le> i \<and> i < length es \<longrightarrow> ct_calls ctrl ! i = expected_call (es ! i)) \<and>
     (\<forall>i < length es. mk_method (ct_calls ctrl ! i) = methodOf (fst (es ! i))) \<and>
     (\<forall>m. ct_expected ctrl m = filter (\<lambda>i. methodOf (fst (es ! i)) = m) [k..<length es]) \<and> \<not> ct_finished ctrl"

lemma expect_one:
  assumes "replaying es 0 ctrl" and "fits op r"
  obtains ctrl' where "bindG (expect_mock op) (\<lambda>i. Return i (encode r)) ctrl = (Ok (length es), ctrl')"
    and "replaying (es @ [(op, r)]) 0 ctrl'"
proof -
  let ?call = "newCall (methodOf op) (outsOf op) (map Value (argsOf op))"
  let ?e = "(ct_expected ctrl)(methodOf op := ct_expected ctrl (methodOf op) @ [length es])"
  have len: "length (ct_calls ctrl) = length es" using assms(1) by (simp add: replaying_def)
  have ex: "\<not> exhausted ?call" by (simp add: exhausted_def newCall_def)
  have "bindG (expect_mock op) (\<lambda>i. Return i (encode r)) ctrl =
      (Ok (length es), ctrl\<lparr>ct_calls := ct_calls ctrl @ [expected_call (op, r)], ct_expected := ?e\<rparr>)"
    using ex len encode_assignable [of r] assms(2)
    by (simp add: expect_mock_eq RecordCallWithMethodType_def Return_def onCall_def bindG_def Let_def fits_def
        expected_call_def nth_append list_update_append newCall_def)
  moreover have "replaying (es @ [(op, r)]) 0 (ctrl\<lparr>ct_calls := ct_calls ctrl @ [expected_call (op, r)], ct_expected := ?e\<rparr>)"
    using assms(1) by (auto simp: replaying_def nth_append expected_call_def newCall_def less_Suc_eq intro!: filter_cong)
  ultimately show thesis by (rule that)
qed

lemma expect_all:
  assumes "replaying es 0 ctrl" and "\<forall>e \<in> set fs. fits (fst e) (snd e)"
  shows "\<exists>ctrl'. expectAll fs ctrl = (Ok (), ctrl') \<and> replaying (es @ fs) 0 ctrl'"
  using assms
proof (induction fs arbitrary: es ctrl)
  case (Cons f fs)
  obtain op r where f: "f = (op, r)" by fastforce
  with Cons(3) have "fits op r" by simp
  with Cons(2) obtain ctrl1 where one: "bindG (expect_mock op) (\<lambda>i. Return i (encode r)) ctrl = (Ok (length es), ctrl1)"
    and rep: "replaying (es @ [(op, r)]) 0 ctrl1" by (rule expect_one)
  have "expectAll (f # fs) = bindG (bindG (expect_mock op) (\<lambda>i. Return i (encode r))) (\<lambda>_. expectAll fs)"
    by (simp add: f bindG_assoc)
  with one have "expectAll (f # fs) ctrl = expectAll fs ctrl1" by simp
  with Cons(1) [OF rep] Cons(3) f show ?case by auto
qed simp

lemma matches_values: "list_all (\<lambda>(m, a). m a) (zip (map matcherOf (map Value args)) args)"
  by (induction args) (auto simp: nilMatcher_def)

lemma perform_one:
  assumes "replaying es k ctrl" and "k < length es" and "fits (fst (es ! k)) (snd (es ! k))"
  shows "\<exists>ctrl'. perform_mock (fst (es ! k)) ctrl = (Ok (snd (es ! k)), ctrl') \<and> replaying es (Suc k) ctrl'"
proof -
  let ?m = "methodOf (fst (es ! k))" and ?args = "argsOf (fst (es ! k))"
  have call: "ct_calls ctrl ! k = expected_call (es ! k)" and len: "length (ct_calls ctrl) = length es"
    and exp: "ct_expected ctrl m = filter (\<lambda>i. methodOf (fst (es ! i)) = m) [k..<length es]" for m
    using assms(1,2) by (auto simp: replaying_def)
  have first: "ct_expected ctrl ?m = k # filter (\<lambda>i. methodOf (fst (es ! i)) = ?m) [Suc k..<length es]"
    using assms(2) by (simp add: exp upt_conv_Cons)
  have "matches ctrl (ct_calls ctrl ! k) ?args"
    using matches_values [of ?args] by (simp add: call matches_def expected_call_def newCall_def exhausted_def)
  then have found: "FindMatch ctrl ?m ?args = Some k" by (simp add: FindMatch_def first)
  let ?used = "(expected_call (es ! k))\<lparr>mk_numCalls := 1\<rparr>"
  let ?ctrl = "ctrl\<lparr>ct_calls := (ct_calls ctrl)[k := ?used],
    ct_expected := (ct_expected ctrl)(?m := filter (\<lambda>i. methodOf (fst (es ! i)) = ?m) [Suc k..<length es]),
    ct_exhausted := (ct_exhausted ctrl)(?m := ct_exhausted ctrl ?m @ [k])\<rparr>"
  have "ctrl_Call ?m ?args ctrl = (Ok (encode (snd (es ! k))), ?ctrl)"
    using assms(2) len
    by (simp add: ctrl_Call_def found call onCall_def RemoveCall_def first exhausted_def Let_def
        expected_call_def newCall_def)
  then have "perform_mock (fst (es ! k)) ctrl = (Ok (snd (es ! k)), ?ctrl)"
    using assms(3) by (rule perform_mock_eq [rotated])
  moreover have "replaying es (Suc k) ?ctrl"
    using assms(1,2) by (auto simp: replaying_def nth_list_update expected_call_def newCall_def upt_conv_Cons)
  ultimately show ?thesis by blast
qed

lemma perform_all:
  assumes "replaying es k ctrl" and "\<forall>e \<in> set es. fits (fst e) (snd e)"
  shows "\<exists>ctrl'. performAll (map fst (drop k es)) ctrl = (Ok (map snd (drop k es)), ctrl') \<and>
    replaying es (max k (length es)) ctrl'"
  using assms(1)
proof (induction "length es - k" arbitrary: k ctrl)
  case 0
  then show ?case by (auto simp: max_def)
next
  case (Suc n)
  then have k: "k < length es" by simp
  with assms(2) have "fits (fst (es ! k)) (snd (es ! k))" by simp
  with perform_one [OF Suc(3) k] obtain ctrl1
    where one: "perform_mock (fst (es ! k)) ctrl = (Ok (snd (es ! k)), ctrl1)" and rep: "replaying es (Suc k) ctrl1" by blast
  from Suc(2) have "n = length es - Suc k" by arith
  from Suc(1) [OF this rep] obtain ctrl'
    where "performAll (map fst (drop (Suc k) es)) ctrl1 = (Ok (map snd (drop (Suc k) es)), ctrl')"
      and "replaying es (max (Suc k) (length es)) ctrl'" by auto
  with one k show ?case by (auto simp: Cons_nth_drop_Suc [symmetric] max_def)
qed

text \<open>The mock replays: when calls are expected with answers of their types, any number and any of the
  twenty methods, and then made in this order, each of them gets its answer, none ends the test, and at the
  end no call is missing.\<close>

theorem mock_replays:
  assumes "\<forall>e \<in> set es. fits (fst e) (snd e)"
  shows "\<exists>ctrl ctrl'. expectAll es NewController = (Ok (), ctrl) \<and>
    performAll (map fst es) ctrl = (Ok (map snd es), ctrl') \<and>
    finish cleanup ctrl' = (Ok (), ctrl'\<lparr>ct_finished := True, ct_missing := []\<rparr>)"
proof -
  have "replaying [] 0 NewController" by (simp add: replaying_def NewController_def)
  from expect_all [OF this assms] obtain ctrl
    where exp: "expectAll es NewController = (Ok (), ctrl)" and rep: "replaying es 0 ctrl" by auto
  from perform_all [OF rep assms] obtain ctrl'
    where made: "performAll (map fst es) ctrl = (Ok (map snd es), ctrl')" and ended: "replaying es (length es) ctrl'" by auto
  then have "finish cleanup ctrl' = (Ok (), ctrl'\<lparr>ct_finished := True, ct_missing := []\<rparr>)"
    by (simp add: finish_def replaying_def Failures_def)
  with exp made show ?thesis by blast
qed

theorem mock_replays_witness:
  "\<exists>ctrl ctrl'.
     expectAll [(OpGetDataVolume ''ns'' ''pvc-a'', RDataVolume None (Some DecodeErr)), (OpPing, RError None)] NewController =
       (Ok (), ctrl) \<and>
     performAll [OpGetDataVolume ''ns'' ''pvc-a'', OpPing] ctrl =
       (Ok [RDataVolume None (Some DecodeErr), RError None], ctrl') \<and> finish False ctrl' = (Ok (), ctrl'\<lparr>ct_finished := True, ct_missing := []\<rparr>)"
  using mock_replays [where cleanup = False and es = "[(OpGetDataVolume ''ns'' ''pvc-a'', RDataVolume None (Some DecodeErr)), (OpPing, RError None)]"]
  by (simp add: fits_def)

text \<open>A call that nobody expects ends the test.\<close>

theorem mock_unexpected:
  "fst (perform_mock op NewController) = Panic (''Unexpected call to '' @ methodOf op)"
  by (cases op) (simp_all add: MockClient_defs ctrl_Call_def FindMatch_def NewController_def bindG_def)

end
