(* ===== verification/Spec2Isabelle.thy ===== *)
theory Spec2Isabelle
  imports Controller_Guarantees Volume_Guarantees Snapshot_Guarantees Node_Guarantees Driver_Guarantees Server_Guarantees
    End_To_End Publish_Race Fake_Guarantees Embedded_Role Mock_Client
begin

text \<open>
  \<^bold>\<open>The KubeVirt CSI driver.\<close>  A Kubernetes cluster (the tenant) runs in virtual machines of another one
  (the infra cluster) and gets its persistent volumes from there.  The driver answers the calls of the
  Container Storage Interface: its controller creates, deletes, expands and snapshots DataVolumes of the
  infra cluster and hot-plugs them into the VMs; its node service, in each VM, finds the disk by its serial
  number, formats, mounts and resizes it.

  \<^bold>\<open>Parts and theories\<close> (sources under \<open>src/\<close>):

  \<^item> Go and its libraries: \<open>Go_Prelude\<close> (results, panics, errors, maps; the state monad \<open>go\<close>, and the
    predicates \<open>keeps\<close> and \<open>costs\<close> with their rules), \<open>Go_Strings\<close> (strings, strconv, SplitMetaNamespaceKey),
    \<open>Go_Json\<close> (encoding/json as far as the output of lsblk needs it), \<open>Go_Flags\<close> (flag), \<open>Go_Url\<close>
    (net/url, path), \<open>Wait_Loops\<close> (ExponentialBackoff and PollUntilContextTimeout of apimachinery).
  \<^item> \<open>Api_Types\<close>: the objects of the clusters and the messages of CSI, with the fields that the driver reads
    or sets; \<open>pkg/util/util.go\<close>.
  \<^item> \<open>Rest_Clients\<close>, \<open>Typed_Clients\<close>: the request builder of client-go and the generated clients of VMs, VMIs,
    DataVolumes, VolumeSnapshots and VolumeSnapshotClasses (\<open>pkg/generated\<close>), each from its own file;
    \<open>Generated_Clients\<close>: the template of which all nineteen generated clients are instances, and the fourteen
    of the resources that the driver does not use; \<open>Clientsets\<close>: the generated clientsets and group clients and
    how they are built from a rest configuration.
  \<^item> \<open>Object_Tracker\<close>: the object tracker, its watchers and the \<open>Fake\<close> of client-go; \<open>Fake_Clients\<close>: the nineteen
    generated fake clients (\<open>fake_*.go\<close>), the fake group clients and \<open>NewSimpleClientset\<close>, on which the unit tests
    of the driver run; \<open>Fake_Behaviour\<close>: a server over a tracker, with the comparison of real and fake clients.
  \<^item> \<open>Mock_Client\<close>: \<open>pkg/kubevirt/mocked_client.go\<close> on the controller of gomock.
  \<^item> \<open>Infra_Client\<close>: \<open>pkg/kubevirt/client.go\<close>, every method and \<open>NewClient\<close>; \<open>Client_Guard\<close> and
    \<open>Client_Interface\<close>: what its methods may send, as the locale \<open>confined_client\<close> over the Go interface \<open>Client\<close>.
  \<^item> \<open>Controller_Volumes\<close>, \<open>Controller_Attach\<close>, \<open>Controller_Snapshots\<close>: \<open>pkg/service/controller.go\<close>.
  \<^item> \<open>Node_System\<close> (system calls and commands), \<open>Mounter\<close> (\<open>pkg/mounter/mount.go\<close>) and \<open>Node_Service\<close>
    (\<open>pkg/service/node.go\<close>).
  \<^item> \<open>Driver_Config\<close> (\<open>config.go\<close> and the reading of flags, labels, policy and node ID in
    \<open>kubevirt-csi-driver.go\<close> of \<open>cmd/kubevirt-csi-driver\<close>), \<open>Driver_Startup\<close> (\<open>identity.go\<close>, \<open>driver.go\<close>,
    \<open>initializeDriver\<close>) and \<open>Driver_Server\<close> (\<open>server.go\<close>, \<open>Run\<close>, \<open>main\<close>).
  \<^item> \<open>Embedded_Manifests\<close> and \<open>Embedded_Assets\<close>: \<open>pkg/generated/bindata.go\<close>, the embedded files byte by byte, their
    table and tree, and the functions that read and restore them; \<open>Permissions\<close> and \<open>Embedded_Role\<close>: the role of
    the driver's account in \<open>deploy/infra-cluster-service-account.yaml\<close> and its embedded copy.

  \<^bold>\<open>State and effects.\<close>  A Go function that works on the outside is a function of the monad \<open>go\<close>: from a
  world to an outcome, a value or a panic, and the world after it.  The world of the controller
  (\<open>Rest_Clients\<close>) has the log of all exchanges with the API servers and the memory of the client; that of
  the node service the log of all system calls and commands; the process (\<open>Driver_Config\<close>) has the cached
  clients and a log of what was loaded and built.  A pointer is an \<open>option\<close>, and reading through nil a panic.
  What is not in the repository is a parameter: the record \<open>runtime\<close> (the API servers, sleeping, timers),
  \<open>kernel\<close> (system calls and commands), \<open>filesystem\<close> (of the embedded files), \<open>ClientGo\<close> and \<open>platform\<close> (transports, kubeconfig files, the YAML
  decoder), \<open>netsys\<close> (sockets).  The theorems hold for every such parameter, so for servers that other
  actors change at any time, and for answers in any order.

  \<^bold>\<open>What is shown.\<close>
  \<^item> Isolation (\<open>Controller_Confined\<close>): whatever is asked of the controller, each request it sends is allowed
    by the tenant's labels, name prefix and namespace at the point where it is sent.  The proof is done once
    for the interface \<open>Client\<close> in the locale \<open>confined_controller\<close>, and holds of the real client by
    interpretation.  \<open>Driver_Guarantees\<close> extends it to the controller of a started process and its flags.
  \<^item> Permissions (\<open>Permissions\<close>, \<open>Embedded_Role\<close>): each request needs one of sixteen permissions, of which the
    shipped role lacks two and its embedded copy six; what fails on a server that enforces the role.
  \<^item> Attaching and detaching (\<open>Controller_Guarantees\<close>): exclusive attachment, what a success has seen, how
    many requests a call may send, and that the waits end well exactly when their condition holds in time.
  \<^item> Volumes and snapshots (\<open>Volume_Guarantees\<close>, \<open>Snapshot_Guarantees\<close>, \<open>Controller_Snapshots\<close>): what is
    created, refused, repeated, deleted, expanded; the snapshot class policy; the pages of the list.
  \<^item> The node (\<open>Node_Guarantees\<close>, \<open>Mounter\<close>): which device is formatted and mounted, and exact statistics
    in 64-bit arithmetic.
  \<^item> The whole way of a volume (\<open>End_To_End\<close>): from CreateVolume through ControllerPublishVolume to
    NodeStageVolume by the serial number and the node ID.
  \<^item> Overlapping calls (\<open>Publish_Race\<close>): two publications of a single-node volume that interleave may both
    succeed; the exclusiveness of \<open>Controller_Guarantees\<close> is that of what one call has seen.
  \<^item> The generated clients (\<open>Typed_Clients\<close>, \<open>Generated_Clients\<close>): each call is the one request that the API
    conventions give, by the locale \<open>resource_client\<close>, interpreted for the five clients and for the template;
    one URL is one object.
  \<^item> The doubles of the unit tests (\<open>Fake_Guarantees\<close>): on a server that keeps objects in a tracker, the real
    clients and the fakes give the same results, but for nil in place of a zero object beside an error (locale
    \<open>fake_resource\<close>, interpreted for the five used resources and proved of the fourteen others); the store stays
    consistent in every reachable state; the objects given to a clientset are found again.  The mock of the
    client replays the answers that were expected (\<open>Mock_Client\<close>).
  \<^item> The process (\<open>Config_Guarantees\<close>, \<open>Driver_Guarantees\<close>, \<open>Server_Guarantees\<close>): flags, labels and node ID
    read back what was written; clients are built once (locale \<open>cached_getter\<close>, six interpretations);
    start-up returns; what it serves; the life of the server object as a step relation.
  \<^item> The embedded files (\<open>Embedded_Assets\<close>): restoring a directory is the loop over its files in the table that
    one would write down, up to the order of the directories, which Go leaves open.
  The witnesses run the driver on small instances of the parameters (\<open>Sample_Cluster\<close> and the samples of
  the theories); the one property that is about such an instance is that of \<open>Publish_Race\<close>.

  \<^bold>\<open>Loops.\<close>  There is no fuel: back-off decreases its steps, a poll passes its deadline because the time grows
  by at least its interval of one second, parsers consume their input, \<open>RestoreAssets\<close> descends a finite tree;
  all are total functions.

  \<^bold>\<open>Answers.\<close>  What \<open>rt_serve\<close> gives is the answer after client-go's own retries: one exchange of the log is
  one call of \<open>Do\<close>, however often it was tried.

  \<^bold>\<open>Not modelled.\<close>  Threads: calls that overlap do so through the environment, which may change the clusters at
  every exchange, as in \<open>Publish_Race\<close>; the memory of the client is not shared between overlapping calls.
  Logging.  gRPC, protobuf and HTTP themselves.  The context of a call, except that a poll may be ended by
  it.  Options of the generated clients other than label selector and timeout, and the events of a watch.
  The codecs of the schemes.  The fake discovery client, proxies and managed fields of client-go's fakes;
  patches of the fakes are a parameter (\<open>PatchLib\<close>).  Order constraints and functions as
  actions in gomock.  Tests, scripts, and the deployment files other than the role.
\<close>

end
